(* ===== verification/Capwap_Prelude.thy ===== *)
theory Capwap_Prelude
  imports Main "HOL-Library.Word" "HOL-Library.Monad_Syntax"
begin

text \<open>
  Shared vocabulary of the development: the machine integers of the C sources, network byte
  order, C strings and buffers, the contents of memory that \<open>malloc\<close> returns, and the meaning
  of \<open>ASSERT\<close>.

  Conventions used by every component:
  \<^item> \<open>uint8_t\<close>, \<open>uint16_t\<close> and \<open>uint32_t\<close> are words of 8, 16 and 32 bits, so arithmetic
    wraps as it does in C;
  \<^item> a pointer to a buffer is the list of the bytes it points to; a pointer that may be NULL
    is an \<open>option\<close>;
  \<^item> a C string is the list of the bytes in front of the terminator that the code stores; the
    list may still contain a zero byte, and \<open>c_strlen\<close> stops there as \<open>strlen\<close> does;
  \<^item> \<open>None\<close> as the outcome of an operation means that it does not return: an \<open>ASSERT\<close> of
    \<^verbatim>\<open>common/capwap_debug.h\<close> exits the process, a loop runs forever, or a buffer is read past
    its end. An operation that returns gives \<open>Some\<close>. \<open>ASSERT\<close> evaluates its condition and
    changes nothing, so a result \<open>Some\<close> is also the result of a build without \<open>DEBUG\<close>;
  \<^item> memory from \<open>capwap_alloc\<close> that is not cleared holds arbitrary values: an argument of
    type \<open>junk\<close> names them.
\<close>

unbundle bit_operations_syntax

type_synonym u8 = "8 word"
type_synonym u16 = "16 word"
type_synonym u32 = "32 word"

text \<open>The values that uninitialised memory happens to hold, one per field or byte.\<close>

type_synonym junk = "nat \<Rightarrow> nat"

named_theorems wire \<open>evaluation of byte-order conversions and of buffer accesses\<close>

subsection \<open>Network byte order\<close>

definition u16_bytes :: "u16 \<Rightarrow> u8 list" where
  "u16_bytes v = [ucast (drop_bit 8 v), ucast v]"

definition u32_bytes :: "u32 \<Rightarrow> u8 list" where
  "u32_bytes v = [ucast (drop_bit 24 v), ucast (drop_bit 16 v), ucast (drop_bit 8 v), ucast v]"

definition be16 :: "u8 \<Rightarrow> u8 \<Rightarrow> u16" where
  "be16 a b = push_bit 8 (ucast a) OR ucast b"

definition be32 :: "u8 \<Rightarrow> u8 \<Rightarrow> u8 \<Rightarrow> u8 \<Rightarrow> u32" where
  "be32 a b c d = push_bit 24 (ucast a) OR push_bit 16 (ucast b) OR push_bit 8 (ucast c) OR ucast d"

text \<open>\<open>ntohs\<close> and \<open>ntohl\<close> applied to a buffer of two and of four bytes.\<close>

fun bytes_u16 :: "u8 list \<Rightarrow> u16 option" where
  "bytes_u16 [a, b] = Some (be16 a b)"
| "bytes_u16 _ = None"

fun bytes_u32 :: "u8 list \<Rightarrow> u32 option" where
  "bytes_u32 [a, b, c, d] = Some (be32 a b c d)"
| "bytes_u32 _ = None"

fun bytes_u8 :: "u8 list \<Rightarrow> u8 option" where
  "bytes_u8 [a] = Some a"
| "bytes_u8 _ = None"

lemma be16_u16 [simp]: "be16 (ucast (drop_bit 8 v)) (ucast v) = v"
  unfolding be16_def
  by (rule bit_word_eqI) (auto simp: bit_simps)

lemma be32_u32 [simp]:
  "be32 (ucast (drop_bit 24 v)) (ucast (drop_bit 16 v)) (ucast (drop_bit 8 v)) (ucast v) = v"
  unfolding be32_def
proof (rule bit_word_eqI)
  fix n
  assume "n < LENGTH(32)"
  then consider "n < 8" | "8 \<le> n" "n < 16" | "16 \<le> n" "n < 24" | "24 \<le> n" "n < 32"
    by fastforce
  then show "bit (push_bit 24 (ucast (ucast (drop_bit 24 v) :: u8) :: u32) OR
      push_bit 16 (ucast (ucast (drop_bit 16 v) :: u8)) OR
      push_bit 8 (ucast (ucast (drop_bit 8 v) :: u8)) OR ucast (ucast v :: u8)) n = bit v n"
    by cases (auto simp: bit_simps)
qed

lemma length_u16_bytes [simp]: "length (u16_bytes v) = 2"
  by (simp add: u16_bytes_def)

lemma length_u32_bytes [simp]: "length (u32_bytes v) = 4"
  by (simp add: u32_bytes_def)

lemma bytes_u16_u16_bytes [simp]: "bytes_u16 (u16_bytes v) = Some v"
  by (simp add: u16_bytes_def)

lemma bytes_u32_u32_bytes [simp]: "bytes_u32 (u32_bytes v) = Some v"
  by (simp add: u32_bytes_def)

lemma u16_bytes_be16 [simp]: "u16_bytes (be16 a b) = [a, b]"
proof -
  have "ucast (drop_bit 8 (be16 a b)) = a" "ucast (be16 a b) = b"
    unfolding be16_def by (rule bit_word_eqI, auto simp: bit_simps dest: bit_imp_le_length)+
  then show ?thesis by (simp add: u16_bytes_def)
qed

lemma u32_bytes_be32 [simp]: "u32_bytes (be32 a b c d) = [a, b, c, d]"
proof -
  have "ucast (drop_bit 24 (be32 a b c d)) = a" "ucast (drop_bit 16 (be32 a b c d)) = b"
    "ucast (drop_bit 8 (be32 a b c d)) = c" "ucast (be32 a b c d) = d"
    unfolding be32_def by (rule bit_word_eqI, auto simp: bit_simps dest: bit_imp_le_length)+
  then show ?thesis by (simp add: u32_bytes_def)
qed

lemma bytes_u16_conv: "bytes_u16 bs = Some v \<longleftrightarrow> bs = u16_bytes v"
proof
  show "bytes_u16 bs = Some v \<Longrightarrow> bs = u16_bytes v"
    by (cases bs rule: bytes_u16.cases) auto
qed simp

lemma bytes_u8_conv: "bytes_u8 bs = Some v \<longleftrightarrow> bs = [v]"
  by (cases bs rule: bytes_u8.cases) auto

lemma bytes_u32_conv: "bytes_u32 bs = Some v \<longleftrightarrow> bs = u32_bytes v"
proof
  show "bytes_u32 bs = Some v \<Longrightarrow> bs = u32_bytes v"
    by (cases bs rule: bytes_u32.cases) auto
qed simp

subsection \<open>Buffers, strings and stores\<close>

text \<open>\<open>*dst = v\<close> after a read that may fail and then leaves the destination as it was.\<close>

definition store :: "'a option \<Rightarrow> 'a \<Rightarrow> 'a" where
  "store r old = (case r of Some v \<Rightarrow> v | None \<Rightarrow> old)"

lemma store_simps [simp]: "store (Some v) old = v" "store None old = old"
  by (simp_all add: store_def)

text \<open>Copying \<open>bs\<close> to the start of the buffer \<open>old\<close>.\<close>

definition overlay :: "u8 list \<Rightarrow> u8 list \<Rightarrow> u8 list" where
  "overlay bs old = bs @ drop (length bs) old"

lemma overlay_full [simp]: "length old \<le> length bs \<Longrightarrow> overlay bs old = bs"
  by (simp add: overlay_def)

lemma length_overlay [simp]: "length bs \<le> length old \<Longrightarrow> length (overlay bs old) = length old"
  by (simp add: overlay_def)

text \<open>\<open>n\<close> bytes of memory that was not cleared, the values from position \<open>k\<close> on.\<close>

definition junk_bytes :: "junk \<Rightarrow> nat \<Rightarrow> nat \<Rightarrow> u8 list" where
  "junk_bytes m k n = map (\<lambda>i. of_nat (m i)) [k..<k + n]"

lemma length_junk_bytes [simp]: "length (junk_bytes m k n) = n"
  by (simp add: junk_bytes_def)

definition c_str :: "u8 list \<Rightarrow> u8 list" where
  "c_str buf = takeWhile (\<lambda>c. c \<noteq> 0) buf"

definition c_strlen :: "u8 list \<Rightarrow> nat" where
  "c_strlen buf = length (c_str buf)"

lemma c_str_clean [simp]: "0 \<notin> set buf \<Longrightarrow> c_str buf = buf"
  by (auto simp: c_str_def takeWhile_eq_all_conv)

lemma c_strlen_clean [simp]: "0 \<notin> set buf \<Longrightarrow> c_strlen buf = length buf"
  by (simp add: c_strlen_def)

lemma c_str_prefix: "c_str buf = take (c_strlen buf) buf"
  unfolding c_strlen_def c_str_def by (rule takeWhile_eq_take)

subsection \<open>Option monad and lists\<close>

lemma bind_case_prod [simp]:
  "Option.bind (case p of (a, b) \<Rightarrow> f a b) g = (case p of (a, b) \<Rightarrow> Option.bind (f a b) g)"
  by (cases p) simp

lemma drop_numeral_add_Cons [simp]: "drop (numeral k + n) (x # xs) = drop (pred_numeral k + n) xs"
  by (simp add: numeral_eq_Suc)

subsection \<open>Words bit by bit\<close>

lemma not_bit_u8 [simp]: "8 \<le> n \<Longrightarrow> \<not> bit (v :: u8) n"
  by (auto dest: bit_imp_le_length)

lemma not_bit_u16 [simp]: "16 \<le> n \<Longrightarrow> \<not> bit (v :: u16) n"
  by (auto dest: bit_imp_le_length)

lemma u8_eqI:
  fixes v w :: u8
  assumes "bit v 0 = bit w 0" "bit v 1 = bit w 1" "bit v 2 = bit w 2" "bit v 3 = bit w 3"
    "bit v 4 = bit w 4" "bit v 5 = bit w 5" "bit v 6 = bit w 6" "bit v 7 = bit w 7"
  shows "v = w"
proof (rule bit_word_eqI)
  fix n
  assume "n < LENGTH(8)"
  then consider "n = 0" | "n = 1" | "n = 2" | "n = 3" | "n = 4" | "n = 5" | "n = 6" | "n = 7"
    by fastforce
  then show "bit v n = bit w n"
    using assms by cases simp_all
qed

subsection \<open>ASSERT\<close>

definition ASSERT :: "bool \<Rightarrow> unit option" where
  "ASSERT b = (if b then Some () else None)"

lemma ASSERT_simps [simp]: "ASSERT True = Some ()" "ASSERT False = None"
  by (simp_all add: ASSERT_def)

lemma ASSERT_bind_Some [simp]: "(ASSERT b \<bind> f = Some r) = (b \<and> f () = Some r)"
  by (simp add: ASSERT_def)

subsection \<open>Words as lengths\<close>

lemma unat_of_nat_u16 [simp]: "n < 65536 \<Longrightarrow> unat (of_nat n :: u16) = n"
  by (simp add: unat_of_nat)

lemma unat_of_nat_u8: "n < 256 \<Longrightarrow> unat (of_nat n :: u8) = n"
  by (simp add: unat_of_nat)

lemma of_nat_u8_eq_0 [simp]: "n < 256 \<Longrightarrow> ((of_nat n :: u8) = 0) = (n = 0)"
  unfolding word_unat_eq_iff by (simp only: unat_of_nat_u8 unsigned_0)

lemma of_nat_u16_eq_iff: "n < 65536 \<Longrightarrow> m < 65536 \<Longrightarrow> ((of_nat n :: u16) = of_nat m) = (n = m)"
  by (metis unat_of_nat_u16)

lemma unat_u16_less [simp]: "unat (v :: u16) < 65536"
  using unsigned_less [of v, where ?'a = nat] by simp

lemma unat_u8_less [simp]: "unat (v :: u8) < 256"
  using unsigned_less [of v, where ?'a = nat] by simp

lemma not_255_less_u8 [simp]: "\<not> 255 < unat (v :: u8)"
  using unat_u8_less [of v] by linarith

lemma unat_ucast_u8_u16 [simp]: "unat (ucast (v :: u8) :: u16) = unat v"
  by (simp add: unsigned_ucast_eq take_bit_nat_eq_self less_le_trans [OF unat_u8_less])

lemma unat_u16_minus [simp]: "unat w \<le> unat v \<Longrightarrow> unat (v - w :: u16) = unat v - unat w"
  by (simp add: unat_sub word_le_nat_alt)

lemma unat_add_of_nat_u16: "unat (v :: u16) + n < 65536 \<Longrightarrow> unat (v + of_nat n) = unat v + n"
  by (simp add: unat_word_ariths)

lemma unat_add_within_u16: "unat (v :: u16) + n \<le> unat (w :: u16) \<Longrightarrow> unat (v + of_nat n) = unat v + n"
  using unat_u16_less [of w] by (intro unat_add_of_nat_u16) linarith

lemma unat_u8_times_u8 [simp]:
  "unat (ucast (a :: u8) * ucast (b :: u8) :: u16) = unat a * unat b"
proof -
  have "unat a * unat b < 256 * 256"
    using mult_strict_mono [of "unat a" 256 "unat b" 256] by simp
  then show ?thesis by (simp add: unat_word_ariths)
qed

text \<open>Comparisons of 16-bit lengths as comparisons of numbers.\<close>

lemma u16_minus_eq_iff: "(v - w = (x :: u16)) = (unat (v - w) = unat x)"
  by (rule word_unat_eq_iff)

lemma u16_eq_minus_iff: "((x :: u16) = v - w) = (unat x = unat (v - w))"
  by (rule word_unat_eq_iff)

lemmas u16_nat = word_less_nat_alt word_le_nat_alt u16_minus_eq_iff u16_eq_minus_iff

lemma u16_mod_0: "unat (v :: u16) = unat n * k \<Longrightarrow> v mod n = 0"
  by (rule word_unat_eq_iff [THEN iffD2]) (simp add: unat_mod_distrib)

lemma length_concat_const: "\<forall>x\<in>set xs. length x = n \<Longrightarrow> length (concat xs) = n * length xs"
  by (induction xs) auto

end
