(* ===== verification/Capwap_Header.thy ===== *)
theory Capwap_Header
  imports Capwap_Prelude
begin

text \<open>
  The CAPWAP header (\<^verbatim>\<open>common/capwap_rfc.h\<close>, \<^verbatim>\<open>common/capwap_protocol.c\<close>). A header is read and
  written in place, at the start of a packet buffer, so the accessors work on byte lists. The bit
  fields are laid out as the compiler does on a little-endian machine, the case without
  \<open>CAPWAP_BIG_ENDIAN\<close>; for every accessor but \<open>SET_FRAGMENT_OFFSET_HEADER\<close> the layout on the
  wire is the same on a big-endian one. The lemmas show that every field can be set without touching the
  others, what the header-building functions produce, and how \<open>capwap_sanity_check\<close> classifies a
  packet.
\<close>

subsection \<open>Writing into a buffer\<close>

text \<open>\<open>memcpy(&buf[p], bs, n)\<close>, inside the buffer.\<close>

definition buf_write :: "nat \<Rightarrow> u8 list \<Rightarrow> u8 list \<Rightarrow> u8 list" where
  "buf_write p bs buf = take p buf @ bs @ drop (p + length bs) buf"

lemma length_buf_write [simp]: "p + length bs \<le> length buf \<Longrightarrow> length (buf_write p bs buf) = length buf"
  by (simp add: buf_write_def)

lemma nth_buf_write:
  assumes "p + length bs \<le> length buf" "i < length buf"
  shows "buf_write p bs buf ! i = (if p \<le> i \<and> i < p + length bs then bs ! (i - p) else buf ! i)"
  using assms by (auto simp: buf_write_def nth_append min_def)

lemma buf_write_Nil [simp]: "buf_write p [] buf = buf"
  by (simp add: buf_write_def)

lemma buf_write_append:
  assumes "p + length bs + length cs \<le> length buf"
  shows "buf_write (p + length bs) cs (buf_write p bs buf) = buf_write p (bs @ cs) buf"
  using assms by (intro nth_equalityI) (auto simp: nth_buf_write nth_append)

lemma buf_write_over:
  assumes "length bs = length cs" "p + length bs \<le> length buf"
  shows "buf_write p cs (buf_write p bs buf) = buf_write p cs buf"
  using assms by (intro nth_equalityI) (auto simp: nth_buf_write)

lemma buf_write_commute:
  assumes "p + length bs \<le> q" "q + length cs \<le> length buf"
  shows "buf_write q cs (buf_write p bs buf) = buf_write p bs (buf_write q cs buf)"
  using assms by (intro nth_equalityI) (auto simp: nth_buf_write)

lemma buf_write_patch:
  assumes "length ys = length zs" "p + length (xs @ ys @ rs) \<le> length buf"
  shows "buf_write (p + length xs) zs (buf_write p (xs @ ys @ rs) buf) = buf_write p (xs @ zs @ rs) buf"
  using assms by (intro nth_equalityI) (auto simp: nth_buf_write nth_append)

lemma take_buf_write: "p + length bs \<le> n \<Longrightarrow> n \<le> length buf \<Longrightarrow>
    take n (buf_write p bs buf) = buf_write p bs (take n buf)"
  by (intro nth_equalityI) (auto simp: nth_buf_write)

lemma take_buf_write_end: "p + length bs \<le> length buf \<Longrightarrow> take (p + length bs) (buf_write p bs buf) = take p buf @ bs"
  by (simp add: buf_write_def)

lemma take_buf_write_before: "n \<le> p \<Longrightarrow> p + length bs \<le> length buf \<Longrightarrow> take n (buf_write p bs buf) = take n buf"
  by (simp add: buf_write_def)

subsection \<open>Accessors\<close>

definition GET_VERSION_HEADER :: "u8 list \<Rightarrow> u8" where
  "GET_VERSION_HEADER b = drop_bit 4 (b ! 0)"

definition SET_VERSION_HEADER :: "u8 list \<Rightarrow> u8 \<Rightarrow> u8 list" where
  "SET_VERSION_HEADER b y = b[0 := (b ! 0 AND 0x0f) OR push_bit 4 y]"

definition GET_TYPE_HEADER :: "u8 list \<Rightarrow> u8" where
  "GET_TYPE_HEADER b = b ! 0 AND 0x0f"

definition SET_TYPE_HEADER :: "u8 list \<Rightarrow> u8 \<Rightarrow> u8 list" where
  "SET_TYPE_HEADER b y = b[0 := (b ! 0 AND 0xf0) OR (y AND 0x0f)]"

definition GET_HLEN_HEADER :: "u8 list \<Rightarrow> u8" where
  "GET_HLEN_HEADER b = drop_bit 3 (b ! 1)"

definition SET_HLEN_HEADER :: "u8 list \<Rightarrow> u16 \<Rightarrow> u8 list" where
  "SET_HLEN_HEADER b y = b[1 := (b ! 1 AND 0x07) OR push_bit 3 (ucast y)]"

definition GET_RID_HEADER :: "u8 list \<Rightarrow> u8" where
  "GET_RID_HEADER b = push_bit 2 (b ! 1 AND 0x07) OR drop_bit 6 (b ! 2)"

definition SET_RID_HEADER :: "u8 list \<Rightarrow> u16 \<Rightarrow> u8 list" where
  "SET_RID_HEADER b y =
     b[1 := (b ! 1 AND 0xf8) OR (ucast (drop_bit 2 y) AND 0x07),
       2 := (b ! 2 AND 0x3f) OR push_bit 6 (ucast (y AND 0x0003))]"

definition GET_WBID_HEADER :: "u8 list \<Rightarrow> u8" where
  "GET_WBID_HEADER b = drop_bit 1 (b ! 2) AND 0x1f"

definition SET_WBID_HEADER :: "u8 list \<Rightarrow> u16 \<Rightarrow> u8 list" where
  "SET_WBID_HEADER b y = b[2 := (b ! 2 AND 0xc1) OR push_bit 1 (ucast y AND 0x1f)]"

definition IS_FLAG_T_HEADER :: "u8 list \<Rightarrow> bool" where
  "IS_FLAG_T_HEADER b = bit (b ! 2) 0"

definition SET_FLAG_T_HEADER :: "u8 list \<Rightarrow> bool \<Rightarrow> u8 list" where
  "SET_FLAG_T_HEADER b y = b[2 := (if y then set_bit 0 (b ! 2) else unset_bit 0 (b ! 2))]"

definition IS_FLAG_F_HEADER :: "u8 list \<Rightarrow> bool" where
  "IS_FLAG_F_HEADER b = bit (b ! 3) 7"

definition SET_FLAG_F_HEADER :: "u8 list \<Rightarrow> bool \<Rightarrow> u8 list" where
  "SET_FLAG_F_HEADER b y = b[3 := (if y then set_bit 7 (b ! 3) else unset_bit 7 (b ! 3))]"

definition IS_FLAG_L_HEADER :: "u8 list \<Rightarrow> bool" where
  "IS_FLAG_L_HEADER b = bit (b ! 3) 6"

definition SET_FLAG_L_HEADER :: "u8 list \<Rightarrow> bool \<Rightarrow> u8 list" where
  "SET_FLAG_L_HEADER b y = b[3 := (if y then set_bit 6 (b ! 3) else unset_bit 6 (b ! 3))]"

definition IS_FLAG_W_HEADER :: "u8 list \<Rightarrow> bool" where
  "IS_FLAG_W_HEADER b = bit (b ! 3) 5"

definition SET_FLAG_W_HEADER :: "u8 list \<Rightarrow> bool \<Rightarrow> u8 list" where
  "SET_FLAG_W_HEADER b y = b[3 := (if y then set_bit 5 (b ! 3) else unset_bit 5 (b ! 3))]"

definition IS_FLAG_M_HEADER :: "u8 list \<Rightarrow> bool" where
  "IS_FLAG_M_HEADER b = bit (b ! 3) 4"

definition SET_FLAG_M_HEADER :: "u8 list \<Rightarrow> bool \<Rightarrow> u8 list" where
  "SET_FLAG_M_HEADER b y = b[3 := (if y then set_bit 4 (b ! 3) else unset_bit 4 (b ! 3))]"

definition IS_FLAG_K_HEADER :: "u8 list \<Rightarrow> bool" where
  "IS_FLAG_K_HEADER b = bit (b ! 3) 3"

definition SET_FLAG_K_HEADER :: "u8 list \<Rightarrow> bool \<Rightarrow> u8 list" where
  "SET_FLAG_K_HEADER b y = b[3 := (if y then set_bit 3 (b ! 3) else unset_bit 3 (b ! 3))]"

definition GET_FRAGMENT_ID_HEADER :: "u8 list \<Rightarrow> u16" where
  "GET_FRAGMENT_ID_HEADER b = be16 (b ! 4) (b ! 5)"

definition SET_FRAGMENT_ID_HEADER :: "u8 list \<Rightarrow> u16 \<Rightarrow> u8 list" where
  "SET_FRAGMENT_ID_HEADER b y = b[4 := ucast (drop_bit 8 y), 5 := ucast y]"

definition GET_FRAGMENT_OFFSET_HEADER :: "u8 list \<Rightarrow> u16" where
  "GET_FRAGMENT_OFFSET_HEADER b = be16 (b ! 6) (b ! 7) AND 0xfff8"

text \<open>
  The mask \<open>~FRAGMENT_OFFSET_MASK\<close> is applied to the field in network byte order: on a little-endian
  machine it keeps three bits of the first byte of the field, not of the second.
\<close>

definition SET_FRAGMENT_OFFSET_HEADER :: "u8 list \<Rightarrow> u16 \<Rightarrow> u8 list" where
  "SET_FRAGMENT_OFFSET_HEADER b y =
     b[6 := (b ! 6 AND 0x07) OR ucast (drop_bit 8 (y AND 0xfff8)), 7 := ucast (y AND 0xfff8)]"

lemmas header_accessor_defs =
  GET_VERSION_HEADER_def SET_VERSION_HEADER_def GET_TYPE_HEADER_def SET_TYPE_HEADER_def
  GET_HLEN_HEADER_def SET_HLEN_HEADER_def GET_RID_HEADER_def SET_RID_HEADER_def
  GET_WBID_HEADER_def SET_WBID_HEADER_def IS_FLAG_T_HEADER_def SET_FLAG_T_HEADER_def
  IS_FLAG_F_HEADER_def SET_FLAG_F_HEADER_def IS_FLAG_L_HEADER_def SET_FLAG_L_HEADER_def
  IS_FLAG_W_HEADER_def SET_FLAG_W_HEADER_def IS_FLAG_M_HEADER_def SET_FLAG_M_HEADER_def
  IS_FLAG_K_HEADER_def SET_FLAG_K_HEADER_def GET_FRAGMENT_ID_HEADER_def SET_FRAGMENT_ID_HEADER_def
  GET_FRAGMENT_OFFSET_HEADER_def SET_FRAGMENT_OFFSET_HEADER_def

subsection \<open>The fields as a record\<close>

record capwap_header =
  hdr_version :: u8
  hdr_type :: u8
  hdr_hlen :: u8
  hdr_rid :: u8
  hdr_wbid :: u8
  hdr_flag_t :: bool
  hdr_flag_f :: bool
  hdr_flag_l :: bool
  hdr_flag_w :: bool
  hdr_flag_m :: bool
  hdr_flag_k :: bool
  hdr_frag_id :: u16
  hdr_frag_off :: u16

definition header_of :: "u8 list \<Rightarrow> capwap_header" where
  "header_of b =
     \<lparr>hdr_version = GET_VERSION_HEADER b, hdr_type = GET_TYPE_HEADER b, hdr_hlen = GET_HLEN_HEADER b,
      hdr_rid = GET_RID_HEADER b, hdr_wbid = GET_WBID_HEADER b, hdr_flag_t = IS_FLAG_T_HEADER b,
      hdr_flag_f = IS_FLAG_F_HEADER b, hdr_flag_l = IS_FLAG_L_HEADER b, hdr_flag_w = IS_FLAG_W_HEADER b,
      hdr_flag_m = IS_FLAG_M_HEADER b, hdr_flag_k = IS_FLAG_K_HEADER b,
      hdr_frag_id = GET_FRAGMENT_ID_HEADER b, hdr_frag_off = GET_FRAGMENT_OFFSET_HEADER b\<rparr>"

lemma length_header_setters [simp]:
  "length (SET_VERSION_HEADER b v) = length b" "length (SET_TYPE_HEADER b v) = length b"
  "length (SET_HLEN_HEADER b w) = length b" "length (SET_RID_HEADER b w) = length b"
  "length (SET_WBID_HEADER b w) = length b" "length (SET_FLAG_T_HEADER b f) = length b"
  "length (SET_FLAG_F_HEADER b f) = length b" "length (SET_FLAG_L_HEADER b f) = length b"
  "length (SET_FLAG_W_HEADER b f) = length b" "length (SET_FLAG_M_HEADER b f) = length b"
  "length (SET_FLAG_K_HEADER b f) = length b" "length (SET_FRAGMENT_ID_HEADER b w) = length b"
  "length (SET_FRAGMENT_OFFSET_HEADER b w) = length b"
  by (simp_all add: header_accessor_defs)

lemma header_cases:
  assumes "8 \<le> length b"
  obtains b0 b1 b2 b3 b4 b5 b6 b7 r where "b = b0 # b1 # b2 # b3 # b4 # b5 # b6 # b7 # r"
  using assms by (auto simp: numeral_eq_Suc Suc_le_length_iff)

lemma header_of_SET_VERSION:
  "8 \<le> length b \<Longrightarrow> header_of (SET_VERSION_HEADER b v) = (header_of b)\<lparr>hdr_version := v AND 0x0f\<rparr>"
  by (erule header_cases) (auto simp: header_of_def header_accessor_defs bit_simps intro!: u8_eqI)

lemma header_of_SET_TYPE:
  "8 \<le> length b \<Longrightarrow> header_of (SET_TYPE_HEADER b v) = (header_of b)\<lparr>hdr_type := v AND 0x0f\<rparr>"
  by (erule header_cases) (auto simp: header_of_def header_accessor_defs bit_simps intro!: u8_eqI)

lemma header_of_SET_HLEN:
  "8 \<le> length b \<Longrightarrow> header_of (SET_HLEN_HEADER b y) = (header_of b)\<lparr>hdr_hlen := ucast y AND 0x1f\<rparr>"
  by (erule header_cases) (auto simp: header_of_def header_accessor_defs bit_simps intro!: u8_eqI)

lemma header_of_SET_RID:
  "8 \<le> length b \<Longrightarrow> header_of (SET_RID_HEADER b y) = (header_of b)\<lparr>hdr_rid := ucast y AND 0x1f\<rparr>"
  by (erule header_cases) (auto simp: header_of_def header_accessor_defs bit_simps intro!: u8_eqI)

lemma header_of_SET_WBID:
  "8 \<le> length b \<Longrightarrow> header_of (SET_WBID_HEADER b y) = (header_of b)\<lparr>hdr_wbid := ucast y AND 0x1f\<rparr>"
  by (erule header_cases) (auto simp: header_of_def header_accessor_defs bit_simps numeral_2_eq_2 simp del: push_bit_Suc intro!: u8_eqI)

lemma header_of_SET_flags:
  assumes "8 \<le> length b"
  shows "header_of (SET_FLAG_T_HEADER b f) = (header_of b)\<lparr>hdr_flag_t := f\<rparr>"
    "header_of (SET_FLAG_F_HEADER b f) = (header_of b)\<lparr>hdr_flag_f := f\<rparr>"
    "header_of (SET_FLAG_L_HEADER b f) = (header_of b)\<lparr>hdr_flag_l := f\<rparr>"
    "header_of (SET_FLAG_W_HEADER b f) = (header_of b)\<lparr>hdr_flag_w := f\<rparr>"
    "header_of (SET_FLAG_M_HEADER b f) = (header_of b)\<lparr>hdr_flag_m := f\<rparr>"
    "header_of (SET_FLAG_K_HEADER b f) = (header_of b)\<lparr>hdr_flag_k := f\<rparr>"
  by (rule header_cases [OF assms],
      auto simp: header_of_def header_accessor_defs bit_simps intro!: u8_eqI)+

lemma header_of_SET_FRAGMENT_ID:
  "8 \<le> length b \<Longrightarrow> header_of (SET_FRAGMENT_ID_HEADER b y) = (header_of b)\<lparr>hdr_frag_id := y\<rparr>"
  by (erule header_cases) (simp add: header_of_def header_accessor_defs)

text \<open>The offset can be set while the three bits of the first byte are clear.\<close>

lemma header_of_SET_FRAGMENT_OFFSET:
  assumes "8 \<le> length b" "b ! 6 AND 0x07 = 0"
  shows "header_of (SET_FRAGMENT_OFFSET_HEADER b y) = (header_of b)\<lparr>hdr_frag_off := y AND 0xfff8\<rparr>"
proof -
  define z where "z = y AND 0xfff8"
  have "z AND 0xfff8 = z"
    by (simp add: z_def)
  then show ?thesis
    using assms(2) unfolding SET_FRAGMENT_OFFSET_HEADER_def z_def [symmetric]
    by (rule_tac header_cases [OF assms(1)]) (simp add: header_of_def header_accessor_defs)
qed

lemmas header_of_setters = header_of_SET_VERSION header_of_SET_TYPE header_of_SET_HLEN header_of_SET_RID
  header_of_SET_WBID header_of_SET_flags header_of_SET_FRAGMENT_ID header_of_SET_FRAGMENT_OFFSET

subsection \<open>Building a header\<close>

text \<open>
  \<open>struct capwap_header_data\<close> is its \<open>headerbuffer\<close> of 276 bytes. Sizes inside the header
  (\<open>padded\<close>) are in units of four bytes.
\<close>

definition capwap_header_init :: "u8 list \<Rightarrow> u16 \<Rightarrow> u16 \<Rightarrow> u8 list" where
  "capwap_header_init data radioid binding =
     (let h = buf_write 0 (replicate 8 0) data;
          h = SET_VERSION_HEADER h 0;
          h = SET_TYPE_HEADER h 0;
          h = SET_HLEN_HEADER h 2;
          h = SET_RID_HEADER h radioid
      in SET_WBID_HEADER h binding)"

definition padded :: "nat \<Rightarrow> nat" where
  "padded n = (1 + n + 3) div 4"

text \<open>Offset of the wireless information: behind the radio MAC address, if there is one.\<close>

definition GET_WIRELESS_INFORMATION_STRUCT :: "u8 list \<Rightarrow> nat" where
  "GET_WIRELESS_INFORMATION_STRUCT b = 8 + (if IS_FLAG_M_HEADER b then padded (unat (b ! 8)) * 4 else 0)"

text \<open>The case \<open>radiotype == MACADDRESS_NONE_LENGTH\<close>.\<close>

definition header_remove_radio_macaddress :: "u8 list \<Rightarrow> u8 list" where
  "header_remove_radio_macaddress h =
     (if IS_FLAG_M_HEADER h then
        let h = (if \<not> IS_FLAG_W_HEADER h then SET_HLEN_HEADER h 2
                 else let w = GET_WIRELESS_INFORMATION_STRUCT h;
                          n = padded (unat (h ! w))
                      in SET_HLEN_HEADER (buf_write 8 (take (n * 4) (drop w h)) h) (of_nat (2 + n)))
        in SET_FLAG_M_HEADER h False
      else h)"

definition capwap_header_set_radio_macaddress :: "u8 list \<Rightarrow> nat \<Rightarrow> u8 list option \<Rightarrow> u8 list option" where
  "capwap_header_set_radio_macaddress h radiotype macaddress =
     (if radiotype = 0 then Some (header_remove_radio_macaddress h)
      else do {
        mac \<leftarrow> macaddress;
        ASSERT (radiotype = 6 \<or> radiotype = 8);
        ASSERT (radiotype \<le> length mac);
        if IS_FLAG_M_HEADER h \<and> unat (h ! 8) = radiotype then Some (buf_write 9 (take radiotype mac) h)
        else let h = (if IS_FLAG_M_HEADER h then header_remove_radio_macaddress h else h);
                 radiosizepadded = padded radiotype;
                 w = GET_WIRELESS_INFORMATION_STRUCT h;
                 n = padded (unat (h ! w));
                 size = 2 + radiosizepadded + (if IS_FLAG_W_HEADER h then n else 0);
                 h = (if IS_FLAG_W_HEADER h
                      then buf_write (8 + radiosizepadded) (take (n * 4) (drop w h)) h else h);
                 h = h[8 := of_nat radiotype];
                 h = buf_write 9 (take radiotype mac) h;
                 h = buf_write (9 + radiotype) (replicate (radiosizepadded * 4 - 1 - radiotype) 0) h;
                 h = SET_FLAG_M_HEADER h True
             in Some (SET_HLEN_HEADER h (of_nat size)) })"

definition capwap_header_set_wireless_information :: "u8 list \<Rightarrow> u8 list option \<Rightarrow> u8 \<Rightarrow> u8 list option" where
  "capwap_header_set_wireless_information h buffer len =
     (let size = 2 + (if IS_FLAG_M_HEADER h then padded (unat (h ! 8)) else 0);
          h = (if IS_FLAG_W_HEADER h then SET_HLEN_HEADER (SET_FLAG_W_HEADER h False) (of_nat size) else h)
      in if 0 < len then do {
           buffer \<leftarrow> buffer;
           ASSERT (unat len \<le> length buffer);
           let w = GET_WIRELESS_INFORMATION_STRUCT h;
               n = padded (unat len);
               h = h[w := len];
               h = buf_write (w + 1) (take (unat len) buffer) h;
               h = buf_write (w + 1 + unat len) (replicate (n * 4 - 1 - unat len) 0) h;
               h = SET_FLAG_W_HEADER h True
           in Some (SET_HLEN_HEADER h (of_nat (size + n))) }
         else Some h)"

definition capwap_header_set_keepalive_flag :: "u8 list \<Rightarrow> bool \<Rightarrow> u8 list" where
  "capwap_header_set_keepalive_flag h enable = SET_FLAG_K_HEADER h enable"

definition capwap_header_set_nativeframe_flag :: "u8 list \<Rightarrow> bool \<Rightarrow> u8 list" where
  "capwap_header_set_nativeframe_flag h enable = SET_FLAG_T_HEADER h enable"

subsection \<open>Classifying a packet\<close>

datatype capwap_packet_class = CAPWAP_WRONG_PACKET | CAPWAP_PLAIN_PACKET | CAPWAP_DTLS_PACKET

definition CAPWAP_UNDEF_STATE :: int where "CAPWAP_UNDEF_STATE = -1"

definition CAPWAP_DISCOVERY_STATE :: int where "CAPWAP_DISCOVERY_STATE = 2"

definition capwap_sanity_check :: "int \<Rightarrow> u8 list \<Rightarrow> bool \<Rightarrow> capwap_packet_class option" where
  "capwap_sanity_check state buffer dtlsenable = do {
     ASSERT (1 < length buffer);
     if GET_VERSION_HEADER buffer \<noteq> 0 then Some CAPWAP_WRONG_PACKET
     else if dtlsenable then
       if GET_TYPE_HEADER buffer = 1 \<and> 4 \<le> length buffer then
         if state = CAPWAP_DISCOVERY_STATE then Some CAPWAP_WRONG_PACKET else Some CAPWAP_DTLS_PACKET
       else if GET_TYPE_HEADER buffer = 0 \<and> 8 \<le> length buffer \<and>
           unat (GET_HLEN_HEADER buffer) * 4 \<le> length buffer then
         if state \<noteq> CAPWAP_DISCOVERY_STATE \<and> state \<noteq> CAPWAP_UNDEF_STATE then Some CAPWAP_WRONG_PACKET
         else Some CAPWAP_PLAIN_PACKET
       else Some CAPWAP_WRONG_PACKET
     else
       if GET_TYPE_HEADER buffer = 0 \<and> 8 \<le> length buffer \<and>
           unat (GET_HLEN_HEADER buffer) * 4 \<le> length buffer
       then Some CAPWAP_PLAIN_PACKET
       else Some CAPWAP_WRONG_PACKET }"

text \<open>\<open>capwap_is_request_type\<close> lists the request types one by one.\<close>

definition capwap_is_request_type :: "nat \<Rightarrow> bool" where
  "capwap_is_request_type type \<longleftrightarrow>
     type = 1 \<or> type = 3 \<or> type = 5 \<or> type = 7 \<or> type = 9 \<or> type = 11 \<or> type = 13 \<or>
     type = 15 \<or> type = 17 \<or> type = 19 \<or> type = 21 \<or> type = 23 \<or> type = 25 \<or> type = 3398913"

definition CAPWAP_VALID_MESSAGE_TYPE :: "nat \<Rightarrow> bool" where
  "CAPWAP_VALID_MESSAGE_TYPE x \<longleftrightarrow> x \<ge> 1 \<and> x \<le> 26"

definition CAPWAP_VALID_IEEE80211_MESSAGE_TYPE :: "nat \<Rightarrow> bool" where
  "CAPWAP_VALID_IEEE80211_MESSAGE_TYPE x \<longleftrightarrow> x \<ge> 3398913 \<and> x \<le> 3398914"

text \<open>Among the valid message types the requests are the odd ones.\<close>

lemma request_type_iff_odd:
  "capwap_is_request_type t \<longleftrightarrow>
     (CAPWAP_VALID_MESSAGE_TYPE t \<or> CAPWAP_VALID_IEEE80211_MESSAGE_TYPE t) \<and> odd t"
  unfolding capwap_is_request_type_def CAPWAP_VALID_MESSAGE_TYPE_def CAPWAP_VALID_IEEE80211_MESSAGE_TYPE_def
  by presburger

definition IS_SEQUENCE_SMALLER :: "u8 \<Rightarrow> u8 \<Rightarrow> bool" where
  "IS_SEQUENCE_SMALLER s1 s2 \<longleftrightarrow>
     (s1 < s2 \<and> uint s2 - uint s1 < 128) \<or> (s1 > s2 \<and> uint s1 - uint s2 > 128)"

subsection \<open>What the header functions build\<close>

text \<open>The optional parts of a header, as a receiver finds them.\<close>

definition radio_macaddress :: "u8 list \<Rightarrow> u8 list option" where
  "radio_macaddress b = (if IS_FLAG_M_HEADER b then Some (take (unat (b ! 8)) (drop 9 b)) else None)"

definition wireless_information :: "u8 list \<Rightarrow> u8 list option" where
  "wireless_information b =
     (if IS_FLAG_W_HEADER b
      then let w = GET_WIRELESS_INFORMATION_STRUCT b in Some (take (unat (b ! w)) (drop (w + 1) b))
      else None)"

lemma nth_header_setters [simp]:
  assumes "8 \<le> i"
  shows "SET_VERSION_HEADER b v ! i = b ! i" "SET_TYPE_HEADER b v ! i = b ! i"
  "SET_HLEN_HEADER b w ! i = b ! i" "SET_RID_HEADER b w ! i = b ! i"
  "SET_WBID_HEADER b w ! i = b ! i" "SET_FLAG_T_HEADER b f ! i = b ! i"
  "SET_FLAG_F_HEADER b f ! i = b ! i" "SET_FLAG_L_HEADER b f ! i = b ! i"
  "SET_FLAG_W_HEADER b f ! i = b ! i" "SET_FLAG_M_HEADER b f ! i = b ! i"
  "SET_FLAG_K_HEADER b f ! i = b ! i" "SET_FRAGMENT_ID_HEADER b w ! i = b ! i"
  "SET_FRAGMENT_OFFSET_HEADER b w ! i = b ! i"
  using assms by (simp_all add: header_accessor_defs)

lemma header_of_cong: "(\<And>i. i < 8 \<Longrightarrow> b ! i = c ! i) \<Longrightarrow> header_of b = header_of c"
  by (simp add: header_of_def header_accessor_defs)

lemma header_of_behind [simp]:
  "8 \<le> p \<Longrightarrow> p + length bs \<le> length b \<Longrightarrow> header_of (buf_write p bs b) = header_of b"
  "8 \<le> i \<Longrightarrow> header_of (b[i := x]) = header_of b"
  by (auto intro!: header_of_cong simp: nth_buf_write)

lemma header_sel:
  "GET_VERSION_HEADER b = hdr_version (header_of b)" "GET_TYPE_HEADER b = hdr_type (header_of b)"
  "GET_HLEN_HEADER b = hdr_hlen (header_of b)" "GET_RID_HEADER b = hdr_rid (header_of b)"
  "GET_WBID_HEADER b = hdr_wbid (header_of b)" "IS_FLAG_T_HEADER b = hdr_flag_t (header_of b)"
  "IS_FLAG_F_HEADER b = hdr_flag_f (header_of b)" "IS_FLAG_L_HEADER b = hdr_flag_l (header_of b)"
  "IS_FLAG_W_HEADER b = hdr_flag_w (header_of b)" "IS_FLAG_M_HEADER b = hdr_flag_m (header_of b)"
  "IS_FLAG_K_HEADER b = hdr_flag_k (header_of b)" "GET_FRAGMENT_ID_HEADER b = hdr_frag_id (header_of b)"
  "GET_FRAGMENT_OFFSET_HEADER b = hdr_frag_off (header_of b)"
  by (simp_all add: header_of_def)

lemma header_init_fields:
  assumes "8 \<le> length data"
  shows "header_of (capwap_header_init data radioid binding) =
    \<lparr>hdr_version = 0, hdr_type = 0, hdr_hlen = 2, hdr_rid = ucast radioid AND 0x1f,
     hdr_wbid = ucast binding AND 0x1f, hdr_flag_t = False, hdr_flag_f = False, hdr_flag_l = False,
     hdr_flag_w = False, hdr_flag_m = False, hdr_flag_k = False, hdr_frag_id = 0, hdr_frag_off = 0\<rparr>"
proof -
  have zero: "header_of (buf_write 0 (replicate 8 0) data) =
    \<lparr>hdr_version = 0, hdr_type = 0, hdr_hlen = 0, hdr_rid = 0, hdr_wbid = 0, hdr_flag_t = False,
     hdr_flag_f = False, hdr_flag_l = False, hdr_flag_w = False, hdr_flag_m = False, hdr_flag_k = False,
     hdr_frag_id = 0, hdr_frag_off = 0\<rparr>"
    by (simp add: header_of_def header_accessor_defs buf_write_def nth_append be16_def)
  show ?thesis
    using assms by (simp add: capwap_header_init_def header_of_setters zero)
qed

lemma length_header_init [simp]:
  "8 \<le> length data \<Longrightarrow> length (capwap_header_init data radioid binding) = length data"
  by (simp add: capwap_header_init_def)

lemma u8_low5: "k < 32 \<Longrightarrow> ucast (of_nat k :: u16) AND 0x1f = (of_nat k :: u8)"
proof -
  assume k: "k < 32"
  have "(0x1f :: u8) = mask 5" by (simp add: mask_eq_exp_minus_1)
  then have "(of_nat k :: u8) AND 0x1f = take_bit 5 (of_nat k)" by (simp only: take_bit_eq_mask)
  also have "\<dots> = of_nat (take_bit 5 k)" by (rule take_bit_of_nat)
  finally show ?thesis using k by (simp add: unsigned_of_nat take_bit_nat_eq_self)
qed

lemma set_radio_macaddress_fresh:
  assumes "\<not> IS_FLAG_M_HEADER h" "\<not> IS_FLAG_W_HEADER h" "length mac = 6 \<or> length mac = 8" "20 \<le> length h"
  obtains h' where "capwap_header_set_radio_macaddress h (length mac) (Some mac) = Some h'"
    "header_of h' = (header_of h)\<lparr>hdr_flag_m := True, hdr_hlen := of_nat (2 + padded (length mac))\<rparr>"
    "radio_macaddress h' = Some mac" "length h' = length h" "h' ! 8 = of_nat (length mac)"
proof -
  let ?n = "length mac"
  define g where "g = buf_write (9 + ?n) (replicate (padded ?n * 4 - 1 - ?n) 0) (buf_write 9 mac (h[8 := of_nat ?n]))"
  define h' where "h' = SET_HLEN_HEADER (SET_FLAG_M_HEADER g True) (of_nat (2 + padded ?n))"
  have fits: "9 + ?n + (padded ?n * 4 - 1 - ?n) \<le> length h"
    using assms(3,4) by (auto simp: padded_def)
  then have len: "length g = length h"
    by (simp add: g_def)
  have g: "header_of g = header_of h"
    using fits by (simp add: g_def)
  have hdr: "header_of h' = (header_of h)\<lparr>hdr_flag_m := True, hdr_hlen := of_nat (2 + padded ?n)\<rparr>"
    using assms(3,4) by (auto simp: h'_def header_of_setters len g padded_def)
  have nth8: "h' ! 8 = of_nat ?n"
    using fits assms(4) by (simp add: h'_def g_def nth_buf_write)
  have "radio_macaddress h' = Some (take ?n (drop 9 h'))"
    using assms(3) by (auto simp: radio_macaddress_def header_sel hdr nth8 unat_of_nat_u8)
  also have "take ?n (drop 9 h') = mac"
    using fits assms(4) by (intro nth_equalityI) (auto simp: h'_def len g_def nth_buf_write)
  finally have mac: "radio_macaddress h' = Some mac" .
  show ?thesis
  proof (rule that [OF _ hdr mac])
    show "capwap_header_set_radio_macaddress h ?n (Some mac) = Some h'"
      using assms by (auto simp: capwap_header_set_radio_macaddress_def Let_def h'_def g_def)
    show "length h' = length h" by (simp add: h'_def len)
  qed (rule nth8)
qed

lemma set_wireless_information_fresh:
  assumes "\<not> IS_FLAG_W_HEADER h" "IS_FLAG_M_HEADER h \<longrightarrow> h ! 8 = 6 \<or> h ! 8 = 8"
    and "0 < length ws" "GET_WIRELESS_INFORMATION_STRUCT h + padded (length ws) * 4 < 128" "276 \<le> length h"
  obtains h' where "capwap_header_set_wireless_information h (Some ws) (of_nat (length ws)) = Some h'"
    "header_of h' = (header_of h)\<lparr>hdr_flag_w := True,
       hdr_hlen := of_nat (GET_WIRELESS_INFORMATION_STRUCT h div 4 + padded (length ws))\<rparr>"
    "radio_macaddress h' = radio_macaddress h" "wireless_information h' = Some ws" "length h' = length h"
proof -
  let ?n = "length ws" and ?w = "GET_WIRELESS_INFORMATION_STRUCT h"
  define size where "size = 2 + (if IS_FLAG_M_HEADER h then padded (unat (h ! 8)) else 0)"
  define g where "g = buf_write (?w + 1 + ?n) (replicate (padded ?n * 4 - 1 - ?n) 0)
     (buf_write (?w + 1) ws (h[?w := of_nat ?n]))"
  define h' where "h' = SET_HLEN_HEADER (SET_FLAG_W_HEADER g True) (of_nat (size + padded ?n))"
  have w: "?w = size * 4" "8 \<le> ?w"
    by (auto simp: size_def GET_WIRELESS_INFORMATION_STRUCT_def)
  have pad: "?n + 1 \<le> padded ?n * 4"
    by (simp add: padded_def)
  then have n: "?n < 256"
    using assms(4) by linarith
  have fits: "?w + 1 + ?n + (padded ?n * 4 - 1 - ?n) \<le> length h"
    using assms(4,5) pad by linarith
  then have len: "length g = length h"
    by (simp add: g_def)
  have g: "header_of g = header_of h"
    using fits w by (simp add: g_def)
  have small: "size + padded ?n < 32"
    using assms(4) w by linarith
  have hdr: "header_of h' = (header_of h)\<lparr>hdr_flag_w := True, hdr_hlen := of_nat (?w div 4 + padded ?n)\<rparr>"
    using u8_low5 [OF small] assms(5) by (simp add: h'_def header_of_setters len g w)
  have nthw: "h' ! ?w = of_nat ?n"
    using fits w assms(4,5) by (simp add: h'_def g_def nth_buf_write)
  have low: "h' ! i = h ! i" if "8 \<le> i" "i < ?w" for i
    using that fits by (simp add: h'_def g_def nth_buf_write)
  have len': "length h' = length h"
    by (simp add: h'_def len)
  have w': "GET_WIRELESS_INFORMATION_STRUCT h' = ?w"
    using low [of 8] unfolding GET_WIRELESS_INFORMATION_STRUCT_def
    by (auto simp: header_sel hdr padded_def GET_WIRELESS_INFORMATION_STRUCT_def)
  have "take ?n (drop (?w + 1) h') = ws"
    using fits w by (intro nth_equalityI) (auto simp: h'_def len g_def nth_buf_write)
  then have ws: "wireless_information h' = Some ws"
    using n by (simp add: wireless_information_def Let_def header_sel hdr w' nthw unat_of_nat_u8)
  have mac: "radio_macaddress h' = radio_macaddress h"
  proof (cases "IS_FLAG_M_HEADER h")
    case True
    then have "9 + unat (h ! 8) \<le> ?w"
      by (simp add: GET_WIRELESS_INFORMATION_STRUCT_def padded_def)
    then have "take (unat (h ! 8)) (drop 9 h') = take (unat (h ! 8)) (drop 9 h)" "h' ! 8 = h ! 8"
      using fits low [of 8] by (auto intro!: nth_equalityI simp: low len')
    then show ?thesis by (simp add: radio_macaddress_def header_sel hdr)
  qed (simp add: radio_macaddress_def header_sel hdr)
  show ?thesis
  proof (rule that [OF _ hdr mac ws len'])
    have "0 < (of_nat ?n :: u8)"
      using n assms(3) by (simp add: word_less_nat_alt unat_of_nat_u8)
    then show "capwap_header_set_wireless_information h (Some ws) (of_nat ?n) = Some h'"
      using assms(1) n by (simp add: capwap_header_set_wireless_information_def Let_def h'_def g_def size_def unat_of_nat_u8 add.assoc)
  qed
qed

text \<open>Building a header with both optional parts, and reading them back.\<close>

lemma header_build:
  assumes "276 \<le> length data" "length mac = 6 \<or> length mac = 8" "0 < length ws"
    and "2 + padded (length mac) + padded (length ws) < 32"
  shows "\<exists>h g. capwap_header_set_radio_macaddress (capwap_header_init data radioid binding) (length mac) (Some mac) = Some g \<and>
    capwap_header_set_wireless_information g (Some ws) (of_nat (length ws)) = Some h \<and>
    header_of h = (header_of (capwap_header_init data radioid binding))\<lparr>hdr_flag_m := True, hdr_flag_w := True,
      hdr_hlen := of_nat (2 + padded (length mac) + padded (length ws))\<rparr> \<and>
    radio_macaddress h = Some mac \<and> wireless_information h = Some ws"
proof -
  let ?i = "capwap_header_init data radioid binding"
  have i: "\<not> IS_FLAG_M_HEADER ?i" "\<not> IS_FLAG_W_HEADER ?i" "length ?i = length data"
    using assms(1) by (simp_all add: header_sel header_init_fields)
  have len: "20 \<le> length ?i" using assms(1) i(3) by simp
  obtain g where g: "capwap_header_set_radio_macaddress ?i (length mac) (Some mac) = Some g"
    "header_of g = (header_of ?i)\<lparr>hdr_flag_m := True, hdr_hlen := of_nat (2 + padded (length mac))\<rparr>"
    "radio_macaddress g = Some mac" "length g = length ?i" "g ! 8 = of_nat (length mac)"
    by (rule set_radio_macaddress_fresh [OF i(1,2) assms(2) len])
  have gM: "IS_FLAG_M_HEADER g" "\<not> IS_FLAG_W_HEADER g"
    using i(2) by (simp_all add: header_sel g(2))
  have w: "GET_WIRELESS_INFORMATION_STRUCT g = (2 + padded (length mac)) * 4"
    using assms(2) gM by (auto simp: GET_WIRELESS_INFORMATION_STRUCT_def g(5))
  have pre: "IS_FLAG_M_HEADER g \<longrightarrow> g ! 8 = 6 \<or> g ! 8 = 8"
    "GET_WIRELESS_INFORMATION_STRUCT g + padded (length ws) * 4 < 128" "276 \<le> length g"
    using assms g(4,5) i(3) w by auto
  obtain h where h: "capwap_header_set_wireless_information g (Some ws) (of_nat (length ws)) = Some h"
    "header_of h = (header_of g)\<lparr>hdr_flag_w := True,
       hdr_hlen := of_nat (GET_WIRELESS_INFORMATION_STRUCT g div 4 + padded (length ws))\<rparr>"
    "radio_macaddress h = radio_macaddress g" "wireless_information h = Some ws"
    by (rule set_wireless_information_fresh [OF gM(2) pre(1) assms(3) pre(2,3)])
  show ?thesis
    by (intro exI [of _ h] exI [of _ g]) (simp add: g h w)
qed

end
