(* ===== verification/Capwap_Message_IO.thy ===== *)
theory Capwap_Message_IO
  imports Capwap_Prelude
begin

text \<open>
  The interface between the message elements and the packet managers
  (\<^verbatim>\<open>common/capwap_element.h\<close>): an element writes itself through the operations of
  \<open>capwap_write_message_elements_ops\<close> and reads itself through those of
  \<open>capwap_read_message_elements_ops\<close>. The handle is opaque to the element, so the records below are
  polymorphic in it. The two locales state what the operations promise; the packet managers of
  \<open>Capwap_Transmit\<close> and \<open>Capwap_Receive\<close> interpret them, and the elements use nothing else.
\<close>

text \<open>Lengths are kept as a numeral plus the rest.\<close>

declare add_2_eq_Suc [simp del] add_2_eq_Suc' [simp del]

lemma Suc_numeral_add [simp]: "Suc (numeral k + n) = numeral (k + Num.One) + n"
  by simp

subsection \<open>The operations\<close>

text \<open>
  A write operation returns the \<open>int\<close> of the C function together with the changed handle. The
  buffer argument of \<open>write_block\<close> is the memory the pointer refers to, \<open>None\<close> a NULL pointer.
\<close>

record 'h capwap_write_message_elements_ops =
  write_u8 :: "'h \<Rightarrow> u8 \<Rightarrow> (int \<times> 'h) option"
  write_u16 :: "'h \<Rightarrow> u16 \<Rightarrow> (int \<times> 'h) option"
  write_u32 :: "'h \<Rightarrow> u32 \<Rightarrow> (int \<times> 'h) option"
  write_block :: "'h \<Rightarrow> u8 list option \<Rightarrow> u16 \<Rightarrow> (int \<times> 'h) option"

text \<open>
  A read operation returns the value it stores through its pointer, or \<open>None\<close> when it returns
  \<open>-1\<close> and stores nothing; \<open>read_block\<close> returns the bytes it copies, at most as many as asked for.
\<close>

record 'h capwap_read_message_elements_ops =
  read_ready :: "'h \<Rightarrow> u16"
  read_u8 :: "'h \<Rightarrow> (u8 option \<times> 'h) option"
  read_u16 :: "'h \<Rightarrow> (u16 option \<times> 'h) option"
  read_u32 :: "'h \<Rightarrow> (u32 option \<times> 'h) option"
  read_block :: "'h \<Rightarrow> u16 \<Rightarrow> (u8 list \<times> 'h) option"

text \<open>
  Reading into a variable whose present value is \<open>old\<close>: a read that fails leaves it as it is, and
  a block that is cut short changes only the start of the buffer.
\<close>

definition get_u8 :: "'h capwap_read_message_elements_ops \<Rightarrow> u8 \<Rightarrow> 'h \<Rightarrow> (u8 \<times> 'h) option" where
  "get_u8 func old h = map_option (\<lambda>(r, h). (store r old, h)) (read_u8 func h)"

definition get_u16 :: "'h capwap_read_message_elements_ops \<Rightarrow> u16 \<Rightarrow> 'h \<Rightarrow> (u16 \<times> 'h) option" where
  "get_u16 func old h = map_option (\<lambda>(r, h). (store r old, h)) (read_u16 func h)"

definition get_u32 :: "'h capwap_read_message_elements_ops \<Rightarrow> u32 \<Rightarrow> 'h \<Rightarrow> (u32 \<times> 'h) option" where
  "get_u32 func old h = map_option (\<lambda>(r, h). (store r old, h)) (read_u32 func h)"

definition get_block ::
    "'h capwap_read_message_elements_ops \<Rightarrow> u8 list \<Rightarrow> u16 \<Rightarrow> 'h \<Rightarrow> (u8 list \<times> 'h) option" where
  "get_block func old n h = map_option (\<lambda>(bs, h). (overlay bs old, h)) (read_block func h n)"

subsection \<open>Loops over arrays\<close>

text \<open>\<open>for (i = 0; i < array->count; i++)\<close> with a body that writes item \<open>i\<close>.\<close>

primrec write_each :: "('a \<Rightarrow> 'h \<Rightarrow> 'h option) \<Rightarrow> 'a list \<Rightarrow> 'h \<Rightarrow> 'h option" where
  "write_each f [] h = Some h"
| "write_each f (x # xs) h = f x h \<bind> write_each f xs"

text \<open>\<open>for (; i < n; i++)\<close> with a body that reads item \<open>i\<close>; the second number is the rounds left.\<close>

fun read_loop ::
    "(nat \<Rightarrow> 'h \<Rightarrow> ('a \<times> 'h) option) \<Rightarrow> nat \<Rightarrow> nat \<Rightarrow> 'h \<Rightarrow> ('a list \<times> 'h) option" where
  "read_loop f i 0 h = Some ([], h)"
| "read_loop f i (Suc n) h = do {
     (x, h) \<leftarrow> f i h;
     (xs, h) \<leftarrow> read_loop f (Suc i) n h;
     Some (x # xs, h) }"

text \<open>The same with a body that may reject the element.\<close>

fun read_checked :: "(nat \<Rightarrow> 'h \<Rightarrow> ('a option \<times> 'h) option) \<Rightarrow> nat \<Rightarrow> nat \<Rightarrow> 'h \<Rightarrow>
     ('a list option \<times> 'h) option" where
  "read_checked f i 0 h = Some (Some [], h)"
| "read_checked f i (Suc n) h = do {
     (x, h) \<leftarrow> f i h;
     (case x of
        None \<Rightarrow> Some (None, h)
      | Some x \<Rightarrow> do {
          (xs, h) \<leftarrow> read_checked f (Suc i) n h;
          Some (map_option (Cons x) xs, h) }) }"

text \<open>
  \<open>while (func->read_ready(handle) > 0)\<close> with a body that reads item \<open>i\<close> or rejects the
  element. Nothing bounds the number of rounds: a body that consumes nothing makes the loop run
  forever, which is the value \<open>None\<close>.
\<close>

partial_function (option) read_while ::
    "'h capwap_read_message_elements_ops \<Rightarrow> (nat \<Rightarrow> 'h \<Rightarrow> ('a option \<times> 'h) option) \<Rightarrow> nat \<Rightarrow> 'h \<Rightarrow>
     ('a list option \<times> 'h) option" where
  "read_while func f i h =
     (if \<not> 0 < read_ready func h then Some (Some [], h)
      else do {
        (x, h) \<leftarrow> f i h;
        (case x of
           None \<Rightarrow> Some (None, h)
         | Some x \<Rightarrow> do {
             (xs, h) \<leftarrow> read_while func f (Suc i) h;
             Some (map_option (Cons x) xs, h) }) })"

text \<open>
  \<open>while (length > 0)\<close> with a body that reads item \<open>i\<close> and ends in \<open>length -= step\<close>, a 16-bit
  subtraction that wraps.
\<close>

partial_function (option) read_steps ::
    "u16 \<Rightarrow> (nat \<Rightarrow> 'h \<Rightarrow> ('a \<times> 'h) option) \<Rightarrow> nat \<Rightarrow> u16 \<Rightarrow> 'h \<Rightarrow> ('a list \<times> 'h) option" where
  "read_steps step f i len h =
     (if \<not> 0 < len then Some ([], h)
      else do {
        (x, h) \<leftarrow> f i h;
        (xs, h) \<leftarrow> read_steps step f (Suc i) (len - step) h;
        Some (x # xs, h) })"

lemma unat_dvd_step:
  assumes "unat step dvd 65536" "unat step dvd unat (len - step :: u16)"
  shows "unat step dvd unat len"
proof -
  have "unat (len - step + step) = (unat (len - step) + unat step) mod 2 ^ LENGTH(16)"
    by (rule unat_word_ariths)
  moreover have "(2 :: nat) ^ LENGTH(16) = 65536"
    by simp
  ultimately have "unat len = (unat (len - step) + unat step) mod 65536"
    unfolding diff_add_cancel by (rule trans [OF _ arg_cong])
  moreover have "unat step dvd (unat (len - step) + unat step) mod 65536"
    by (intro dvd_mod dvd_add dvd_refl assms)
  ultimately show ?thesis
    by (rule ssubst)
qed

text \<open>A loop that counts down ends only if the step divides where it started.\<close>

lemma read_steps_dvd:
  assumes "read_steps step f i len h = Some r" "unat step dvd 65536"
  shows "unat step dvd unat len"
proof -
  have "unat step dvd 65536 \<longrightarrow> unat step dvd unat len"
  proof (rule read_steps.raw_induct [where P = "\<lambda>step f i len h r. unat step dvd 65536 \<longrightarrow> unat step dvd unat len", OF _ assms(1)],
      goal_cases)
    case (1 rec step f i len h y)
    show ?case
    proof (cases "0 < len")
      case True
      with 1(2) obtain h' r where "rec step f (Suc i) (len - step) h' = Some r"
        by (auto simp: bind_eq_Some_conv)
      from 1(1) [OF this] show ?thesis using unat_dvd_step by blast
    qed (simp add: word_less_nat_alt)
  qed
  then show ?thesis using assms(2) by blast
qed

subsection \<open>What a writer promises\<close>

text \<open>
  \<open>app bs h\<close> is the handle after the bytes \<open>bs\<close> were appended, \<open>room h\<close> the number of bytes
  that can be appended.
\<close>

locale message_writer =
  fixes func :: "'h capwap_write_message_elements_ops"
    and room :: "'h \<Rightarrow> nat"
    and app :: "u8 list \<Rightarrow> 'h \<Rightarrow> 'h"
  assumes u8_law: "1 \<le> room h \<Longrightarrow> map_option snd (write_u8 func h v) = Some (app [v] h)"
    and u16_law: "2 \<le> room h \<Longrightarrow> map_option snd (write_u16 func h w) = Some (app (u16_bytes w) h)"
    and u32_law: "4 \<le> room h \<Longrightarrow> map_option snd (write_u32 func h x) = Some (app (u32_bytes x) h)"
    and block_law: "0 < n \<Longrightarrow> unat n \<le> length buf \<Longrightarrow> unat n \<le> room h \<Longrightarrow>
      map_option snd (write_block func h (Some buf) n) = Some (app (take (unat n) buf) h)"
    and null_law: "write_block func h None n = None"
    and room_app: "length bs \<le> room h \<Longrightarrow> room (app bs h) = room h - length bs"
    and app_app: "length bs + length cs \<le> room h \<Longrightarrow> app cs (app bs h) = app (bs @ cs) h"
    and app_Nil: "app [] h = h"
begin

lemma bind_of_map_snd:
  assumes "map_option snd r = Some h'"
  shows "r \<bind> (\<lambda>(_, h). f h) = f h'"
  using assms by (cases r) auto

lemma write_u8 [simp]: "1 \<le> room h \<Longrightarrow> write_u8 func h v \<bind> (\<lambda>(_, h). f h) = f (app [v] h)"
  by (rule bind_of_map_snd [OF u8_law])

lemma write_u16 [simp]:
  "2 \<le> room h \<Longrightarrow> write_u16 func h w \<bind> (\<lambda>(_, h). f h) = f (app (u16_bytes w) h)"
  by (rule bind_of_map_snd [OF u16_law])

lemma write_u32 [simp]:
  "4 \<le> room h \<Longrightarrow> write_u32 func h x \<bind> (\<lambda>(_, h). f h) = f (app (u32_bytes x) h)"
  by (rule bind_of_map_snd [OF u32_law])

lemma write_block [simp]:
  assumes "0 < unat n" "unat n \<le> length buf" "unat n \<le> room h"
  shows "write_block func h (Some buf) n \<bind> (\<lambda>(_, h). f h) = f (app (take (unat n) buf) h)"
proof (rule bind_of_map_snd [OF block_law])
  show "0 < n"
    using assms(1) by (simp add: word_less_nat_alt)
qed (use assms in auto)

lemmas writer_simps [simp] = room_app app_app app_Nil null_law

lemma write_each_app:
  assumes "\<And>x h. x \<in> set xs \<Longrightarrow> length (w x) \<le> room h \<Longrightarrow> f x h = Some (app (w x) h)"
    and "length (concat (map w xs)) \<le> room h"
  shows "write_each f xs h = Some (app (concat (map w xs)) h)"
  using assms by (induction xs arbitrary: h) auto

end

subsection \<open>What a reader promises\<close>

text \<open>
  The number of bytes a read operation asks the packet for: the size limit of the current message
  element applies unless it is zero (\<open>capwap_fragment_read_block_from_pos\<close>).
\<close>

definition grant :: "u16 \<Rightarrow> u16 \<Rightarrow> nat" where
  "grant allowed n = (if 0 < allowed then min (unat n) (unat allowed) else unat n)"

text \<open>
  \<open>stream h\<close> is what is left of the packet, \<open>allow h\<close> what is left of the current message element,
  \<open>ended h\<close> tells that the packet is used up, and \<open>adv n h\<close> is the handle after \<open>n\<close> more bytes were
  asked for.
\<close>

locale message_reader =
  fixes func :: "'h capwap_read_message_elements_ops"
    and stream :: "'h \<Rightarrow> u8 list"
    and allow :: "'h \<Rightarrow> u16"
    and ended :: "'h \<Rightarrow> bool"
    and adv :: "nat \<Rightarrow> 'h \<Rightarrow> 'h"
    and inv :: "'h \<Rightarrow> bool"
  assumes ready_law: "inv h \<Longrightarrow> read_ready func h = (if ended h then 0 else allow h)"
    and u8_law: "inv h \<Longrightarrow> read_u8 func h =
      Some (bytes_u8 (take (grant (allow h) 1) (stream h)), adv (grant (allow h) 1) h)"
    and u16_law: "inv h \<Longrightarrow> read_u16 func h =
      Some (bytes_u16 (take (grant (allow h) 2) (stream h)), adv (grant (allow h) 2) h)"
    and u32_law: "inv h \<Longrightarrow> read_u32 func h =
      Some (bytes_u32 (take (grant (allow h) 4) (stream h)), adv (grant (allow h) 4) h)"
    and block_law: "inv h \<Longrightarrow> 0 < n \<Longrightarrow> read_block func h n =
      Some (take (grant (allow h) n) (stream h), adv (grant (allow h) n) h)"
    and block_0: "read_block func h 0 = None"
    and stream_adv: "inv h \<Longrightarrow> stream (adv k h) = drop k (stream h)"
    and allow_adv: "inv h \<Longrightarrow> allow (adv k h) = allow h - of_nat (min k (length (stream h)))"
    and adv_adv: "inv h \<Longrightarrow> adv l (adv k h) = adv (k + l) h"
    and adv_0: "adv 0 h = h"
    and inv_adv: "inv h \<Longrightarrow> inv (adv k h)"
    and ended_stream: "inv h \<Longrightarrow> ended h \<Longrightarrow> stream h = []"
begin

lemmas reader_simps [simp] = stream_adv adv_adv adv_0 inv_adv

lemma unat_allow_adv [simp]:
  assumes "inv h" "k \<le> length (stream h)" "k \<le> unat (allow h)"
  shows "unat (allow (adv k h)) = unat (allow h) - k"
proof -
  have k: "k < 65536"
    using assms(3) unat_u16_less [of "allow h"] by linarith
  then have "(of_nat k :: u16) \<le> allow h"
    using assms(3) by (simp add: word_le_nat_alt)
  with assms k show ?thesis
    by (simp add: allow_adv min_def unat_sub)
qed

lemma ready_live [simp]: "inv h \<Longrightarrow> 0 < length (stream h) \<Longrightarrow> read_ready func h = allow h"
  using ended_stream by (auto simp: ready_law)

lemma ready_done [simp]: "inv h \<Longrightarrow> allow h = 0 \<Longrightarrow> read_ready func h = 0"
  by (simp add: ready_law)

lemma ready_within [simp]:
  assumes "inv h" "unat (allow h) \<le> length (stream h)"
  shows "read_ready func h = allow h"
proof (cases "ended h")
  case True
  then have "unat (allow h) = 0" using assms ended_stream by simp
  then show ?thesis using True assms by (simp add: ready_law unat_eq_0)
qed (use assms in \<open>simp add: ready_law\<close>)

lemma allow_eq_iff: "(allow h = x) = (unat (allow h) = unat x)"
  by (rule word_unat_eq_iff)

lemmas lengths = allow_eq_iff u16_nat

lemma grant_full:
  assumes "unat n \<le> unat a"
  shows "grant a n = unat n"
  using assms by (auto simp: grant_def)

lemma read_u8_full [simp]:
  "inv h \<Longrightarrow> 1 \<le> unat (allow h) \<Longrightarrow>
   read_u8 func h = Some (bytes_u8 (take 1 (stream h)), adv 1 h)"
  by (simp add: u8_law grant_full)

lemma read_u16_full [simp]:
  "inv h \<Longrightarrow> 2 \<le> unat (allow h) \<Longrightarrow>
   read_u16 func h = Some (bytes_u16 (take 2 (stream h)), adv 2 h)"
  by (simp add: u16_law grant_full)

lemma read_u32_full [simp]:
  "inv h \<Longrightarrow> 4 \<le> unat (allow h) \<Longrightarrow>
   read_u32 func h = Some (bytes_u32 (take 4 (stream h)), adv 4 h)"
  by (simp add: u32_law grant_full)

lemma read_block_full [simp]:
  assumes "inv h" "0 < unat n" "unat n \<le> unat (allow h)"
  shows "read_block func h n = Some (take (unat n) (stream h), adv (unat n) h)"
proof -
  have "0 < n" using assms(2) by (simp add: word_less_nat_alt)
  then show ?thesis
    using assms by (simp add: block_law grant_full)
qed

lemma get_u8_full [simp]:
  "inv h \<Longrightarrow> 1 \<le> unat (allow h) \<Longrightarrow>
   get_u8 func old h = Some (store (bytes_u8 (take 1 (stream h))) old, adv 1 h)"
  by (simp add: get_u8_def)

lemma get_u16_full [simp]:
  "inv h \<Longrightarrow> 2 \<le> unat (allow h) \<Longrightarrow>
   get_u16 func old h = Some (store (bytes_u16 (take 2 (stream h))) old, adv 2 h)"
  by (simp add: get_u16_def)

lemma get_u32_full [simp]:
  "inv h \<Longrightarrow> 4 \<le> unat (allow h) \<Longrightarrow>
   get_u32 func old h = Some (store (bytes_u32 (take 4 (stream h))) old, adv 4 h)"
  by (simp add: get_u32_def)

lemma get_block_full [simp]:
  assumes "inv h" "0 < unat n" "unat n \<le> unat (allow h)"
  shows "get_block func old n h = Some (overlay (take (unat n) (stream h)) old, adv (unat n) h)"
  using assms by (simp add: get_block_def)

lemma read_loop_items:
  assumes item: "\<And>i x h r. x \<in> set xs \<Longrightarrow> inv h \<Longrightarrow> stream h = w x @ r \<Longrightarrow> length (w x) \<le> unat (allow h)
      \<Longrightarrow> f i h = Some (x, adv (length (w x)) h)"
    and "inv h" "stream h = concat (map w xs) @ rest" "length (concat (map w xs)) \<le> unat (allow h)"
  shows "read_loop f i (length xs) h = Some (xs, adv (length (concat (map w xs))) h)"
  using assms
proof (induction xs arbitrary: i h)
  case (Cons x xs)
  have x: "f i h = Some (x, adv (length (w x)) h)"
    using Cons.prems by (intro Cons.prems(1)) auto
  have "read_loop f (Suc i) (length xs) (adv (length (w x)) h) =
      Some (xs, adv (length (concat (map w xs))) (adv (length (w x)) h))"
    using Cons.prems by (intro Cons.IH) auto
  with x Cons.prems(2) show ?case by simp
qed simp

lemma read_checked_items:
  assumes item: "\<And>i x h r. x \<in> set xs \<Longrightarrow> inv h \<Longrightarrow> stream h = w x @ r \<Longrightarrow> length (w x) \<le> unat (allow h)
      \<Longrightarrow> unat (allow h) \<le> length (stream h) \<Longrightarrow> f i h = Some (Some x, adv (length (w x)) h)"
    and "inv h" "stream h = concat (map w xs) @ rest" "length (concat (map w xs)) \<le> unat (allow h)"
    and "unat (allow h) \<le> length (stream h)"
  shows "read_checked f i (length xs) h = Some (Some xs, adv (length (concat (map w xs))) h)"
  using assms
proof (induction xs arbitrary: i h)
  case (Cons x xs)
  have x: "f i h = Some (Some x, adv (length (w x)) h)"
    using Cons.prems by (intro Cons.prems(1)) auto
  have "read_checked f (Suc i) (length xs) (adv (length (w x)) h) =
      Some (Some xs, adv (length (concat (map w xs))) (adv (length (w x)) h))"
    using Cons.prems by (intro Cons.IH) auto
  with x Cons.prems(2) show ?case by simp
qed simp

lemma read_while_items:
  assumes item: "\<And>i x h r. x \<in> set xs \<Longrightarrow> inv h \<Longrightarrow> stream h = w x @ r \<Longrightarrow> length (w x) \<le> unat (allow h)
      \<Longrightarrow> unat (allow h) \<le> length (stream h) \<Longrightarrow> unat (allow h) \<le> limit
      \<Longrightarrow> f i h = Some (Some x, adv (length (w x)) h)"
    and pos: "\<And>x. x \<in> set xs \<Longrightarrow> w x \<noteq> []"
    and "inv h" "stream h = concat (map w xs) @ rest" "unat (allow h) = length (concat (map w xs))"
    and "length (concat (map w xs)) \<le> limit"
  shows "read_while func f i h = Some (Some xs, adv (length (concat (map w xs))) h)"
  using assms
proof (induction xs arbitrary: i h)
  case Nil
  then have "allow h = 0" by (simp add: unat_eq_0)
  then show ?case using Nil.prems by (subst read_while.simps) simp
next
  case (Cons x xs)
  have x: "f i h = Some (Some x, adv (length (w x)) h)"
    using Cons.prems by (intro Cons.prems(1)) auto
  have "read_while func f (Suc i) (adv (length (w x)) h) =
      Some (Some xs, adv (length (concat (map w xs))) (adv (length (w x)) h))"
    using Cons.prems by (intro Cons.IH) auto
  moreover have "0 < length (w x)"
    using Cons.prems(2) by simp
  ultimately show ?case
    using x Cons.prems(3-5) by (subst read_while.simps) (simp add: word_less_nat_alt)
qed

lemma read_steps_items:
  assumes item: "\<And>i x h r. x \<in> set xs \<Longrightarrow> inv h \<Longrightarrow> stream h = w x @ r \<Longrightarrow> length (w x) \<le> unat (allow h)
      \<Longrightarrow> f i h = Some (x, adv (length (w x)) h)"
    and size: "\<And>x. x \<in> set xs \<Longrightarrow> length (w x) = unat step" and "0 < unat step"
    and "inv h" "stream h = concat (map w xs) @ rest" "unat (allow h) = length (concat (map w xs))"
    and "unat len = length (concat (map w xs))"
  shows "read_steps step f i len h = Some (xs, adv (length (concat (map w xs))) h)"
  using assms
proof (induction xs arbitrary: i h len)
  case Nil
  then have "len = 0" by (simp add: unat_eq_0)
  then show ?case using Nil.prems by (subst read_steps.simps) simp
next
  case (Cons x xs)
  have x: "f i h = Some (x, adv (length (w x)) h)"
    using Cons.prems by (intro Cons.prems(1)) auto
  have "step \<le> len"
    using Cons.prems by (simp add: word_le_nat_alt)
  then have "read_steps step f (Suc i) (len - step) (adv (length (w x)) h) =
      Some (xs, adv (length (concat (map w xs))) (adv (length (w x)) h))"
    using Cons.prems by (intro Cons.IH) (auto simp: unat_sub)
  then show ?case
    using x Cons.prems(3-7) by (subst read_steps.simps) (simp add: word_less_nat_alt Cons.prems(2))
qed

end

end
