(* ===== verification/Capwap_Elements_A.thy ===== *)
theory Capwap_Elements_A
  imports Capwap_Message_IO
begin

text \<open>
  Message elements of \<^verbatim>\<open>common/capwap_element_*.c\<close>, types 1 to 18. Every element has its C
  structure as a record, its \<open>create\<close> and \<open>parsing\<close> functions, the values it can carry (\<open>_valid\<close>) and
  the wire format the two functions agree on (\<open>_wire\<close>). \<open>create\<close> writes the wire format through any
  writer, and \<open>parsing\<close> reads it back through any reader. A result \<open>Some (None, h)\<close> of \<open>parsing\<close> is
  the NULL pointer with which the C function rejects its input. Checks of the \<open>data\<close>, \<open>handle\<close> and
  \<open>func\<close> pointers for NULL have no counterpart, since these arguments are values here.
\<close>

definition IS_VALID_RADIOID :: "u8 \<Rightarrow> bool" where
  "IS_VALID_RADIOID x \<longleftrightarrow> 1 \<le> x \<and> x \<le> 31"

definition IS_VALID_WLANID :: "u8 \<Rightarrow> bool" where
  "IS_VALID_WLANID x \<longleftrightarrow> 1 \<le> x \<and> x \<le> 16"

definition IS_VALID_MACADDRESS_LENGTH :: "u8 \<Rightarrow> bool" where
  "IS_VALID_MACADDRESS_LENGTH x \<longleftrightarrow> x = 6 \<or> x = 8"

lemma IS_VALID_MACADDRESS_LENGTH_pos [simp]: "IS_VALID_MACADDRESS_LENGTH x \<Longrightarrow> 0 < unat x"
  by (auto simp: IS_VALID_MACADDRESS_LENGTH_def)

subsection \<open>AC Descriptor (type 1)\<close>

record capwap_acdescriptor_desc_subelement =
  acdescriptor_desc_vendor :: u32
  acdescriptor_desc_type :: u16
  acdescriptor_desc_length :: u16
  acdescriptor_desc_data :: "u8 list option"

text \<open>The bodies of the two loops over \<open>descsubelement\<close>; the array is cleared when it grows.\<close>

definition acdescriptor_desc_write where
  "acdescriptor_desc_write func d h = do {
     ASSERT (acdescriptor_desc_length d > 0);
     ASSERT (acdescriptor_desc_data d \<noteq> None);
     (_, h) \<leftarrow> write_u32 func h (acdescriptor_desc_vendor d);
     (_, h) \<leftarrow> write_u16 func h (acdescriptor_desc_type d);
     (_, h) \<leftarrow> write_u16 func h (acdescriptor_desc_length d);
     (_, h) \<leftarrow> write_block func h (acdescriptor_desc_data d) (acdescriptor_desc_length d);
     Some h }"

definition acdescriptor_desc_read where
  "acdescriptor_desc_read func m i h = do {
     (vendor, h) \<leftarrow> get_u32 func 0 h;
     (type, h) \<leftarrow> get_u16 func 0 h;
     (dlen, h) \<leftarrow> get_u16 func 0 h;
     if type \<noteq> 4 \<and> type \<noteq> 5 then Some (None, h)
     else (let len = read_ready func h in
       if 1024 < len \<or> len < dlen then Some (None, h)
       else do {
         (data, h) \<leftarrow> get_block func (junk_bytes m (i * 65536) (unat dlen)) dlen h;
         Some (Some \<lparr>acdescriptor_desc_vendor = vendor, acdescriptor_desc_type = type,
           acdescriptor_desc_length = dlen, acdescriptor_desc_data = Some data\<rparr>, h) }) }"

definition acdescriptor_desc_valid where
  "acdescriptor_desc_valid d \<longleftrightarrow>
     (acdescriptor_desc_type d = 4 \<or> acdescriptor_desc_type d = 5) \<and> acdescriptor_desc_length d > 0 \<and>
     (case acdescriptor_desc_data d of None \<Rightarrow> False
      | Some s \<Rightarrow> length s = unat (acdescriptor_desc_length d))"

definition acdescriptor_desc_wire :: "capwap_acdescriptor_desc_subelement \<Rightarrow> u8 list" where
  "acdescriptor_desc_wire d = u32_bytes (acdescriptor_desc_vendor d) @ u16_bytes (acdescriptor_desc_type d) @
     u16_bytes (acdescriptor_desc_length d) @ the (acdescriptor_desc_data d)"

lemma acdescriptor_desc_wire_nonempty [simp]: "acdescriptor_desc_wire d \<noteq> []"
  by (simp add: acdescriptor_desc_wire_def u32_bytes_def)

record capwap_acdescriptor_element =
  acdescriptor_stations :: u16
  acdescriptor_stationlimit :: u16
  acdescriptor_activewtp :: u16
  acdescriptor_maxwtp :: u16
  acdescriptor_security :: u8
  acdescriptor_rmacfield :: u8
  acdescriptor_dtlspolicy :: u8
  acdescriptor_descsubelement :: "capwap_acdescriptor_desc_subelement list option"

definition capwap_acdescriptor_element_create where
  "capwap_acdescriptor_element_create (e :: capwap_acdescriptor_element) func h = do {
     ASSERT (acdescriptor_security e AND NOT 0x06 = 0);
     ASSERT (acdescriptor_dtlspolicy e AND NOT 0x06 = 0);
     ASSERT (acdescriptor_rmacfield e = 1 \<or> acdescriptor_rmacfield e = 2);
     ASSERT (acdescriptor_descsubelement e \<noteq> None);
     (_, h) \<leftarrow> write_u16 func h (acdescriptor_stations e);
     (_, h) \<leftarrow> write_u16 func h (acdescriptor_stationlimit e);
     (_, h) \<leftarrow> write_u16 func h (acdescriptor_activewtp e);
     (_, h) \<leftarrow> write_u16 func h (acdescriptor_maxwtp e);
     (_, h) \<leftarrow> write_u8 func h (acdescriptor_security e);
     (_, h) \<leftarrow> write_u8 func h (acdescriptor_rmacfield e);
     (_, h) \<leftarrow> write_u8 func h 0;
     (_, h) \<leftarrow> write_u8 func h (acdescriptor_dtlspolicy e);
     descs \<leftarrow> acdescriptor_descsubelement e;
     h \<leftarrow> write_each (acdescriptor_desc_write func) descs h;
     Some h }"

definition capwap_acdescriptor_element_parsing where
  "capwap_acdescriptor_element_parsing (m :: junk) func h =
     (if read_ready func h < 12 then Some (None, h)
      else do {
        (stations, h) \<leftarrow> get_u16 func 0 h;
        (stationlimit, h) \<leftarrow> get_u16 func 0 h;
        (activewtp, h) \<leftarrow> get_u16 func 0 h;
        (maxwtp, h) \<leftarrow> get_u16 func 0 h;
        if stationlimit < stations then Some (None, h) else
        if maxwtp < activewtp then Some (None, h)
        else do {
          (security, h) \<leftarrow> get_u8 func 0 h;
          (rmacfield, h) \<leftarrow> get_u8 func 0 h;
          (_, h) \<leftarrow> read_u8 func h;
          (dtlspolicy, h) \<leftarrow> get_u8 func 0 h;
          if security AND NOT 0x06 \<noteq> 0 then Some (None, h) else
          if dtlspolicy AND NOT 0x06 \<noteq> 0 then Some (None, h) else
          if rmacfield \<noteq> 1 \<and> rmacfield \<noteq> 2 then Some (None, h)
          else do {
            (descs, h) \<leftarrow> read_while func (acdescriptor_desc_read func m) 0 h;
            Some (map_option (\<lambda>ds. \<lparr>acdescriptor_stations = stations, acdescriptor_stationlimit = stationlimit,
              acdescriptor_activewtp = activewtp, acdescriptor_maxwtp = maxwtp, acdescriptor_security = security,
              acdescriptor_rmacfield = rmacfield, acdescriptor_dtlspolicy = dtlspolicy,
              acdescriptor_descsubelement = Some ds\<rparr>) descs, h) } } })"

definition acdescriptor_valid where
  "acdescriptor_valid e \<longleftrightarrow> acdescriptor_stations e \<le> acdescriptor_stationlimit e \<and> acdescriptor_activewtp e \<le> acdescriptor_maxwtp e \<and>
     acdescriptor_security e AND NOT 0x06 = 0 \<and> acdescriptor_dtlspolicy e AND NOT 0x06 = 0 \<and>
     (acdescriptor_rmacfield e = 1 \<or> acdescriptor_rmacfield e = 2) \<and>
     (case (acdescriptor_descsubelement e) of None \<Rightarrow> False | Some ds \<Rightarrow>
        list_all acdescriptor_desc_valid ds \<and> length (concat (map acdescriptor_desc_wire ds)) \<le> 1024)"

definition acdescriptor_wire :: "capwap_acdescriptor_element \<Rightarrow> u8 list" where
  "acdescriptor_wire e =
     u16_bytes (acdescriptor_stations e) @ u16_bytes (acdescriptor_stationlimit e) @
     u16_bytes (acdescriptor_activewtp e) @ u16_bytes (acdescriptor_maxwtp e) @
     [acdescriptor_security e, acdescriptor_rmacfield e, 0, acdescriptor_dtlspolicy e] @
     concat (map acdescriptor_desc_wire (the (acdescriptor_descsubelement e)))"

subsection \<open>AC IPv4 List (type 2)\<close>

record capwap_acipv4list_element =
  acipv4list_addresses :: "u8 list list"

definition capwap_acipv4list_element_create where
  "capwap_acipv4list_element_create (e :: capwap_acipv4list_element) func h = do {
     h \<leftarrow> write_each (\<lambda>a h. do { (_, h) \<leftarrow> write_block func h (Some a) 4; Some h }) (acipv4list_addresses e) h;
     Some h }"

definition capwap_acipv4list_element_parsing where
  "capwap_acipv4list_element_parsing (m :: junk) func h =
     (let len = read_ready func h in
     if 4 \<le> len \<and> len \<le> 1024 * 4 \<and> len mod 4 \<noteq> 0 then Some (None, h)
     else do {
       (addresses, h) \<leftarrow>
         read_steps 4 (\<lambda>i. get_block func (junk_bytes m (4 * i) 4) 4) 0 len h;
       Some (Some \<lparr>acipv4list_addresses = addresses\<rparr>, h) })"

definition acipv4list_valid where
  "acipv4list_valid e \<longleftrightarrow> (\<forall>a\<in>set (acipv4list_addresses e). length a = 4) \<and> 4 * length (acipv4list_addresses e) < 65536"

definition acipv4list_wire :: "capwap_acipv4list_element \<Rightarrow> u8 list" where
  "acipv4list_wire e =
     concat (acipv4list_addresses e)"

subsection \<open>AC IPv6 List (type 3)\<close>

record capwap_acipv6list_element =
  acipv6list_addresses :: "u8 list list"

definition capwap_acipv6list_element_create where
  "capwap_acipv6list_element_create (e :: capwap_acipv6list_element) func h = do {
     h \<leftarrow> write_each (\<lambda>a h. do { (_, h) \<leftarrow> write_block func h (Some a) 16; Some h }) (acipv6list_addresses e) h;
     Some h }"

definition capwap_acipv6list_element_parsing where
  "capwap_acipv6list_element_parsing (m :: junk) func h =
     (let len = read_ready func h in
     if 16 \<le> len \<and> len \<le> 1024 * 16 \<and> len mod 16 \<noteq> 0 then Some (None, h)
     else do {
       (addresses, h) \<leftarrow>
         read_steps 16 (\<lambda>i. get_block func (junk_bytes m (16 * i) 16) 16) 0 len h;
       Some (Some \<lparr>acipv6list_addresses = addresses\<rparr>, h) })"

definition acipv6list_valid where
  "acipv6list_valid e \<longleftrightarrow> (\<forall>a\<in>set (acipv6list_addresses e). length a = 16) \<and> 16 * length (acipv6list_addresses e) < 65536"

definition acipv6list_wire :: "capwap_acipv6list_element \<Rightarrow> u8 list" where
  "acipv6list_wire e =
     concat (acipv6list_addresses e)"

subsection \<open>AC Name (type 4)\<close>

record capwap_acname_element =
  acname_name :: "u8 list option"

definition capwap_acname_element_create where
  "capwap_acname_element_create (e :: capwap_acname_element) func h = do {
     ASSERT (acname_name e \<noteq> None);
     name \<leftarrow> acname_name e;
     (_, h) \<leftarrow> write_block func h (Some name) (of_nat (c_strlen name));
     Some h }"

definition capwap_acname_element_parsing where
  "capwap_acname_element_parsing (m :: junk) func h =
     (let len = read_ready func h in
     if len < 1 \<or> 512 < len then Some (None, h)
     else do {
       (name, h) \<leftarrow> get_block func (junk_bytes m 0 (unat len)) len h;
       Some (Some \<lparr>acname_name = Some name\<rparr>, h) })"

definition acname_valid where
  "acname_valid e \<longleftrightarrow> (case (acname_name e) of None \<Rightarrow> False | Some s \<Rightarrow> 0 \<notin> set s \<and> s \<noteq> [] \<and> length s \<le> 512)"

definition acname_wire :: "capwap_acname_element \<Rightarrow> u8 list" where
  "acname_wire e =
     the (acname_name e)"

subsection \<open>AC Name with Priority (type 5)\<close>

record capwap_acnamepriority_element =
  acnamepriority_priority :: u8
  acnamepriority_name :: "u8 list option"

definition capwap_acnamepriority_element_create where
  "capwap_acnamepriority_element_create (e :: capwap_acnamepriority_element) func h = do {
     (_, h) \<leftarrow> write_u8 func h (acnamepriority_priority e);
     name \<leftarrow> acnamepriority_name e;
     (_, h) \<leftarrow> write_block func h (Some name) (of_nat (c_strlen name));
     Some h }"

definition capwap_acnamepriority_element_parsing where
  "capwap_acnamepriority_element_parsing (m :: junk) func h =
     (let len = read_ready func h - 1 in
     if len < 1 \<or> 512 < len then Some (None, h)
     else do {
       (priority, h) \<leftarrow> get_u8 func (of_nat (m 0)) h;
       (name, h) \<leftarrow> get_block func (junk_bytes m 1 (unat len)) len h;
       Some (Some \<lparr>acnamepriority_priority = priority, acnamepriority_name = Some name\<rparr>, h) })"

definition acnamepriority_valid where
  "acnamepriority_valid e \<longleftrightarrow> (case (acnamepriority_name e) of None \<Rightarrow> False | Some s \<Rightarrow> 0 \<notin> set s \<and> s \<noteq> [] \<and> length s \<le> 512)"

definition acnamepriority_wire :: "capwap_acnamepriority_element \<Rightarrow> u8 list" where
  "acnamepriority_wire e =
     [acnamepriority_priority e] @ the (acnamepriority_name e)"

subsection \<open>AC Timestamp (type 6)\<close>

record capwap_actimestamp_element =
  actimestamp_timestamp :: u32

definition capwap_actimestamp_element_create where
  "capwap_actimestamp_element_create (e :: capwap_actimestamp_element) func h = do {
     (_, h) \<leftarrow> write_u32 func h (actimestamp_timestamp e);
     Some h }"

definition capwap_actimestamp_element_parsing where
  "capwap_actimestamp_element_parsing (m :: junk) func h =
     (if read_ready func h \<noteq> 4 then Some (None, h)
      else do {
        (timestamp, h) \<leftarrow> get_u32 func (of_nat (m 0)) h;
        Some (Some \<lparr>actimestamp_timestamp = timestamp\<rparr>, h) })"

definition actimestamp_wire :: "capwap_actimestamp_element \<Rightarrow> u8 list" where
  "actimestamp_wire e =
     u32_bytes (actimestamp_timestamp e)"

subsection \<open>Add MAC ACL Entry (type 7)\<close>

record capwap_addmacacl_element =
  addmacacl_entry :: u8
  addmacacl_length :: u8
  addmacacl_address :: "u8 list option"

definition capwap_addmacacl_element_create where
  "capwap_addmacacl_element_create (e :: capwap_addmacacl_element) func h = do {
     ASSERT (addmacacl_entry e > 0);
     ASSERT (IS_VALID_MACADDRESS_LENGTH (addmacacl_length e));
     (_, h) \<leftarrow> write_u8 func h (addmacacl_entry e);
     (_, h) \<leftarrow> write_u8 func h (addmacacl_length e);
     (_, h) \<leftarrow> write_block func h (addmacacl_address e) (of_nat (unat (addmacacl_entry e) * unat (addmacacl_length e)));
     Some h }"

definition capwap_addmacacl_element_parsing where
  "capwap_addmacacl_element_parsing (m :: junk) func h =
     (let len = read_ready func h in
     if len < 8 then Some (None, h)
     else do {
       (let len = len - 2 in
       do {
         (entry, h) \<leftarrow> get_u8 func 0 h;
         (dlen, h) \<leftarrow> get_u8 func 0 h;
         if entry = 0 then Some (None, h) else
         if \<not> IS_VALID_MACADDRESS_LENGTH dlen then Some (None, h) else
         if unat len \<noteq> unat entry * unat dlen then Some (None, h)
         else do {
           (address, h) \<leftarrow> get_block func (junk_bytes m 0 (unat len)) len h;
           Some (Some \<lparr>addmacacl_entry = entry, addmacacl_length = dlen,
              addmacacl_address = Some address\<rparr>, h) } }) })"

definition addmacacl_valid where
  "addmacacl_valid e \<longleftrightarrow> addmacacl_entry e > 0 \<and> IS_VALID_MACADDRESS_LENGTH (addmacacl_length e) \<and>
     (case (addmacacl_address e) of None \<Rightarrow> False | Some a \<Rightarrow> length a = unat (addmacacl_entry e) * unat (addmacacl_length e))"

definition addmacacl_wire :: "capwap_addmacacl_element \<Rightarrow> u8 list" where
  "addmacacl_wire e =
     [addmacacl_entry e] @ [addmacacl_length e] @ the (addmacacl_address e)"

subsection \<open>Add Station (type 8)\<close>

record capwap_addstation_element =
  addstation_radioid :: u8
  addstation_length :: u8
  addstation_address :: "u8 list option"
  addstation_vlan :: "u8 list option"

definition capwap_addstation_element_create where
  "capwap_addstation_element_create (e :: capwap_addstation_element) func h = do {
     ASSERT (IS_VALID_RADIOID (addstation_radioid e));
     ASSERT (IS_VALID_MACADDRESS_LENGTH (addstation_length e));
     (_, h) \<leftarrow> write_u8 func h (addstation_radioid e);
     (_, h) \<leftarrow> write_u8 func h (addstation_length e);
     (_, h) \<leftarrow> write_block func h (addstation_address e) (ucast (addstation_length e));
     (case (addstation_vlan e) of
        None \<Rightarrow> Some h
      | Some vlan \<Rightarrow>
          if c_str vlan = [] then Some h
          else do {
            let len = of_nat (c_strlen vlan);
            ASSERT (len \<le> 512);
            (_, h) \<leftarrow> write_block func h (Some vlan) len;
            Some h }) }"

definition capwap_addstation_element_parsing where
  "capwap_addstation_element_parsing (m :: junk) func h =
     (let len = read_ready func h in
     if len < 8 then Some (None, h)
     else do {
       (let len = len - 2 in
       do {
         (radioid, h) \<leftarrow> get_u8 func 0 h;
         (dlen, h) \<leftarrow> get_u8 func 0 h;
         if \<not> IS_VALID_RADIOID radioid then Some (None, h) else
         if \<not> IS_VALID_MACADDRESS_LENGTH dlen \<or> len < ucast dlen then Some (None, h)
         else do {
           (address, h) \<leftarrow> get_block func (junk_bytes m 0 (unat dlen)) (ucast dlen) h;
           let len = len - ucast dlen;
           if 0 < len then
             if len \<le> 512 then do {
               (vlan, h) \<leftarrow> get_block func (junk_bytes m 256 (unat len)) len h;
               Some (Some \<lparr>addstation_radioid = radioid, addstation_length = dlen,
                 addstation_address = Some address, addstation_vlan = Some vlan\<rparr>, h) }
             else Some (None, h)
           else Some (Some \<lparr>addstation_radioid = radioid, addstation_length = dlen,
             addstation_address = Some address, addstation_vlan = None\<rparr>, h) } }) })"

definition addstation_valid where
  "addstation_valid e \<longleftrightarrow> IS_VALID_RADIOID (addstation_radioid e) \<and> IS_VALID_MACADDRESS_LENGTH (addstation_length e) \<and>
     (case (addstation_address e) of None \<Rightarrow> False | Some a \<Rightarrow> length a = unat (addstation_length e)) \<and>
     (case (addstation_vlan e) of None \<Rightarrow> True | Some s \<Rightarrow> 0 \<notin> set s \<and> s \<noteq> [] \<and> length s \<le> 512)"

definition addstation_wire :: "capwap_addstation_element \<Rightarrow> u8 list" where
  "addstation_wire e =
     [addstation_radioid e, addstation_length e] @ the (addstation_address e) @
     (case (addstation_vlan e) of None \<Rightarrow> [] | Some s \<Rightarrow> s)"

subsection \<open>CAPWAP Control IPv4 Address (type 10)\<close>

record capwap_controlipv4_element =
  controlipv4_address :: "u8 list"
  controlipv4_wtpcount :: u16

definition capwap_controlipv4_element_create where
  "capwap_controlipv4_element_create (e :: capwap_controlipv4_element) func h = do {
     (_, h) \<leftarrow> write_block func h (Some (controlipv4_address e)) 4;
     (_, h) \<leftarrow> write_u16 func h (controlipv4_wtpcount e);
     Some h }"

definition capwap_controlipv4_element_parsing where
  "capwap_controlipv4_element_parsing (m :: junk) func h =
     (if read_ready func h \<noteq> 6 then Some (None, h)
      else do {
        (address, h) \<leftarrow> get_block func (junk_bytes m 1 4) 4 h;
        (wtpcount, h) \<leftarrow> get_u16 func (of_nat (m 0)) h;
        Some (Some \<lparr>controlipv4_address = address, controlipv4_wtpcount = wtpcount\<rparr>, h) })"

definition controlipv4_valid where
  "controlipv4_valid e \<longleftrightarrow> length (controlipv4_address e) = 4"

definition controlipv4_wire :: "capwap_controlipv4_element \<Rightarrow> u8 list" where
  "controlipv4_wire e =
     controlipv4_address e @ u16_bytes (controlipv4_wtpcount e)"

subsection \<open>CAPWAP Control IPv6 Address (type 11)\<close>

record capwap_controlipv6_element =
  controlipv6_address :: "u8 list"
  controlipv6_wtpcount :: u16

definition capwap_controlipv6_element_create where
  "capwap_controlipv6_element_create (e :: capwap_controlipv6_element) func h = do {
     (_, h) \<leftarrow> write_block func h (Some (controlipv6_address e)) 16;
     (_, h) \<leftarrow> write_u16 func h (controlipv6_wtpcount e);
     Some h }"

definition capwap_controlipv6_element_parsing where
  "capwap_controlipv6_element_parsing (m :: junk) func h =
     (if read_ready func h \<noteq> 18 then Some (None, h)
      else do {
        (address, h) \<leftarrow> get_block func (junk_bytes m 1 16) 16 h;
        (wtpcount, h) \<leftarrow> get_u16 func (of_nat (m 0)) h;
        Some (Some \<lparr>controlipv6_address = address, controlipv6_wtpcount = wtpcount\<rparr>, h) })"

definition controlipv6_valid where
  "controlipv6_valid e \<longleftrightarrow> length (controlipv6_address e) = 16"

definition controlipv6_wire :: "capwap_controlipv6_element \<Rightarrow> u8 list" where
  "controlipv6_wire e =
     controlipv6_address e @ u16_bytes (controlipv6_wtpcount e)"

subsection \<open>CAPWAP Timers (type 12)\<close>

record capwap_timers_element =
  timers_discovery :: u8
  timers_echorequest :: u8

definition capwap_timers_element_create where
  "capwap_timers_element_create (e :: capwap_timers_element) func h = do {
     (_, h) \<leftarrow> write_u8 func h (timers_discovery e);
     (_, h) \<leftarrow> write_u8 func h (timers_echorequest e);
     Some h }"

definition capwap_timers_element_parsing where
  "capwap_timers_element_parsing (m :: junk) func h =
     (if read_ready func h \<noteq> 2 then Some (None, h)
      else do {
        (discovery, h) \<leftarrow> get_u8 func (of_nat (m 0)) h;
        (echorequest, h) \<leftarrow> get_u8 func (of_nat (m 1)) h;
        Some (Some \<lparr>timers_discovery = discovery, timers_echorequest = echorequest\<rparr>, h) })"

definition timers_wire :: "capwap_timers_element \<Rightarrow> u8 list" where
  "timers_wire e =
     [timers_discovery e] @ [timers_echorequest e]"

subsection \<open>Data Transfer Data (type 13)\<close>

record capwap_datatransferdata_element =
  datatransferdata_type :: u8
  datatransferdata_mode :: u8
  datatransferdata_length :: u16
  datatransferdata_data :: "u8 list option"

definition capwap_datatransferdata_element_create where
  "capwap_datatransferdata_element_create (e :: capwap_datatransferdata_element) func h = do {
     ASSERT (datatransferdata_type e = 1 \<or> datatransferdata_type e = 2 \<or> datatransferdata_type e = 5);
     ASSERT (datatransferdata_mode e = 1 \<or> datatransferdata_mode e = 2);
     ASSERT (datatransferdata_length e > 0);
     (_, h) \<leftarrow> write_u8 func h (datatransferdata_type e);
     (_, h) \<leftarrow> write_u8 func h (datatransferdata_mode e);
     (_, h) \<leftarrow> write_u16 func h (datatransferdata_length e);
     (_, h) \<leftarrow> write_block func h (datatransferdata_data e) (datatransferdata_length e);
     Some h }"

definition capwap_datatransferdata_element_parsing where
  "capwap_datatransferdata_element_parsing (m :: junk) func h =
     (let len = read_ready func h in
     if len < 5 then Some (None, h)
     else do {
       (let len = len - 4 in
       do {
         (type, h) \<leftarrow> get_u8 func 0 h;
         (mode, h) \<leftarrow> get_u8 func 0 h;
         (dlen, h) \<leftarrow> get_u16 func 0 h;
         if type \<noteq> 1 \<and> type \<noteq> 2 \<and> type \<noteq> 5 then Some (None, h) else
         if mode \<noteq> 1 \<and> mode \<noteq> 2 then Some (None, h) else
         if len \<noteq> dlen then Some (None, h)
         else do {
           (data, h) \<leftarrow> get_block func (junk_bytes m 0 (unat len)) len h;
           Some (Some \<lparr>datatransferdata_type = type, datatransferdata_mode = mode,
              datatransferdata_length = dlen, datatransferdata_data = Some data\<rparr>, h) } }) })"

definition datatransferdata_valid where
  "datatransferdata_valid e \<longleftrightarrow> (datatransferdata_type e = 1 \<or> datatransferdata_type e = 2 \<or> datatransferdata_type e = 5) \<and> (datatransferdata_mode e = 1 \<or> datatransferdata_mode e = 2) \<and> datatransferdata_length e > 0 \<and>
     unat (datatransferdata_length e) < 65532 \<and>
     (case (datatransferdata_data e) of None \<Rightarrow> False | Some s \<Rightarrow> length s = unat (datatransferdata_length e))"

definition datatransferdata_wire :: "capwap_datatransferdata_element \<Rightarrow> u8 list" where
  "datatransferdata_wire e =
     [datatransferdata_type e] @ [datatransferdata_mode e] @
     u16_bytes (datatransferdata_length e) @ the (datatransferdata_data e)"

subsection \<open>Data Transfer Mode (type 14)\<close>

record capwap_datatransfermode_element =
  datatransfermode_mode :: u8

definition capwap_datatransfermode_element_create where
  "capwap_datatransfermode_element_create (e :: capwap_datatransfermode_element) func h = do {
     ASSERT (datatransfermode_mode e = 1 \<or> datatransfermode_mode e = 2);
     (_, h) \<leftarrow> write_u8 func h (datatransfermode_mode e);
     Some h }"

definition capwap_datatransfermode_element_parsing where
  "capwap_datatransfermode_element_parsing (m :: junk) func h =
     (if read_ready func h \<noteq> 1 then Some (None, h)
      else do {
        (mode, h) \<leftarrow> get_u8 func (of_nat (m 0)) h;
        if mode \<noteq> 1 \<and> mode \<noteq> 2 then Some (None, h) else
        Some (Some \<lparr>datatransfermode_mode = mode\<rparr>, h) })"

definition datatransfermode_valid where
  "datatransfermode_valid e \<longleftrightarrow> datatransfermode_mode e = 1 \<or> datatransfermode_mode e = 2"

definition datatransfermode_wire :: "capwap_datatransfermode_element \<Rightarrow> u8 list" where
  "datatransfermode_wire e =
     [datatransfermode_mode e]"

subsection \<open>Decryption Error Report (type 15)\<close>

record capwap_decrypterrorreport_element =
  decrypterrorreport_radioid :: u8
  decrypterrorreport_entry :: u8
  decrypterrorreport_length :: u8
  decrypterrorreport_address :: "u8 list option"

definition capwap_decrypterrorreport_element_create where
  "capwap_decrypterrorreport_element_create (e :: capwap_decrypterrorreport_element) func h = do {
     ASSERT (IS_VALID_RADIOID (decrypterrorreport_radioid e));
     ASSERT (decrypterrorreport_entry e > 0);
     ASSERT (IS_VALID_MACADDRESS_LENGTH (decrypterrorreport_length e));
     (_, h) \<leftarrow> write_u8 func h (decrypterrorreport_radioid e);
     (_, h) \<leftarrow> write_u8 func h (decrypterrorreport_entry e);
     (_, h) \<leftarrow> write_u8 func h (decrypterrorreport_length e);
     (_, h) \<leftarrow> write_block func h (decrypterrorreport_address e) (of_nat (unat (decrypterrorreport_entry e) * unat (decrypterrorreport_length e)));
     Some h }"

definition capwap_decrypterrorreport_element_parsing where
  "capwap_decrypterrorreport_element_parsing (m :: junk) func h =
     (let len = read_ready func h in
     if len < 9 then Some (None, h)
     else do {
       (let len = len - 3 in
       do {
         (radioid, h) \<leftarrow> get_u8 func 0 h;
         (entry, h) \<leftarrow> get_u8 func 0 h;
         (dlen, h) \<leftarrow> get_u8 func 0 h;
         if \<not> IS_VALID_RADIOID radioid then Some (None, h) else
         if entry = 0 then Some (None, h) else
         if \<not> IS_VALID_MACADDRESS_LENGTH dlen then Some (None, h) else
         if unat len \<noteq> unat entry * unat dlen then Some (None, h)
         else do {
           (address, h) \<leftarrow> get_block func (junk_bytes m 0 (unat len)) len h;
           Some (Some \<lparr>decrypterrorreport_radioid = radioid,
              decrypterrorreport_entry = entry, decrypterrorreport_length = dlen,
              decrypterrorreport_address = Some address\<rparr>, h) } }) })"

definition decrypterrorreport_valid where
  "decrypterrorreport_valid e \<longleftrightarrow> IS_VALID_RADIOID (decrypterrorreport_radioid e) \<and> decrypterrorreport_entry e > 0 \<and> IS_VALID_MACADDRESS_LENGTH (decrypterrorreport_length e) \<and>
     (case (decrypterrorreport_address e) of None \<Rightarrow> False | Some a \<Rightarrow> length a = unat (decrypterrorreport_entry e) * unat (decrypterrorreport_length e))"

definition decrypterrorreport_wire :: "capwap_decrypterrorreport_element \<Rightarrow> u8 list" where
  "decrypterrorreport_wire e =
     [decrypterrorreport_radioid e] @ [decrypterrorreport_entry e] @
     [decrypterrorreport_length e] @ the (decrypterrorreport_address e)"

subsection \<open>Decryption Error Report Period (type 16)\<close>

record capwap_decrypterrorreportperiod_element =
  decrypterrorreportperiod_radioid :: u8
  decrypterrorreportperiod_interval :: u16

definition capwap_decrypterrorreportperiod_element_create where
  "capwap_decrypterrorreportperiod_element_create (e :: capwap_decrypterrorreportperiod_element) func h = do {
     ASSERT (IS_VALID_RADIOID (decrypterrorreportperiod_radioid e));
     (_, h) \<leftarrow> write_u8 func h (decrypterrorreportperiod_radioid e);
     (_, h) \<leftarrow> write_u16 func h (decrypterrorreportperiod_interval e);
     Some h }"

definition capwap_decrypterrorreportperiod_element_parsing where
  "capwap_decrypterrorreportperiod_element_parsing (m :: junk) func h =
     (if read_ready func h \<noteq> 3 then Some (None, h)
      else do {
        (radioid, h) \<leftarrow> get_u8 func (of_nat (m 0)) h;
        (interval, h) \<leftarrow> get_u16 func (of_nat (m 1)) h;
        if \<not> IS_VALID_RADIOID radioid then Some (None, h) else
        Some (Some \<lparr>decrypterrorreportperiod_radioid = radioid,
          decrypterrorreportperiod_interval = interval\<rparr>, h) })"

definition decrypterrorreportperiod_valid where
  "decrypterrorreportperiod_valid e \<longleftrightarrow> IS_VALID_RADIOID (decrypterrorreportperiod_radioid e)"

definition decrypterrorreportperiod_wire :: "capwap_decrypterrorreportperiod_element \<Rightarrow> u8 list" where
  "decrypterrorreportperiod_wire e =
     [decrypterrorreportperiod_radioid e] @ u16_bytes (decrypterrorreportperiod_interval e)"

subsection \<open>Delete MAC ACL Entry (type 17)\<close>

record capwap_deletemacacl_element =
  deletemacacl_entry :: u8
  deletemacacl_length :: u8
  deletemacacl_address :: "u8 list option"

definition capwap_deletemacacl_element_create where
  "capwap_deletemacacl_element_create (e :: capwap_deletemacacl_element) func h = do {
     ASSERT (deletemacacl_entry e > 0);
     ASSERT (IS_VALID_MACADDRESS_LENGTH (deletemacacl_length e));
     (_, h) \<leftarrow> write_u8 func h (deletemacacl_entry e);
     (_, h) \<leftarrow> write_u8 func h (deletemacacl_length e);
     (_, h) \<leftarrow> write_block func h (deletemacacl_address e) (of_nat (unat (deletemacacl_entry e) * unat (deletemacacl_length e)));
     Some h }"

definition capwap_deletemacacl_element_parsing where
  "capwap_deletemacacl_element_parsing (m :: junk) func h =
     (let len = read_ready func h in
     if len < 8 then Some (None, h)
     else do {
       (let len = len - 2 in
       do {
         (entry, h) \<leftarrow> get_u8 func 0 h;
         (dlen, h) \<leftarrow> get_u8 func 0 h;
         if entry = 0 then Some (None, h) else
         if \<not> IS_VALID_MACADDRESS_LENGTH dlen then Some (None, h) else
         if unat len \<noteq> unat entry * unat dlen then Some (None, h)
         else do {
           (address, h) \<leftarrow> get_block func (junk_bytes m 0 (unat len)) len h;
           Some (Some \<lparr>deletemacacl_entry = entry, deletemacacl_length = dlen,
              deletemacacl_address = Some address\<rparr>, h) } }) })"

definition deletemacacl_valid where
  "deletemacacl_valid e \<longleftrightarrow> deletemacacl_entry e > 0 \<and> IS_VALID_MACADDRESS_LENGTH (deletemacacl_length e) \<and>
     (case (deletemacacl_address e) of None \<Rightarrow> False | Some a \<Rightarrow> length a = unat (deletemacacl_entry e) * unat (deletemacacl_length e))"

definition deletemacacl_wire :: "capwap_deletemacacl_element \<Rightarrow> u8 list" where
  "deletemacacl_wire e =
     [deletemacacl_entry e] @ [deletemacacl_length e] @ the (deletemacacl_address e)"

subsection \<open>Delete Station (type 18)\<close>

record capwap_deletestation_element =
  deletestation_radioid :: u8
  deletestation_length :: u8
  deletestation_address :: "u8 list option"

definition capwap_deletestation_element_create where
  "capwap_deletestation_element_create (e :: capwap_deletestation_element) func h = do {
     ASSERT (IS_VALID_RADIOID (deletestation_radioid e));
     ASSERT (IS_VALID_MACADDRESS_LENGTH (deletestation_length e));
     (_, h) \<leftarrow> write_u8 func h (deletestation_radioid e);
     (_, h) \<leftarrow> write_u8 func h (deletestation_length e);
     (_, h) \<leftarrow> write_block func h (deletestation_address e) (ucast (deletestation_length e));
     Some h }"

definition capwap_deletestation_element_parsing where
  "capwap_deletestation_element_parsing (m :: junk) func h =
     (let len = read_ready func h in
     if len < 8 then Some (None, h)
     else do {
       (let len = len - 2 in
       do {
         (radioid, h) \<leftarrow> get_u8 func 0 h;
         (dlen, h) \<leftarrow> get_u8 func 0 h;
         if \<not> IS_VALID_RADIOID radioid then Some (None, h) else
         if \<not> IS_VALID_MACADDRESS_LENGTH dlen \<or> len \<noteq> ucast dlen then Some (None, h)
         else do {
           (address, h) \<leftarrow> get_block func (junk_bytes m 0 (unat dlen)) (ucast dlen) h;
           Some (Some \<lparr>deletestation_radioid = radioid, deletestation_length = dlen,
              deletestation_address = Some address\<rparr>, h) } }) })"

definition deletestation_valid where
  "deletestation_valid e \<longleftrightarrow> IS_VALID_RADIOID (deletestation_radioid e) \<and> IS_VALID_MACADDRESS_LENGTH (deletestation_length e) \<and>
     (case (deletestation_address e) of None \<Rightarrow> False | Some a \<Rightarrow> length a = unat (deletestation_length e))"

definition deletestation_wire :: "capwap_deletestation_element \<Rightarrow> u8 list" where
  "deletestation_wire e =
     [deletestation_radioid e] @ [deletestation_length e] @ the (deletestation_address e)"

subsection \<open>Creating writes the wire format\<close>

context message_writer begin

lemma acdescriptor_desc_written:
  "acdescriptor_desc_valid d \<Longrightarrow> length (acdescriptor_desc_wire d) \<le> room h \<Longrightarrow>
   acdescriptor_desc_write func d h = Some (app (acdescriptor_desc_wire d) h)"
  by (auto simp: acdescriptor_desc_write_def acdescriptor_desc_wire_def acdescriptor_desc_valid_def
      word_less_nat_alt split: option.splits)

lemma acdescriptor_create:
  "acdescriptor_valid e \<Longrightarrow> length (acdescriptor_wire e) \<le> room h \<Longrightarrow>
   capwap_acdescriptor_element_create e func h = Some (app (acdescriptor_wire e) h)"
  by (auto simp: capwap_acdescriptor_element_create_def acdescriptor_wire_def acdescriptor_valid_def
      write_each_app [where w = acdescriptor_desc_wire, OF acdescriptor_desc_written]
      list_all_iff split: option.splits)

lemma acipv4list_create:
  "acipv4list_valid e \<Longrightarrow> length (acipv4list_wire e) \<le> room h \<Longrightarrow>
   capwap_acipv4list_element_create e func h = Some (app (acipv4list_wire e) h)"
  using write_each_app [where w = id and xs = "acipv4list_addresses e" and h = h
      and f = "\<lambda>a h. do { (_, h) \<leftarrow> write_block func h (Some a) 4; Some h }"]
  by (auto simp: capwap_acipv4list_element_create_def acipv4list_wire_def acipv4list_valid_def)

lemma acipv6list_create:
  "acipv6list_valid e \<Longrightarrow> length (acipv6list_wire e) \<le> room h \<Longrightarrow>
   capwap_acipv6list_element_create e func h = Some (app (acipv6list_wire e) h)"
  using write_each_app [where w = id and xs = "acipv6list_addresses e" and h = h
      and f = "\<lambda>a h. do { (_, h) \<leftarrow> write_block func h (Some a) 16; Some h }"]
  by (auto simp: capwap_acipv6list_element_create_def acipv6list_wire_def acipv6list_valid_def)

lemma acname_create:
  "acname_valid e \<Longrightarrow> length (acname_wire e) \<le> room h \<Longrightarrow>
   capwap_acname_element_create e func h = Some (app (acname_wire e) h)"
  by (auto simp: capwap_acname_element_create_def acname_wire_def acname_valid_def
      u16_nat Let_def split: option.splits)

lemma acnamepriority_create:
  "acnamepriority_valid e \<Longrightarrow> length (acnamepriority_wire e) \<le> room h \<Longrightarrow>
   capwap_acnamepriority_element_create e func h = Some (app (acnamepriority_wire e) h)"
  by (auto simp: capwap_acnamepriority_element_create_def acnamepriority_wire_def acnamepriority_valid_def
      u16_nat Let_def split: option.splits)

lemma actimestamp_create:
  "length (actimestamp_wire e) \<le> room h \<Longrightarrow>
   capwap_actimestamp_element_create e func h = Some (app (actimestamp_wire e) h)"
  by (auto simp: capwap_actimestamp_element_create_def actimestamp_wire_def)

lemma addmacacl_create:
  "addmacacl_valid e \<Longrightarrow> length (addmacacl_wire e) \<le> room h \<Longrightarrow>
   capwap_addmacacl_element_create e func h = Some (app (addmacacl_wire e) h)"
  by (auto simp: capwap_addmacacl_element_create_def addmacacl_wire_def addmacacl_valid_def
      u16_nat Let_def split: option.splits)

lemma addstation_create:
  "addstation_valid e \<Longrightarrow> length (addstation_wire e) \<le> room h \<Longrightarrow>
   capwap_addstation_element_create e func h = Some (app (addstation_wire e) h)"
  by (auto simp: capwap_addstation_element_create_def addstation_wire_def addstation_valid_def
      u16_nat Let_def split: option.splits)

lemma controlipv4_create:
  "controlipv4_valid e \<Longrightarrow> length (controlipv4_wire e) \<le> room h \<Longrightarrow>
   capwap_controlipv4_element_create e func h = Some (app (controlipv4_wire e) h)"
  by (auto simp: capwap_controlipv4_element_create_def controlipv4_wire_def controlipv4_valid_def
      u16_nat Let_def split: option.splits)

lemma controlipv6_create:
  "controlipv6_valid e \<Longrightarrow> length (controlipv6_wire e) \<le> room h \<Longrightarrow>
   capwap_controlipv6_element_create e func h = Some (app (controlipv6_wire e) h)"
  by (auto simp: capwap_controlipv6_element_create_def controlipv6_wire_def controlipv6_valid_def
      u16_nat Let_def split: option.splits)

lemma timers_create:
  "length (timers_wire e) \<le> room h \<Longrightarrow>
   capwap_timers_element_create e func h = Some (app (timers_wire e) h)"
  by (auto simp: capwap_timers_element_create_def timers_wire_def)

lemma datatransferdata_create:
  "datatransferdata_valid e \<Longrightarrow> length (datatransferdata_wire e) \<le> room h \<Longrightarrow>
   capwap_datatransferdata_element_create e func h = Some (app (datatransferdata_wire e) h)"
  by (auto simp: capwap_datatransferdata_element_create_def datatransferdata_wire_def datatransferdata_valid_def
      u16_nat Let_def split: option.splits)

lemma datatransfermode_create:
  "datatransfermode_valid e \<Longrightarrow> length (datatransfermode_wire e) \<le> room h \<Longrightarrow>
   capwap_datatransfermode_element_create e func h = Some (app (datatransfermode_wire e) h)"
  by (auto simp: capwap_datatransfermode_element_create_def datatransfermode_wire_def datatransfermode_valid_def
      u16_nat Let_def split: option.splits)

lemma decrypterrorreport_create:
  "decrypterrorreport_valid e \<Longrightarrow> length (decrypterrorreport_wire e) \<le> room h \<Longrightarrow>
   capwap_decrypterrorreport_element_create e func h = Some (app (decrypterrorreport_wire e) h)"
  by (auto simp: capwap_decrypterrorreport_element_create_def decrypterrorreport_wire_def decrypterrorreport_valid_def
      u16_nat Let_def split: option.splits)

lemma decrypterrorreportperiod_create:
  "decrypterrorreportperiod_valid e \<Longrightarrow> length (decrypterrorreportperiod_wire e) \<le> room h \<Longrightarrow>
   capwap_decrypterrorreportperiod_element_create e func h = Some (app (decrypterrorreportperiod_wire e) h)"
  by (auto simp: capwap_decrypterrorreportperiod_element_create_def decrypterrorreportperiod_wire_def decrypterrorreportperiod_valid_def
      u16_nat Let_def split: option.splits)

lemma deletemacacl_create:
  "deletemacacl_valid e \<Longrightarrow> length (deletemacacl_wire e) \<le> room h \<Longrightarrow>
   capwap_deletemacacl_element_create e func h = Some (app (deletemacacl_wire e) h)"
  by (auto simp: capwap_deletemacacl_element_create_def deletemacacl_wire_def deletemacacl_valid_def
      u16_nat Let_def split: option.splits)

lemma deletestation_create:
  "deletestation_valid e \<Longrightarrow> length (deletestation_wire e) \<le> room h \<Longrightarrow>
   capwap_deletestation_element_create e func h = Some (app (deletestation_wire e) h)"
  by (auto simp: capwap_deletestation_element_create_def deletestation_wire_def deletestation_valid_def
      u16_nat Let_def split: option.splits)

end

subsection \<open>Parsing reads the wire format\<close>

context message_reader begin

lemma acdescriptor_desc_parsed:
  assumes "inv h" "stream h = acdescriptor_desc_wire d @ r"
    and "length (acdescriptor_desc_wire d) \<le> unat (allow h)" "unat (allow h) \<le> 1024"
    and "acdescriptor_desc_valid d"
  shows "acdescriptor_desc_read func m i h = Some (Some d, adv (length (acdescriptor_desc_wire d)) h)"
  using assms
  by (cases d) (auto simp: acdescriptor_desc_read_def acdescriptor_desc_wire_def
      acdescriptor_desc_valid_def lengths Let_def split: option.splits)

lemma acdescriptor_parse:
  assumes "inv h" "stream h = acdescriptor_wire e @ rest" "unat (allow h) = length (acdescriptor_wire e)"
    "acdescriptor_valid e"
  shows "capwap_acdescriptor_element_parsing m func h = Some (Some e, adv (length (acdescriptor_wire e)) h)"
  using assms read_while_items [where w = acdescriptor_desc_wire and limit = 1024
      and xs = "the (acdescriptor_descsubelement e)" and rest = rest and h = "adv 12 h" and i = 0
      and f = "acdescriptor_desc_read func m"]
  by (cases e) (auto simp: capwap_acdescriptor_element_parsing_def acdescriptor_wire_def acdescriptor_valid_def
      acdescriptor_desc_parsed lengths list_all_iff split: option.splits)

lemma acipv4list_parse:
  assumes "inv h" "stream h = acipv4list_wire e @ rest" "unat (allow h) = length (acipv4list_wire e)"
    "acipv4list_valid e"
  shows "capwap_acipv4list_element_parsing m func h = Some (Some e, adv (length (acipv4list_wire e)) h)"
  using assms read_steps_items [where w = id and xs = "acipv4list_addresses e" and step = 4 and rest = rest
      and h = h and i = 0 and f = "\<lambda>i. get_block func (junk_bytes m (4 * i) 4) 4" and len = "allow h"]
    length_concat_const [of "acipv4list_addresses e" 4] u16_mod_0 [of "allow h" 4 "length (acipv4list_addresses e)"]
  by (cases e) (auto simp: capwap_acipv4list_element_parsing_def acipv4list_wire_def acipv4list_valid_def Let_def)

lemma acipv6list_parse:
  assumes "inv h" "stream h = acipv6list_wire e @ rest" "unat (allow h) = length (acipv6list_wire e)"
    "acipv6list_valid e"
  shows "capwap_acipv6list_element_parsing m func h = Some (Some e, adv (length (acipv6list_wire e)) h)"
  using assms read_steps_items [where w = id and xs = "acipv6list_addresses e" and step = 16 and rest = rest
      and h = h and i = 0 and f = "\<lambda>i. get_block func (junk_bytes m (16 * i) 16) 16" and len = "allow h"]
    length_concat_const [of "acipv6list_addresses e" 16] u16_mod_0 [of "allow h" 16 "length (acipv6list_addresses e)"]
  by (cases e) (auto simp: capwap_acipv6list_element_parsing_def acipv6list_wire_def acipv6list_valid_def Let_def)

lemma acname_parse:
  assumes "inv h" "stream h = acname_wire e @ rest" "unat (allow h) = length (acname_wire e)"
    "acname_valid e"
  shows "capwap_acname_element_parsing m func h = Some (Some e, adv (length (acname_wire e)) h)"
  using assms
  by (cases e) (auto simp: capwap_acname_element_parsing_def acname_wire_def acname_valid_def
      lengths Let_def split: option.splits)

lemma acnamepriority_parse:
  assumes "inv h" "stream h = acnamepriority_wire e @ rest" "unat (allow h) = length (acnamepriority_wire e)"
    "acnamepriority_valid e"
  shows "capwap_acnamepriority_element_parsing m func h = Some (Some e, adv (length (acnamepriority_wire e)) h)"
  using assms
  by (cases e) (auto simp: capwap_acnamepriority_element_parsing_def acnamepriority_wire_def acnamepriority_valid_def
      lengths Let_def split: option.splits)

lemma actimestamp_parse:
  assumes "inv h" "stream h = actimestamp_wire e @ rest" "unat (allow h) = length (actimestamp_wire e)"
  shows "capwap_actimestamp_element_parsing m func h = Some (Some e, adv (length (actimestamp_wire e)) h)"
  using assms
  by (cases e) (auto simp: capwap_actimestamp_element_parsing_def actimestamp_wire_def
      lengths Let_def split: option.splits)

lemma addmacacl_parse:
  assumes "inv h" "stream h = addmacacl_wire e @ rest" "unat (allow h) = length (addmacacl_wire e)"
    "addmacacl_valid e"
  shows "capwap_addmacacl_element_parsing m func h = Some (Some e, adv (length (addmacacl_wire e)) h)"
  using assms
  by (cases e) (auto simp: capwap_addmacacl_element_parsing_def addmacacl_wire_def addmacacl_valid_def
      lengths Let_def IS_VALID_MACADDRESS_LENGTH_def split: option.splits)

lemma addstation_parse:
  assumes "inv h" "stream h = addstation_wire e @ rest" "unat (allow h) = length (addstation_wire e)"
    "addstation_valid e"
  shows "capwap_addstation_element_parsing m func h = Some (Some e, adv (length (addstation_wire e)) h)"
  using assms
  by (cases e) (auto simp: capwap_addstation_element_parsing_def addstation_wire_def addstation_valid_def
      lengths Let_def IS_VALID_MACADDRESS_LENGTH_def split: option.splits)

lemma controlipv4_parse:
  assumes "inv h" "stream h = controlipv4_wire e @ rest" "unat (allow h) = length (controlipv4_wire e)"
    "controlipv4_valid e"
  shows "capwap_controlipv4_element_parsing m func h = Some (Some e, adv (length (controlipv4_wire e)) h)"
  using assms
  by (cases e) (auto simp: capwap_controlipv4_element_parsing_def controlipv4_wire_def controlipv4_valid_def
      lengths Let_def split: option.splits)

lemma controlipv6_parse:
  assumes "inv h" "stream h = controlipv6_wire e @ rest" "unat (allow h) = length (controlipv6_wire e)"
    "controlipv6_valid e"
  shows "capwap_controlipv6_element_parsing m func h = Some (Some e, adv (length (controlipv6_wire e)) h)"
  using assms
  by (cases e) (auto simp: capwap_controlipv6_element_parsing_def controlipv6_wire_def controlipv6_valid_def
      lengths Let_def split: option.splits)

lemma timers_parse:
  assumes "inv h" "stream h = timers_wire e @ rest" "unat (allow h) = length (timers_wire e)"
  shows "capwap_timers_element_parsing m func h = Some (Some e, adv (length (timers_wire e)) h)"
  using assms
  by (cases e) (auto simp: capwap_timers_element_parsing_def timers_wire_def
      lengths Let_def split: option.splits)

lemma datatransferdata_parse:
  assumes "inv h" "stream h = datatransferdata_wire e @ rest" "unat (allow h) = length (datatransferdata_wire e)"
    "datatransferdata_valid e"
  shows "capwap_datatransferdata_element_parsing m func h = Some (Some e, adv (length (datatransferdata_wire e)) h)"
  using assms
  by (cases e) (auto simp: capwap_datatransferdata_element_parsing_def datatransferdata_wire_def datatransferdata_valid_def
      lengths Let_def split: option.splits)

lemma datatransfermode_parse:
  assumes "inv h" "stream h = datatransfermode_wire e @ rest" "unat (allow h) = length (datatransfermode_wire e)"
    "datatransfermode_valid e"
  shows "capwap_datatransfermode_element_parsing m func h = Some (Some e, adv (length (datatransfermode_wire e)) h)"
  using assms
  by (cases e) (auto simp: capwap_datatransfermode_element_parsing_def datatransfermode_wire_def datatransfermode_valid_def
      lengths Let_def split: option.splits)

lemma decrypterrorreport_parse:
  assumes "inv h" "stream h = decrypterrorreport_wire e @ rest" "unat (allow h) = length (decrypterrorreport_wire e)"
    "decrypterrorreport_valid e"
  shows "capwap_decrypterrorreport_element_parsing m func h = Some (Some e, adv (length (decrypterrorreport_wire e)) h)"
  using assms
  by (cases e) (auto simp: capwap_decrypterrorreport_element_parsing_def decrypterrorreport_wire_def decrypterrorreport_valid_def
      lengths Let_def IS_VALID_MACADDRESS_LENGTH_def split: option.splits)

lemma decrypterrorreportperiod_parse:
  assumes "inv h" "stream h = decrypterrorreportperiod_wire e @ rest" "unat (allow h) = length (decrypterrorreportperiod_wire e)"
    "decrypterrorreportperiod_valid e"
  shows "capwap_decrypterrorreportperiod_element_parsing m func h = Some (Some e, adv (length (decrypterrorreportperiod_wire e)) h)"
  using assms
  by (cases e) (auto simp: capwap_decrypterrorreportperiod_element_parsing_def decrypterrorreportperiod_wire_def decrypterrorreportperiod_valid_def
      lengths Let_def split: option.splits)

lemma deletemacacl_parse:
  assumes "inv h" "stream h = deletemacacl_wire e @ rest" "unat (allow h) = length (deletemacacl_wire e)"
    "deletemacacl_valid e"
  shows "capwap_deletemacacl_element_parsing m func h = Some (Some e, adv (length (deletemacacl_wire e)) h)"
  using assms
  by (cases e) (auto simp: capwap_deletemacacl_element_parsing_def deletemacacl_wire_def deletemacacl_valid_def
      lengths Let_def IS_VALID_MACADDRESS_LENGTH_def split: option.splits)

lemma deletestation_parse:
  assumes "inv h" "stream h = deletestation_wire e @ rest" "unat (allow h) = length (deletestation_wire e)"
    "deletestation_valid e"
  shows "capwap_deletestation_element_parsing m func h = Some (Some e, adv (length (deletestation_wire e)) h)"
  using assms
  by (cases e) (auto simp: capwap_deletestation_element_parsing_def deletestation_wire_def deletestation_valid_def
      lengths Let_def IS_VALID_MACADDRESS_LENGTH_def split: option.splits)

end

end
