(* ===== verification/Capwap_Elements_B.thy ===== *)
theory Capwap_Elements_B
  imports Capwap_Elements_A
begin

text \<open>
  Message elements of \<^verbatim>\<open>common/capwap_element_*.c\<close>, types 20 to 53, in the shape of
  \<open>Capwap_Elements_A\<close>. The receiver of an MTU Discovery Padding element accepts no padding at
  all, so no value of that element makes the round trip and it has no parse lemma.
\<close>

subsection \<open>Discovery Type (type 20)\<close>

record capwap_discoverytype_element =
  discoverytype_type :: u8

definition capwap_discoverytype_element_create where
  "capwap_discoverytype_element_create (e :: capwap_discoverytype_element) func h = do {
     ASSERT (discoverytype_type e = 0 \<or> discoverytype_type e = 1 \<or> discoverytype_type e = 2 \<or> discoverytype_type e = 3 \<or> discoverytype_type e = 4);
     (_, h) \<leftarrow> write_u8 func h (discoverytype_type e);
     Some h }"

definition capwap_discoverytype_element_parsing where
  "capwap_discoverytype_element_parsing (m :: junk) func h =
     (if read_ready func h \<noteq> 1 then Some (None, h)
      else do {
        (type, h) \<leftarrow> get_u8 func (of_nat (m 0)) h;
        if type \<noteq> 0 \<and> type \<noteq> 1 \<and> type \<noteq> 2 \<and> type \<noteq> 3 \<and> type \<noteq> 4 then Some (None, h) else
        Some (Some \<lparr>discoverytype_type = type\<rparr>, h) })"

definition discoverytype_valid where
  "discoverytype_valid e \<longleftrightarrow> discoverytype_type e = 0 \<or> discoverytype_type e = 1 \<or> discoverytype_type e = 2 \<or> discoverytype_type e = 3 \<or> discoverytype_type e = 4"

definition discoverytype_wire :: "capwap_discoverytype_element \<Rightarrow> u8 list" where
  "discoverytype_wire e =
     [discoverytype_type e]"

subsection \<open>Duplicate IPv4 Address (type 21)\<close>

record capwap_duplicateipv4_element =
  duplicateipv4_address :: "u8 list"
  duplicateipv4_status :: u8
  duplicateipv4_length :: u8
  duplicateipv4_macaddress :: "u8 list option"

definition capwap_duplicateipv4_element_create where
  "capwap_duplicateipv4_element_create (e :: capwap_duplicateipv4_element) func h = do {
     ASSERT (duplicateipv4_status e = 0 \<or> duplicateipv4_status e = 1);
     ASSERT (IS_VALID_MACADDRESS_LENGTH (duplicateipv4_length e));
     (_, h) \<leftarrow> write_block func h (Some (duplicateipv4_address e)) 4;
     (_, h) \<leftarrow> write_u8 func h (duplicateipv4_status e);
     (_, h) \<leftarrow> write_u8 func h (duplicateipv4_length e);
     (_, h) \<leftarrow> write_block func h (duplicateipv4_macaddress e) (ucast (duplicateipv4_length e));
     Some h }"

definition capwap_duplicateipv4_element_parsing where
  "capwap_duplicateipv4_element_parsing (m :: junk) func h =
     (let len = read_ready func h in
     if len < 12 then Some (None, h)
     else do {
       (let len = len - 6 in
       do {
         (address, h) \<leftarrow> get_block func (replicate 4 0) 4 h;
         (status, h) \<leftarrow> get_u8 func 0 h;
         (dlen, h) \<leftarrow> get_u8 func 0 h;
         if status \<noteq> 0 \<and> status \<noteq> 1 then Some (None, h) else
         if \<not> IS_VALID_MACADDRESS_LENGTH dlen \<or> len \<noteq> ucast dlen then Some (None, h)
         else do {
           (macaddress, h) \<leftarrow> get_block func (junk_bytes m 0 (unat dlen)) (ucast dlen) h;
           Some (Some \<lparr>duplicateipv4_address = address, duplicateipv4_status = status,
              duplicateipv4_length = dlen,
              duplicateipv4_macaddress = Some macaddress\<rparr>, h) } }) })"

definition duplicateipv4_valid where
  "duplicateipv4_valid e \<longleftrightarrow> length (duplicateipv4_address e) = 4 \<and> (duplicateipv4_status e = 0 \<or> duplicateipv4_status e = 1) \<and> IS_VALID_MACADDRESS_LENGTH (duplicateipv4_length e) \<and>
     (case (duplicateipv4_macaddress e) of None \<Rightarrow> False | Some a \<Rightarrow> length a = unat (duplicateipv4_length e))"

definition duplicateipv4_wire :: "capwap_duplicateipv4_element \<Rightarrow> u8 list" where
  "duplicateipv4_wire e =
     duplicateipv4_address e @ [duplicateipv4_status e] @ [duplicateipv4_length e] @
     the (duplicateipv4_macaddress e)"

subsection \<open>Duplicate IPv6 Address (type 22)\<close>

record capwap_duplicateipv6_element =
  duplicateipv6_address :: "u8 list"
  duplicateipv6_status :: u8
  duplicateipv6_length :: u8
  duplicateipv6_macaddress :: "u8 list option"

definition capwap_duplicateipv6_element_create where
  "capwap_duplicateipv6_element_create (e :: capwap_duplicateipv6_element) func h = do {
     ASSERT (duplicateipv6_status e = 0 \<or> duplicateipv6_status e = 1);
     ASSERT (IS_VALID_MACADDRESS_LENGTH (duplicateipv6_length e));
     (_, h) \<leftarrow> write_block func h (Some (duplicateipv6_address e)) 16;
     (_, h) \<leftarrow> write_u8 func h (duplicateipv6_status e);
     (_, h) \<leftarrow> write_u8 func h (duplicateipv6_length e);
     (_, h) \<leftarrow> write_block func h (duplicateipv6_macaddress e) (ucast (duplicateipv6_length e));
     Some h }"

definition capwap_duplicateipv6_element_parsing where
  "capwap_duplicateipv6_element_parsing (m :: junk) func h =
     (let len = read_ready func h in
     if len < 24 then Some (None, h)
     else do {
       (let len = len - 18 in
       do {
         (address, h) \<leftarrow> get_block func (replicate 16 0) 16 h;
         (status, h) \<leftarrow> get_u8 func 0 h;
         (dlen, h) \<leftarrow> get_u8 func 0 h;
         if status \<noteq> 0 \<and> status \<noteq> 1 then Some (None, h) else
         if \<not> IS_VALID_MACADDRESS_LENGTH dlen \<or> len \<noteq> ucast dlen then Some (None, h)
         else do {
           (macaddress, h) \<leftarrow> get_block func (junk_bytes m 0 (unat dlen)) (ucast dlen) h;
           Some (Some \<lparr>duplicateipv6_address = address, duplicateipv6_status = status,
              duplicateipv6_length = dlen,
              duplicateipv6_macaddress = Some macaddress\<rparr>, h) } }) })"

definition duplicateipv6_valid where
  "duplicateipv6_valid e \<longleftrightarrow> length (duplicateipv6_address e) = 16 \<and> (duplicateipv6_status e = 0 \<or> duplicateipv6_status e = 1) \<and> IS_VALID_MACADDRESS_LENGTH (duplicateipv6_length e) \<and>
     (case (duplicateipv6_macaddress e) of None \<Rightarrow> False | Some a \<Rightarrow> length a = unat (duplicateipv6_length e))"

definition duplicateipv6_wire :: "capwap_duplicateipv6_element \<Rightarrow> u8 list" where
  "duplicateipv6_wire e =
     duplicateipv6_address e @ [duplicateipv6_status e] @ [duplicateipv6_length e] @
     the (duplicateipv6_macaddress e)"

subsection \<open>Idle Timeout (type 23)\<close>

record capwap_idletimeout_element =
  idletimeout_timeout :: u32

definition capwap_idletimeout_element_create where
  "capwap_idletimeout_element_create (e :: capwap_idletimeout_element) func h = do {
     (_, h) \<leftarrow> write_u32 func h (idletimeout_timeout e);
     Some h }"

definition capwap_idletimeout_element_parsing where
  "capwap_idletimeout_element_parsing (m :: junk) func h =
     (if read_ready func h \<noteq> 4 then Some (None, h)
      else do {
        (timeout, h) \<leftarrow> get_u32 func (of_nat (m 0)) h;
        Some (Some \<lparr>idletimeout_timeout = timeout\<rparr>, h) })"

definition idletimeout_wire :: "capwap_idletimeout_element \<Rightarrow> u8 list" where
  "idletimeout_wire e =
     u32_bytes (idletimeout_timeout e)"

subsection \<open>Image Data (type 24)\<close>

record capwap_imagedata_element =
  imagedata_type :: u8
  imagedata_length :: u16
  imagedata_data :: "u8 list option"

definition capwap_imagedata_element_create where
  "capwap_imagedata_element_create (e :: capwap_imagedata_element) func h = do {
     ASSERT (imagedata_type e = 1 \<or> imagedata_type e = 2 \<or> imagedata_type e = 5);
     ASSERT (imagedata_length e \<le> 1024);
     (_, h) \<leftarrow> write_u8 func h (imagedata_type e);
     if imagedata_length e > 0 then do {
       (_, h) \<leftarrow> write_block func h (imagedata_data e) (imagedata_length e);
       Some h }
     else Some h }"

definition capwap_imagedata_element_parsing where
  "capwap_imagedata_element_parsing (m :: junk) func h =
     (let len = read_ready func h in
     if len < 1 then Some (None, h)
     else do {
       (let len = len - 1 in
       do {
         (type, h) \<leftarrow> get_u8 func 0 h;
         if type \<noteq> 1 \<and> type \<noteq> 2 \<and> type \<noteq> 5 then Some (None, h) else
         if type = 5 \<and> 0 < len then Some (None, h) else
         if 1024 < len then Some (None, h)
         else do {
           if len = 0 then Some (Some \<lparr>imagedata_type = type, imagedata_length = len, imagedata_data = None\<rparr>, h)
           else do {
             (data, h) \<leftarrow> get_block func (junk_bytes m 0 (unat len)) len h;
             Some (Some \<lparr>imagedata_type = type, imagedata_length = len, imagedata_data = Some data\<rparr>, h) } } }) })"

definition imagedata_valid where
  "imagedata_valid e \<longleftrightarrow> (imagedata_type e = 1 \<or> imagedata_type e = 2 \<or> imagedata_type e = 5) \<and> imagedata_length e \<le> 1024 \<and>
     (case (imagedata_data e) of None \<Rightarrow> imagedata_length e = 0
      | Some s \<Rightarrow> imagedata_type e \<noteq> 5 \<and> 0 < (imagedata_length e) \<and> length s = unat (imagedata_length e))"

definition imagedata_wire :: "capwap_imagedata_element \<Rightarrow> u8 list" where
  "imagedata_wire e =
     [imagedata_type e] @
     (case (imagedata_data e) of None \<Rightarrow> [] | Some s \<Rightarrow> s)"

subsection \<open>Image Identifier (type 25)\<close>

record capwap_imageidentifier_element =
  imageidentifier_vendor :: u32
  imageidentifier_name :: "u8 list option"

definition capwap_imageidentifier_element_create where
  "capwap_imageidentifier_element_create (e :: capwap_imageidentifier_element) func h = do {
     name \<leftarrow> imageidentifier_name e;
     let len = c_strlen name;
     ASSERT (len \<le> 1024);
     (_, h) \<leftarrow> write_u32 func h (imageidentifier_vendor e);
     (_, h) \<leftarrow> write_block func h (Some name) (of_nat len);
     Some h }"

definition capwap_imageidentifier_element_parsing where
  "capwap_imageidentifier_element_parsing (m :: junk) func h =
     (let len = read_ready func h in
     if len < 5 then Some (None, h)
     else do {
       (let len = len - 4 in
       if 1024 < len then Some (None, h)
       else do {
         (vendor, h) \<leftarrow> get_u32 func (of_nat (m 0)) h;
         (name, h) \<leftarrow> get_block func (junk_bytes m 1 (unat len)) len h;
         Some (Some \<lparr>imageidentifier_vendor = vendor, imageidentifier_name = Some name\<rparr>, h) }) })"

definition imageidentifier_valid where
  "imageidentifier_valid e \<longleftrightarrow> (case (imageidentifier_name e) of None \<Rightarrow> False | Some s \<Rightarrow> 0 \<notin> set s \<and> s \<noteq> [] \<and> length s \<le> 1024)"

definition imageidentifier_wire :: "capwap_imageidentifier_element \<Rightarrow> u8 list" where
  "imageidentifier_wire e =
     u32_bytes (imageidentifier_vendor e) @ the (imageidentifier_name e)"

subsection \<open>Image Information (type 26)\<close>

record capwap_imageinfo_element =
  imageinfo_length :: u32
  imageinfo_hash :: "u8 list"

definition capwap_imageinfo_element_create where
  "capwap_imageinfo_element_create (e :: capwap_imageinfo_element) func h = do {
     (_, h) \<leftarrow> write_u32 func h (imageinfo_length e);
     (_, h) \<leftarrow> write_block func h (Some (imageinfo_hash e)) 16;
     Some h }"

definition capwap_imageinfo_element_parsing where
  "capwap_imageinfo_element_parsing (m :: junk) func h =
     (if read_ready func h \<noteq> 20 then Some (None, h)
      else do {
        (dlen, h) \<leftarrow> get_u32 func (of_nat (m 0)) h;
        (hash, h) \<leftarrow> get_block func (junk_bytes m 1 16) 16 h;
        Some (Some \<lparr>imageinfo_length = dlen, imageinfo_hash = hash\<rparr>, h) })"

definition imageinfo_valid where
  "imageinfo_valid e \<longleftrightarrow> length (imageinfo_hash e) = 16"

definition imageinfo_wire :: "capwap_imageinfo_element \<Rightarrow> u8 list" where
  "imageinfo_wire e =
     u32_bytes (imageinfo_length e) @ imageinfo_hash e"

subsection \<open>Initiate Download (type 27)\<close>

record capwap_initdownload_element =
  initdownload_dummy :: u8

definition capwap_initdownload_element_create where
  "capwap_initdownload_element_create (e :: capwap_initdownload_element) func h = do {
     Some h }"

definition capwap_initdownload_element_parsing where
  "capwap_initdownload_element_parsing (m :: junk) func h =
     (if read_ready func h \<noteq> 0 then Some (None, h) else
      Some (Some \<lparr>initdownload_dummy = 0\<rparr>, h))"

definition initdownload_valid where
  "initdownload_valid e \<longleftrightarrow> initdownload_dummy e = 0"

definition initdownload_wire :: "capwap_initdownload_element \<Rightarrow> u8 list" where
  "initdownload_wire e =
     []"

subsection \<open>Location Data (type 28)\<close>

record capwap_location_element =
  location_value :: "u8 list option"

definition capwap_location_element_create where
  "capwap_location_element_create (e :: capwap_location_element) func h = do {
     value \<leftarrow> location_value e;
     let len = c_strlen value;
     ASSERT (len \<le> 1024);
     (_, h) \<leftarrow> write_block func h (Some value) (of_nat len);
     Some h }"

definition capwap_location_element_parsing where
  "capwap_location_element_parsing (m :: junk) func h =
     (let len = read_ready func h in
     if len < 1 \<or> 1024 < len then Some (None, h)
     else do {
       (value, h) \<leftarrow> get_block func (junk_bytes m 0 (unat len)) len h;
       Some (Some \<lparr>location_value = Some value\<rparr>, h) })"

definition location_valid where
  "location_valid e \<longleftrightarrow> (case (location_value e) of None \<Rightarrow> False | Some s \<Rightarrow> 0 \<notin> set s \<and> s \<noteq> [] \<and> length s \<le> 1024)"

definition location_wire :: "capwap_location_element \<Rightarrow> u8 list" where
  "location_wire e =
     the (location_value e)"

subsection \<open>Maximum Message Length (type 29)\<close>

record capwap_maximumlength_element =
  maximumlength_length :: u16

definition capwap_maximumlength_element_create where
  "capwap_maximumlength_element_create (e :: capwap_maximumlength_element) func h = do {
     (_, h) \<leftarrow> write_u16 func h (maximumlength_length e);
     Some h }"

definition capwap_maximumlength_element_parsing where
  "capwap_maximumlength_element_parsing (m :: junk) func h =
     (if read_ready func h \<noteq> 2 then Some (None, h)
      else do {
        (dlen, h) \<leftarrow> get_u16 func (of_nat (m 0)) h;
        Some (Some \<lparr>maximumlength_length = dlen\<rparr>, h) })"

definition maximumlength_wire :: "capwap_maximumlength_element \<Rightarrow> u8 list" where
  "maximumlength_wire e =
     u16_bytes (maximumlength_length e)"

subsection \<open>CAPWAP Local IPv4 Address (type 30)\<close>

record capwap_localipv4_element =
  localipv4_address :: "u8 list"

definition capwap_localipv4_element_create where
  "capwap_localipv4_element_create (e :: capwap_localipv4_element) func h = do {
     (_, h) \<leftarrow> write_block func h (Some (localipv4_address e)) 4;
     Some h }"

definition capwap_localipv4_element_parsing where
  "capwap_localipv4_element_parsing (m :: junk) func h =
     (if read_ready func h \<noteq> 4 then Some (None, h)
      else do {
        (address, h) \<leftarrow> get_block func (junk_bytes m 0 4) 4 h;
        Some (Some \<lparr>localipv4_address = address\<rparr>, h) })"

definition localipv4_valid where
  "localipv4_valid e \<longleftrightarrow> length (localipv4_address e) = 4"

definition localipv4_wire :: "capwap_localipv4_element \<Rightarrow> u8 list" where
  "localipv4_wire e =
     localipv4_address e"

subsection \<open>CAPWAP Local IPv6 Address (type 50)\<close>

record capwap_localipv6_element =
  localipv6_address :: "u8 list"

definition capwap_localipv6_element_create where
  "capwap_localipv6_element_create (e :: capwap_localipv6_element) func h = do {
     (_, h) \<leftarrow> write_block func h (Some (localipv6_address e)) 16;
     Some h }"

definition capwap_localipv6_element_parsing where
  "capwap_localipv6_element_parsing (m :: junk) func h =
     (if read_ready func h \<noteq> 16 then Some (None, h)
      else do {
        (address, h) \<leftarrow> get_block func (junk_bytes m 0 16) 16 h;
        Some (Some \<lparr>localipv6_address = address\<rparr>, h) })"

definition localipv6_valid where
  "localipv6_valid e \<longleftrightarrow> length (localipv6_address e) = 16"

definition localipv6_wire :: "capwap_localipv6_element \<Rightarrow> u8 list" where
  "localipv6_wire e =
     localipv6_address e"

subsection \<open>Radio Administrative State (type 31)\<close>

record capwap_radioadmstate_element =
  radioadmstate_radioid :: u8
  radioadmstate_state :: u8

definition capwap_radioadmstate_element_create where
  "capwap_radioadmstate_element_create (e :: capwap_radioadmstate_element) func h = do {
     ASSERT (IS_VALID_RADIOID (radioadmstate_radioid e));
     ASSERT (radioadmstate_state e = 1 \<or> radioadmstate_state e = 2);
     (_, h) \<leftarrow> write_u8 func h (radioadmstate_radioid e);
     (_, h) \<leftarrow> write_u8 func h (radioadmstate_state e);
     Some h }"

definition capwap_radioadmstate_element_parsing where
  "capwap_radioadmstate_element_parsing (m :: junk) func h =
     (if read_ready func h \<noteq> 2 then Some (None, h)
      else do {
        (radioid, h) \<leftarrow> get_u8 func (of_nat (m 0)) h;
        (state, h) \<leftarrow> get_u8 func (of_nat (m 1)) h;
        if \<not> IS_VALID_RADIOID radioid then Some (None, h) else
        if state \<noteq> 1 \<and> state \<noteq> 2 then Some (None, h) else
        Some (Some \<lparr>radioadmstate_radioid = radioid, radioadmstate_state = state\<rparr>, h) })"

definition radioadmstate_valid where
  "radioadmstate_valid e \<longleftrightarrow> IS_VALID_RADIOID (radioadmstate_radioid e) \<and> (radioadmstate_state e = 1 \<or> radioadmstate_state e = 2)"

definition radioadmstate_wire :: "capwap_radioadmstate_element \<Rightarrow> u8 list" where
  "radioadmstate_wire e =
     [radioadmstate_radioid e] @ [radioadmstate_state e]"

subsection \<open>Radio Operational State (type 32)\<close>

record capwap_radiooprstate_element =
  radiooprstate_radioid :: u8
  radiooprstate_state :: u8
  radiooprstate_cause :: u8

definition capwap_radiooprstate_element_create where
  "capwap_radiooprstate_element_create (e :: capwap_radiooprstate_element) func h = do {
     ASSERT (IS_VALID_RADIOID (radiooprstate_radioid e));
     ASSERT (radiooprstate_state e = 1 \<or> radiooprstate_state e = 2);
     ASSERT (radiooprstate_cause e = 0 \<or> radiooprstate_cause e = 1 \<or> radiooprstate_cause e = 2 \<or> radiooprstate_cause e = 3);
     (_, h) \<leftarrow> write_u8 func h (radiooprstate_radioid e);
     (_, h) \<leftarrow> write_u8 func h (radiooprstate_state e);
     (_, h) \<leftarrow> write_u8 func h (radiooprstate_cause e);
     Some h }"

definition capwap_radiooprstate_element_parsing where
  "capwap_radiooprstate_element_parsing (m :: junk) func h =
     (if read_ready func h \<noteq> 3 then Some (None, h)
      else do {
        (radioid, h) \<leftarrow> get_u8 func (of_nat (m 0)) h;
        (state, h) \<leftarrow> get_u8 func (of_nat (m 1)) h;
        (cause, h) \<leftarrow> get_u8 func (of_nat (m 2)) h;
        if \<not> IS_VALID_RADIOID radioid then Some (None, h) else
        if state \<noteq> 1 \<and> state \<noteq> 2 then Some (None, h) else
        if cause \<noteq> 0 \<and> cause \<noteq> 1 \<and> cause \<noteq> 2 \<and> cause \<noteq> 3 then Some (None, h) else
        Some (Some \<lparr>radiooprstate_radioid = radioid, radiooprstate_state = state,
          radiooprstate_cause = cause\<rparr>, h) })"

definition radiooprstate_valid where
  "radiooprstate_valid e \<longleftrightarrow> IS_VALID_RADIOID (radiooprstate_radioid e) \<and> (radiooprstate_state e = 1 \<or> radiooprstate_state e = 2) \<and>
     (radiooprstate_cause e = 0 \<or> radiooprstate_cause e = 1 \<or> radiooprstate_cause e = 2 \<or> radiooprstate_cause e = 3)"

definition radiooprstate_wire :: "capwap_radiooprstate_element \<Rightarrow> u8 list" where
  "radiooprstate_wire e =
     [radiooprstate_radioid e] @ [radiooprstate_state e] @ [radiooprstate_cause e]"

subsection \<open>Result Code (type 33)\<close>

record capwap_resultcode_element =
  resultcode_code :: u32

definition capwap_resultcode_element_create where
  "capwap_resultcode_element_create (e :: capwap_resultcode_element) func h = do {
     ASSERT (0 \<le> resultcode_code e \<and> resultcode_code e \<le> 22);
     (_, h) \<leftarrow> write_u32 func h (resultcode_code e);
     Some h }"

definition capwap_resultcode_element_parsing where
  "capwap_resultcode_element_parsing (m :: junk) func h =
     (if read_ready func h \<noteq> 4 then Some (None, h)
      else do {
        (code, h) \<leftarrow> get_u32 func (of_nat (m 0)) h;
        if code < 0 \<or> 22 < code then Some (None, h) else
        Some (Some \<lparr>resultcode_code = code\<rparr>, h) })"

definition resultcode_valid where
  "resultcode_valid e \<longleftrightarrow> resultcode_code e \<le> 22"

definition resultcode_wire :: "capwap_resultcode_element \<Rightarrow> u8 list" where
  "resultcode_wire e =
     u32_bytes (resultcode_code e)"

subsection \<open>Returned Message Element (type 34)\<close>

record capwap_returnedmessage_element =
  returnedmessage_reason :: u8
  returnedmessage_length :: u8
  returnedmessage_message :: "u8 list option"

definition capwap_returnedmessage_element_create where
  "capwap_returnedmessage_element_create (e :: capwap_returnedmessage_element) func h = do {
     ASSERT (4 \<le> returnedmessage_length e);
     ASSERT (returnedmessage_reason e = 1 \<or> returnedmessage_reason e = 2 \<or> returnedmessage_reason e = 3 \<or> returnedmessage_reason e = 4);
     (_, h) \<leftarrow> write_u8 func h (returnedmessage_reason e);
     (_, h) \<leftarrow> write_u8 func h (returnedmessage_length e);
     (_, h) \<leftarrow> write_block func h (returnedmessage_message e) (ucast (returnedmessage_length e));
     Some h }"

definition capwap_returnedmessage_element_parsing where
  "capwap_returnedmessage_element_parsing (m :: junk) func h =
     (let len = read_ready func h in
     if len < 6 then Some (None, h)
     else do {
       (let len = len - 2 in
       if 255 < len then Some (None, h)
       else do {
         (reason, h) \<leftarrow> get_u8 func 0 h;
         (dlen, h) \<leftarrow> get_u8 func 0 h;
         if reason \<noteq> 1 \<and> reason \<noteq> 2 \<and> reason \<noteq> 3 \<and> reason \<noteq> 4 then Some (None, h) else
         if ucast dlen \<noteq> len then Some (None, h)
         else do {
           (message, h) \<leftarrow> get_block func (junk_bytes m 0 (unat dlen)) (ucast dlen) h;
           Some (Some \<lparr>returnedmessage_reason = reason, returnedmessage_length = dlen,
              returnedmessage_message = Some message\<rparr>, h) } }) })"

definition returnedmessage_valid where
  "returnedmessage_valid e \<longleftrightarrow> 4 \<le> returnedmessage_length e \<and> (returnedmessage_reason e = 1 \<or> returnedmessage_reason e = 2 \<or> returnedmessage_reason e = 3 \<or> returnedmessage_reason e = 4) \<and>
     (case (returnedmessage_message e) of None \<Rightarrow> False | Some s \<Rightarrow> length s = unat (returnedmessage_length e))"

definition returnedmessage_wire :: "capwap_returnedmessage_element \<Rightarrow> u8 list" where
  "returnedmessage_wire e =
     [returnedmessage_reason e] @ [returnedmessage_length e] @
     the (returnedmessage_message e)"

subsection \<open>Session ID (type 35)\<close>

record capwap_sessionid_element =
  sessionid_id :: "u8 list"

definition capwap_sessionid_element_create where
  "capwap_sessionid_element_create (e :: capwap_sessionid_element) func h = do {
     (_, h) \<leftarrow> write_block func h (Some (sessionid_id e)) 16;
     Some h }"

definition capwap_sessionid_element_parsing where
  "capwap_sessionid_element_parsing (m :: junk) func h =
     (if read_ready func h \<noteq> 16 then Some (None, h)
      else do {
        (id, h) \<leftarrow> get_block func (junk_bytes m 0 16) 16 h;
        Some (Some \<lparr>sessionid_id = id\<rparr>, h) })"

definition sessionid_valid where
  "sessionid_valid e \<longleftrightarrow> length (sessionid_id e) = 16"

definition sessionid_wire :: "capwap_sessionid_element \<Rightarrow> u8 list" where
  "sessionid_wire e =
     sessionid_id e"

subsection \<open>Statistics Timer (type 36)\<close>

record capwap_statisticstimer_element =
  statisticstimer_timer :: u16

definition capwap_statisticstimer_element_create where
  "capwap_statisticstimer_element_create (e :: capwap_statisticstimer_element) func h = do {
     (_, h) \<leftarrow> write_u16 func h (statisticstimer_timer e);
     Some h }"

definition capwap_statisticstimer_element_parsing where
  "capwap_statisticstimer_element_parsing (m :: junk) func h =
     (if read_ready func h \<noteq> 2 then Some (None, h)
      else do {
        (timer, h) \<leftarrow> get_u16 func (of_nat (m 0)) h;
        Some (Some \<lparr>statisticstimer_timer = timer\<rparr>, h) })"

definition statisticstimer_wire :: "capwap_statisticstimer_element \<Rightarrow> u8 list" where
  "statisticstimer_wire e =
     u16_bytes (statisticstimer_timer e)"

subsection \<open>Vendor Specific Payload (type 37)\<close>

record capwap_vendorpayload_element =
  vendorpayload_vendorid :: u32
  vendorpayload_elementid :: u16
  vendorpayload_datalength :: u16
  vendorpayload_data :: "u8 list"

definition capwap_unknown_vendorpayload_element_parsing where
  "capwap_unknown_vendorpayload_element_parsing (m :: junk) func (len :: u16) vendor_id h = do {
     (data, h) \<leftarrow> get_block func (junk_bytes m 2 (unat len)) len h;
     Some (Some \<lparr>vendorpayload_vendorid = fst vendor_id, vendorpayload_elementid = snd vendor_id,
       vendorpayload_datalength = len, vendorpayload_data = data\<rparr>, h) }"

definition capwap_vendorpayload_element_create where
  "capwap_vendorpayload_element_create (e :: capwap_vendorpayload_element) func h = do {
     ASSERT (vendorpayload_datalength e > 0);
     (_, h) \<leftarrow> write_u32 func h (vendorpayload_vendorid e);
     (_, h) \<leftarrow> write_u16 func h (vendorpayload_elementid e);
     (_, h) \<leftarrow> write_block func h (Some (vendorpayload_data e)) (vendorpayload_datalength e);
     Some h }"

definition capwap_vendorpayload_element_parsing where
  "capwap_vendorpayload_element_parsing (m :: junk) func h =
     (let len = read_ready func h in
     if len < 7 then Some (None, h)
     else do {
       (let len = len - 6 in
       if 2048 < len then Some (None, h)
       else do {
         (vendor, h) \<leftarrow> get_u32 func (of_nat (m 0)) h;
         (type, h) \<leftarrow> get_u16 func (of_nat (m 1)) h;
         capwap_unknown_vendorpayload_element_parsing m func len (vendor, type) h }) })"

definition vendorpayload_valid where
  "vendorpayload_valid e \<longleftrightarrow> vendorpayload_datalength e > 0 \<and> vendorpayload_datalength e \<le> 2048 \<and> length (vendorpayload_data e) = unat (vendorpayload_datalength e)"

definition vendorpayload_wire :: "capwap_vendorpayload_element \<Rightarrow> u8 list" where
  "vendorpayload_wire e =
     u32_bytes (vendorpayload_vendorid e) @ u16_bytes (vendorpayload_elementid e) @
     vendorpayload_data e"

subsection \<open>WTP Board Data (type 38)\<close>

record capwap_wtpboarddata_board_subelement =
  wtpboarddata_board_type :: u16
  wtpboarddata_board_length :: u16
  wtpboarddata_board_data :: "u8 list option"

definition wtpboarddata_board_write where
  "wtpboarddata_board_write func d h = do {
     ASSERT (0 \<le> wtpboarddata_board_type d \<and> wtpboarddata_board_type d \<le> 4);
     ASSERT (0 < wtpboarddata_board_length d \<and> wtpboarddata_board_length d \<le> 1024);
     (_, h) \<leftarrow> write_u16 func h (wtpboarddata_board_type d);
     (_, h) \<leftarrow> write_u16 func h (wtpboarddata_board_length d);
     (_, h) \<leftarrow> write_block func h (wtpboarddata_board_data d) (wtpboarddata_board_length d);
     Some h }"

definition wtpboarddata_board_read where
  "wtpboarddata_board_read func m i h = do {
     (type, h) \<leftarrow> get_u16 func 0 h;
     (dlen, h) \<leftarrow> get_u16 func 0 h;
     if type < 0 \<or> 4 < type then Some (None, h)
     else (let len = read_ready func h in
       if len = 0 \<or> 1024 < len \<or> len < dlen then Some (None, h)
       else do {
         (data, h) \<leftarrow> get_block func (junk_bytes m (1 + i * 65536) (unat dlen)) dlen h;
         Some (Some \<lparr>wtpboarddata_board_type = type, wtpboarddata_board_length = dlen,
           wtpboarddata_board_data = Some data\<rparr>, h) }) }"

definition wtpboarddata_board_valid where
  "wtpboarddata_board_valid d \<longleftrightarrow> wtpboarddata_board_type d \<le> 4 \<and>
     0 < wtpboarddata_board_length d \<and> wtpboarddata_board_length d \<le> 1024 \<and>
     (case wtpboarddata_board_data d of None \<Rightarrow> False
      | Some s \<Rightarrow> length s = unat (wtpboarddata_board_length d))"

definition wtpboarddata_board_wire :: "capwap_wtpboarddata_board_subelement \<Rightarrow> u8 list" where
  "wtpboarddata_board_wire d = u16_bytes (wtpboarddata_board_type d) @
     u16_bytes (wtpboarddata_board_length d) @ the (wtpboarddata_board_data d)"

lemma wtpboarddata_board_wire_nonempty [simp]: "wtpboarddata_board_wire d \<noteq> []"
  by (simp add: wtpboarddata_board_wire_def u16_bytes_def)

record capwap_wtpboarddata_element =
  wtpboarddata_vendor :: u32
  wtpboarddata_boardsubelement :: "capwap_wtpboarddata_board_subelement list"

definition capwap_wtpboarddata_element_create where
  "capwap_wtpboarddata_element_create (e :: capwap_wtpboarddata_element) func h = do {
     ASSERT (wtpboarddata_vendor e \<noteq> 0);
     ASSERT (length (wtpboarddata_boardsubelement e) > 0);
     (_, h) \<leftarrow> write_u32 func h (wtpboarddata_vendor e);
     h \<leftarrow> write_each (wtpboarddata_board_write func) (wtpboarddata_boardsubelement e) h;
     Some h }"

definition capwap_wtpboarddata_element_parsing where
  "capwap_wtpboarddata_element_parsing (m :: junk) func h =
     (if read_ready func h < 14 then Some (None, h)
      else do {
        (vendor, h) \<leftarrow> get_u32 func (of_nat (m 0)) h;
        if vendor = 0 then Some (None, h)
        else do {
          (boards, h) \<leftarrow> read_while func (wtpboarddata_board_read func m) 0 h;
          Some (map_option (\<lambda>bs. \<lparr>wtpboarddata_vendor = vendor, wtpboarddata_boardsubelement = bs\<rparr>) boards, h) } })"

definition wtpboarddata_valid where
  "wtpboarddata_valid e \<longleftrightarrow> wtpboarddata_vendor e \<noteq> 0 \<and> list_all wtpboarddata_board_valid (wtpboarddata_boardsubelement e) \<and>
     10 \<le> length (concat (map wtpboarddata_board_wire (wtpboarddata_boardsubelement e))) \<and>
     length (concat (map wtpboarddata_board_wire (wtpboarddata_boardsubelement e))) \<le> 1024"

definition wtpboarddata_wire :: "capwap_wtpboarddata_element \<Rightarrow> u8 list" where
  "wtpboarddata_wire e =
     u32_bytes (wtpboarddata_vendor e) @
     concat (map wtpboarddata_board_wire (wtpboarddata_boardsubelement e))"

definition capwap_wtpboarddata_get_subelement where
  "capwap_wtpboarddata_get_subelement wtpboarddata subelement = do {
     ASSERT (0 \<le> subelement \<and> subelement \<le> 4);
     Some (find (\<lambda>desc. wtpboarddata_board_type desc = subelement) (wtpboarddata_boardsubelement wtpboarddata)) }"

subsection \<open>WTP Descriptor (type 39)\<close>

record capwap_wtpdescriptor_encrypt_subelement =
  wtpdescriptor_encrypt_wbid :: u8
  wtpdescriptor_encrypt_capabilities :: u16

record capwap_wtpdescriptor_desc_subelement =
  wtpdescriptor_desc_vendor :: u32
  wtpdescriptor_desc_type :: u16
  wtpdescriptor_desc_data :: "u8 list option"

definition wtpdescriptor_encrypt_write where
  "wtpdescriptor_encrypt_write func d h = do {
     ASSERT (wtpdescriptor_encrypt_wbid d AND 0x1f = wtpdescriptor_encrypt_wbid d);
     (_, h) \<leftarrow> write_u8 func h (wtpdescriptor_encrypt_wbid d);
     (_, h) \<leftarrow> write_u16 func h (wtpdescriptor_encrypt_capabilities d);
     Some h }"

definition wtpdescriptor_desc_write where
  "wtpdescriptor_desc_write func d h = do {
     ASSERT (0 \<le> wtpdescriptor_desc_type d \<and> wtpdescriptor_desc_type d \<le> 3);
     data \<leftarrow> wtpdescriptor_desc_data d;
     let len = of_nat (c_strlen data);
     ASSERT (0 < len);
     (_, h) \<leftarrow> write_u32 func h (wtpdescriptor_desc_vendor d);
     (_, h) \<leftarrow> write_u16 func h (wtpdescriptor_desc_type d);
     (_, h) \<leftarrow> write_u16 func h len;
     (_, h) \<leftarrow> write_block func h (Some data) len;
     Some h }"

text \<open>The encryption array is not cleared when it grows, the descriptor array is.\<close>

definition wtpdescriptor_encrypt_read where
  "wtpdescriptor_encrypt_read func m i h =
     (if read_ready func h < 3 then Some (None, h)
      else do {
        (wbid, h) \<leftarrow> get_u8 func (of_nat (m (3 + 2 * i))) h;
        (capabilities, h) \<leftarrow> get_u16 func (of_nat (m (4 + 2 * i))) h;
        if wbid AND 0x1f \<noteq> wbid then Some (None, h)
        else Some (Some \<lparr>wtpdescriptor_encrypt_wbid = wbid,
          wtpdescriptor_encrypt_capabilities = capabilities\<rparr>, h) })"

definition wtpdescriptor_desc_read where
  "wtpdescriptor_desc_read func m i h =
     (if read_ready func h < 8 then Some (None, h)
      else do {
        (vendor, h) \<leftarrow> get_u32 func 0 h;
        (type, h) \<leftarrow> get_u16 func 0 h;
        (lengthdesc, h) \<leftarrow> get_u16 func (of_nat (m (1024 + i * 65536))) h;
        if type < 0 \<or> 3 < type then Some (None, h)
        else (let len = read_ready func h in
          if len = 0 \<or> 1024 < len \<or> len < lengthdesc then Some (None, h)
          else do {
            (data, h) \<leftarrow> get_block func (junk_bytes m (1025 + i * 65536) (unat lengthdesc)) lengthdesc h;
            Some (Some \<lparr>wtpdescriptor_desc_vendor = vendor, wtpdescriptor_desc_type = type,
              wtpdescriptor_desc_data = Some data\<rparr>, h) }) })"

definition wtpdescriptor_encrypt_valid where
  "wtpdescriptor_encrypt_valid d \<longleftrightarrow> wtpdescriptor_encrypt_wbid d AND 0x1f = wtpdescriptor_encrypt_wbid d"

definition wtpdescriptor_desc_valid where
  "wtpdescriptor_desc_valid d \<longleftrightarrow> wtpdescriptor_desc_type d \<le> 3 \<and>
     (case wtpdescriptor_desc_data d of None \<Rightarrow> False
      | Some s \<Rightarrow> 0 \<notin> set s \<and> s \<noteq> [] \<and> length s \<le> 1024)"

definition wtpdescriptor_encrypt_wire :: "capwap_wtpdescriptor_encrypt_subelement \<Rightarrow> u8 list" where
  "wtpdescriptor_encrypt_wire d =
     [wtpdescriptor_encrypt_wbid d] @ u16_bytes (wtpdescriptor_encrypt_capabilities d)"

definition wtpdescriptor_desc_wire :: "capwap_wtpdescriptor_desc_subelement \<Rightarrow> u8 list" where
  "wtpdescriptor_desc_wire d = u32_bytes (wtpdescriptor_desc_vendor d) @ u16_bytes (wtpdescriptor_desc_type d) @
     u16_bytes (of_nat (length (the (wtpdescriptor_desc_data d)))) @ the (wtpdescriptor_desc_data d)"

lemma wtpdescriptor_desc_wire_nonempty [simp]: "wtpdescriptor_desc_wire d \<noteq> []"
  by (simp add: wtpdescriptor_desc_wire_def u32_bytes_def)

record capwap_wtpdescriptor_element =
  wtpdescriptor_maxradios :: u8
  wtpdescriptor_radiosinuse :: u8
  wtpdescriptor_encryptsubelement :: "capwap_wtpdescriptor_encrypt_subelement list"
  wtpdescriptor_descsubelement :: "capwap_wtpdescriptor_desc_subelement list"

definition capwap_wtpdescriptor_element_create where
  "capwap_wtpdescriptor_element_create (e :: capwap_wtpdescriptor_element) func h = do {
     ASSERT (wtpdescriptor_radiosinuse e \<le> wtpdescriptor_maxradios e);
     ASSERT (length (wtpdescriptor_encryptsubelement e) > 0);
     ASSERT (length (wtpdescriptor_descsubelement e) > 0);
     (_, h) \<leftarrow> write_u8 func h (wtpdescriptor_maxradios e);
     (_, h) \<leftarrow> write_u8 func h (wtpdescriptor_radiosinuse e);
     (_, h) \<leftarrow> write_u8 func h (of_nat (length (wtpdescriptor_encryptsubelement e)));
     h \<leftarrow> write_each (wtpdescriptor_encrypt_write func) (wtpdescriptor_encryptsubelement e) h;
     h \<leftarrow> write_each (wtpdescriptor_desc_write func) (wtpdescriptor_descsubelement e) h;
     Some h }"

definition capwap_wtpdescriptor_element_parsing where
  "capwap_wtpdescriptor_element_parsing (m :: junk) func h =
     (if read_ready func h < 33 then Some (None, h)
      else do {
        (maxradios, h) \<leftarrow> get_u8 func (of_nat (m 0)) h;
        (radiosinuse, h) \<leftarrow> get_u8 func (of_nat (m 1)) h;
        (encryptlength, h) \<leftarrow> get_u8 func (of_nat (m 2)) h;
        if encryptlength = 0 then Some (None, h) else
        if maxradios < radiosinuse then Some (None, h)
        else do {
          (encrypts, h) \<leftarrow> read_checked (wtpdescriptor_encrypt_read func m) 0 (unat encryptlength) h;
          (case encrypts of
             None \<Rightarrow> Some (None, h)
           | Some es \<Rightarrow> do {
               (descs, h) \<leftarrow> read_while func (wtpdescriptor_desc_read func m) 0 h;
               Some (map_option (\<lambda>ds. \<lparr>wtpdescriptor_maxradios = maxradios, wtpdescriptor_radiosinuse = radiosinuse,
                 wtpdescriptor_encryptsubelement = es, wtpdescriptor_descsubelement = ds\<rparr>) descs, h) }) } })"

definition wtpdescriptor_valid where
  "wtpdescriptor_valid e \<longleftrightarrow> wtpdescriptor_radiosinuse e \<le> wtpdescriptor_maxradios e \<and> wtpdescriptor_encryptsubelement e \<noteq> [] \<and> length (wtpdescriptor_encryptsubelement e) < 256 \<and>
     wtpdescriptor_descsubelement e \<noteq> [] \<and>
     list_all wtpdescriptor_encrypt_valid (wtpdescriptor_encryptsubelement e) \<and> list_all wtpdescriptor_desc_valid (wtpdescriptor_descsubelement e) \<and>
     30 \<le> length (concat (map wtpdescriptor_encrypt_wire (wtpdescriptor_encryptsubelement e))) +
       length (concat (map wtpdescriptor_desc_wire (wtpdescriptor_descsubelement e))) \<and>
     length (concat (map wtpdescriptor_desc_wire (wtpdescriptor_descsubelement e))) \<le> 1024"

definition wtpdescriptor_wire :: "capwap_wtpdescriptor_element \<Rightarrow> u8 list" where
  "wtpdescriptor_wire e =
     [wtpdescriptor_maxradios e, wtpdescriptor_radiosinuse e, of_nat (length (wtpdescriptor_encryptsubelement e))] @
     concat (map wtpdescriptor_encrypt_wire (wtpdescriptor_encryptsubelement e)) @
     concat (map wtpdescriptor_desc_wire (wtpdescriptor_descsubelement e))"

subsection \<open>WTP Fallback (type 40)\<close>

record capwap_wtpfallback_element =
  wtpfallback_mode :: u8

definition capwap_wtpfallback_element_create where
  "capwap_wtpfallback_element_create (e :: capwap_wtpfallback_element) func h = do {
     ASSERT (wtpfallback_mode e = 1 \<or> wtpfallback_mode e = 2);
     (_, h) \<leftarrow> write_u8 func h (wtpfallback_mode e);
     Some h }"

definition capwap_wtpfallback_element_parsing where
  "capwap_wtpfallback_element_parsing (m :: junk) func h =
     (if read_ready func h \<noteq> 1 then Some (None, h)
      else do {
        (mode, h) \<leftarrow> get_u8 func (of_nat (m 0)) h;
        if mode \<noteq> 1 \<and> mode \<noteq> 2 then Some (None, h) else
        Some (Some \<lparr>wtpfallback_mode = mode\<rparr>, h) })"

definition wtpfallback_valid where
  "wtpfallback_valid e \<longleftrightarrow> wtpfallback_mode e = 1 \<or> wtpfallback_mode e = 2"

definition wtpfallback_wire :: "capwap_wtpfallback_element \<Rightarrow> u8 list" where
  "wtpfallback_wire e =
     [wtpfallback_mode e]"

subsection \<open>WTP Frame Tunnel Mode (type 41)\<close>

record capwap_wtpframetunnelmode_element =
  wtpframetunnelmode_mode :: u8

definition capwap_wtpframetunnelmode_element_create where
  "capwap_wtpframetunnelmode_element_create (e :: capwap_wtpframetunnelmode_element) func h = do {
     ASSERT (wtpframetunnelmode_mode e AND 0x0e = wtpframetunnelmode_mode e);
     (_, h) \<leftarrow> write_u8 func h (wtpframetunnelmode_mode e);
     Some h }"

definition capwap_wtpframetunnelmode_element_parsing where
  "capwap_wtpframetunnelmode_element_parsing (m :: junk) func h =
     (if read_ready func h \<noteq> 1 then Some (None, h)
      else do {
        (mode, h) \<leftarrow> get_u8 func (of_nat (m 0)) h;
        if mode AND 0x0e \<noteq> mode then Some (None, h) else
        Some (Some \<lparr>wtpframetunnelmode_mode = mode\<rparr>, h) })"

definition wtpframetunnelmode_valid where
  "wtpframetunnelmode_valid e \<longleftrightarrow> wtpframetunnelmode_mode e AND 0x0e = wtpframetunnelmode_mode e"

definition wtpframetunnelmode_wire :: "capwap_wtpframetunnelmode_element \<Rightarrow> u8 list" where
  "wtpframetunnelmode_wire e =
     [wtpframetunnelmode_mode e]"

subsection \<open>WTP MAC Type (type 44)\<close>

record capwap_wtpmactype_element =
  wtpmactype_type :: u8

definition capwap_wtpmactype_element_create where
  "capwap_wtpmactype_element_create (e :: capwap_wtpmactype_element) func h = do {
     ASSERT (wtpmactype_type e = 0 \<or> wtpmactype_type e = 1 \<or> wtpmactype_type e = 2);
     (_, h) \<leftarrow> write_u8 func h (wtpmactype_type e);
     Some h }"

definition capwap_wtpmactype_element_parsing where
  "capwap_wtpmactype_element_parsing (m :: junk) func h =
     (if read_ready func h \<noteq> 1 then Some (None, h)
      else do {
        (type, h) \<leftarrow> get_u8 func (of_nat (m 0)) h;
        if type \<noteq> 0 \<and> type \<noteq> 1 \<and> type \<noteq> 2 then Some (None, h) else
        Some (Some \<lparr>wtpmactype_type = type\<rparr>, h) })"

definition wtpmactype_valid where
  "wtpmactype_valid e \<longleftrightarrow> wtpmactype_type e = 0 \<or> wtpmactype_type e = 1 \<or> wtpmactype_type e = 2"

definition wtpmactype_wire :: "capwap_wtpmactype_element \<Rightarrow> u8 list" where
  "wtpmactype_wire e =
     [wtpmactype_type e]"

subsection \<open>WTP Name (type 45)\<close>

record capwap_wtpname_element =
  wtpname_name :: "u8 list option"

definition capwap_wtpname_element_create where
  "capwap_wtpname_element_create (e :: capwap_wtpname_element) func h = do {
     name \<leftarrow> wtpname_name e;
     let len = c_strlen name;
     ASSERT (0 < len);
     (_, h) \<leftarrow> write_block func h (Some name) (of_nat len);
     Some h }"

definition capwap_wtpname_element_parsing where
  "capwap_wtpname_element_parsing (m :: junk) func h =
     (let len = read_ready func h in
     if len < 1 \<or> 512 < len then Some (None, h)
     else do {
       (name, h) \<leftarrow> get_block func (junk_bytes m 0 (unat len)) len h;
       Some (Some \<lparr>wtpname_name = Some name\<rparr>, h) })"

definition wtpname_valid where
  "wtpname_valid e \<longleftrightarrow> (case (wtpname_name e) of None \<Rightarrow> False | Some s \<Rightarrow> 0 \<notin> set s \<and> s \<noteq> [] \<and> length s \<le> 512)"

definition wtpname_wire :: "capwap_wtpname_element \<Rightarrow> u8 list" where
  "wtpname_wire e =
     the (wtpname_name e)"

subsection \<open>WTP Radio Statistics (type 47)\<close>

record capwap_wtpradiostat_element =
  wtpradiostat_radioid :: u8
  wtpradiostat_lastfailtype :: u8
  wtpradiostat_resetcount :: u16
  wtpradiostat_swfailercount :: u16
  wtpradiostat_hwfailercount :: u16
  wtpradiostat_otherfailercount :: u16
  wtpradiostat_unknownfailercount :: u16
  wtpradiostat_configupdatecount :: u16
  wtpradiostat_channelchangecount :: u16
  wtpradiostat_bandchangecount :: u16
  wtpradiostat_currentnoisefloor :: u16

definition capwap_wtpradiostat_element_create where
  "capwap_wtpradiostat_element_create (e :: capwap_wtpradiostat_element) func h = do {
     ASSERT (IS_VALID_RADIOID (wtpradiostat_radioid e));
     (_, h) \<leftarrow> write_u8 func h (wtpradiostat_radioid e);
     (_, h) \<leftarrow> write_u8 func h (wtpradiostat_lastfailtype e);
     (_, h) \<leftarrow> write_u16 func h (wtpradiostat_resetcount e);
     (_, h) \<leftarrow> write_u16 func h (wtpradiostat_swfailercount e);
     (_, h) \<leftarrow> write_u16 func h (wtpradiostat_hwfailercount e);
     (_, h) \<leftarrow> write_u16 func h (wtpradiostat_otherfailercount e);
     (_, h) \<leftarrow> write_u16 func h (wtpradiostat_unknownfailercount e);
     (_, h) \<leftarrow> write_u16 func h (wtpradiostat_configupdatecount e);
     (_, h) \<leftarrow> write_u16 func h (wtpradiostat_channelchangecount e);
     (_, h) \<leftarrow> write_u16 func h (wtpradiostat_bandchangecount e);
     (_, h) \<leftarrow> write_u16 func h (wtpradiostat_currentnoisefloor e);
     Some h }"

definition capwap_wtpradiostat_element_parsing where
  "capwap_wtpradiostat_element_parsing (m :: junk) func h =
     (if read_ready func h \<noteq> 20 then Some (None, h)
      else do {
        (radioid, h) \<leftarrow> get_u8 func (of_nat (m 0)) h;
        if \<not> IS_VALID_RADIOID radioid then Some (None, h)
        else do {
          (lastfailtype, h) \<leftarrow> get_u8 func (of_nat (m 1)) h;
          (resetcount, h) \<leftarrow> get_u16 func (of_nat (m 2)) h;
          (swfailercount, h) \<leftarrow> get_u16 func (of_nat (m 3)) h;
          (hwfailercount, h) \<leftarrow> get_u16 func (of_nat (m 4)) h;
          (otherfailercount, h) \<leftarrow> get_u16 func (of_nat (m 5)) h;
          (unknownfailercount, h) \<leftarrow> get_u16 func (of_nat (m 6)) h;
          (configupdatecount, h) \<leftarrow> get_u16 func (of_nat (m 7)) h;
          (channelchangecount, h) \<leftarrow> get_u16 func (of_nat (m 8)) h;
          (bandchangecount, h) \<leftarrow> get_u16 func (of_nat (m 9)) h;
          (currentnoisefloor, h) \<leftarrow> get_u16 func (of_nat (m 10)) h;
          Some (Some \<lparr>wtpradiostat_radioid = radioid,
            wtpradiostat_lastfailtype = lastfailtype,
            wtpradiostat_resetcount = resetcount,
            wtpradiostat_swfailercount = swfailercount,
            wtpradiostat_hwfailercount = hwfailercount,
            wtpradiostat_otherfailercount = otherfailercount,
            wtpradiostat_unknownfailercount = unknownfailercount,
            wtpradiostat_configupdatecount = configupdatecount,
            wtpradiostat_channelchangecount = channelchangecount,
            wtpradiostat_bandchangecount = bandchangecount,
            wtpradiostat_currentnoisefloor = currentnoisefloor\<rparr>, h) } })"

definition wtpradiostat_valid where
  "wtpradiostat_valid e \<longleftrightarrow> IS_VALID_RADIOID (wtpradiostat_radioid e)"

definition wtpradiostat_wire :: "capwap_wtpradiostat_element \<Rightarrow> u8 list" where
  "wtpradiostat_wire e =
     [wtpradiostat_radioid e] @ [wtpradiostat_lastfailtype e] @
     u16_bytes (wtpradiostat_resetcount e) @ u16_bytes (wtpradiostat_swfailercount e) @
     u16_bytes (wtpradiostat_hwfailercount e) @ u16_bytes (wtpradiostat_otherfailercount e) @
     u16_bytes (wtpradiostat_unknownfailercount e) @
     u16_bytes (wtpradiostat_configupdatecount e) @
     u16_bytes (wtpradiostat_channelchangecount e) @
     u16_bytes (wtpradiostat_bandchangecount e) @
     u16_bytes (wtpradiostat_currentnoisefloor e)"

subsection \<open>WTP Reboot Statistics (type 48)\<close>

record capwap_wtprebootstat_element =
  wtprebootstat_rebootcount :: u16
  wtprebootstat_acinitiatedcount :: u16
  wtprebootstat_linkfailurecount :: u16
  wtprebootstat_swfailurecount :: u16
  wtprebootstat_hwfailurecount :: u16
  wtprebootstat_otherfailurecount :: u16
  wtprebootstat_unknownfailurecount :: u16
  wtprebootstat_lastfailuretype :: u8

definition capwap_wtprebootstat_element_create where
  "capwap_wtprebootstat_element_create (e :: capwap_wtprebootstat_element) func h = do {
     (_, h) \<leftarrow> write_u16 func h (wtprebootstat_rebootcount e);
     (_, h) \<leftarrow> write_u16 func h (wtprebootstat_acinitiatedcount e);
     (_, h) \<leftarrow> write_u16 func h (wtprebootstat_linkfailurecount e);
     (_, h) \<leftarrow> write_u16 func h (wtprebootstat_swfailurecount e);
     (_, h) \<leftarrow> write_u16 func h (wtprebootstat_hwfailurecount e);
     (_, h) \<leftarrow> write_u16 func h (wtprebootstat_otherfailurecount e);
     (_, h) \<leftarrow> write_u16 func h (wtprebootstat_unknownfailurecount e);
     (_, h) \<leftarrow> write_u8 func h (wtprebootstat_lastfailuretype e);
     Some h }"

definition capwap_wtprebootstat_element_parsing where
  "capwap_wtprebootstat_element_parsing (m :: junk) func h =
     (if read_ready func h \<noteq> 15 then Some (None, h)
      else do {
        (rebootcount, h) \<leftarrow> get_u16 func (of_nat (m 0)) h;
        (acinitiatedcount, h) \<leftarrow> get_u16 func (of_nat (m 1)) h;
        (linkfailurecount, h) \<leftarrow> get_u16 func (of_nat (m 2)) h;
        (swfailurecount, h) \<leftarrow> get_u16 func (of_nat (m 3)) h;
        (hwfailurecount, h) \<leftarrow> get_u16 func (of_nat (m 4)) h;
        (otherfailurecount, h) \<leftarrow> get_u16 func (of_nat (m 5)) h;
        (unknownfailurecount, h) \<leftarrow> get_u16 func (of_nat (m 6)) h;
        (lastfailuretype, h) \<leftarrow> get_u8 func (of_nat (m 7)) h;
        Some (Some \<lparr>wtprebootstat_rebootcount = rebootcount,
          wtprebootstat_acinitiatedcount = acinitiatedcount,
          wtprebootstat_linkfailurecount = linkfailurecount,
          wtprebootstat_swfailurecount = swfailurecount,
          wtprebootstat_hwfailurecount = hwfailurecount,
          wtprebootstat_otherfailurecount = otherfailurecount,
          wtprebootstat_unknownfailurecount = unknownfailurecount,
          wtprebootstat_lastfailuretype = lastfailuretype\<rparr>, h) })"

definition wtprebootstat_wire :: "capwap_wtprebootstat_element \<Rightarrow> u8 list" where
  "wtprebootstat_wire e =
     u16_bytes (wtprebootstat_rebootcount e) @ u16_bytes (wtprebootstat_acinitiatedcount e) @
     u16_bytes (wtprebootstat_linkfailurecount e) @
     u16_bytes (wtprebootstat_swfailurecount e) @ u16_bytes (wtprebootstat_hwfailurecount e) @
     u16_bytes (wtprebootstat_otherfailurecount e) @
     u16_bytes (wtprebootstat_unknownfailurecount e) @ [wtprebootstat_lastfailuretype e]"

subsection \<open>WTP Static IP Address Information (type 49)\<close>

record capwap_wtpstaticipaddress_element =
  wtpstaticipaddress_address :: "u8 list"
  wtpstaticipaddress_netmask :: "u8 list"
  wtpstaticipaddress_gateway :: "u8 list"
  wtpstaticipaddress_staticip :: u8

definition capwap_wtpstaticipaddress_element_create where
  "capwap_wtpstaticipaddress_element_create (e :: capwap_wtpstaticipaddress_element) func h = do {
     (_, h) \<leftarrow> write_block func h (Some (wtpstaticipaddress_address e)) 4;
     (_, h) \<leftarrow> write_block func h (Some (wtpstaticipaddress_netmask e)) 4;
     (_, h) \<leftarrow> write_block func h (Some (wtpstaticipaddress_gateway e)) 4;
     (_, h) \<leftarrow> write_u8 func h (wtpstaticipaddress_staticip e);
     Some h }"

definition capwap_wtpstaticipaddress_element_parsing where
  "capwap_wtpstaticipaddress_element_parsing (m :: junk) func h =
     (if read_ready func h \<noteq> 13 then Some (None, h)
      else do {
        (address, h) \<leftarrow> get_block func (junk_bytes m 1 4) 4 h;
        (netmask, h) \<leftarrow> get_block func (junk_bytes m 5 4) 4 h;
        (gateway, h) \<leftarrow> get_block func (junk_bytes m 9 4) 4 h;
        (staticip, h) \<leftarrow> get_u8 func (of_nat (m 0)) h;
        Some (Some \<lparr>wtpstaticipaddress_address = address,
          wtpstaticipaddress_netmask = netmask,
          wtpstaticipaddress_gateway = gateway,
          wtpstaticipaddress_staticip = staticip\<rparr>, h) })"

definition wtpstaticipaddress_valid where
  "wtpstaticipaddress_valid e \<longleftrightarrow> length (wtpstaticipaddress_address e) = 4 \<and> length (wtpstaticipaddress_netmask e) = 4 \<and> length (wtpstaticipaddress_gateway e) = 4"

definition wtpstaticipaddress_wire :: "capwap_wtpstaticipaddress_element \<Rightarrow> u8 list" where
  "wtpstaticipaddress_wire e =
     wtpstaticipaddress_address e @ wtpstaticipaddress_netmask e @
     wtpstaticipaddress_gateway e @ [wtpstaticipaddress_staticip e]"

subsection \<open>CAPWAP Transport Protocol (type 51)\<close>

record capwap_transport_element =
  transport_type :: u8

definition capwap_transport_element_create where
  "capwap_transport_element_create (e :: capwap_transport_element) func h = do {
     ASSERT (transport_type e = 1 \<or> transport_type e = 2);
     (_, h) \<leftarrow> write_u8 func h (transport_type e);
     Some h }"

definition capwap_transport_element_parsing where
  "capwap_transport_element_parsing (m :: junk) func h =
     (if read_ready func h \<noteq> 1 then Some (None, h)
      else do {
        (type, h) \<leftarrow> get_u8 func (of_nat (m 0)) h;
        if type \<noteq> 1 \<and> type \<noteq> 2 then Some (None, h) else
        Some (Some \<lparr>transport_type = type\<rparr>, h) })"

definition transport_valid where
  "transport_valid e \<longleftrightarrow> transport_type e = 1 \<or> transport_type e = 2"

definition transport_wire :: "capwap_transport_element \<Rightarrow> u8 list" where
  "transport_wire e =
     [transport_type e]"

subsection \<open>MTU Discovery Padding (type 52)\<close>

record capwap_mtudiscovery_element =
  mtudiscovery_length :: u16

definition capwap_mtudiscovery_element_create where
  "capwap_mtudiscovery_element_create (e :: capwap_mtudiscovery_element) func h = do {
     h \<leftarrow> write_each (\<lambda>b h. do { (_, h) \<leftarrow> write_u8 func h b; Some h }) (replicate (unat (mtudiscovery_length e)) 0xff) h;
     Some h }"

definition capwap_mtudiscovery_element_parsing where
  "capwap_mtudiscovery_element_parsing (m :: junk) func h =
     (let len = read_ready func h in
     if 0 < len then Some (None, h)
     else do {
       (_, h) \<leftarrow> read_block func h len;
       Some (Some \<lparr>mtudiscovery_length = len\<rparr>, h) })"

definition mtudiscovery_wire :: "capwap_mtudiscovery_element \<Rightarrow> u8 list" where
  "mtudiscovery_wire e =
     replicate (unat (mtudiscovery_length e)) 0xff"

subsection \<open>ECN Support (type 53)\<close>

record capwap_ecnsupport_element =
  ecnsupport_flag :: u8

definition capwap_ecnsupport_element_create where
  "capwap_ecnsupport_element_create (e :: capwap_ecnsupport_element) func h = do {
     ASSERT (ecnsupport_flag e = 0 \<or> ecnsupport_flag e = 1);
     (_, h) \<leftarrow> write_u8 func h (ecnsupport_flag e);
     Some h }"

definition capwap_ecnsupport_element_parsing where
  "capwap_ecnsupport_element_parsing (m :: junk) func h =
     (if read_ready func h \<noteq> 1 then Some (None, h)
      else do {
        (flag, h) \<leftarrow> get_u8 func (of_nat (m 0)) h;
        if flag \<noteq> 0 \<and> flag \<noteq> 1 then Some (None, h) else
        Some (Some \<lparr>ecnsupport_flag = flag\<rparr>, h) })"

definition ecnsupport_valid where
  "ecnsupport_valid e \<longleftrightarrow> ecnsupport_flag e = 0 \<or> ecnsupport_flag e = 1"

definition ecnsupport_wire :: "capwap_ecnsupport_element \<Rightarrow> u8 list" where
  "ecnsupport_wire e =
     [ecnsupport_flag e]"

subsection \<open>Creating writes the wire format\<close>

context message_writer begin

lemma discoverytype_create:
  "discoverytype_valid e \<Longrightarrow> length (discoverytype_wire e) \<le> room h \<Longrightarrow>
   capwap_discoverytype_element_create e func h = Some (app (discoverytype_wire e) h)"
  by (auto simp: capwap_discoverytype_element_create_def discoverytype_wire_def discoverytype_valid_def
      u16_nat Let_def split: option.splits)

lemma duplicateipv4_create:
  "duplicateipv4_valid e \<Longrightarrow> length (duplicateipv4_wire e) \<le> room h \<Longrightarrow>
   capwap_duplicateipv4_element_create e func h = Some (app (duplicateipv4_wire e) h)"
  by (auto simp: capwap_duplicateipv4_element_create_def duplicateipv4_wire_def duplicateipv4_valid_def
      u16_nat Let_def split: option.splits)

lemma duplicateipv6_create:
  "duplicateipv6_valid e \<Longrightarrow> length (duplicateipv6_wire e) \<le> room h \<Longrightarrow>
   capwap_duplicateipv6_element_create e func h = Some (app (duplicateipv6_wire e) h)"
  by (auto simp: capwap_duplicateipv6_element_create_def duplicateipv6_wire_def duplicateipv6_valid_def
      u16_nat Let_def split: option.splits)

lemma idletimeout_create:
  "length (idletimeout_wire e) \<le> room h \<Longrightarrow>
   capwap_idletimeout_element_create e func h = Some (app (idletimeout_wire e) h)"
  by (auto simp: capwap_idletimeout_element_create_def idletimeout_wire_def)

lemma imagedata_create:
  "imagedata_valid e \<Longrightarrow> length (imagedata_wire e) \<le> room h \<Longrightarrow>
   capwap_imagedata_element_create e func h = Some (app (imagedata_wire e) h)"
  by (auto simp: capwap_imagedata_element_create_def imagedata_wire_def imagedata_valid_def
      u16_nat Let_def split: option.splits)

lemma imageidentifier_create:
  "imageidentifier_valid e \<Longrightarrow> length (imageidentifier_wire e) \<le> room h \<Longrightarrow>
   capwap_imageidentifier_element_create e func h = Some (app (imageidentifier_wire e) h)"
  by (auto simp: capwap_imageidentifier_element_create_def imageidentifier_wire_def imageidentifier_valid_def
      u16_nat Let_def split: option.splits)

lemma imageinfo_create:
  "imageinfo_valid e \<Longrightarrow> length (imageinfo_wire e) \<le> room h \<Longrightarrow>
   capwap_imageinfo_element_create e func h = Some (app (imageinfo_wire e) h)"
  by (auto simp: capwap_imageinfo_element_create_def imageinfo_wire_def imageinfo_valid_def
      u16_nat Let_def split: option.splits)

lemma initdownload_create:
  "initdownload_valid e \<Longrightarrow> length (initdownload_wire e) \<le> room h \<Longrightarrow>
   capwap_initdownload_element_create e func h = Some (app (initdownload_wire e) h)"
  by (auto simp: capwap_initdownload_element_create_def initdownload_wire_def initdownload_valid_def
      u16_nat Let_def split: option.splits)

lemma location_create:
  "location_valid e \<Longrightarrow> length (location_wire e) \<le> room h \<Longrightarrow>
   capwap_location_element_create e func h = Some (app (location_wire e) h)"
  by (auto simp: capwap_location_element_create_def location_wire_def location_valid_def
      u16_nat Let_def split: option.splits)

lemma maximumlength_create:
  "length (maximumlength_wire e) \<le> room h \<Longrightarrow>
   capwap_maximumlength_element_create e func h = Some (app (maximumlength_wire e) h)"
  by (auto simp: capwap_maximumlength_element_create_def maximumlength_wire_def)

lemma localipv4_create:
  "localipv4_valid e \<Longrightarrow> length (localipv4_wire e) \<le> room h \<Longrightarrow>
   capwap_localipv4_element_create e func h = Some (app (localipv4_wire e) h)"
  by (auto simp: capwap_localipv4_element_create_def localipv4_wire_def localipv4_valid_def
      u16_nat Let_def split: option.splits)

lemma localipv6_create:
  "localipv6_valid e \<Longrightarrow> length (localipv6_wire e) \<le> room h \<Longrightarrow>
   capwap_localipv6_element_create e func h = Some (app (localipv6_wire e) h)"
  by (auto simp: capwap_localipv6_element_create_def localipv6_wire_def localipv6_valid_def
      u16_nat Let_def split: option.splits)

lemma radioadmstate_create:
  "radioadmstate_valid e \<Longrightarrow> length (radioadmstate_wire e) \<le> room h \<Longrightarrow>
   capwap_radioadmstate_element_create e func h = Some (app (radioadmstate_wire e) h)"
  by (auto simp: capwap_radioadmstate_element_create_def radioadmstate_wire_def radioadmstate_valid_def
      u16_nat Let_def split: option.splits)

lemma radiooprstate_create:
  "radiooprstate_valid e \<Longrightarrow> length (radiooprstate_wire e) \<le> room h \<Longrightarrow>
   capwap_radiooprstate_element_create e func h = Some (app (radiooprstate_wire e) h)"
  by (auto simp: capwap_radiooprstate_element_create_def radiooprstate_wire_def radiooprstate_valid_def
      u16_nat Let_def split: option.splits)

lemma resultcode_create:
  "resultcode_valid e \<Longrightarrow> length (resultcode_wire e) \<le> room h \<Longrightarrow>
   capwap_resultcode_element_create e func h = Some (app (resultcode_wire e) h)"
  by (auto simp: capwap_resultcode_element_create_def resultcode_wire_def resultcode_valid_def
      u16_nat Let_def split: option.splits)

lemma returnedmessage_create:
  "returnedmessage_valid e \<Longrightarrow> length (returnedmessage_wire e) \<le> room h \<Longrightarrow>
   capwap_returnedmessage_element_create e func h = Some (app (returnedmessage_wire e) h)"
  by (auto simp: capwap_returnedmessage_element_create_def returnedmessage_wire_def returnedmessage_valid_def
      u16_nat Let_def split: option.splits)

lemma sessionid_create:
  "sessionid_valid e \<Longrightarrow> length (sessionid_wire e) \<le> room h \<Longrightarrow>
   capwap_sessionid_element_create e func h = Some (app (sessionid_wire e) h)"
  by (auto simp: capwap_sessionid_element_create_def sessionid_wire_def sessionid_valid_def
      u16_nat Let_def split: option.splits)

lemma statisticstimer_create:
  "length (statisticstimer_wire e) \<le> room h \<Longrightarrow>
   capwap_statisticstimer_element_create e func h = Some (app (statisticstimer_wire e) h)"
  by (auto simp: capwap_statisticstimer_element_create_def statisticstimer_wire_def)

lemma vendorpayload_create:
  "vendorpayload_valid e \<Longrightarrow> length (vendorpayload_wire e) \<le> room h \<Longrightarrow>
   capwap_vendorpayload_element_create e func h = Some (app (vendorpayload_wire e) h)"
  by (auto simp: capwap_vendorpayload_element_create_def vendorpayload_wire_def vendorpayload_valid_def
      u16_nat Let_def split: option.splits)

lemma wtpboarddata_board_written:
  "wtpboarddata_board_valid d \<Longrightarrow> length (wtpboarddata_board_wire d) \<le> room h \<Longrightarrow>
   wtpboarddata_board_write func d h = Some (app (wtpboarddata_board_wire d) h)"
  by (auto simp: wtpboarddata_board_write_def wtpboarddata_board_wire_def wtpboarddata_board_valid_def
      u16_nat split: option.splits)

lemma wtpboarddata_create:
  "wtpboarddata_valid e \<Longrightarrow> length (wtpboarddata_wire e) \<le> room h \<Longrightarrow>
   capwap_wtpboarddata_element_create e func h = Some (app (wtpboarddata_wire e) h)"
  by (auto simp: capwap_wtpboarddata_element_create_def wtpboarddata_wire_def wtpboarddata_valid_def
      write_each_app [where w = wtpboarddata_board_wire, OF wtpboarddata_board_written] list_all_iff)

lemma wtpdescriptor_encrypt_written:
  "wtpdescriptor_encrypt_valid d \<Longrightarrow> length (wtpdescriptor_encrypt_wire d) \<le> room h \<Longrightarrow>
   wtpdescriptor_encrypt_write func d h = Some (app (wtpdescriptor_encrypt_wire d) h)"
  by (simp add: wtpdescriptor_encrypt_write_def wtpdescriptor_encrypt_wire_def wtpdescriptor_encrypt_valid_def)

lemma wtpdescriptor_desc_written:
  "wtpdescriptor_desc_valid d \<Longrightarrow> length (wtpdescriptor_desc_wire d) \<le> room h \<Longrightarrow>
   wtpdescriptor_desc_write func d h = Some (app (wtpdescriptor_desc_wire d) h)"
  by (auto simp: wtpdescriptor_desc_write_def wtpdescriptor_desc_wire_def wtpdescriptor_desc_valid_def
      u16_nat Let_def split: option.splits)

lemma wtpdescriptor_create:
  "wtpdescriptor_valid e \<Longrightarrow> length (wtpdescriptor_wire e) \<le> room h \<Longrightarrow>
   capwap_wtpdescriptor_element_create e func h = Some (app (wtpdescriptor_wire e) h)"
  by (auto simp: capwap_wtpdescriptor_element_create_def wtpdescriptor_wire_def wtpdescriptor_valid_def
      write_each_app [where w = wtpdescriptor_encrypt_wire, OF wtpdescriptor_encrypt_written]
      write_each_app [where w = wtpdescriptor_desc_wire, OF wtpdescriptor_desc_written] list_all_iff)

lemma wtpfallback_create:
  "wtpfallback_valid e \<Longrightarrow> length (wtpfallback_wire e) \<le> room h \<Longrightarrow>
   capwap_wtpfallback_element_create e func h = Some (app (wtpfallback_wire e) h)"
  by (auto simp: capwap_wtpfallback_element_create_def wtpfallback_wire_def wtpfallback_valid_def
      u16_nat Let_def split: option.splits)

lemma wtpframetunnelmode_create:
  "wtpframetunnelmode_valid e \<Longrightarrow> length (wtpframetunnelmode_wire e) \<le> room h \<Longrightarrow>
   capwap_wtpframetunnelmode_element_create e func h = Some (app (wtpframetunnelmode_wire e) h)"
  by (auto simp: capwap_wtpframetunnelmode_element_create_def wtpframetunnelmode_wire_def wtpframetunnelmode_valid_def
      u16_nat Let_def split: option.splits)

lemma wtpmactype_create:
  "wtpmactype_valid e \<Longrightarrow> length (wtpmactype_wire e) \<le> room h \<Longrightarrow>
   capwap_wtpmactype_element_create e func h = Some (app (wtpmactype_wire e) h)"
  by (auto simp: capwap_wtpmactype_element_create_def wtpmactype_wire_def wtpmactype_valid_def
      u16_nat Let_def split: option.splits)

lemma wtpname_create:
  "wtpname_valid e \<Longrightarrow> length (wtpname_wire e) \<le> room h \<Longrightarrow>
   capwap_wtpname_element_create e func h = Some (app (wtpname_wire e) h)"
  by (auto simp: capwap_wtpname_element_create_def wtpname_wire_def wtpname_valid_def
      u16_nat Let_def split: option.splits)

lemma wtpradiostat_create:
  "wtpradiostat_valid e \<Longrightarrow> length (wtpradiostat_wire e) \<le> room h \<Longrightarrow>
   capwap_wtpradiostat_element_create e func h = Some (app (wtpradiostat_wire e) h)"
  by (auto simp: capwap_wtpradiostat_element_create_def wtpradiostat_wire_def wtpradiostat_valid_def
      u16_nat Let_def split: option.splits)

lemma wtprebootstat_create:
  "length (wtprebootstat_wire e) \<le> room h \<Longrightarrow>
   capwap_wtprebootstat_element_create e func h = Some (app (wtprebootstat_wire e) h)"
  by (auto simp: capwap_wtprebootstat_element_create_def wtprebootstat_wire_def)

lemma wtpstaticipaddress_create:
  "wtpstaticipaddress_valid e \<Longrightarrow> length (wtpstaticipaddress_wire e) \<le> room h \<Longrightarrow>
   capwap_wtpstaticipaddress_element_create e func h = Some (app (wtpstaticipaddress_wire e) h)"
  by (auto simp: capwap_wtpstaticipaddress_element_create_def wtpstaticipaddress_wire_def wtpstaticipaddress_valid_def
      u16_nat Let_def split: option.splits)

lemma transport_create:
  "transport_valid e \<Longrightarrow> length (transport_wire e) \<le> room h \<Longrightarrow>
   capwap_transport_element_create e func h = Some (app (transport_wire e) h)"
  by (auto simp: capwap_transport_element_create_def transport_wire_def transport_valid_def
      u16_nat Let_def split: option.splits)

lemma mtudiscovery_create:
  "length (mtudiscovery_wire e) \<le> room h \<Longrightarrow>
   capwap_mtudiscovery_element_create e func h = Some (app (mtudiscovery_wire e) h)"
  using write_each_app [where w = "\<lambda>b. [b]" and xs = "replicate (unat (mtudiscovery_length e)) 0xff"
      and f = "\<lambda>b h. do { (_, h) \<leftarrow> write_u8 func h b; Some h }" and h = h]
  by (simp add: capwap_mtudiscovery_element_create_def mtudiscovery_wire_def del: write_u8)
    (simp add: concat_map_singleton)

lemma ecnsupport_create:
  "ecnsupport_valid e \<Longrightarrow> length (ecnsupport_wire e) \<le> room h \<Longrightarrow>
   capwap_ecnsupport_element_create e func h = Some (app (ecnsupport_wire e) h)"
  by (auto simp: capwap_ecnsupport_element_create_def ecnsupport_wire_def ecnsupport_valid_def
      u16_nat Let_def split: option.splits)

end

subsection \<open>Parsing reads the wire format\<close>

context message_reader begin

lemma discoverytype_parse:
  assumes "inv h" "stream h = discoverytype_wire e @ rest" "unat (allow h) = length (discoverytype_wire e)"
    "discoverytype_valid e"
  shows "capwap_discoverytype_element_parsing m func h = Some (Some e, adv (length (discoverytype_wire e)) h)"
  using assms
  by (cases e) (auto simp: capwap_discoverytype_element_parsing_def discoverytype_wire_def discoverytype_valid_def
      lengths Let_def split: option.splits)

lemma duplicateipv4_parse:
  assumes "inv h" "stream h = duplicateipv4_wire e @ rest" "unat (allow h) = length (duplicateipv4_wire e)"
    "duplicateipv4_valid e"
  shows "capwap_duplicateipv4_element_parsing m func h = Some (Some e, adv (length (duplicateipv4_wire e)) h)"
  using assms
  by (cases e) (auto simp: capwap_duplicateipv4_element_parsing_def duplicateipv4_wire_def duplicateipv4_valid_def
      lengths Let_def IS_VALID_MACADDRESS_LENGTH_def split: option.splits)

lemma duplicateipv6_parse:
  assumes "inv h" "stream h = duplicateipv6_wire e @ rest" "unat (allow h) = length (duplicateipv6_wire e)"
    "duplicateipv6_valid e"
  shows "capwap_duplicateipv6_element_parsing m func h = Some (Some e, adv (length (duplicateipv6_wire e)) h)"
  using assms
  by (cases e) (auto simp: capwap_duplicateipv6_element_parsing_def duplicateipv6_wire_def duplicateipv6_valid_def
      lengths Let_def IS_VALID_MACADDRESS_LENGTH_def split: option.splits)

lemma idletimeout_parse:
  assumes "inv h" "stream h = idletimeout_wire e @ rest" "unat (allow h) = length (idletimeout_wire e)"
  shows "capwap_idletimeout_element_parsing m func h = Some (Some e, adv (length (idletimeout_wire e)) h)"
  using assms
  by (cases e) (auto simp: capwap_idletimeout_element_parsing_def idletimeout_wire_def
      lengths Let_def split: option.splits)

lemma imagedata_parse:
  assumes "inv h" "stream h = imagedata_wire e @ rest" "unat (allow h) = length (imagedata_wire e)"
    "imagedata_valid e"
  shows "capwap_imagedata_element_parsing m func h = Some (Some e, adv (length (imagedata_wire e)) h)"
  using assms
  by (cases e) (auto simp: capwap_imagedata_element_parsing_def imagedata_wire_def imagedata_valid_def
      lengths Let_def split: option.splits)

lemma imageidentifier_parse:
  assumes "inv h" "stream h = imageidentifier_wire e @ rest" "unat (allow h) = length (imageidentifier_wire e)"
    "imageidentifier_valid e"
  shows "capwap_imageidentifier_element_parsing m func h = Some (Some e, adv (length (imageidentifier_wire e)) h)"
  using assms
  by (cases e) (auto simp: capwap_imageidentifier_element_parsing_def imageidentifier_wire_def imageidentifier_valid_def
      lengths Let_def split: option.splits)

lemma imageinfo_parse:
  assumes "inv h" "stream h = imageinfo_wire e @ rest" "unat (allow h) = length (imageinfo_wire e)"
    "imageinfo_valid e"
  shows "capwap_imageinfo_element_parsing m func h = Some (Some e, adv (length (imageinfo_wire e)) h)"
  using assms
  by (cases e) (auto simp: capwap_imageinfo_element_parsing_def imageinfo_wire_def imageinfo_valid_def
      lengths Let_def split: option.splits)

lemma initdownload_parse:
  assumes "inv h" "stream h = initdownload_wire e @ rest" "unat (allow h) = length (initdownload_wire e)"
    "initdownload_valid e"
  shows "capwap_initdownload_element_parsing m func h = Some (Some e, adv (length (initdownload_wire e)) h)"
  using assms
  by (cases e) (auto simp: capwap_initdownload_element_parsing_def initdownload_wire_def initdownload_valid_def
      lengths Let_def split: option.splits)

lemma location_parse:
  assumes "inv h" "stream h = location_wire e @ rest" "unat (allow h) = length (location_wire e)"
    "location_valid e"
  shows "capwap_location_element_parsing m func h = Some (Some e, adv (length (location_wire e)) h)"
  using assms
  by (cases e) (auto simp: capwap_location_element_parsing_def location_wire_def location_valid_def
      lengths Let_def split: option.splits)

lemma maximumlength_parse:
  assumes "inv h" "stream h = maximumlength_wire e @ rest" "unat (allow h) = length (maximumlength_wire e)"
  shows "capwap_maximumlength_element_parsing m func h = Some (Some e, adv (length (maximumlength_wire e)) h)"
  using assms
  by (cases e) (auto simp: capwap_maximumlength_element_parsing_def maximumlength_wire_def
      lengths Let_def split: option.splits)

lemma localipv4_parse:
  assumes "inv h" "stream h = localipv4_wire e @ rest" "unat (allow h) = length (localipv4_wire e)"
    "localipv4_valid e"
  shows "capwap_localipv4_element_parsing m func h = Some (Some e, adv (length (localipv4_wire e)) h)"
  using assms
  by (cases e) (auto simp: capwap_localipv4_element_parsing_def localipv4_wire_def localipv4_valid_def
      lengths Let_def split: option.splits)

lemma localipv6_parse:
  assumes "inv h" "stream h = localipv6_wire e @ rest" "unat (allow h) = length (localipv6_wire e)"
    "localipv6_valid e"
  shows "capwap_localipv6_element_parsing m func h = Some (Some e, adv (length (localipv6_wire e)) h)"
  using assms
  by (cases e) (auto simp: capwap_localipv6_element_parsing_def localipv6_wire_def localipv6_valid_def
      lengths Let_def split: option.splits)

lemma radioadmstate_parse:
  assumes "inv h" "stream h = radioadmstate_wire e @ rest" "unat (allow h) = length (radioadmstate_wire e)"
    "radioadmstate_valid e"
  shows "capwap_radioadmstate_element_parsing m func h = Some (Some e, adv (length (radioadmstate_wire e)) h)"
  using assms
  by (cases e) (auto simp: capwap_radioadmstate_element_parsing_def radioadmstate_wire_def radioadmstate_valid_def
      lengths Let_def split: option.splits)

lemma radiooprstate_parse:
  assumes "inv h" "stream h = radiooprstate_wire e @ rest" "unat (allow h) = length (radiooprstate_wire e)"
    "radiooprstate_valid e"
  shows "capwap_radiooprstate_element_parsing m func h = Some (Some e, adv (length (radiooprstate_wire e)) h)"
  using assms
  by (cases e) (auto simp: capwap_radiooprstate_element_parsing_def radiooprstate_wire_def radiooprstate_valid_def
      lengths Let_def split: option.splits)

lemma resultcode_parse:
  assumes "inv h" "stream h = resultcode_wire e @ rest" "unat (allow h) = length (resultcode_wire e)"
    "resultcode_valid e"
  shows "capwap_resultcode_element_parsing m func h = Some (Some e, adv (length (resultcode_wire e)) h)"
  using assms
  by (cases e) (auto simp: capwap_resultcode_element_parsing_def resultcode_wire_def resultcode_valid_def
      lengths Let_def split: option.splits)

lemma returnedmessage_parse:
  assumes "inv h" "stream h = returnedmessage_wire e @ rest" "unat (allow h) = length (returnedmessage_wire e)"
    "returnedmessage_valid e"
  shows "capwap_returnedmessage_element_parsing m func h = Some (Some e, adv (length (returnedmessage_wire e)) h)"
  using assms
  by (cases e) (auto simp: capwap_returnedmessage_element_parsing_def returnedmessage_wire_def returnedmessage_valid_def
      lengths Let_def split: option.splits)

lemma sessionid_parse:
  assumes "inv h" "stream h = sessionid_wire e @ rest" "unat (allow h) = length (sessionid_wire e)"
    "sessionid_valid e"
  shows "capwap_sessionid_element_parsing m func h = Some (Some e, adv (length (sessionid_wire e)) h)"
  using assms
  by (cases e) (auto simp: capwap_sessionid_element_parsing_def sessionid_wire_def sessionid_valid_def
      lengths Let_def split: option.splits)

lemma statisticstimer_parse:
  assumes "inv h" "stream h = statisticstimer_wire e @ rest" "unat (allow h) = length (statisticstimer_wire e)"
  shows "capwap_statisticstimer_element_parsing m func h = Some (Some e, adv (length (statisticstimer_wire e)) h)"
  using assms
  by (cases e) (auto simp: capwap_statisticstimer_element_parsing_def statisticstimer_wire_def
      lengths Let_def split: option.splits)

lemma vendorpayload_parse:
  assumes "inv h" "stream h = vendorpayload_wire e @ rest" "unat (allow h) = length (vendorpayload_wire e)"
    "vendorpayload_valid e"
  shows "capwap_vendorpayload_element_parsing m func h = Some (Some e, adv (length (vendorpayload_wire e)) h)"
  using assms
  by (cases e) (auto simp: capwap_vendorpayload_element_parsing_def vendorpayload_wire_def vendorpayload_valid_def
      lengths Let_def capwap_unknown_vendorpayload_element_parsing_def split: option.splits)

lemma wtpboarddata_board_parsed:
  assumes "inv h" "stream h = wtpboarddata_board_wire d @ r"
    and "length (wtpboarddata_board_wire d) \<le> unat (allow h)" "unat (allow h) \<le> 1024"
    and "wtpboarddata_board_valid d"
  shows "wtpboarddata_board_read func m i h = Some (Some d, adv (length (wtpboarddata_board_wire d)) h)"
  using assms
  by (cases d) (auto simp: wtpboarddata_board_read_def wtpboarddata_board_wire_def
      wtpboarddata_board_valid_def lengths Let_def split: option.splits)

lemma wtpboarddata_parse:
  assumes "inv h" "stream h = wtpboarddata_wire e @ rest" "unat (allow h) = length (wtpboarddata_wire e)"
    "wtpboarddata_valid e"
  shows "capwap_wtpboarddata_element_parsing m func h = Some (Some e, adv (length (wtpboarddata_wire e)) h)"
  using assms read_while_items [where w = wtpboarddata_board_wire and limit = 1024
      and xs = "wtpboarddata_boardsubelement e" and rest = rest and h = "adv 4 h" and i = 0
      and f = "wtpboarddata_board_read func m"]
  by (cases e) (auto simp: capwap_wtpboarddata_element_parsing_def wtpboarddata_wire_def wtpboarddata_valid_def
      wtpboarddata_board_parsed lengths list_all_iff)

lemma wtpdescriptor_encrypt_parsed:
  assumes "wtpdescriptor_encrypt_valid d" "inv h" "stream h = wtpdescriptor_encrypt_wire d @ r"
    and "length (wtpdescriptor_encrypt_wire d) \<le> unat (allow h)"
  shows "wtpdescriptor_encrypt_read func m i h = Some (Some d, adv (length (wtpdescriptor_encrypt_wire d)) h)"
  using assms
  by (cases d) (auto simp: wtpdescriptor_encrypt_read_def wtpdescriptor_encrypt_wire_def
      wtpdescriptor_encrypt_valid_def lengths)

lemma wtpdescriptor_desc_parsed:
  assumes "wtpdescriptor_desc_valid d" "inv h" "stream h = wtpdescriptor_desc_wire d @ r"
    and "length (wtpdescriptor_desc_wire d) \<le> unat (allow h)" "unat (allow h) \<le> 1024"
  shows "wtpdescriptor_desc_read func m i h = Some (Some d, adv (length (wtpdescriptor_desc_wire d)) h)"
proof -
  have "8 < unat (allow h)"
    using assms(1, 4) by (cases "the (wtpdescriptor_desc_data d)")
      (auto simp: wtpdescriptor_desc_wire_def wtpdescriptor_desc_valid_def split: option.splits)
  then show ?thesis
    using assms by (cases d) (auto simp: wtpdescriptor_desc_read_def wtpdescriptor_desc_wire_def
        wtpdescriptor_desc_valid_def lengths Let_def split: option.splits)
qed

lemma wtpdescriptor_parse:
  assumes "inv h" "stream h = wtpdescriptor_wire e @ rest" "unat (allow h) = length (wtpdescriptor_wire e)"
    "wtpdescriptor_valid e"
  shows "capwap_wtpdescriptor_element_parsing m func h = Some (Some e, adv (length (wtpdescriptor_wire e)) h)"
  proof -
  let ?enc = "concat (map wtpdescriptor_encrypt_wire (wtpdescriptor_encryptsubelement e))"
  let ?desc = "concat (map wtpdescriptor_desc_wire (wtpdescriptor_descsubelement e))"
  have valid: "wtpdescriptor_valid e" by fact
  have s: "stream h = [wtpdescriptor_maxradios e, wtpdescriptor_radiosinuse e,
      of_nat (length (wtpdescriptor_encryptsubelement e))] @ ?enc @ ?desc @ rest"
    and a: "unat (allow h) = 3 + length ?enc + length ?desc"
    using assms by (simp_all add: wtpdescriptor_wire_def)
  have "read_checked (wtpdescriptor_encrypt_read func m) 0 (length (wtpdescriptor_encryptsubelement e))
      (adv (Suc (Suc (Suc 0))) h) =
      Some (Some (wtpdescriptor_encryptsubelement e), adv (length ?enc) (adv (Suc (Suc (Suc 0))) h))"
    using assms(1) valid s a
    by (intro read_checked_items) (auto simp: wtpdescriptor_encrypt_parsed wtpdescriptor_valid_def list_all_iff)
  moreover have "read_while func (wtpdescriptor_desc_read func m) 0 (adv (Suc (Suc (Suc (length ?enc)))) h) =
      Some (Some (wtpdescriptor_descsubelement e), adv (length ?desc) (adv (Suc (Suc (Suc (length ?enc)))) h))"
    using assms(1) valid s a
    by (intro read_while_items [where limit = 1024])
      (auto simp: wtpdescriptor_desc_parsed wtpdescriptor_valid_def list_all_iff)
  ultimately show ?thesis
    using assms(1) valid s a
    by (simp add: capwap_wtpdescriptor_element_parsing_def wtpdescriptor_wire_def
        wtpdescriptor_valid_def lengths unat_of_nat_u8)
qed

lemma wtpfallback_parse:
  assumes "inv h" "stream h = wtpfallback_wire e @ rest" "unat (allow h) = length (wtpfallback_wire e)"
    "wtpfallback_valid e"
  shows "capwap_wtpfallback_element_parsing m func h = Some (Some e, adv (length (wtpfallback_wire e)) h)"
  using assms
  by (cases e) (auto simp: capwap_wtpfallback_element_parsing_def wtpfallback_wire_def wtpfallback_valid_def
      lengths Let_def split: option.splits)

lemma wtpframetunnelmode_parse:
  assumes "inv h" "stream h = wtpframetunnelmode_wire e @ rest" "unat (allow h) = length (wtpframetunnelmode_wire e)"
    "wtpframetunnelmode_valid e"
  shows "capwap_wtpframetunnelmode_element_parsing m func h = Some (Some e, adv (length (wtpframetunnelmode_wire e)) h)"
  using assms
  by (cases e) (auto simp: capwap_wtpframetunnelmode_element_parsing_def wtpframetunnelmode_wire_def wtpframetunnelmode_valid_def
      lengths Let_def split: option.splits)

lemma wtpmactype_parse:
  assumes "inv h" "stream h = wtpmactype_wire e @ rest" "unat (allow h) = length (wtpmactype_wire e)"
    "wtpmactype_valid e"
  shows "capwap_wtpmactype_element_parsing m func h = Some (Some e, adv (length (wtpmactype_wire e)) h)"
  using assms
  by (cases e) (auto simp: capwap_wtpmactype_element_parsing_def wtpmactype_wire_def wtpmactype_valid_def
      lengths Let_def split: option.splits)

lemma wtpname_parse:
  assumes "inv h" "stream h = wtpname_wire e @ rest" "unat (allow h) = length (wtpname_wire e)"
    "wtpname_valid e"
  shows "capwap_wtpname_element_parsing m func h = Some (Some e, adv (length (wtpname_wire e)) h)"
  using assms
  by (cases e) (auto simp: capwap_wtpname_element_parsing_def wtpname_wire_def wtpname_valid_def
      lengths Let_def split: option.splits)

lemma wtpradiostat_parse:
  assumes "inv h" "stream h = wtpradiostat_wire e @ rest" "unat (allow h) = length (wtpradiostat_wire e)"
    "wtpradiostat_valid e"
  shows "capwap_wtpradiostat_element_parsing m func h = Some (Some e, adv (length (wtpradiostat_wire e)) h)"
  using assms
  by (cases e) (auto simp: capwap_wtpradiostat_element_parsing_def wtpradiostat_wire_def wtpradiostat_valid_def
      lengths Let_def split: option.splits)

lemma wtprebootstat_parse:
  assumes "inv h" "stream h = wtprebootstat_wire e @ rest" "unat (allow h) = length (wtprebootstat_wire e)"
  shows "capwap_wtprebootstat_element_parsing m func h = Some (Some e, adv (length (wtprebootstat_wire e)) h)"
  using assms
  by (cases e) (auto simp: capwap_wtprebootstat_element_parsing_def wtprebootstat_wire_def
      lengths Let_def split: option.splits)

lemma wtpstaticipaddress_parse:
  assumes "inv h" "stream h = wtpstaticipaddress_wire e @ rest" "unat (allow h) = length (wtpstaticipaddress_wire e)"
    "wtpstaticipaddress_valid e"
  shows "capwap_wtpstaticipaddress_element_parsing m func h = Some (Some e, adv (length (wtpstaticipaddress_wire e)) h)"
  using assms
  by (cases e) (auto simp: capwap_wtpstaticipaddress_element_parsing_def wtpstaticipaddress_wire_def wtpstaticipaddress_valid_def
      lengths Let_def split: option.splits)

lemma transport_parse:
  assumes "inv h" "stream h = transport_wire e @ rest" "unat (allow h) = length (transport_wire e)"
    "transport_valid e"
  shows "capwap_transport_element_parsing m func h = Some (Some e, adv (length (transport_wire e)) h)"
  using assms
  by (cases e) (auto simp: capwap_transport_element_parsing_def transport_wire_def transport_valid_def
      lengths Let_def split: option.splits)

lemma ecnsupport_parse:
  assumes "inv h" "stream h = ecnsupport_wire e @ rest" "unat (allow h) = length (ecnsupport_wire e)"
    "ecnsupport_valid e"
  shows "capwap_ecnsupport_element_parsing m func h = Some (Some e, adv (length (ecnsupport_wire e)) h)"
  using assms
  by (cases e) (auto simp: capwap_ecnsupport_element_parsing_def ecnsupport_wire_def ecnsupport_valid_def
      lengths Let_def split: option.splits)

end

end
