(* ===== verification/Capwap_Elements_C.thy ===== *)
theory Capwap_Elements_C
  imports Capwap_Elements_A
begin

text \<open>
  Message elements of the IEEE 802.11 binding (\<^verbatim>\<open>common/capwap_element_80211_*.c\<close>), types 1024 to
  1061, in the shape of \<open>Capwap_Elements_A\<close>. A fixed array inside a structure is a list of the
  length of the array; the structures are cleared before they are filled.
\<close>

text \<open>The first \<open>n\<close> places of a cleared array are filled.\<close>

lemma rates_array_eq:
  assumes "drop n rs = replicate (k - n) 0" "n \<le> length rs"
  shows "overlay (take n rs) (replicate k 0) = rs"
  using append_take_drop_id [of n rs] assms by (simp add: overlay_def)

lemma levels_array_eq:
  assumes "drop n rs = replicate (k - n) 0" "n \<le> length rs"
  shows "take n rs @ replicate (k - n) 0 = rs"
  using append_take_drop_id [of n rs] assms by simp

lemma ucast_u8_u16: "unat (v :: u16) = unat (c :: u8) \<Longrightarrow> ucast v = c"
  by (simp add: word_unat_eq_iff unsigned_ucast_eq take_bit_nat_eq_self)

subsection \<open>IEEE 802.11 Add WLAN (type 1024)\<close>

record capwap_80211_addwlan_element =
  addwlan_radioid :: u8
  addwlan_wlanid :: u8
  addwlan_capability :: u16
  addwlan_keyindex :: u8
  addwlan_keystatus :: u8
  addwlan_keylength :: u16
  addwlan_key :: "u8 list option"
  addwlan_grouptsc :: "u8 list"
  addwlan_qos :: u8
  addwlan_authmode :: u8
  addwlan_macmode :: u8
  addwlan_tunnelmode :: u8
  addwlan_suppressssid :: u8
  addwlan_ssid :: "u8 list option"

definition capwap_80211_addwlan_element_create where
  "capwap_80211_addwlan_element_create (e :: capwap_80211_addwlan_element) func h = do {
     ASSERT (IS_VALID_RADIOID (addwlan_radioid e));
     ASSERT (IS_VALID_WLANID (addwlan_wlanid e));
     (_, h) \<leftarrow> write_u8 func h (addwlan_radioid e);
     (_, h) \<leftarrow> write_u8 func h (addwlan_wlanid e);
     (_, h) \<leftarrow> write_u16 func h (addwlan_capability e);
     (_, h) \<leftarrow> write_u8 func h (addwlan_keyindex e);
     (_, h) \<leftarrow> write_u8 func h (addwlan_keystatus e);
     (_, h) \<leftarrow> write_u16 func h (addwlan_keylength e);
     h \<leftarrow> (if 0 < (addwlan_keylength e) \<and> addwlan_key e \<noteq> None
             then do { (_, h) \<leftarrow> write_block func h (addwlan_key e) (addwlan_keylength e); Some h }
             else Some h);
     (_, h) \<leftarrow> write_block func h (Some (addwlan_grouptsc e)) 6;
     (_, h) \<leftarrow> write_u8 func h (addwlan_qos e);
     (_, h) \<leftarrow> write_u8 func h (addwlan_authmode e);
     (_, h) \<leftarrow> write_u8 func h (addwlan_macmode e);
     (_, h) \<leftarrow> write_u8 func h (addwlan_tunnelmode e);
     (_, h) \<leftarrow> write_u8 func h (addwlan_suppressssid e);
     ssid \<leftarrow> addwlan_ssid e;
     let len = c_strlen ssid;
     ASSERT (0 < len \<and> len \<le> 32);
     (_, h) \<leftarrow> write_block func h (Some ssid) (of_nat len);
     Some h }"

definition capwap_80211_addwlan_element_parsing where
  "capwap_80211_addwlan_element_parsing (m :: junk) func h =
     (if read_ready func h < 20 then Some (None, h)
      else do {
        (radioid, h) \<leftarrow> get_u8 func 0 h;
        (wlanid, h) \<leftarrow> get_u8 func 0 h;
        if \<not> IS_VALID_RADIOID radioid then Some (None, h) else
        if \<not> IS_VALID_WLANID wlanid then Some (None, h)
        else do {
          (capability, h) \<leftarrow> get_u16 func 0 h;
          (keyindex, h) \<leftarrow> get_u8 func 0 h;
          (keystatus, h) \<leftarrow> get_u8 func 0 h;
          (keylength, h) \<leftarrow> get_u16 func 0 h;
          (key, h) \<leftarrow> (if 0 < keylength
            then map_option (\<lambda>(k, h). (Some k, h)) (get_block func (junk_bytes m 0 (unat keylength)) keylength h)
            else Some (None, h));
          (grouptsc, h) \<leftarrow> get_block func (replicate 6 0) 6 h;
          (qos, h) \<leftarrow> get_u8 func 0 h;
          (authmode, h) \<leftarrow> get_u8 func 0 h;
          (macmode, h) \<leftarrow> get_u8 func 0 h;
          (tunnelmode, h) \<leftarrow> get_u8 func 0 h;
          (suppressssid, h) \<leftarrow> get_u8 func 0 h;
          let len = read_ready func h;
          if len = 0 \<or> 32 < len then Some (None, h)
          else do {
            (ssid, h) \<leftarrow> get_block func (junk_bytes m 65536 (unat len)) len h;
            Some (Some \<lparr>addwlan_radioid = radioid, addwlan_wlanid = wlanid,
              addwlan_capability = capability, addwlan_keyindex = keyindex,
              addwlan_keystatus = keystatus, addwlan_keylength = keylength,
              addwlan_key = key, addwlan_grouptsc = grouptsc, addwlan_qos = qos,
              addwlan_authmode = authmode, addwlan_macmode = macmode,
              addwlan_tunnelmode = tunnelmode, addwlan_suppressssid = suppressssid,
              addwlan_ssid = Some ssid\<rparr>, h) } } })"

definition addwlan_valid where
  "addwlan_valid e \<longleftrightarrow> IS_VALID_RADIOID (addwlan_radioid e) \<and> IS_VALID_WLANID (addwlan_wlanid e) \<and>
     (case (addwlan_key e) of None \<Rightarrow> addwlan_keylength e = 0 | Some k \<Rightarrow> 0 < (addwlan_keylength e) \<and> length k = unat (addwlan_keylength e)) \<and>
     length (addwlan_grouptsc e) = 6 \<and>
     (case (addwlan_ssid e) of None \<Rightarrow> False | Some s \<Rightarrow> 0 \<notin> set s \<and> s \<noteq> [] \<and> length s \<le> 32)"

definition addwlan_wire :: "capwap_80211_addwlan_element \<Rightarrow> u8 list" where
  "addwlan_wire e =
     [addwlan_radioid e, addwlan_wlanid e] @ u16_bytes (addwlan_capability e) @
     [addwlan_keyindex e, addwlan_keystatus e] @ u16_bytes (addwlan_keylength e) @
     (case (addwlan_key e) of None \<Rightarrow> [] | Some k \<Rightarrow> k) @
     addwlan_grouptsc e @
     [addwlan_qos e, addwlan_authmode e, addwlan_macmode e, addwlan_tunnelmode e, addwlan_suppressssid e] @
     the (addwlan_ssid e)"

subsection \<open>IEEE 802.11 Antenna (type 1025)\<close>

record capwap_80211_antenna_element =
  antenna_radioid :: u8
  antenna_diversity :: u8
  antenna_combiner :: u8
  antenna_selections :: "u8 list option"

definition capwap_80211_antenna_element_create where
  "capwap_80211_antenna_element_create (e :: capwap_80211_antenna_element) func h = do {
     ASSERT (IS_VALID_RADIOID (antenna_radioid e));
     ASSERT (antenna_selections e \<noteq> None);
     (_, h) \<leftarrow> write_u8 func h (antenna_radioid e);
     (_, h) \<leftarrow> write_u8 func h (antenna_diversity e);
     (_, h) \<leftarrow> write_u8 func h (antenna_combiner e);
     selections \<leftarrow> antenna_selections e;
     (_, h) \<leftarrow> write_u8 func h (of_nat (length selections));
     h \<leftarrow> write_each (\<lambda>s h. do { (_, h) \<leftarrow> write_u8 func h s; Some h }) selections h;
     Some h }"

definition capwap_80211_antenna_element_parsing where
  "capwap_80211_antenna_element_parsing (m :: junk) func h =
     (let len = read_ready func h in
     if len < 5 then Some (None, h)
     else do {
       (let len = len - 4 in
       if 255 < len then Some (None, h)
       else do {
         (radioid, h) \<leftarrow> get_u8 func 0 h;
         if \<not> IS_VALID_RADIOID radioid then Some (None, h)
         else do {
           (diversity, h) \<leftarrow> get_u8 func 0 h;
           (combiner, h) \<leftarrow> get_u8 func 0 h;
           (count, h) \<leftarrow> get_u8 func (of_nat (m 0)) h;
           if ucast count \<noteq> len then Some (None, h)
           else do {
             (selections, h) \<leftarrow> read_loop (\<lambda>i. get_u8 func 0) 0 (unat count) h;
             Some (Some \<lparr>antenna_radioid = radioid, antenna_diversity = diversity,
                antenna_combiner = combiner, antenna_selections = Some selections\<rparr>, h) } } }) })"

definition antenna_valid where
  "antenna_valid e \<longleftrightarrow> IS_VALID_RADIOID (antenna_radioid e) \<and>
     (case (antenna_selections e) of None \<Rightarrow> False | Some s \<Rightarrow> s \<noteq> [] \<and> length s < 256)"

definition antenna_wire :: "capwap_80211_antenna_element \<Rightarrow> u8 list" where
  "antenna_wire e =
     [antenna_radioid e, antenna_diversity e, antenna_combiner e, of_nat (length (the (antenna_selections e)))] @
     the (antenna_selections e)"

text \<open>The destination is written over field by field; its array is emptied or created first.\<close>

definition capwap_element_80211_antenna_copy where
  "capwap_element_80211_antenna_copy (dst :: capwap_80211_antenna_element) (src :: capwap_80211_antenna_element) =
     dst\<lparr>antenna_radioid := antenna_radioid src, antenna_diversity := antenna_diversity src,
       antenna_combiner := antenna_combiner src,
       antenna_selections := Some (case antenna_selections src of None \<Rightarrow> [] | Some s \<Rightarrow> s)\<rparr>"

subsection \<open>IEEE 802.11 Assigned WTP BSSID (type 1026)\<close>

record capwap_80211_assignbssid_element =
  assignbssid_radioid :: u8
  assignbssid_wlanid :: u8
  assignbssid_bssid :: "u8 list"

definition capwap_80211_assignbssid_element_create where
  "capwap_80211_assignbssid_element_create (e :: capwap_80211_assignbssid_element) func h = do {
     (_, h) \<leftarrow> write_u8 func h (assignbssid_radioid e);
     (_, h) \<leftarrow> write_u8 func h (assignbssid_wlanid e);
     (_, h) \<leftarrow> write_block func h (Some (assignbssid_bssid e)) 6;
     Some h }"

definition capwap_80211_assignbssid_element_parsing where
  "capwap_80211_assignbssid_element_parsing (m :: junk) func h =
     (if read_ready func h \<noteq> 8 then Some (None, h)
      else do {
        (radioid, h) \<leftarrow> get_u8 func 0 h;
        (wlanid, h) \<leftarrow> get_u8 func 0 h;
        (bssid, h) \<leftarrow> get_block func (replicate 6 0) 6 h;
        Some (Some \<lparr>assignbssid_radioid = radioid, assignbssid_wlanid = wlanid,
          assignbssid_bssid = bssid\<rparr>, h) })"

definition assignbssid_valid where
  "assignbssid_valid e \<longleftrightarrow> length (assignbssid_bssid e) = 6"

definition assignbssid_wire :: "capwap_80211_assignbssid_element \<Rightarrow> u8 list" where
  "assignbssid_wire e =
     [assignbssid_radioid e] @ [assignbssid_wlanid e] @ assignbssid_bssid e"

subsection \<open>IEEE 802.11 Delete WLAN (type 1027)\<close>

record capwap_80211_deletewlan_element =
  deletewlan_radioid :: u8
  deletewlan_wlanid :: u8

definition capwap_80211_deletewlan_element_create where
  "capwap_80211_deletewlan_element_create (e :: capwap_80211_deletewlan_element) func h = do {
     (_, h) \<leftarrow> write_u8 func h (deletewlan_radioid e);
     (_, h) \<leftarrow> write_u8 func h (deletewlan_wlanid e);
     Some h }"

definition capwap_80211_deletewlan_element_parsing where
  "capwap_80211_deletewlan_element_parsing (m :: junk) func h =
     (if read_ready func h \<noteq> 2 then Some (None, h)
      else do {
        (radioid, h) \<leftarrow> get_u8 func 0 h;
        (wlanid, h) \<leftarrow> get_u8 func 0 h;
        Some (Some \<lparr>deletewlan_radioid = radioid, deletewlan_wlanid = wlanid\<rparr>, h) })"

definition deletewlan_wire :: "capwap_80211_deletewlan_element \<Rightarrow> u8 list" where
  "deletewlan_wire e =
     [deletewlan_radioid e] @ [deletewlan_wlanid e]"

subsection \<open>IEEE 802.11 Direct Sequence Control (type 1028)\<close>

record capwap_80211_directsequencecontrol_element =
  directsequencecontrol_radioid :: u8
  directsequencecontrol_currentchannel :: u8
  directsequencecontrol_currentcca :: u8
  directsequencecontrol_enerydetectthreshold :: u32

definition capwap_80211_directsequencecontrol_element_create where
  "capwap_80211_directsequencecontrol_element_create (e :: capwap_80211_directsequencecontrol_element) func h = do {
     ASSERT (IS_VALID_RADIOID (directsequencecontrol_radioid e));
     (_, h) \<leftarrow> write_u8 func h (directsequencecontrol_radioid e);
     (_, h) \<leftarrow> write_u8 func h 0;
     (_, h) \<leftarrow> write_u8 func h (directsequencecontrol_currentchannel e);
     (_, h) \<leftarrow> write_u8 func h (directsequencecontrol_currentcca e);
     (_, h) \<leftarrow> write_u32 func h (directsequencecontrol_enerydetectthreshold e);
     Some h }"

definition capwap_80211_directsequencecontrol_element_parsing where
  "capwap_80211_directsequencecontrol_element_parsing (m :: junk) func h =
     (if read_ready func h \<noteq> 8 then Some (None, h)
      else do {
        (radioid, h) \<leftarrow> get_u8 func 0 h;
        if \<not> IS_VALID_RADIOID radioid then Some (None, h)
        else do {
          (_, h) \<leftarrow> read_u8 func h;
          (currentchannel, h) \<leftarrow> get_u8 func 0 h;
          (currentcca, h) \<leftarrow> get_u8 func 0 h;
          (enerydetectthreshold, h) \<leftarrow> get_u32 func 0 h;
          Some (Some \<lparr>directsequencecontrol_radioid = radioid,
            directsequencecontrol_currentchannel = currentchannel,
            directsequencecontrol_currentcca = currentcca,
            directsequencecontrol_enerydetectthreshold = enerydetectthreshold\<rparr>, h) } })"

definition directsequencecontrol_valid where
  "directsequencecontrol_valid e \<longleftrightarrow> IS_VALID_RADIOID (directsequencecontrol_radioid e)"

definition directsequencecontrol_wire :: "capwap_80211_directsequencecontrol_element \<Rightarrow> u8 list" where
  "directsequencecontrol_wire e =
     [directsequencecontrol_radioid e] @ [0] @ [directsequencecontrol_currentchannel e] @
     [directsequencecontrol_currentcca e] @
     u32_bytes (directsequencecontrol_enerydetectthreshold e)"

subsection \<open>IEEE 802.11 Information Element (type 1029)\<close>

record capwap_80211_ie_element =
  ie_radioid :: u8
  ie_wlanid :: u8
  ie_flags :: u8
  ie_ielength :: u16
  ie_ie :: "u8 list option"

definition capwap_80211_ie_element_create where
  "capwap_80211_ie_element_create (e :: capwap_80211_ie_element) func h = do {
     (_, h) \<leftarrow> write_u8 func h (ie_radioid e);
     (_, h) \<leftarrow> write_u8 func h (ie_wlanid e);
     (_, h) \<leftarrow> write_u8 func h (ie_flags e);
     (_, h) \<leftarrow> write_block func h (ie_ie e) (ie_ielength e);
     Some h }"

definition capwap_80211_ie_element_parsing where
  "capwap_80211_ie_element_parsing (m :: junk) func h =
     (let len = read_ready func h in
     if len < 4 then Some (None, h)
     else do {
       (let len = len - 3 in
       do {
         (radioid, h) \<leftarrow> get_u8 func 0 h;
         (wlanid, h) \<leftarrow> get_u8 func 0 h;
         (flags, h) \<leftarrow> get_u8 func 0 h;
         (ie, h) \<leftarrow> get_block func (junk_bytes m 0 (unat len)) len h;
         Some (Some \<lparr>ie_radioid = radioid, ie_wlanid = wlanid, ie_flags = flags,
            ie_ielength = len, ie_ie = Some ie\<rparr>, h) }) })"

definition ie_valid where
  "ie_valid e \<longleftrightarrow> 0 < (ie_ielength e) \<and> (case (ie_ie e) of None \<Rightarrow> False | Some s \<Rightarrow> length s = unat (ie_ielength e))"

definition ie_wire :: "capwap_80211_ie_element \<Rightarrow> u8 list" where
  "ie_wire e =
     [ie_radioid e] @ [ie_wlanid e] @ [ie_flags e] @ the (ie_ie e)"

subsection \<open>IEEE 802.11 MAC Operation (type 1030)\<close>

record capwap_80211_macoperation_element =
  macoperation_radioid :: u8
  macoperation_rtsthreshold :: u16
  macoperation_shortretry :: u8
  macoperation_longretry :: u8
  macoperation_fragthreshold :: u16
  macoperation_txmsdulifetime :: u32
  macoperation_rxmsdulifetime :: u32

definition capwap_80211_macoperation_element_create where
  "capwap_80211_macoperation_element_create (e :: capwap_80211_macoperation_element) func h = do {
     (_, h) \<leftarrow> write_u8 func h (macoperation_radioid e);
     (_, h) \<leftarrow> write_u8 func h 0;
     (_, h) \<leftarrow> write_u16 func h (macoperation_rtsthreshold e);
     (_, h) \<leftarrow> write_u8 func h (macoperation_shortretry e);
     (_, h) \<leftarrow> write_u8 func h (macoperation_longretry e);
     (_, h) \<leftarrow> write_u16 func h (macoperation_fragthreshold e);
     (_, h) \<leftarrow> write_u32 func h (macoperation_txmsdulifetime e);
     (_, h) \<leftarrow> write_u32 func h (macoperation_rxmsdulifetime e);
     Some h }"

definition capwap_80211_macoperation_element_parsing where
  "capwap_80211_macoperation_element_parsing (m :: junk) func h =
     (if read_ready func h \<noteq> 16 then Some (None, h)
      else do {
        (radioid, h) \<leftarrow> get_u8 func 0 h;
        (_, h) \<leftarrow> read_u8 func h;
        (rtsthreshold, h) \<leftarrow> get_u16 func 0 h;
        (shortretry, h) \<leftarrow> get_u8 func 0 h;
        (longretry, h) \<leftarrow> get_u8 func 0 h;
        (fragthreshold, h) \<leftarrow> get_u16 func 0 h;
        (txmsdulifetime, h) \<leftarrow> get_u32 func 0 h;
        (rxmsdulifetime, h) \<leftarrow> get_u32 func 0 h;
        Some (Some \<lparr>macoperation_radioid = radioid, macoperation_rtsthreshold = rtsthreshold,
          macoperation_shortretry = shortretry, macoperation_longretry = longretry,
          macoperation_fragthreshold = fragthreshold,
          macoperation_txmsdulifetime = txmsdulifetime,
          macoperation_rxmsdulifetime = rxmsdulifetime\<rparr>, h) })"

definition macoperation_wire :: "capwap_80211_macoperation_element \<Rightarrow> u8 list" where
  "macoperation_wire e =
     [macoperation_radioid e] @ [0] @ u16_bytes (macoperation_rtsthreshold e) @
     [macoperation_shortretry e] @ [macoperation_longretry e] @
     u16_bytes (macoperation_fragthreshold e) @ u32_bytes (macoperation_txmsdulifetime e) @
     u32_bytes (macoperation_rxmsdulifetime e)"

subsection \<open>IEEE 802.11 MIC Countermeasures (type 1031)\<close>

record capwap_80211_miccountermeasures_element =
  miccountermeasures_radioid :: u8
  miccountermeasures_wlanid :: u8
  miccountermeasures_address :: "u8 list"

definition capwap_80211_miccountermeasures_element_create where
  "capwap_80211_miccountermeasures_element_create (e :: capwap_80211_miccountermeasures_element) func h = do {
     (_, h) \<leftarrow> write_u8 func h (miccountermeasures_radioid e);
     (_, h) \<leftarrow> write_u8 func h (miccountermeasures_wlanid e);
     (_, h) \<leftarrow> write_block func h (Some (miccountermeasures_address e)) 6;
     Some h }"

definition capwap_80211_miccountermeasures_element_parsing where
  "capwap_80211_miccountermeasures_element_parsing (m :: junk) func h =
     (if read_ready func h \<noteq> 8 then Some (None, h)
      else do {
        (radioid, h) \<leftarrow> get_u8 func 0 h;
        (wlanid, h) \<leftarrow> get_u8 func 0 h;
        (address, h) \<leftarrow> get_block func (replicate 6 0) 6 h;
        Some (Some \<lparr>miccountermeasures_radioid = radioid, miccountermeasures_wlanid = wlanid,
          miccountermeasures_address = address\<rparr>, h) })"

definition miccountermeasures_valid where
  "miccountermeasures_valid e \<longleftrightarrow> length (miccountermeasures_address e) = 6"

definition miccountermeasures_wire :: "capwap_80211_miccountermeasures_element \<Rightarrow> u8 list" where
  "miccountermeasures_wire e =
     [miccountermeasures_radioid e] @ [miccountermeasures_wlanid e] @
     miccountermeasures_address e"

subsection \<open>IEEE 802.11 Multi-Domain Capability (type 1032)\<close>

record capwap_80211_multidomaincapability_element =
  multidomaincapability_radioid :: u8
  multidomaincapability_firstchannel :: u16
  multidomaincapability_numberchannels :: u16
  multidomaincapability_maxtxpowerlevel :: u16

definition capwap_80211_multidomaincapability_element_create where
  "capwap_80211_multidomaincapability_element_create (e :: capwap_80211_multidomaincapability_element) func h = do {
     (_, h) \<leftarrow> write_u8 func h (multidomaincapability_radioid e);
     (_, h) \<leftarrow> write_u8 func h 0;
     (_, h) \<leftarrow> write_u16 func h (multidomaincapability_firstchannel e);
     (_, h) \<leftarrow> write_u16 func h (multidomaincapability_numberchannels e);
     (_, h) \<leftarrow> write_u16 func h (multidomaincapability_maxtxpowerlevel e);
     Some h }"

definition capwap_80211_multidomaincapability_element_parsing where
  "capwap_80211_multidomaincapability_element_parsing (m :: junk) func h =
     (if read_ready func h \<noteq> 8 then Some (None, h)
      else do {
        (radioid, h) \<leftarrow> get_u8 func 0 h;
        (_, h) \<leftarrow> read_u8 func h;
        (firstchannel, h) \<leftarrow> get_u16 func 0 h;
        (numberchannels, h) \<leftarrow> get_u16 func 0 h;
        (maxtxpowerlevel, h) \<leftarrow> get_u16 func 0 h;
        Some (Some \<lparr>multidomaincapability_radioid = radioid,
          multidomaincapability_firstchannel = firstchannel,
          multidomaincapability_numberchannels = numberchannels,
          multidomaincapability_maxtxpowerlevel = maxtxpowerlevel\<rparr>, h) })"

definition multidomaincapability_wire :: "capwap_80211_multidomaincapability_element \<Rightarrow> u8 list" where
  "multidomaincapability_wire e =
     [multidomaincapability_radioid e] @ [0] @
     u16_bytes (multidomaincapability_firstchannel e) @
     u16_bytes (multidomaincapability_numberchannels e) @
     u16_bytes (multidomaincapability_maxtxpowerlevel e)"

subsection \<open>IEEE 802.11 OFDM Control (type 1033)\<close>

record capwap_80211_ofdmcontrol_element =
  ofdmcontrol_radioid :: u8
  ofdmcontrol_currentchannel :: u8
  ofdmcontrol_bandsupport :: u8
  ofdmcontrol_tithreshold :: u32

definition capwap_80211_ofdmcontrol_element_create where
  "capwap_80211_ofdmcontrol_element_create (e :: capwap_80211_ofdmcontrol_element) func h = do {
     (_, h) \<leftarrow> write_u8 func h (ofdmcontrol_radioid e);
     (_, h) \<leftarrow> write_u8 func h 0;
     (_, h) \<leftarrow> write_u8 func h (ofdmcontrol_currentchannel e);
     (_, h) \<leftarrow> write_u8 func h (ofdmcontrol_bandsupport e);
     (_, h) \<leftarrow> write_u32 func h (ofdmcontrol_tithreshold e);
     Some h }"

definition capwap_80211_ofdmcontrol_element_parsing where
  "capwap_80211_ofdmcontrol_element_parsing (m :: junk) func h =
     (if read_ready func h \<noteq> 8 then Some (None, h)
      else do {
        (radioid, h) \<leftarrow> get_u8 func 0 h;
        (_, h) \<leftarrow> read_u8 func h;
        (currentchannel, h) \<leftarrow> get_u8 func 0 h;
        (bandsupport, h) \<leftarrow> get_u8 func 0 h;
        (tithreshold, h) \<leftarrow> get_u32 func 0 h;
        Some (Some \<lparr>ofdmcontrol_radioid = radioid,
          ofdmcontrol_currentchannel = currentchannel,
          ofdmcontrol_bandsupport = bandsupport,
          ofdmcontrol_tithreshold = tithreshold\<rparr>, h) })"

definition ofdmcontrol_wire :: "capwap_80211_ofdmcontrol_element \<Rightarrow> u8 list" where
  "ofdmcontrol_wire e =
     [ofdmcontrol_radioid e] @ [0] @ [ofdmcontrol_currentchannel e] @
     [ofdmcontrol_bandsupport e] @ u32_bytes (ofdmcontrol_tithreshold e)"

subsection \<open>IEEE 802.11 Rate Set (type 1034)\<close>

record capwap_80211_rateset_element =
  rateset_radioid :: u8
  rateset_ratesetcount :: u8
  rateset_rateset :: "u8 list"

definition capwap_80211_rateset_element_create where
  "capwap_80211_rateset_element_create (e :: capwap_80211_rateset_element) func h = do {
     (_, h) \<leftarrow> write_u8 func h (rateset_radioid e);
     (_, h) \<leftarrow> write_block func h (Some (rateset_rateset e)) (ucast (rateset_ratesetcount e));
     Some h }"

definition capwap_80211_rateset_element_parsing where
  "capwap_80211_rateset_element_parsing (m :: junk) func h =
     (let len = read_ready func h in
     if len < 3 then Some (None, h)
     else do {
       (let len = len - 1 in
       if 8 < len then Some (None, h)
       else do {
         (radioid, h) \<leftarrow> get_u8 func 0 h;
         let ratesetcount = ucast len;
         (rateset, h) \<leftarrow> get_block func (replicate 8 0) len h;
         Some (Some \<lparr>rateset_radioid = radioid, rateset_ratesetcount = ratesetcount,
            rateset_rateset = rateset\<rparr>, h) }) })"

definition rateset_valid where
  "rateset_valid e \<longleftrightarrow> 2 \<le> rateset_ratesetcount e \<and> rateset_ratesetcount e \<le> 8 \<and> length (rateset_rateset e) = 8 \<and>
     drop (unat (rateset_ratesetcount e)) (rateset_rateset e) = replicate (8 - unat (rateset_ratesetcount e)) 0"

definition rateset_wire :: "capwap_80211_rateset_element \<Rightarrow> u8 list" where
  "rateset_wire e =
     [rateset_radioid e] @ take (unat (rateset_ratesetcount e)) (rateset_rateset e)"

subsection \<open>IEEE 802.11 Supported Rates (type 1040)\<close>

record capwap_80211_supportedrates_element =
  supportedrates_radioid :: u8
  supportedrates_supportedratescount :: u8
  supportedrates_supportedrates :: "u8 list"

definition capwap_80211_supportedrates_element_create where
  "capwap_80211_supportedrates_element_create (e :: capwap_80211_supportedrates_element) func h = do {
     (_, h) \<leftarrow> write_u8 func h (supportedrates_radioid e);
     (_, h) \<leftarrow> write_block func h (Some (supportedrates_supportedrates e)) (ucast (supportedrates_supportedratescount e));
     Some h }"

definition capwap_80211_supportedrates_element_parsing where
  "capwap_80211_supportedrates_element_parsing (m :: junk) func h =
     (let len = read_ready func h in
     if len < 3 then Some (None, h)
     else do {
       (let len = len - 1 in
       if 8 < len then Some (None, h)
       else do {
         (radioid, h) \<leftarrow> get_u8 func 0 h;
         let supportedratescount = ucast len;
         (supportedrates, h) \<leftarrow> get_block func (replicate 8 0) len h;
         Some (Some \<lparr>supportedrates_radioid = radioid,
            supportedrates_supportedratescount = supportedratescount,
            supportedrates_supportedrates = supportedrates\<rparr>, h) }) })"

definition supportedrates_valid where
  "supportedrates_valid e \<longleftrightarrow> 2 \<le> supportedrates_supportedratescount e \<and> supportedrates_supportedratescount e \<le> 8 \<and> length (supportedrates_supportedrates e) = 8 \<and>
     drop (unat (supportedrates_supportedratescount e)) (supportedrates_supportedrates e) = replicate (8 - unat (supportedrates_supportedratescount e)) 0"

definition supportedrates_wire :: "capwap_80211_supportedrates_element \<Rightarrow> u8 list" where
  "supportedrates_wire e =
     [supportedrates_radioid e] @
     take (unat (supportedrates_supportedratescount e)) (supportedrates_supportedrates e)"

subsection \<open>IEEE 802.11 RSNA Error Report From Station (type 1035)\<close>

record capwap_80211_rsnaerrorreport_element =
  rsnaerrorreport_client :: "u8 list"
  rsnaerrorreport_bssid :: "u8 list"
  rsnaerrorreport_radioid :: u8
  rsnaerrorreport_wlanid :: u8
  rsnaerrorreport_tkipicverrors :: u32
  rsnaerrorreport_tkiplocalmicfailure :: u32
  rsnaerrorreport_tkipremotemicfailure :: u32
  rsnaerrorreport_ccmpreplays :: u32
  rsnaerrorreport_ccmpdecrypterrors :: u32
  rsnaerrorreport_tkipreplays :: u32

definition capwap_80211_rsnaerrorreport_element_create where
  "capwap_80211_rsnaerrorreport_element_create (e :: capwap_80211_rsnaerrorreport_element) func h = do {
     (_, h) \<leftarrow> write_block func h (Some (rsnaerrorreport_client e)) 6;
     (_, h) \<leftarrow> write_block func h (Some (rsnaerrorreport_bssid e)) 6;
     (_, h) \<leftarrow> write_u8 func h (rsnaerrorreport_radioid e);
     (_, h) \<leftarrow> write_u8 func h (rsnaerrorreport_wlanid e);
     (_, h) \<leftarrow> write_u16 func h 0;
     (_, h) \<leftarrow> write_u32 func h (rsnaerrorreport_tkipicverrors e);
     (_, h) \<leftarrow> write_u32 func h (rsnaerrorreport_tkiplocalmicfailure e);
     (_, h) \<leftarrow> write_u32 func h (rsnaerrorreport_tkipremotemicfailure e);
     (_, h) \<leftarrow> write_u32 func h (rsnaerrorreport_ccmpreplays e);
     (_, h) \<leftarrow> write_u32 func h (rsnaerrorreport_ccmpdecrypterrors e);
     (_, h) \<leftarrow> write_u32 func h (rsnaerrorreport_tkipreplays e);
     Some h }"

definition capwap_80211_rsnaerrorreport_element_parsing where
  "capwap_80211_rsnaerrorreport_element_parsing (m :: junk) func h =
     (if read_ready func h \<noteq> 40 then Some (None, h)
      else do {
        (client, h) \<leftarrow> get_block func (replicate 6 0) 6 h;
        (bssid, h) \<leftarrow> get_block func (replicate 6 0) 6 h;
        (radioid, h) \<leftarrow> get_u8 func 0 h;
        (wlanid, h) \<leftarrow> get_u8 func 0 h;
        (_, h) \<leftarrow> read_u16 func h;
        (tkipicverrors, h) \<leftarrow> get_u32 func 0 h;
        (tkiplocalmicfailure, h) \<leftarrow> get_u32 func 0 h;
        (tkipremotemicfailure, h) \<leftarrow> get_u32 func 0 h;
        (ccmpreplays, h) \<leftarrow> get_u32 func 0 h;
        (ccmpdecrypterrors, h) \<leftarrow> get_u32 func 0 h;
        (tkipreplays, h) \<leftarrow> get_u32 func 0 h;
        Some (Some \<lparr>rsnaerrorreport_client = client, rsnaerrorreport_bssid = bssid,
          rsnaerrorreport_radioid = radioid, rsnaerrorreport_wlanid = wlanid,
          rsnaerrorreport_tkipicverrors = tkipicverrors,
          rsnaerrorreport_tkiplocalmicfailure = tkiplocalmicfailure,
          rsnaerrorreport_tkipremotemicfailure = tkipremotemicfailure,
          rsnaerrorreport_ccmpreplays = ccmpreplays,
          rsnaerrorreport_ccmpdecrypterrors = ccmpdecrypterrors,
          rsnaerrorreport_tkipreplays = tkipreplays\<rparr>, h) })"

definition rsnaerrorreport_valid where
  "rsnaerrorreport_valid e \<longleftrightarrow> length (rsnaerrorreport_client e) = 6 \<and> length (rsnaerrorreport_bssid e) = 6"

definition rsnaerrorreport_wire :: "capwap_80211_rsnaerrorreport_element \<Rightarrow> u8 list" where
  "rsnaerrorreport_wire e =
     rsnaerrorreport_client e @ rsnaerrorreport_bssid e @ [rsnaerrorreport_radioid e] @
     [rsnaerrorreport_wlanid e] @ u16_bytes 0 @ u32_bytes (rsnaerrorreport_tkipicverrors e) @
     u32_bytes (rsnaerrorreport_tkiplocalmicfailure e) @
     u32_bytes (rsnaerrorreport_tkipremotemicfailure e) @
     u32_bytes (rsnaerrorreport_ccmpreplays e) @
     u32_bytes (rsnaerrorreport_ccmpdecrypterrors e) @
     u32_bytes (rsnaerrorreport_tkipreplays e)"

subsection \<open>IEEE 802.11 Station (type 1036)\<close>

record capwap_80211_station_element =
  station_radioid :: u8
  station_associationid :: u16
  station_flags :: u8
  station_address :: "u8 list"
  station_capabilities :: u16
  station_wlanid :: u8
  station_supportedratescount :: u8
  station_supportedrates :: "u8 list"

definition capwap_80211_station_element_create where
  "capwap_80211_station_element_create (e :: capwap_80211_station_element) func h = do {
     (_, h) \<leftarrow> write_u8 func h (station_radioid e);
     (_, h) \<leftarrow> write_u16 func h (station_associationid e);
     (_, h) \<leftarrow> write_u8 func h (station_flags e);
     (_, h) \<leftarrow> write_block func h (Some (station_address e)) 6;
     (_, h) \<leftarrow> write_u16 func h (station_capabilities e);
     (_, h) \<leftarrow> write_u8 func h (station_wlanid e);
     (_, h) \<leftarrow> write_block func h (Some (station_supportedrates e)) (ucast (station_supportedratescount e));
     Some h }"

definition capwap_80211_station_element_parsing where
  "capwap_80211_station_element_parsing (m :: junk) func h =
     (let len = read_ready func h in
     if len < 14 then Some (None, h)
     else do {
       (let len = len - 13 in
       if 128 < len then Some (None, h)
       else do {
         (radioid, h) \<leftarrow> get_u8 func 0 h;
         (associationid, h) \<leftarrow> get_u16 func 0 h;
         (flags, h) \<leftarrow> get_u8 func 0 h;
         (address, h) \<leftarrow> get_block func (replicate 6 0) 6 h;
         (capabilities, h) \<leftarrow> get_u16 func 0 h;
         (wlanid, h) \<leftarrow> get_u8 func 0 h;
         let supportedratescount = ucast len;
         (supportedrates, h) \<leftarrow> get_block func (replicate 128 0) len h;
         Some (Some \<lparr>station_radioid = radioid, station_associationid = associationid,
            station_flags = flags, station_address = address,
            station_capabilities = capabilities, station_wlanid = wlanid,
            station_supportedratescount = supportedratescount,
            station_supportedrates = supportedrates\<rparr>, h) }) })"

definition station_valid where
  "station_valid e \<longleftrightarrow> length (station_address e) = 6 \<and> 1 \<le> station_supportedratescount e \<and> station_supportedratescount e \<le> 128 \<and> length (station_supportedrates e) = 128 \<and>
     drop (unat (station_supportedratescount e)) (station_supportedrates e) = replicate (128 - unat (station_supportedratescount e)) 0"

definition station_wire :: "capwap_80211_station_element \<Rightarrow> u8 list" where
  "station_wire e =
     [station_radioid e] @ u16_bytes (station_associationid e) @ [station_flags e] @
     station_address e @ u16_bytes (station_capabilities e) @ [station_wlanid e] @
     take (unat (station_supportedratescount e)) (station_supportedrates e)"

subsection \<open>IEEE 802.11 Station QoS Profile (type 1037)\<close>

record capwap_80211_stationqos_element =
  stationqos_address :: "u8 list"
  stationqos_priority :: u8

definition capwap_80211_stationqos_element_create where
  "capwap_80211_stationqos_element_create (e :: capwap_80211_stationqos_element) func h = do {
     (_, h) \<leftarrow> write_block func h (Some (stationqos_address e)) 6;
     (_, h) \<leftarrow> write_u8 func h 0;
     (_, h) \<leftarrow> write_u8 func h (stationqos_priority e);
     Some h }"

definition capwap_80211_stationqos_element_parsing where
  "capwap_80211_stationqos_element_parsing (m :: junk) func h =
     (if read_ready func h \<noteq> 8 then Some (None, h)
      else do {
        (address, h) \<leftarrow> get_block func (replicate 6 0) 6 h;
        (_, h) \<leftarrow> read_u8 func h;
        (priority, h) \<leftarrow> get_u8 func 0 h;
        Some (Some \<lparr>stationqos_address = address, stationqos_priority = priority\<rparr>, h) })"

definition stationqos_valid where
  "stationqos_valid e \<longleftrightarrow> length (stationqos_address e) = 6"

definition stationqos_wire :: "capwap_80211_stationqos_element \<Rightarrow> u8 list" where
  "stationqos_wire e =
     stationqos_address e @ [0] @ [stationqos_priority e]"

subsection \<open>IEEE 802.11 Station Session Key (type 1038)\<close>

record capwap_80211_stationkey_element =
  stationkey_address :: "u8 list"
  stationkey_flags :: u16
  stationkey_pairwisetsc :: "u8 list"
  stationkey_pairwisersc :: "u8 list"
  stationkey_keylength :: u16
  stationkey_key :: "u8 list option"

definition capwap_80211_stationkey_element_create where
  "capwap_80211_stationkey_element_create (e :: capwap_80211_stationkey_element) func h = do {
     (_, h) \<leftarrow> write_block func h (Some (stationkey_address e)) 6;
     (_, h) \<leftarrow> write_u16 func h (stationkey_flags e);
     (_, h) \<leftarrow> write_block func h (Some (stationkey_pairwisetsc e)) 6;
     (_, h) \<leftarrow> write_block func h (Some (stationkey_pairwisersc e)) 6;
     (_, h) \<leftarrow> write_block func h (stationkey_key e) (stationkey_keylength e);
     Some h }"

definition capwap_80211_stationkey_element_parsing where
  "capwap_80211_stationkey_element_parsing (m :: junk) func h =
     (let len = read_ready func h in
     if len < 25 then Some (None, h)
     else do {
       (let keylength = len - 20 in
       do {
         (address, h) \<leftarrow> get_block func (replicate 6 0) 6 h;
         (flags, h) \<leftarrow> get_u16 func 0 h;
         (pairwisetsc, h) \<leftarrow> get_block func (replicate 6 0) 6 h;
         (pairwisersc, h) \<leftarrow> get_block func (replicate 6 0) 6 h;
         (key, h) \<leftarrow> get_block func (junk_bytes m 0 (unat keylength)) keylength h;
         Some (Some \<lparr>stationkey_address = address, stationkey_flags = flags,
            stationkey_pairwisetsc = pairwisetsc,
            stationkey_pairwisersc = pairwisersc, stationkey_keylength = keylength,
            stationkey_key = Some key\<rparr>, h) }) })"

definition stationkey_valid where
  "stationkey_valid e \<longleftrightarrow> length (stationkey_address e) = 6 \<and> length (stationkey_pairwisetsc e) = 6 \<and> length (stationkey_pairwisersc e) = 6 \<and> 5 \<le> stationkey_keylength e \<and>
     (case (stationkey_key e) of None \<Rightarrow> False | Some k \<Rightarrow> length k = unat (stationkey_keylength e))"

definition stationkey_wire :: "capwap_80211_stationkey_element \<Rightarrow> u8 list" where
  "stationkey_wire e =
     stationkey_address e @ u16_bytes (stationkey_flags e) @ stationkey_pairwisetsc e @
     stationkey_pairwisersc e @ the (stationkey_key e)"

subsection \<open>IEEE 802.11 Statistics (type 1039)\<close>

text \<open>
  The three reserved bytes are written from a NULL pointer, which no writer accepts.
\<close>

record capwap_80211_statistics_element =
  statistics_radioid :: u8
  statistics_txfragment :: u32
  statistics_multicasttx :: u32
  statistics_failed :: u32
  statistics_retry :: u32
  statistics_multipleretry :: u32
  statistics_frameduplicate :: u32
  statistics_rtssuccess :: u32
  statistics_rtsfailure :: u32
  statistics_ackfailure :: u32
  statistics_rxfragment :: u32
  statistics_multicastrx :: u32
  statistics_fcserror :: u32
  statistics_txframe :: u32
  statistics_decryptionerror :: u32
  statistics_discardedqosfragment :: u32
  statistics_associatedstation :: u32
  statistics_qoscfpollsreceived :: u32
  statistics_qoscfpollsunused :: u32
  statistics_qoscfpollsunusable :: u32

definition capwap_80211_statistics_element_create where
  "capwap_80211_statistics_element_create (e :: capwap_80211_statistics_element) func h = do {
     (_, h) \<leftarrow> write_u8 func h (statistics_radioid e);
     (_, h) \<leftarrow> write_block func h None 3;
     (_, h) \<leftarrow> write_u32 func h (statistics_txfragment e);
     (_, h) \<leftarrow> write_u32 func h (statistics_multicasttx e);
     (_, h) \<leftarrow> write_u32 func h (statistics_failed e);
     (_, h) \<leftarrow> write_u32 func h (statistics_retry e);
     (_, h) \<leftarrow> write_u32 func h (statistics_multipleretry e);
     (_, h) \<leftarrow> write_u32 func h (statistics_frameduplicate e);
     (_, h) \<leftarrow> write_u32 func h (statistics_rtssuccess e);
     (_, h) \<leftarrow> write_u32 func h (statistics_rtsfailure e);
     (_, h) \<leftarrow> write_u32 func h (statistics_ackfailure e);
     (_, h) \<leftarrow> write_u32 func h (statistics_rxfragment e);
     (_, h) \<leftarrow> write_u32 func h (statistics_multicastrx e);
     (_, h) \<leftarrow> write_u32 func h (statistics_fcserror e);
     (_, h) \<leftarrow> write_u32 func h (statistics_txframe e);
     (_, h) \<leftarrow> write_u32 func h (statistics_decryptionerror e);
     (_, h) \<leftarrow> write_u32 func h (statistics_discardedqosfragment e);
     (_, h) \<leftarrow> write_u32 func h (statistics_associatedstation e);
     (_, h) \<leftarrow> write_u32 func h (statistics_qoscfpollsreceived e);
     (_, h) \<leftarrow> write_u32 func h (statistics_qoscfpollsunused e);
     (_, h) \<leftarrow> write_u32 func h (statistics_qoscfpollsunusable e);
     Some h }"

definition capwap_80211_statistics_element_parsing where
  "capwap_80211_statistics_element_parsing (m :: junk) func h =
     (if read_ready func h \<noteq> 80 then Some (None, h)
      else do {
        (radioid, h) \<leftarrow> get_u8 func 0 h;
        (_, h) \<leftarrow> read_block func h 3;
        (txfragment, h) \<leftarrow> get_u32 func 0 h;
        (multicasttx, h) \<leftarrow> get_u32 func 0 h;
        (failed, h) \<leftarrow> get_u32 func 0 h;
        (retry, h) \<leftarrow> get_u32 func 0 h;
        (multipleretry, h) \<leftarrow> get_u32 func 0 h;
        (frameduplicate, h) \<leftarrow> get_u32 func 0 h;
        (rtssuccess, h) \<leftarrow> get_u32 func 0 h;
        (rtsfailure, h) \<leftarrow> get_u32 func 0 h;
        (ackfailure, h) \<leftarrow> get_u32 func 0 h;
        (rxfragment, h) \<leftarrow> get_u32 func 0 h;
        (multicastrx, h) \<leftarrow> get_u32 func 0 h;
        (fcserror, h) \<leftarrow> get_u32 func 0 h;
        (txframe, h) \<leftarrow> get_u32 func 0 h;
        (decryptionerror, h) \<leftarrow> get_u32 func 0 h;
        (discardedqosfragment, h) \<leftarrow> get_u32 func 0 h;
        (associatedstation, h) \<leftarrow> get_u32 func 0 h;
        (qoscfpollsreceived, h) \<leftarrow> get_u32 func 0 h;
        (qoscfpollsunused, h) \<leftarrow> get_u32 func 0 h;
        (qoscfpollsunusable, h) \<leftarrow> get_u32 func 0 h;
        Some (Some \<lparr>statistics_radioid = radioid, statistics_txfragment = txfragment,
          statistics_multicasttx = multicasttx, statistics_failed = failed,
          statistics_retry = retry, statistics_multipleretry = multipleretry,
          statistics_frameduplicate = frameduplicate,
          statistics_rtssuccess = rtssuccess, statistics_rtsfailure = rtsfailure,
          statistics_ackfailure = ackfailure, statistics_rxfragment = rxfragment,
          statistics_multicastrx = multicastrx, statistics_fcserror = fcserror,
          statistics_txframe = txframe,
          statistics_decryptionerror = decryptionerror,
          statistics_discardedqosfragment = discardedqosfragment,
          statistics_associatedstation = associatedstation,
          statistics_qoscfpollsreceived = qoscfpollsreceived,
          statistics_qoscfpollsunused = qoscfpollsunused,
          statistics_qoscfpollsunusable = qoscfpollsunusable\<rparr>, h) })"

definition statistics_wire :: "capwap_80211_statistics_element \<Rightarrow> u8 list" where
  "statistics_wire e =
     [statistics_radioid e] @ [0, 0, 0] @ u32_bytes (statistics_txfragment e) @
     u32_bytes (statistics_multicasttx e) @ u32_bytes (statistics_failed e) @
     u32_bytes (statistics_retry e) @ u32_bytes (statistics_multipleretry e) @
     u32_bytes (statistics_frameduplicate e) @ u32_bytes (statistics_rtssuccess e) @
     u32_bytes (statistics_rtsfailure e) @ u32_bytes (statistics_ackfailure e) @
     u32_bytes (statistics_rxfragment e) @ u32_bytes (statistics_multicastrx e) @
     u32_bytes (statistics_fcserror e) @ u32_bytes (statistics_txframe e) @
     u32_bytes (statistics_decryptionerror e) @
     u32_bytes (statistics_discardedqosfragment e) @
     u32_bytes (statistics_associatedstation e) @
     u32_bytes (statistics_qoscfpollsreceived e) @ u32_bytes (statistics_qoscfpollsunused e) @
     u32_bytes (statistics_qoscfpollsunusable e)"

subsection \<open>IEEE 802.11 Tx Power (type 1041)\<close>

record capwap_80211_txpower_element =
  txpower_radioid :: u8
  txpower_currenttxpower :: u16

definition capwap_80211_txpower_element_create where
  "capwap_80211_txpower_element_create (e :: capwap_80211_txpower_element) func h = do {
     (_, h) \<leftarrow> write_u8 func h (txpower_radioid e);
     (_, h) \<leftarrow> write_u8 func h 0;
     (_, h) \<leftarrow> write_u16 func h (txpower_currenttxpower e);
     Some h }"

definition capwap_80211_txpower_element_parsing where
  "capwap_80211_txpower_element_parsing (m :: junk) func h =
     (if read_ready func h \<noteq> 4 then Some (None, h)
      else do {
        (radioid, h) \<leftarrow> get_u8 func 0 h;
        (_, h) \<leftarrow> read_u8 func h;
        (currenttxpower, h) \<leftarrow> get_u16 func 0 h;
        Some (Some \<lparr>txpower_radioid = radioid, txpower_currenttxpower = currenttxpower\<rparr>, h) })"

definition txpower_wire :: "capwap_80211_txpower_element \<Rightarrow> u8 list" where
  "txpower_wire e =
     [txpower_radioid e] @ [0] @ u16_bytes (txpower_currenttxpower e)"

subsection \<open>IEEE 802.11 Tx Power Level (type 1042)\<close>

text \<open>
  The array has eight places. \<open>create\<close> with more levels than that reads past its end.
\<close>

record capwap_80211_txpowerlevel_element =
  txpowerlevel_radioid :: u8
  txpowerlevel_numlevels :: u8
  txpowerlevel_powerlevel :: "u16 list"

definition capwap_80211_txpowerlevel_element_create where
  "capwap_80211_txpowerlevel_element_create (e :: capwap_80211_txpowerlevel_element) func h = do {
     (_, h) \<leftarrow> write_u8 func h (txpowerlevel_radioid e);
     (_, h) \<leftarrow> write_u8 func h (txpowerlevel_numlevels e);
     levels \<leftarrow> (if unat (txpowerlevel_numlevels e) \<le> length (txpowerlevel_powerlevel e) then Some (take (unat (txpowerlevel_numlevels e)) (txpowerlevel_powerlevel e)) else None);
     h \<leftarrow> write_each (\<lambda>v h. do { (_, h) \<leftarrow> write_u16 func h v; Some h }) levels h;
     Some h }"

definition capwap_80211_txpowerlevel_element_parsing where
  "capwap_80211_txpowerlevel_element_parsing (m :: junk) func h =
     (let len = read_ready func h in
     if len < 4 then Some (None, h)
     else do {
       (let len = len - 2 in
       if len mod 2 \<noteq> 0 \<or> 8 < len div 2 then Some (None, h)
       else do {
         (radioid, h) \<leftarrow> get_u8 func 0 h;
         (numlevels, h) \<leftarrow> get_u8 func 0 h;
         if unat numlevels * 2 \<noteq> unat len then Some (None, h)
         else do {
           (levels, h) \<leftarrow> read_loop (\<lambda>i. get_u16 func 0) 0 (unat numlevels) h;
           Some (Some \<lparr>txpowerlevel_radioid = radioid, txpowerlevel_numlevels = numlevels,
             txpowerlevel_powerlevel = levels @ drop (length levels) (replicate 8 0)\<rparr>, h) } }) })"

definition txpowerlevel_valid where
  "txpowerlevel_valid e \<longleftrightarrow> 1 \<le> txpowerlevel_numlevels e \<and> txpowerlevel_numlevels e \<le> 8 \<and> length (txpowerlevel_powerlevel e) = 8 \<and>
     drop (unat (txpowerlevel_numlevels e)) (txpowerlevel_powerlevel e) = replicate (8 - unat (txpowerlevel_numlevels e)) 0"

definition txpowerlevel_wire :: "capwap_80211_txpowerlevel_element \<Rightarrow> u8 list" where
  "txpowerlevel_wire e =
     [txpowerlevel_radioid e, txpowerlevel_numlevels e] @
     concat (map u16_bytes (take (unat (txpowerlevel_numlevels e)) (txpowerlevel_powerlevel e)))"

subsection \<open>IEEE 802.11 Update Station QoS (type 1043)\<close>

text \<open>
  \<open>create\<close> writes 15 bytes, \<open>parsing\<close> accepts 14.
\<close>

record capwap_80211_updatestationqos_subelement =
  updatestationqos_priority8021p :: u8
  updatestationqos_dscp :: u8

definition updatestationqos_qos_write where
  "updatestationqos_qos_write func (q :: capwap_80211_updatestationqos_subelement) h = do {
     (_, h) \<leftarrow> write_u8 func h (updatestationqos_priority8021p q AND 0x07);
     (_, h) \<leftarrow> write_u8 func h (updatestationqos_dscp q AND 0x3f);
     Some h }"

definition updatestationqos_qos_read where
  "updatestationqos_qos_read func (i :: nat) h = do {
     (priority8021p, h) \<leftarrow> get_u8 func 0 h;
     (dscp, h) \<leftarrow> get_u8 func 0 h;
     Some (\<lparr>updatestationqos_priority8021p = priority8021p AND 0x07,
       updatestationqos_dscp = dscp AND 0x3f\<rparr>, h) }"

definition updatestationqos_qos_valid where
  "updatestationqos_qos_valid q \<longleftrightarrow> updatestationqos_priority8021p q AND 0x07 = updatestationqos_priority8021p q \<and>
     updatestationqos_dscp q AND 0x3f = updatestationqos_dscp q"

definition updatestationqos_qos_wire :: "capwap_80211_updatestationqos_subelement \<Rightarrow> u8 list" where
  "updatestationqos_qos_wire q = [updatestationqos_priority8021p q, updatestationqos_dscp q]"

lemma length_updatestationqos_qos_wire [simp]: "length (updatestationqos_qos_wire q) = 2"
  by (simp add: updatestationqos_qos_wire_def)

record capwap_80211_updatestationqos_element =
  updatestationqos_radioid :: u8
  updatestationqos_address :: "u8 list"
  updatestationqos_qos :: "capwap_80211_updatestationqos_subelement list"

definition capwap_80211_updatestationqos_element_create where
  "capwap_80211_updatestationqos_element_create (e :: capwap_80211_updatestationqos_element) func h = do {
     (_, h) \<leftarrow> write_u8 func h (updatestationqos_radioid e);
     (_, h) \<leftarrow> write_block func h (Some (updatestationqos_address e)) 6;
     h \<leftarrow> write_each (updatestationqos_qos_write func) (updatestationqos_qos e) h;
     Some h }"

definition capwap_80211_updatestationqos_element_parsing where
  "capwap_80211_updatestationqos_element_parsing (m :: junk) func h =
     (if read_ready func h \<noteq> 14 then Some (None, h)
      else do {
        (radioid, h) \<leftarrow> get_u8 func 0 h;
        (address, h) \<leftarrow> get_block func (replicate 6 0) 6 h;
        (qos, h) \<leftarrow> read_loop (updatestationqos_qos_read func) 0 4 h;
        Some (Some \<lparr>updatestationqos_radioid = radioid, updatestationqos_address = address,
          updatestationqos_qos = qos\<rparr>, h) })"

definition updatestationqos_valid where
  "updatestationqos_valid e \<longleftrightarrow> length (updatestationqos_address e) = 6 \<and> length (updatestationqos_qos e) = 4 \<and> list_all updatestationqos_qos_valid (updatestationqos_qos e)"

definition updatestationqos_wire :: "capwap_80211_updatestationqos_element \<Rightarrow> u8 list" where
  "updatestationqos_wire e =
     [updatestationqos_radioid e] @ updatestationqos_address e @
     concat (map updatestationqos_qos_wire (updatestationqos_qos e))"

subsection \<open>IEEE 802.11 Update WLAN (type 1044)\<close>

record capwap_80211_updatewlan_element =
  updatewlan_radioid :: u8
  updatewlan_wlanid :: u8
  updatewlan_capability :: u16
  updatewlan_keyindex :: u8
  updatewlan_keystatus :: u8
  updatewlan_keylength :: u16
  updatewlan_key :: "u8 list option"

definition capwap_80211_updatewlan_element_create where
  "capwap_80211_updatewlan_element_create (e :: capwap_80211_updatewlan_element) func h = do {
     (_, h) \<leftarrow> write_u8 func h (updatewlan_radioid e);
     (_, h) \<leftarrow> write_u8 func h (updatewlan_wlanid e);
     (_, h) \<leftarrow> write_u16 func h (updatewlan_capability e);
     (_, h) \<leftarrow> write_u8 func h (updatewlan_keyindex e);
     (_, h) \<leftarrow> write_u8 func h (updatewlan_keystatus e);
     (_, h) \<leftarrow> write_u16 func h (updatewlan_keylength e);
     if 0 < (updatewlan_keylength e) \<and> updatewlan_key e \<noteq> None then do {
       (_, h) \<leftarrow> write_block func h (updatewlan_key e) (updatewlan_keylength e);
       Some h }
     else Some h }"

definition capwap_80211_updatewlan_element_parsing where
  "capwap_80211_updatewlan_element_parsing (m :: junk) func h =
     (let len = read_ready func h in
     if len < 8 then Some (None, h)
     else do {
       (let len = len - 8 in
       do {
         (radioid, h) \<leftarrow> get_u8 func 0 h;
         (wlanid, h) \<leftarrow> get_u8 func 0 h;
         (capability, h) \<leftarrow> get_u16 func 0 h;
         (keyindex, h) \<leftarrow> get_u8 func 0 h;
         (keystatus, h) \<leftarrow> get_u8 func 0 h;
         (keylength, h) \<leftarrow> get_u16 func 0 h;
         if len \<noteq> keylength then Some (None, h)
         else do {
           if 0 < keylength then do {
             (key, h) \<leftarrow> get_block func (junk_bytes m 0 (unat keylength)) keylength h;
             Some (Some \<lparr>updatewlan_radioid = radioid, updatewlan_wlanid = wlanid, updatewlan_capability = capability,
               updatewlan_keyindex = keyindex, updatewlan_keystatus = keystatus, updatewlan_keylength = keylength,
               updatewlan_key = Some key\<rparr>, h) }
           else Some (Some \<lparr>updatewlan_radioid = radioid, updatewlan_wlanid = wlanid, updatewlan_capability = capability,
             updatewlan_keyindex = keyindex, updatewlan_keystatus = keystatus, updatewlan_keylength = keylength,
             updatewlan_key = None\<rparr>, h) } }) })"

definition updatewlan_valid where
  "updatewlan_valid e \<longleftrightarrow> (case (updatewlan_key e) of None \<Rightarrow> updatewlan_keylength e = 0 | Some k \<Rightarrow> 0 < (updatewlan_keylength e) \<and> length k = unat (updatewlan_keylength e))"

definition updatewlan_wire :: "capwap_80211_updatewlan_element \<Rightarrow> u8 list" where
  "updatewlan_wire e =
     [updatewlan_radioid e, updatewlan_wlanid e] @ u16_bytes (updatewlan_capability e) @
     [updatewlan_keyindex e, updatewlan_keystatus e] @
     u16_bytes (updatewlan_keylength e) @
     (case (updatewlan_key e) of None \<Rightarrow> [] | Some k \<Rightarrow> k)"

subsection \<open>IEEE 802.11 WTP Quality of Service (type 1045)\<close>

record capwap_80211_wtpqos_subelement =
  wtpqos_queuedepth :: u8
  wtpqos_cwmin :: u16
  wtpqos_cwmax :: u16
  wtpqos_aifs :: u8
  wtpqos_priority8021p :: u8
  wtpqos_dscp :: u8

definition wtpqos_qos_write where
  "wtpqos_qos_write func (q :: capwap_80211_wtpqos_subelement) h = do {
     (_, h) \<leftarrow> write_u8 func h (wtpqos_queuedepth q);
     (_, h) \<leftarrow> write_u16 func h (wtpqos_cwmin q);
     (_, h) \<leftarrow> write_u16 func h (wtpqos_cwmax q);
     (_, h) \<leftarrow> write_u8 func h (wtpqos_aifs q);
     (_, h) \<leftarrow> write_u8 func h (wtpqos_priority8021p q AND 0x07);
     (_, h) \<leftarrow> write_u8 func h (wtpqos_dscp q AND 0x3f);
     Some h }"

definition wtpqos_qos_read where
  "wtpqos_qos_read func (i :: nat) h = do {
     (queuedepth, h) \<leftarrow> get_u8 func 0 h;
     (cwmin, h) \<leftarrow> get_u16 func 0 h;
     (cwmax, h) \<leftarrow> get_u16 func 0 h;
     (aifs, h) \<leftarrow> get_u8 func 0 h;
     (priority8021p, h) \<leftarrow> get_u8 func 0 h;
     (dscp, h) \<leftarrow> get_u8 func 0 h;
     Some (\<lparr>wtpqos_queuedepth = queuedepth, wtpqos_cwmin = cwmin, wtpqos_cwmax = cwmax, wtpqos_aifs = aifs,
       wtpqos_priority8021p = priority8021p AND 0x07, wtpqos_dscp = dscp AND 0x3f\<rparr>, h) }"

definition wtpqos_qos_valid where
  "wtpqos_qos_valid q \<longleftrightarrow> wtpqos_priority8021p q AND 0x07 = wtpqos_priority8021p q \<and>
     wtpqos_dscp q AND 0x3f = wtpqos_dscp q"

definition wtpqos_qos_wire :: "capwap_80211_wtpqos_subelement \<Rightarrow> u8 list" where
  "wtpqos_qos_wire q = [wtpqos_queuedepth q] @ u16_bytes (wtpqos_cwmin q) @ u16_bytes (wtpqos_cwmax q) @
     [wtpqos_aifs q, wtpqos_priority8021p q, wtpqos_dscp q]"

lemma length_wtpqos_qos_wire [simp]: "length (wtpqos_qos_wire q) = 8"
  by (simp add: wtpqos_qos_wire_def)

record capwap_80211_wtpqos_element =
  wtpqos_radioid :: u8
  wtpqos_taggingpolicy :: u8
  wtpqos_qos :: "capwap_80211_wtpqos_subelement list"

definition capwap_80211_wtpqos_element_create where
  "capwap_80211_wtpqos_element_create (e :: capwap_80211_wtpqos_element) func h = do {
     (_, h) \<leftarrow> write_u8 func h (wtpqos_radioid e);
     (_, h) \<leftarrow> write_u8 func h (wtpqos_taggingpolicy e);
     h \<leftarrow> write_each (wtpqos_qos_write func) (wtpqos_qos e) h;
     Some h }"

definition capwap_80211_wtpqos_element_parsing where
  "capwap_80211_wtpqos_element_parsing (m :: junk) func h =
     (if read_ready func h \<noteq> 34 then Some (None, h)
      else do {
        (radioid, h) \<leftarrow> get_u8 func 0 h;
        (taggingpolicy, h) \<leftarrow> get_u8 func 0 h;
        (qos, h) \<leftarrow> read_loop (wtpqos_qos_read func) 0 4 h;
        Some (Some \<lparr>wtpqos_radioid = radioid, wtpqos_taggingpolicy = taggingpolicy,
          wtpqos_qos = qos\<rparr>, h) })"

definition wtpqos_valid where
  "wtpqos_valid e \<longleftrightarrow> length (wtpqos_qos e) = 4 \<and> list_all wtpqos_qos_valid (wtpqos_qos e)"

definition wtpqos_wire :: "capwap_80211_wtpqos_element \<Rightarrow> u8 list" where
  "wtpqos_wire e =
     [wtpqos_radioid e, wtpqos_taggingpolicy e] @
     concat (map wtpqos_qos_wire (wtpqos_qos e))"

subsection \<open>IEEE 802.11 WTP Radio Configuration (type 1046)\<close>

record capwap_80211_wtpradioconf_element =
  wtpradioconf_radioid :: u8
  wtpradioconf_shortpreamble :: u8
  wtpradioconf_maxbssid :: u8
  wtpradioconf_dtimperiod :: u8
  wtpradioconf_bssid :: "u8 list"
  wtpradioconf_beaconperiod :: u16
  wtpradioconf_country :: "u8 list"

definition capwap_80211_wtpradioconf_element_create where
  "capwap_80211_wtpradioconf_element_create (e :: capwap_80211_wtpradioconf_element) func h = do {
     (_, h) \<leftarrow> write_u8 func h (wtpradioconf_radioid e);
     (_, h) \<leftarrow> write_u8 func h (wtpradioconf_shortpreamble e);
     (_, h) \<leftarrow> write_u8 func h (wtpradioconf_maxbssid e);
     (_, h) \<leftarrow> write_u8 func h (wtpradioconf_dtimperiod e);
     (_, h) \<leftarrow> write_block func h (Some (wtpradioconf_bssid e)) 6;
     (_, h) \<leftarrow> write_u16 func h (wtpradioconf_beaconperiod e);
     (_, h) \<leftarrow> write_block func h (Some (wtpradioconf_country e)) 4;
     Some h }"

definition capwap_80211_wtpradioconf_element_parsing where
  "capwap_80211_wtpradioconf_element_parsing (m :: junk) func h =
     (if read_ready func h \<noteq> 16 then Some (None, h)
      else do {
        (radioid, h) \<leftarrow> get_u8 func 0 h;
        (shortpreamble, h) \<leftarrow> get_u8 func 0 h;
        (maxbssid, h) \<leftarrow> get_u8 func 0 h;
        (dtimperiod, h) \<leftarrow> get_u8 func 0 h;
        (bssid, h) \<leftarrow> get_block func (replicate 6 0) 6 h;
        (beaconperiod, h) \<leftarrow> get_u16 func 0 h;
        (country, h) \<leftarrow> get_block func (replicate 4 0) 4 h;
        Some (Some \<lparr>wtpradioconf_radioid = radioid,
          wtpradioconf_shortpreamble = shortpreamble,
          wtpradioconf_maxbssid = maxbssid, wtpradioconf_dtimperiod = dtimperiod,
          wtpradioconf_bssid = bssid, wtpradioconf_beaconperiod = beaconperiod,
          wtpradioconf_country = country\<rparr>, h) })"

definition wtpradioconf_valid where
  "wtpradioconf_valid e \<longleftrightarrow> length (wtpradioconf_bssid e) = 6 \<and> length (wtpradioconf_country e) = 4"

definition wtpradioconf_wire :: "capwap_80211_wtpradioconf_element \<Rightarrow> u8 list" where
  "wtpradioconf_wire e =
     [wtpradioconf_radioid e] @ [wtpradioconf_shortpreamble e] @ [wtpradioconf_maxbssid e] @
     [wtpradioconf_dtimperiod e] @ wtpradioconf_bssid e @
     u16_bytes (wtpradioconf_beaconperiod e) @ wtpradioconf_country e"

subsection \<open>IEEE 802.11 WTP Radio Fail Alarm (type 1047)\<close>

record capwap_80211_wtpradiofailalarm_element =
  wtpradiofailalarm_radioid :: u8
  wtpradiofailalarm_type :: u8
  wtpradiofailalarm_status :: u8
  wtpradiofailalarm_pad :: u8

definition capwap_80211_wtpradiofailalarm_element_create where
  "capwap_80211_wtpradiofailalarm_element_create (e :: capwap_80211_wtpradiofailalarm_element) func h = do {
     (_, h) \<leftarrow> write_u8 func h (wtpradiofailalarm_radioid e);
     (_, h) \<leftarrow> write_u8 func h (wtpradiofailalarm_type e);
     (_, h) \<leftarrow> write_u8 func h (wtpradiofailalarm_status e);
     (_, h) \<leftarrow> write_u8 func h (wtpradiofailalarm_pad e);
     Some h }"

definition capwap_80211_wtpradiofailalarm_element_parsing where
  "capwap_80211_wtpradiofailalarm_element_parsing (m :: junk) func h =
     (if read_ready func h \<noteq> 4 then Some (None, h)
      else do {
        (radioid, h) \<leftarrow> get_u8 func 0 h;
        (type, h) \<leftarrow> get_u8 func 0 h;
        (status, h) \<leftarrow> get_u8 func 0 h;
        (pad, h) \<leftarrow> get_u8 func 0 h;
        Some (Some \<lparr>wtpradiofailalarm_radioid = radioid, wtpradiofailalarm_type = type,
          wtpradiofailalarm_status = status, wtpradiofailalarm_pad = pad\<rparr>, h) })"

definition wtpradiofailalarm_wire :: "capwap_80211_wtpradiofailalarm_element \<Rightarrow> u8 list" where
  "wtpradiofailalarm_wire e =
     [wtpradiofailalarm_radioid e] @ [wtpradiofailalarm_type e] @
     [wtpradiofailalarm_status e] @ [wtpradiofailalarm_pad e]"

subsection \<open>IEEE 802.11 WTP Radio Information (type 1048)\<close>

record capwap_80211_wtpradioinformation_element =
  wtpradioinformation_radioid :: u8
  wtpradioinformation_radiotype :: u32

definition capwap_80211_wtpradioinformation_element_create where
  "capwap_80211_wtpradioinformation_element_create (e :: capwap_80211_wtpradioinformation_element) func h = do {
     (_, h) \<leftarrow> write_u8 func h (wtpradioinformation_radioid e);
     (_, h) \<leftarrow> write_u32 func h (wtpradioinformation_radiotype e);
     Some h }"

definition capwap_80211_wtpradioinformation_element_parsing where
  "capwap_80211_wtpradioinformation_element_parsing (m :: junk) func h =
     (if read_ready func h \<noteq> 5 then Some (None, h)
      else do {
        (radioid, h) \<leftarrow> get_u8 func 0 h;
        (radiotype, h) \<leftarrow> get_u32 func 0 h;
        Some (Some \<lparr>wtpradioinformation_radioid = radioid,
          wtpradioinformation_radiotype = radiotype\<rparr>, h) })"

definition wtpradioinformation_wire :: "capwap_80211_wtpradioinformation_element \<Rightarrow> u8 list" where
  "wtpradioinformation_wire e =
     [wtpradioinformation_radioid e] @ u32_bytes (wtpradioinformation_radiotype e)"

subsection \<open>IEEE 802.11 Supported MAC Profiles (type 1060)\<close>

record capwap_80211_supported_mac_profiles_element =
  supported_mac_profiles_count :: u8
  supported_mac_profiles_profiles :: "u8 list"

definition capwap_80211_supported_mac_profiles_element_create where
  "capwap_80211_supported_mac_profiles_element_create (e :: capwap_80211_supported_mac_profiles_element) func h = do {
     (_, h) \<leftarrow> write_u8 func h (supported_mac_profiles_count e);
     (_, h) \<leftarrow> write_block func h (Some (supported_mac_profiles_profiles e)) (ucast (supported_mac_profiles_count e));
     Some h }"

definition capwap_80211_supported_mac_profiles_element_parsing where
  "capwap_80211_supported_mac_profiles_element_parsing (m :: junk) func h =
     (let len = read_ready func h in
     if len < 1 \<or> 255 < len then Some (None, h)
     else do {
       (let len = len - 1 in
       do {
         (count, h) \<leftarrow> get_u8 func 0 h;
         if ucast count \<noteq> len then Some (None, h)
         else do {
           (profiles, h) \<leftarrow> get_block func (replicate (unat len) 0) len h;
           Some (Some \<lparr>supported_mac_profiles_count = count,
              supported_mac_profiles_profiles = profiles\<rparr>, h) } }) })"

definition supported_mac_profiles_valid where
  "supported_mac_profiles_valid e \<longleftrightarrow> 0 < (supported_mac_profiles_count e) \<and> supported_mac_profiles_count e < 255 \<and> length (supported_mac_profiles_profiles e) = unat (supported_mac_profiles_count e)"

definition supported_mac_profiles_wire :: "capwap_80211_supported_mac_profiles_element \<Rightarrow> u8 list" where
  "supported_mac_profiles_wire e =
     [supported_mac_profiles_count e] @ supported_mac_profiles_profiles e"

subsection \<open>IEEE 802.11 MAC Profile (type 1061)\<close>

record capwap_80211_mac_profile_element =
  mac_profile_mac_profile :: u8

definition capwap_80211_mac_profile_element_create where
  "capwap_80211_mac_profile_element_create (e :: capwap_80211_mac_profile_element) func h = do {
     (_, h) \<leftarrow> write_u8 func h (mac_profile_mac_profile e);
     Some h }"

definition capwap_80211_mac_profile_element_parsing where
  "capwap_80211_mac_profile_element_parsing (m :: junk) func h =
     (if read_ready func h \<noteq> 1 then Some (None, h)
      else do {
        (mac_profile, h) \<leftarrow> get_u8 func 0 h;
        Some (Some \<lparr>mac_profile_mac_profile = mac_profile\<rparr>, h) })"

definition mac_profile_wire :: "capwap_80211_mac_profile_element \<Rightarrow> u8 list" where
  "mac_profile_wire e =
     [mac_profile_mac_profile e]"

subsection \<open>Creating writes the wire format\<close>

context message_writer begin

lemma addwlan_create:
  "addwlan_valid e \<Longrightarrow> length (addwlan_wire e) \<le> room h \<Longrightarrow>
   capwap_80211_addwlan_element_create e func h = Some (app (addwlan_wire e) h)"
  by (auto simp: capwap_80211_addwlan_element_create_def addwlan_wire_def addwlan_valid_def
      u16_nat Let_def split: option.splits)

lemma antenna_create:
  "antenna_valid e \<Longrightarrow> length (antenna_wire e) \<le> room h \<Longrightarrow>
   capwap_80211_antenna_element_create e func h = Some (app (antenna_wire e) h)"
  using write_each_app [where w = "\<lambda>b. [b]" and xs = "the (antenna_selections e)"
      and f = "\<lambda>s h. do { (_, h) \<leftarrow> write_u8 func h s; Some h }"
      and h = "app [antenna_radioid e, antenna_diversity e, antenna_combiner e,
        of_nat (length (the (antenna_selections e)))] h"]
  by (auto simp: capwap_80211_antenna_element_create_def antenna_wire_def antenna_valid_def
      concat_map_singleton split: option.splits)

lemma assignbssid_create:
  "assignbssid_valid e \<Longrightarrow> length (assignbssid_wire e) \<le> room h \<Longrightarrow>
   capwap_80211_assignbssid_element_create e func h = Some (app (assignbssid_wire e) h)"
  by (auto simp: capwap_80211_assignbssid_element_create_def assignbssid_wire_def assignbssid_valid_def
      u16_nat Let_def split: option.splits)

lemma deletewlan_create:
  "length (deletewlan_wire e) \<le> room h \<Longrightarrow>
   capwap_80211_deletewlan_element_create e func h = Some (app (deletewlan_wire e) h)"
  by (auto simp: capwap_80211_deletewlan_element_create_def deletewlan_wire_def)

lemma directsequencecontrol_create:
  "directsequencecontrol_valid e \<Longrightarrow> length (directsequencecontrol_wire e) \<le> room h \<Longrightarrow>
   capwap_80211_directsequencecontrol_element_create e func h = Some (app (directsequencecontrol_wire e) h)"
  by (auto simp: capwap_80211_directsequencecontrol_element_create_def directsequencecontrol_wire_def directsequencecontrol_valid_def
      u16_nat Let_def split: option.splits)

lemma ie_create:
  "ie_valid e \<Longrightarrow> length (ie_wire e) \<le> room h \<Longrightarrow>
   capwap_80211_ie_element_create e func h = Some (app (ie_wire e) h)"
  by (auto simp: capwap_80211_ie_element_create_def ie_wire_def ie_valid_def
      u16_nat Let_def split: option.splits)

lemma macoperation_create:
  "length (macoperation_wire e) \<le> room h \<Longrightarrow>
   capwap_80211_macoperation_element_create e func h = Some (app (macoperation_wire e) h)"
  by (auto simp: capwap_80211_macoperation_element_create_def macoperation_wire_def)

lemma miccountermeasures_create:
  "miccountermeasures_valid e \<Longrightarrow> length (miccountermeasures_wire e) \<le> room h \<Longrightarrow>
   capwap_80211_miccountermeasures_element_create e func h = Some (app (miccountermeasures_wire e) h)"
  by (auto simp: capwap_80211_miccountermeasures_element_create_def miccountermeasures_wire_def miccountermeasures_valid_def
      u16_nat Let_def split: option.splits)

lemma multidomaincapability_create:
  "length (multidomaincapability_wire e) \<le> room h \<Longrightarrow>
   capwap_80211_multidomaincapability_element_create e func h = Some (app (multidomaincapability_wire e) h)"
  by (auto simp: capwap_80211_multidomaincapability_element_create_def multidomaincapability_wire_def)

lemma ofdmcontrol_create:
  "length (ofdmcontrol_wire e) \<le> room h \<Longrightarrow>
   capwap_80211_ofdmcontrol_element_create e func h = Some (app (ofdmcontrol_wire e) h)"
  by (auto simp: capwap_80211_ofdmcontrol_element_create_def ofdmcontrol_wire_def)

lemma rateset_create:
  "rateset_valid e \<Longrightarrow> length (rateset_wire e) \<le> room h \<Longrightarrow>
   capwap_80211_rateset_element_create e func h = Some (app (rateset_wire e) h)"
  by (auto simp: capwap_80211_rateset_element_create_def rateset_wire_def rateset_valid_def
      u16_nat Let_def split: option.splits)

lemma supportedrates_create:
  "supportedrates_valid e \<Longrightarrow> length (supportedrates_wire e) \<le> room h \<Longrightarrow>
   capwap_80211_supportedrates_element_create e func h = Some (app (supportedrates_wire e) h)"
  by (auto simp: capwap_80211_supportedrates_element_create_def supportedrates_wire_def supportedrates_valid_def
      u16_nat Let_def split: option.splits)

lemma rsnaerrorreport_create:
  "rsnaerrorreport_valid e \<Longrightarrow> length (rsnaerrorreport_wire e) \<le> room h \<Longrightarrow>
   capwap_80211_rsnaerrorreport_element_create e func h = Some (app (rsnaerrorreport_wire e) h)"
  by (auto simp: capwap_80211_rsnaerrorreport_element_create_def rsnaerrorreport_wire_def rsnaerrorreport_valid_def
      u16_nat Let_def split: option.splits)

lemma station_create:
  "station_valid e \<Longrightarrow> length (station_wire e) \<le> room h \<Longrightarrow>
   capwap_80211_station_element_create e func h = Some (app (station_wire e) h)"
  by (auto simp: capwap_80211_station_element_create_def station_wire_def station_valid_def
      u16_nat Let_def split: option.splits)

lemma stationqos_create:
  "stationqos_valid e \<Longrightarrow> length (stationqos_wire e) \<le> room h \<Longrightarrow>
   capwap_80211_stationqos_element_create e func h = Some (app (stationqos_wire e) h)"
  by (auto simp: capwap_80211_stationqos_element_create_def stationqos_wire_def stationqos_valid_def
      u16_nat Let_def split: option.splits)

lemma stationkey_create:
  "stationkey_valid e \<Longrightarrow> length (stationkey_wire e) \<le> room h \<Longrightarrow>
   capwap_80211_stationkey_element_create e func h = Some (app (stationkey_wire e) h)"
  by (auto simp: capwap_80211_stationkey_element_create_def stationkey_wire_def stationkey_valid_def
      u16_nat Let_def split: option.splits)

lemma statistics_create_fails:
  "1 \<le> room h \<Longrightarrow> capwap_80211_statistics_element_create e func h = None"
  by (simp add: capwap_80211_statistics_element_create_def)

lemma txpower_create:
  "length (txpower_wire e) \<le> room h \<Longrightarrow>
   capwap_80211_txpower_element_create e func h = Some (app (txpower_wire e) h)"
  by (auto simp: capwap_80211_txpower_element_create_def txpower_wire_def)

lemma txpowerlevel_create:
  "txpowerlevel_valid e \<Longrightarrow> length (txpowerlevel_wire e) \<le> room h \<Longrightarrow>
   capwap_80211_txpowerlevel_element_create e func h = Some (app (txpowerlevel_wire e) h)"
  using write_each_app [where w = u16_bytes and xs = "take (unat (txpowerlevel_numlevels e)) (txpowerlevel_powerlevel e)"
      and f = "\<lambda>v h. do { (_, h) \<leftarrow> write_u16 func h v; Some h }"
      and h = "app [txpowerlevel_radioid e, txpowerlevel_numlevels e] h"]
  by (auto simp: capwap_80211_txpowerlevel_element_create_def txpowerlevel_wire_def txpowerlevel_valid_def u16_nat)

lemma updatestationqos_qos_written:
  "updatestationqos_qos_valid q \<Longrightarrow> length (updatestationqos_qos_wire q) \<le> room h \<Longrightarrow>
   updatestationqos_qos_write func q h = Some (app (updatestationqos_qos_wire q) h)"
  by (simp add: updatestationqos_qos_write_def updatestationqos_qos_wire_def updatestationqos_qos_valid_def)

lemma updatestationqos_create:
  "updatestationqos_valid e \<Longrightarrow> length (updatestationqos_wire e) \<le> room h \<Longrightarrow>
   capwap_80211_updatestationqos_element_create e func h = Some (app (updatestationqos_wire e) h)"
  using write_each_app [where w = updatestationqos_qos_wire and xs = "updatestationqos_qos e"
      and f = "updatestationqos_qos_write func" and h = "app (updatestationqos_radioid e # updatestationqos_address e) h"]
  by (auto simp: capwap_80211_updatestationqos_element_create_def updatestationqos_wire_def updatestationqos_valid_def
      updatestationqos_qos_written list_all_iff)

lemma updatewlan_create:
  "updatewlan_valid e \<Longrightarrow> length (updatewlan_wire e) \<le> room h \<Longrightarrow>
   capwap_80211_updatewlan_element_create e func h = Some (app (updatewlan_wire e) h)"
  by (auto simp: capwap_80211_updatewlan_element_create_def updatewlan_wire_def updatewlan_valid_def
      u16_nat Let_def split: option.splits)

lemma wtpqos_qos_written:
  "wtpqos_qos_valid q \<Longrightarrow> length (wtpqos_qos_wire q) \<le> room h \<Longrightarrow>
   wtpqos_qos_write func q h = Some (app (wtpqos_qos_wire q) h)"
  by (simp add: wtpqos_qos_write_def wtpqos_qos_wire_def wtpqos_qos_valid_def)

lemma wtpqos_create:
  "wtpqos_valid e \<Longrightarrow> length (wtpqos_wire e) \<le> room h \<Longrightarrow>
   capwap_80211_wtpqos_element_create e func h = Some (app (wtpqos_wire e) h)"
  using write_each_app [where w = wtpqos_qos_wire and xs = "wtpqos_qos e"
      and f = "wtpqos_qos_write func" and h = "app [wtpqos_radioid e, wtpqos_taggingpolicy e] h"]
  by (auto simp: capwap_80211_wtpqos_element_create_def wtpqos_wire_def wtpqos_valid_def
      wtpqos_qos_written list_all_iff)

lemma wtpradioconf_create:
  "wtpradioconf_valid e \<Longrightarrow> length (wtpradioconf_wire e) \<le> room h \<Longrightarrow>
   capwap_80211_wtpradioconf_element_create e func h = Some (app (wtpradioconf_wire e) h)"
  by (auto simp: capwap_80211_wtpradioconf_element_create_def wtpradioconf_wire_def wtpradioconf_valid_def
      u16_nat Let_def split: option.splits)

lemma wtpradiofailalarm_create:
  "length (wtpradiofailalarm_wire e) \<le> room h \<Longrightarrow>
   capwap_80211_wtpradiofailalarm_element_create e func h = Some (app (wtpradiofailalarm_wire e) h)"
  by (auto simp: capwap_80211_wtpradiofailalarm_element_create_def wtpradiofailalarm_wire_def)

lemma wtpradioinformation_create:
  "length (wtpradioinformation_wire e) \<le> room h \<Longrightarrow>
   capwap_80211_wtpradioinformation_element_create e func h = Some (app (wtpradioinformation_wire e) h)"
  by (auto simp: capwap_80211_wtpradioinformation_element_create_def wtpradioinformation_wire_def)

lemma supported_mac_profiles_create:
  "supported_mac_profiles_valid e \<Longrightarrow> length (supported_mac_profiles_wire e) \<le> room h \<Longrightarrow>
   capwap_80211_supported_mac_profiles_element_create e func h = Some (app (supported_mac_profiles_wire e) h)"
  by (auto simp: capwap_80211_supported_mac_profiles_element_create_def supported_mac_profiles_wire_def supported_mac_profiles_valid_def
      u16_nat Let_def split: option.splits)

lemma mac_profile_create:
  "length (mac_profile_wire e) \<le> room h \<Longrightarrow>
   capwap_80211_mac_profile_element_create e func h = Some (app (mac_profile_wire e) h)"
  by (auto simp: capwap_80211_mac_profile_element_create_def mac_profile_wire_def)

end

subsection \<open>Parsing reads the wire format\<close>

context message_reader begin

lemma addwlan_parse:
  assumes "inv h" "stream h = addwlan_wire e @ rest" "unat (allow h) = length (addwlan_wire e)"
    "addwlan_valid e"
  shows "capwap_80211_addwlan_element_parsing m func h = Some (Some e, adv (length (addwlan_wire e)) h)"
  using assms
  by (cases e) (auto simp: capwap_80211_addwlan_element_parsing_def addwlan_wire_def addwlan_valid_def
      lengths Let_def add.assoc split: option.splits)

lemma antenna_parse:
  assumes "inv h" "stream h = antenna_wire e @ rest" "unat (allow h) = length (antenna_wire e)"
    "antenna_valid e"
  shows "capwap_80211_antenna_element_parsing m func h = Some (Some e, adv (length (antenna_wire e)) h)"
  using assms read_loop_items [where w = "\<lambda>b. [b]" and xs = "the (antenna_selections e)" and i = 0 and rest = rest
      and f = "\<lambda>i. get_u8 func 0" and h = "adv (Suc (Suc (Suc (Suc 0)))) h"]
  by (cases e) (auto simp: capwap_80211_antenna_element_parsing_def antenna_wire_def antenna_valid_def
      lengths Let_def unat_of_nat_u8 concat_map_singleton split: option.splits)

lemma assignbssid_parse:
  assumes "inv h" "stream h = assignbssid_wire e @ rest" "unat (allow h) = length (assignbssid_wire e)"
    "assignbssid_valid e"
  shows "capwap_80211_assignbssid_element_parsing m func h = Some (Some e, adv (length (assignbssid_wire e)) h)"
  using assms
  by (cases e) (auto simp: capwap_80211_assignbssid_element_parsing_def assignbssid_wire_def assignbssid_valid_def
      lengths Let_def split: option.splits)

lemma deletewlan_parse:
  assumes "inv h" "stream h = deletewlan_wire e @ rest" "unat (allow h) = length (deletewlan_wire e)"
  shows "capwap_80211_deletewlan_element_parsing m func h = Some (Some e, adv (length (deletewlan_wire e)) h)"
  using assms
  by (cases e) (auto simp: capwap_80211_deletewlan_element_parsing_def deletewlan_wire_def
      lengths Let_def split: option.splits)

lemma directsequencecontrol_parse:
  assumes "inv h" "stream h = directsequencecontrol_wire e @ rest" "unat (allow h) = length (directsequencecontrol_wire e)"
    "directsequencecontrol_valid e"
  shows "capwap_80211_directsequencecontrol_element_parsing m func h = Some (Some e, adv (length (directsequencecontrol_wire e)) h)"
  using assms
  by (cases e) (auto simp: capwap_80211_directsequencecontrol_element_parsing_def directsequencecontrol_wire_def directsequencecontrol_valid_def
      lengths Let_def split: option.splits)

lemma ie_parse:
  assumes "inv h" "stream h = ie_wire e @ rest" "unat (allow h) = length (ie_wire e)"
    "ie_valid e"
  shows "capwap_80211_ie_element_parsing m func h = Some (Some e, adv (length (ie_wire e)) h)"
  using assms
  by (cases e) (auto simp: capwap_80211_ie_element_parsing_def ie_wire_def ie_valid_def
      lengths Let_def split: option.splits)

lemma macoperation_parse:
  assumes "inv h" "stream h = macoperation_wire e @ rest" "unat (allow h) = length (macoperation_wire e)"
  shows "capwap_80211_macoperation_element_parsing m func h = Some (Some e, adv (length (macoperation_wire e)) h)"
  using assms
  by (cases e) (auto simp: capwap_80211_macoperation_element_parsing_def macoperation_wire_def
      lengths Let_def split: option.splits)

lemma miccountermeasures_parse:
  assumes "inv h" "stream h = miccountermeasures_wire e @ rest" "unat (allow h) = length (miccountermeasures_wire e)"
    "miccountermeasures_valid e"
  shows "capwap_80211_miccountermeasures_element_parsing m func h = Some (Some e, adv (length (miccountermeasures_wire e)) h)"
  using assms
  by (cases e) (auto simp: capwap_80211_miccountermeasures_element_parsing_def miccountermeasures_wire_def miccountermeasures_valid_def
      lengths Let_def split: option.splits)

lemma multidomaincapability_parse:
  assumes "inv h" "stream h = multidomaincapability_wire e @ rest" "unat (allow h) = length (multidomaincapability_wire e)"
  shows "capwap_80211_multidomaincapability_element_parsing m func h = Some (Some e, adv (length (multidomaincapability_wire e)) h)"
  using assms
  by (cases e) (auto simp: capwap_80211_multidomaincapability_element_parsing_def multidomaincapability_wire_def
      lengths Let_def split: option.splits)

lemma ofdmcontrol_parse:
  assumes "inv h" "stream h = ofdmcontrol_wire e @ rest" "unat (allow h) = length (ofdmcontrol_wire e)"
  shows "capwap_80211_ofdmcontrol_element_parsing m func h = Some (Some e, adv (length (ofdmcontrol_wire e)) h)"
  using assms
  by (cases e) (auto simp: capwap_80211_ofdmcontrol_element_parsing_def ofdmcontrol_wire_def
      lengths Let_def split: option.splits)

lemma rateset_parse:
  assumes "inv h" "stream h = rateset_wire e @ rest" "unat (allow h) = length (rateset_wire e)"
    "rateset_valid e"
  shows "capwap_80211_rateset_element_parsing m func h = Some (Some e, adv (length (rateset_wire e)) h)"
  using assms
  by (cases e) (auto simp: capwap_80211_rateset_element_parsing_def rateset_wire_def rateset_valid_def
      lengths Let_def rates_array_eq ucast_u8_u16 split: option.splits)

lemma supportedrates_parse:
  assumes "inv h" "stream h = supportedrates_wire e @ rest" "unat (allow h) = length (supportedrates_wire e)"
    "supportedrates_valid e"
  shows "capwap_80211_supportedrates_element_parsing m func h = Some (Some e, adv (length (supportedrates_wire e)) h)"
  using assms
  by (cases e) (auto simp: capwap_80211_supportedrates_element_parsing_def supportedrates_wire_def supportedrates_valid_def
      lengths Let_def rates_array_eq ucast_u8_u16 split: option.splits)

lemma rsnaerrorreport_parse:
  assumes "inv h" "stream h = rsnaerrorreport_wire e @ rest" "unat (allow h) = length (rsnaerrorreport_wire e)"
    "rsnaerrorreport_valid e"
  shows "capwap_80211_rsnaerrorreport_element_parsing m func h = Some (Some e, adv (length (rsnaerrorreport_wire e)) h)"
  using assms
  by (cases e) (auto simp: capwap_80211_rsnaerrorreport_element_parsing_def rsnaerrorreport_wire_def rsnaerrorreport_valid_def
      lengths Let_def split: option.splits)

lemma station_parse:
  assumes "inv h" "stream h = station_wire e @ rest" "unat (allow h) = length (station_wire e)"
    "station_valid e"
  shows "capwap_80211_station_element_parsing m func h = Some (Some e, adv (length (station_wire e)) h)"
  using assms
  by (cases e) (auto simp: capwap_80211_station_element_parsing_def station_wire_def station_valid_def
      lengths Let_def rates_array_eq ucast_u8_u16 split: option.splits)

lemma stationqos_parse:
  assumes "inv h" "stream h = stationqos_wire e @ rest" "unat (allow h) = length (stationqos_wire e)"
    "stationqos_valid e"
  shows "capwap_80211_stationqos_element_parsing m func h = Some (Some e, adv (length (stationqos_wire e)) h)"
  using assms
  by (cases e) (auto simp: capwap_80211_stationqos_element_parsing_def stationqos_wire_def stationqos_valid_def
      lengths Let_def split: option.splits)

lemma stationkey_parse:
  assumes "inv h" "stream h = stationkey_wire e @ rest" "unat (allow h) = length (stationkey_wire e)"
    "stationkey_valid e"
  shows "capwap_80211_stationkey_element_parsing m func h = Some (Some e, adv (length (stationkey_wire e)) h)"
  using assms
  by (cases e) (auto simp: capwap_80211_stationkey_element_parsing_def stationkey_wire_def stationkey_valid_def
      lengths Let_def split: option.splits)

lemma statistics_parse:
  assumes "inv h" "stream h = statistics_wire e @ rest" "unat (allow h) = length (statistics_wire e)"
  shows "capwap_80211_statistics_element_parsing m func h = Some (Some e, adv (length (statistics_wire e)) h)"
  using assms
  by (cases e) (auto simp: capwap_80211_statistics_element_parsing_def statistics_wire_def
      lengths Let_def split: option.splits)

lemma txpower_parse:
  assumes "inv h" "stream h = txpower_wire e @ rest" "unat (allow h) = length (txpower_wire e)"
  shows "capwap_80211_txpower_element_parsing m func h = Some (Some e, adv (length (txpower_wire e)) h)"
  using assms
  by (cases e) (auto simp: capwap_80211_txpower_element_parsing_def txpower_wire_def
      lengths Let_def split: option.splits)

lemma txpowerlevel_parse:
  assumes "inv h" "stream h = txpowerlevel_wire e @ rest" "unat (allow h) = length (txpowerlevel_wire e)"
    "txpowerlevel_valid e"
  shows "capwap_80211_txpowerlevel_element_parsing m func h = Some (Some e, adv (length (txpowerlevel_wire e)) h)"
  using assms read_loop_items [where w = u16_bytes and i = 0 and rest = rest and f = "\<lambda>i. get_u16 func 0"
      and xs = "take (unat (txpowerlevel_numlevels e)) (txpowerlevel_powerlevel e)" and h = "adv (Suc (Suc 0)) h"]
    length_concat_const [of "map u16_bytes (take (unat (txpowerlevel_numlevels e)) (txpowerlevel_powerlevel e))" 2]
    u16_mod_0 [of "allow h - 2" 2 "unat (txpowerlevel_numlevels e)"]
  by (cases e) (auto simp: capwap_80211_txpowerlevel_element_parsing_def txpowerlevel_wire_def txpowerlevel_valid_def
      lengths Let_def unat_div_distrib levels_array_eq min_def)

lemma updatestationqos_rejected:
  assumes "inv h" "stream h = updatestationqos_wire e @ rest" "unat (allow h) = length (updatestationqos_wire e)"
    and "updatestationqos_valid e"
  shows "capwap_80211_updatestationqos_element_parsing m func h = Some (None, h)"
  using assms length_concat_const [of "map updatestationqos_qos_wire (updatestationqos_qos e)" 2]
  by (simp add: capwap_80211_updatestationqos_element_parsing_def updatestationqos_wire_def
      updatestationqos_valid_def lengths)

lemma updatewlan_parse:
  assumes "inv h" "stream h = updatewlan_wire e @ rest" "unat (allow h) = length (updatewlan_wire e)"
    "updatewlan_valid e"
  shows "capwap_80211_updatewlan_element_parsing m func h = Some (Some e, adv (length (updatewlan_wire e)) h)"
  using assms
  by (cases e) (auto simp: capwap_80211_updatewlan_element_parsing_def updatewlan_wire_def updatewlan_valid_def
      lengths Let_def split: option.splits)

lemma wtpqos_qos_parsed:
  assumes "wtpqos_qos_valid q" "inv h" "stream h = wtpqos_qos_wire q @ r" "8 \<le> unat (allow h)"
  shows "wtpqos_qos_read func i h = Some (q, adv 8 h)"
  using assms
  by (cases q) (auto simp: wtpqos_qos_read_def wtpqos_qos_wire_def wtpqos_qos_valid_def)

lemma wtpqos_parse:
  assumes "inv h" "stream h = wtpqos_wire e @ rest" "unat (allow h) = length (wtpqos_wire e)"
    "wtpqos_valid e"
  shows "capwap_80211_wtpqos_element_parsing m func h = Some (Some e, adv (length (wtpqos_wire e)) h)"
  using assms read_loop_items [where w = wtpqos_qos_wire and xs = "wtpqos_qos e" and i = 0
      and rest = rest and f = "wtpqos_qos_read func" and h = "adv (Suc (Suc 0)) h"]
    length_concat_const [of "map wtpqos_qos_wire (wtpqos_qos e)" 8]
  by (cases e) (auto simp: capwap_80211_wtpqos_element_parsing_def wtpqos_wire_def
      wtpqos_valid_def wtpqos_qos_parsed lengths list_all_iff)

lemma wtpradioconf_parse:
  assumes "inv h" "stream h = wtpradioconf_wire e @ rest" "unat (allow h) = length (wtpradioconf_wire e)"
    "wtpradioconf_valid e"
  shows "capwap_80211_wtpradioconf_element_parsing m func h = Some (Some e, adv (length (wtpradioconf_wire e)) h)"
  using assms
  by (cases e) (auto simp: capwap_80211_wtpradioconf_element_parsing_def wtpradioconf_wire_def wtpradioconf_valid_def
      lengths Let_def split: option.splits)

lemma wtpradiofailalarm_parse:
  assumes "inv h" "stream h = wtpradiofailalarm_wire e @ rest" "unat (allow h) = length (wtpradiofailalarm_wire e)"
  shows "capwap_80211_wtpradiofailalarm_element_parsing m func h = Some (Some e, adv (length (wtpradiofailalarm_wire e)) h)"
  using assms
  by (cases e) (auto simp: capwap_80211_wtpradiofailalarm_element_parsing_def wtpradiofailalarm_wire_def
      lengths Let_def split: option.splits)

lemma wtpradioinformation_parse:
  assumes "inv h" "stream h = wtpradioinformation_wire e @ rest" "unat (allow h) = length (wtpradioinformation_wire e)"
  shows "capwap_80211_wtpradioinformation_element_parsing m func h = Some (Some e, adv (length (wtpradioinformation_wire e)) h)"
  using assms
  by (cases e) (auto simp: capwap_80211_wtpradioinformation_element_parsing_def wtpradioinformation_wire_def
      lengths Let_def split: option.splits)

lemma supported_mac_profiles_parse:
  assumes "inv h" "stream h = supported_mac_profiles_wire e @ rest" "unat (allow h) = length (supported_mac_profiles_wire e)"
    "supported_mac_profiles_valid e"
  shows "capwap_80211_supported_mac_profiles_element_parsing m func h = Some (Some e, adv (length (supported_mac_profiles_wire e)) h)"
  using assms
  by (cases e) (auto simp: capwap_80211_supported_mac_profiles_element_parsing_def supported_mac_profiles_wire_def supported_mac_profiles_valid_def
      lengths Let_def split: option.splits)

lemma mac_profile_parse:
  assumes "inv h" "stream h = mac_profile_wire e @ rest" "unat (allow h) = length (mac_profile_wire e)"
  shows "capwap_80211_mac_profile_element_parsing m func h = Some (Some e, adv (length (mac_profile_wire e)) h)"
  using assms
  by (cases e) (auto simp: capwap_80211_mac_profile_element_parsing_def mac_profile_wire_def
      lengths Let_def split: option.splits)

end

end
