(* ===== verification/Capwap_Elements_D.thy ===== *)
theory Capwap_Elements_D
  imports Capwap_Elements_A
begin

text \<open>
  Vendor-specific message elements of vendor 18681
  (\<^verbatim>\<open>common/capwap_element_vendor_travelping_*.c\<close>, \<^verbatim>\<open>common/capwap_element_80211n_*.c\<close>), in the shape
  of \<open>Capwap_Elements_A\<close>.
\<close>

subsection \<open>Travelping WTP Timestamp (vendor type 2)\<close>

text \<open>
  The conversion of microseconds uses \<open>double\<close>. A double carries 53 significant bits and
  rounds to nearest, ties to even: \<open>double_drop N\<close> is the number of low bits of \<open>N\<close> that do not fit and
  \<open>double_round N\<close> the double nearest to \<open>N\<close>. The constant \<open>1.0e-6\<close> is the double
  \<open>4722366482869645 / 2 ^ 72\<close>, and \<open>(double)(1LL << 32)\<close> is a power of two, so the product
  \<open>(tv_usec + 1) * 2 ^ 32 * 1.0e-6\<close> rounds once. Converting a \<open>double\<close> outside the range of
  \<open>uint32_t\<close> is undefined, here \<open>None\<close>.
\<close>

fun double_drop :: "nat \<Rightarrow> nat" where
  "double_drop N = (if N < 2 ^ 53 then 0 else Suc (double_drop (N div 2)))"

declare double_drop.simps [simp del]

definition double_round :: "nat \<Rightarrow> nat" where
  "double_round N =
     (let e = double_drop N; q = N div 2 ^ e; r = 2 * (N mod 2 ^ e)
      in if 2 ^ e < r \<or> (r = 2 ^ e \<and> odd q) then Suc q * 2 ^ e else q * 2 ^ e)"

definition ntp_fraction :: "int \<Rightarrow> u32 option" where
  "ntp_fraction usec =
     (let f = double_round (nat (usec + 1) * 4722366482869645) div 2 ^ 40
      in if 0 \<le> usec + 1 \<and> f < 2 ^ 32 then Some (of_nat f) else None)"

definition convert_unix_time_into_ntp_time :: "int \<Rightarrow> int \<Rightarrow> (u32 \<times> u32) option" where
  "convert_unix_time_into_ntp_time sec usec =
     map_option (\<lambda>fraction. (word_of_int sec + 0x83AA7E80, fraction)) (ntp_fraction usec)"

text \<open>The way back is exact: the product is below \<open>2 ^ 53\<close> and the divisor is a power of two.\<close>

definition convert_ntp_time_into_unix_time :: "u32 \<Rightarrow> u32 \<Rightarrow> int \<times> int" where
  "convert_ntp_time_into_unix_time second fraction =
     (uint (second - 0x83AA7E80), uint fraction * 1000000 div 2 ^ 32)"

record capwap_vendor_travelping_wtp_timestamp_element =
  wtp_timestamp_tv_sec :: int
  wtp_timestamp_tv_usec :: int

definition capwap_vendor_travelping_wtp_timestamp_element_create where
  "capwap_vendor_travelping_wtp_timestamp_element_create (e :: capwap_vendor_travelping_wtp_timestamp_element) func h = do {
     (second, fraction) \<leftarrow> convert_unix_time_into_ntp_time (wtp_timestamp_tv_sec e) (wtp_timestamp_tv_usec e);
     (_, h) \<leftarrow> write_u32 func h second;
     (_, h) \<leftarrow> write_u32 func h fraction;
     Some h }"

definition capwap_vendor_travelping_wtp_timestamp_element_parsing where
  "capwap_vendor_travelping_wtp_timestamp_element_parsing (m :: junk) func h =
     (if read_ready func h \<noteq> 8 then Some (None, h)
      else do {
        (second, h) \<leftarrow> get_u32 func (of_nat (m 0)) h;
        (fraction, h) \<leftarrow> get_u32 func (of_nat (m 1)) h;
        let (sec, usec) = convert_ntp_time_into_unix_time second fraction;
        Some (Some \<lparr>wtp_timestamp_tv_sec = sec, wtp_timestamp_tv_usec = usec\<rparr>, h) })"

definition wtp_timestamp_valid where
  "wtp_timestamp_valid e \<longleftrightarrow> 0 \<le> wtp_timestamp_tv_sec e \<and> wtp_timestamp_tv_sec e < 2 ^ 32 \<and>
     (case ntp_fraction (wtp_timestamp_tv_usec e) of None \<Rightarrow> False
      | Some f \<Rightarrow> uint f * 1000000 div 2 ^ 32 = wtp_timestamp_tv_usec e)"

definition wtp_timestamp_wire :: "capwap_vendor_travelping_wtp_timestamp_element \<Rightarrow> u8 list" where
  "wtp_timestamp_wire e =
     u32_bytes (word_of_int (wtp_timestamp_tv_sec e) + 0x83AA7E80) @
     u32_bytes (the (ntp_fraction (wtp_timestamp_tv_usec e)))"

subsection \<open>IEEE 802.11n Radio Configuration (vendor type 16)\<close>

record capwap_80211n_radioconf_element =
  radioconf_radioid :: u8
  radioconf_flags :: u8
  radioconf_maxsupmcs :: u8
  radioconf_maxmandmcs :: u8
  radioconf_txant :: u8
  radioconf_rxant :: u8

definition capwap_80211n_radioconf_element_create where
  "capwap_80211n_radioconf_element_create (e :: capwap_80211n_radioconf_element) func h = do {
     (_, h) \<leftarrow> write_u8 func h (radioconf_radioid e);
     (_, h) \<leftarrow> write_u8 func h (radioconf_flags e AND 0xF8);
     (_, h) \<leftarrow> write_u8 func h (radioconf_maxsupmcs e);
     (_, h) \<leftarrow> write_u8 func h (radioconf_maxmandmcs e);
     (_, h) \<leftarrow> write_u8 func h (radioconf_txant e);
     (_, h) \<leftarrow> write_u8 func h (radioconf_rxant e);
     (_, h) \<leftarrow> write_u16 func h 0;
     Some h }"

definition capwap_80211n_radioconf_element_parsing where
  "capwap_80211n_radioconf_element_parsing (m :: junk) func h =
     (if read_ready func h \<noteq> 8 then Some (None, h)
      else do {
        (radioid, h) \<leftarrow> get_u8 func 0 h;
        (flags, h) \<leftarrow> get_u8 func 0 h;
        (maxsupmcs, h) \<leftarrow> get_u8 func 0 h;
        (maxmandmcs, h) \<leftarrow> get_u8 func 0 h;
        (txant, h) \<leftarrow> get_u8 func 0 h;
        (rxant, h) \<leftarrow> get_u8 func 0 h;
        (_, h) \<leftarrow> read_u16 func h;
        Some (Some \<lparr>radioconf_radioid = radioid, radioconf_flags = flags,
          radioconf_maxsupmcs = maxsupmcs, radioconf_maxmandmcs = maxmandmcs,
          radioconf_txant = txant, radioconf_rxant = rxant\<rparr>, h) })"

definition radioconf_valid where
  "radioconf_valid e \<longleftrightarrow> radioconf_flags e AND 0xF8 = radioconf_flags e"

definition radioconf_wire :: "capwap_80211n_radioconf_element \<Rightarrow> u8 list" where
  "radioconf_wire e =
     [radioconf_radioid e] @ [radioconf_flags e AND 0xF8] @ [radioconf_maxsupmcs e] @
     [radioconf_maxmandmcs e] @ [radioconf_txant e] @ [radioconf_rxant e] @ u16_bytes 0"

subsection \<open>IEEE 802.11n Station Information (vendor type 17)\<close>

record capwap_80211n_station_info_element =
  station_info_address :: "u8 list"
  station_info_flags :: u8
  station_info_maxrxfactor :: u8
  station_info_minstaspaceing :: u8
  station_info_hisuppdatarate :: u16
  station_info_ampdubufsize :: u16
  station_info_htcsupp :: u8
  station_info_mcsset :: "u8 list"

definition capwap_80211n_station_info_element_create where
  "capwap_80211n_station_info_element_create (e :: capwap_80211n_station_info_element) func h = do {
     (_, h) \<leftarrow> write_block func h (Some (station_info_address e)) 6;
     (_, h) \<leftarrow> write_u8 func h (station_info_flags e);
     (_, h) \<leftarrow> write_u8 func h (station_info_maxrxfactor e);
     (_, h) \<leftarrow> write_u8 func h (station_info_minstaspaceing e);
     (_, h) \<leftarrow> write_u16 func h (station_info_hisuppdatarate e);
     (_, h) \<leftarrow> write_u16 func h (station_info_ampdubufsize e);
     (_, h) \<leftarrow> write_u8 func h (station_info_htcsupp e);
     (_, h) \<leftarrow> write_block func h (Some (station_info_mcsset e)) 10;
     Some h }"

definition capwap_80211n_station_info_element_parsing where
  "capwap_80211n_station_info_element_parsing (m :: junk) func h =
     (if read_ready func h \<noteq> 24 then Some (None, h)
      else do {
        (address, h) \<leftarrow> get_block func (replicate 6 0) 6 h;
        (flags, h) \<leftarrow> get_u8 func 0 h;
        (maxrxfactor, h) \<leftarrow> get_u8 func 0 h;
        (minstaspaceing, h) \<leftarrow> get_u8 func 0 h;
        (hisuppdatarate, h) \<leftarrow> get_u16 func 0 h;
        (ampdubufsize, h) \<leftarrow> get_u16 func 0 h;
        (htcsupp, h) \<leftarrow> get_u8 func 0 h;
        (mcsset, h) \<leftarrow> get_block func (replicate 10 0) 10 h;
        Some (Some \<lparr>station_info_address = address, station_info_flags = flags,
          station_info_maxrxfactor = maxrxfactor,
          station_info_minstaspaceing = minstaspaceing,
          station_info_hisuppdatarate = hisuppdatarate,
          station_info_ampdubufsize = ampdubufsize, station_info_htcsupp = htcsupp,
          station_info_mcsset = mcsset\<rparr>, h) })"

definition station_info_valid where
  "station_info_valid e \<longleftrightarrow> length (station_info_address e) = 6 \<and> length (station_info_mcsset e) = 10"

definition station_info_wire :: "capwap_80211n_station_info_element \<Rightarrow> u8 list" where
  "station_info_wire e =
     station_info_address e @ [station_info_flags e] @ [station_info_maxrxfactor e] @
     [station_info_minstaspaceing e] @ u16_bytes (station_info_hisuppdatarate e) @
     u16_bytes (station_info_ampdubufsize e) @ [station_info_htcsupp e] @
     station_info_mcsset e"

subsection \<open>Travelping IEEE 802.11 Encryption Capability (vendor type 18)\<close>

record capwap_vendor_travelping_80211_encryption_capability_element =
  encryption_capability_radioid :: u8
  encryption_capability_suites_count :: nat
  encryption_capability_suites :: "u32 list"

definition capwap_vendor_travelping_80211_encryption_capability_element_create where
  "capwap_vendor_travelping_80211_encryption_capability_element_create (e :: capwap_vendor_travelping_80211_encryption_capability_element) func h = do {
     (_, h) \<leftarrow> write_u8 func h (encryption_capability_radioid e);
     suites \<leftarrow> (if encryption_capability_suites_count e \<le> length (encryption_capability_suites e) then Some (take (encryption_capability_suites_count e) (encryption_capability_suites e)) else None);
     h \<leftarrow> write_each (\<lambda>v h. do { (_, h) \<leftarrow> write_u32 func h v; Some h }) suites h;
     Some h }"

definition capwap_vendor_travelping_80211_encryption_capability_element_parsing where
  "capwap_vendor_travelping_80211_encryption_capability_element_parsing (m :: junk) func h =
     (if read_ready func h < 1 then Some (None, h)
      else do {
        let suites_length = unat (read_ready func h) - 1;
        if suites_length mod 4 \<noteq> 0 then Some (None, h)
        else do {
          (radioid, h) \<leftarrow> get_u8 func (of_nat (m 0)) h;
          let suites_count = suites_length div 4;
          (suites, h) \<leftarrow> read_loop (\<lambda>i. get_u32 func (of_nat (m (Suc i)))) 0 suites_count h;
          Some (Some \<lparr>encryption_capability_radioid = radioid,
            encryption_capability_suites_count = suites_count,
            encryption_capability_suites = suites\<rparr>, h) } })"

definition encryption_capability_valid where
  "encryption_capability_valid e \<longleftrightarrow> length (encryption_capability_suites e) = encryption_capability_suites_count e"

definition encryption_capability_wire :: "capwap_vendor_travelping_80211_encryption_capability_element \<Rightarrow> u8 list" where
  "encryption_capability_wire e =
     [encryption_capability_radioid e] @
     concat (map u32_bytes (encryption_capability_suites e))"

subsection \<open>Travelping IEEE 802.11 Update Key (vendor type 19)\<close>

record capwap_vendor_travelping_80211_update_key_element =
  update_key_radioid :: u8
  update_key_wlanid :: u8
  update_key_keyindex :: u8
  update_key_keystatus :: u8
  update_key_ciphersuite :: u32
  update_key_keylength :: u16
  update_key_key :: "u8 list"

definition capwap_vendor_travelping_80211_update_key_element_create where
  "capwap_vendor_travelping_80211_update_key_element_create (e :: capwap_vendor_travelping_80211_update_key_element) func h = do {
     (_, h) \<leftarrow> write_u8 func h (update_key_radioid e);
     (_, h) \<leftarrow> write_u8 func h (update_key_wlanid e);
     (_, h) \<leftarrow> write_u8 func h (update_key_keyindex e);
     (_, h) \<leftarrow> write_u8 func h (update_key_keystatus e);
     (_, h) \<leftarrow> write_u32 func h (update_key_ciphersuite e);
     if 0 < (update_key_keylength e) then do {
       (_, h) \<leftarrow> write_block func h (Some (update_key_key e)) (update_key_keylength e);
       Some h }
     else Some h }"

definition capwap_vendor_travelping_80211_update_key_element_parsing where
  "capwap_vendor_travelping_80211_update_key_element_parsing (m :: junk) func h =
     (let len = read_ready func h in
     if len < 8 then Some (None, h)
     else do {
       (let len = len - 8 in
       do {
         (radioid, h) \<leftarrow> get_u8 func 0 h;
         (wlanid, h) \<leftarrow> get_u8 func 0 h;
         (keyindex, h) \<leftarrow> get_u8 func 0 h;
         (keystatus, h) \<leftarrow> get_u8 func 0 h;
         (ciphersuite, h) \<leftarrow> get_u32 func 0 h;
         (key, h) \<leftarrow> get_block func (replicate (unat len) 0) len h;
         Some (Some \<lparr>update_key_radioid = radioid, update_key_wlanid = wlanid,
            update_key_keyindex = keyindex, update_key_keystatus = keystatus,
            update_key_ciphersuite = ciphersuite, update_key_keylength = len,
            update_key_key = key\<rparr>, h) }) })"

definition update_key_valid where
  "update_key_valid e \<longleftrightarrow> 0 < (update_key_keylength e) \<and> length (update_key_key e) = unat (update_key_keylength e)"

definition update_key_wire :: "capwap_vendor_travelping_80211_update_key_element \<Rightarrow> u8 list" where
  "update_key_wire e =
     [update_key_radioid e, update_key_wlanid e, update_key_keyindex e, update_key_keystatus e] @
     u32_bytes (update_key_ciphersuite e) @ update_key_key e"

subsection \<open>Creating writes the wire format\<close>

context message_writer begin

lemma wtp_timestamp_create:
  "wtp_timestamp_valid e \<Longrightarrow> length (wtp_timestamp_wire e) \<le> room h \<Longrightarrow>
   capwap_vendor_travelping_wtp_timestamp_element_create e func h = Some (app (wtp_timestamp_wire e) h)"
  by (auto simp: capwap_vendor_travelping_wtp_timestamp_element_create_def wtp_timestamp_wire_def
      wtp_timestamp_valid_def convert_unix_time_into_ntp_time_def split: option.splits)

lemma radioconf_create:
  "radioconf_valid e \<Longrightarrow> length (radioconf_wire e) \<le> room h \<Longrightarrow>
   capwap_80211n_radioconf_element_create e func h = Some (app (radioconf_wire e) h)"
  by (auto simp: capwap_80211n_radioconf_element_create_def radioconf_wire_def radioconf_valid_def
      u16_nat Let_def split: option.splits)

lemma station_info_create:
  "station_info_valid e \<Longrightarrow> length (station_info_wire e) \<le> room h \<Longrightarrow>
   capwap_80211n_station_info_element_create e func h = Some (app (station_info_wire e) h)"
  by (auto simp: capwap_80211n_station_info_element_create_def station_info_wire_def station_info_valid_def
      u16_nat Let_def split: option.splits)

lemma encryption_capability_create:
  "encryption_capability_valid e \<Longrightarrow> length (encryption_capability_wire e) \<le> room h \<Longrightarrow>
   capwap_vendor_travelping_80211_encryption_capability_element_create e func h = Some (app (encryption_capability_wire e) h)"
  using write_each_app [where w = u32_bytes and xs = "encryption_capability_suites e"
      and f = "\<lambda>v h. do { (_, h) \<leftarrow> write_u32 func h v; Some h }" and h = "app [encryption_capability_radioid e] h"]
  by (auto simp: capwap_vendor_travelping_80211_encryption_capability_element_create_def
      encryption_capability_wire_def encryption_capability_valid_def)

lemma update_key_create:
  "update_key_valid e \<Longrightarrow> length (update_key_wire e) \<le> room h \<Longrightarrow>
   capwap_vendor_travelping_80211_update_key_element_create e func h = Some (app (update_key_wire e) h)"
  by (auto simp: capwap_vendor_travelping_80211_update_key_element_create_def update_key_wire_def update_key_valid_def
      u16_nat Let_def split: option.splits)

end

subsection \<open>Parsing reads the wire format\<close>

context message_reader begin

lemma wtp_timestamp_parse:
  assumes "inv h" "stream h = wtp_timestamp_wire e @ rest" "unat (allow h) = length (wtp_timestamp_wire e)"
    "wtp_timestamp_valid e"
  shows "capwap_vendor_travelping_wtp_timestamp_element_parsing m func h = Some (Some e, adv (length (wtp_timestamp_wire e)) h)"
  using assms
  by (cases e) (auto simp: capwap_vendor_travelping_wtp_timestamp_element_parsing_def wtp_timestamp_wire_def
      wtp_timestamp_valid_def convert_ntp_time_into_unix_time_def lengths unsigned_of_int take_bit_int_eq_self split: option.splits)

lemma radioconf_parse:
  assumes "inv h" "stream h = radioconf_wire e @ rest" "unat (allow h) = length (radioconf_wire e)"
    "radioconf_valid e"
  shows "capwap_80211n_radioconf_element_parsing m func h = Some (Some e, adv (length (radioconf_wire e)) h)"
  using assms
  by (cases e) (auto simp: capwap_80211n_radioconf_element_parsing_def radioconf_wire_def radioconf_valid_def
      lengths Let_def split: option.splits)

lemma station_info_parse:
  assumes "inv h" "stream h = station_info_wire e @ rest" "unat (allow h) = length (station_info_wire e)"
    "station_info_valid e"
  shows "capwap_80211n_station_info_element_parsing m func h = Some (Some e, adv (length (station_info_wire e)) h)"
  using assms
  by (cases e) (auto simp: capwap_80211n_station_info_element_parsing_def station_info_wire_def station_info_valid_def
      lengths Let_def split: option.splits)

lemma encryption_capability_parse:
  assumes "inv h" "stream h = encryption_capability_wire e @ rest" "unat (allow h) = length (encryption_capability_wire e)"
    "encryption_capability_valid e"
  shows "capwap_vendor_travelping_80211_encryption_capability_element_parsing m func h = Some (Some e, adv (length (encryption_capability_wire e)) h)"
  using assms read_loop_items [where w = u32_bytes and i = 0 and rest = rest and h = "adv (Suc 0) h"
      and f = "\<lambda>i. get_u32 func (of_nat (m (Suc i)))" and xs = "encryption_capability_suites e"]
    length_concat_const [of "map u32_bytes (encryption_capability_suites e)" 4]
  by (cases e) (auto simp: capwap_vendor_travelping_80211_encryption_capability_element_parsing_def
      encryption_capability_wire_def encryption_capability_valid_def lengths Let_def)

lemma update_key_parse:
  assumes "inv h" "stream h = update_key_wire e @ rest" "unat (allow h) = length (update_key_wire e)"
    "update_key_valid e"
  shows "capwap_vendor_travelping_80211_update_key_element_parsing m func h = Some (Some e, adv (length (update_key_wire e)) h)"
  using assms
  by (cases e) (auto simp: capwap_vendor_travelping_80211_update_key_element_parsing_def update_key_wire_def update_key_valid_def
      lengths Let_def split: option.splits)

end

end
