(* ===== verification/Capwap_Element_Table.thy ===== *)
theory Capwap_Element_Table
  imports Capwap_Elements_A Capwap_Elements_B Capwap_Elements_C Capwap_Elements_D
begin

text \<open>
  The operations of all message elements and their lookup by identifier
  (\<open>capwap_get_message_element_ops\<close> of \<^verbatim>\<open>common/capwap_element.c\<close>). The \<open>void*\<close> through which the C
  code passes the data of an element is the type \<open>capwap_element\<close>, one constructor per structure; it is
  split by range of types to keep the datatypes small. An operation that is given the data of
  another element has no defined result, which is \<open>None\<close>.

  The lemmas at the end hold for every element: its identifier is found in the table, its \<open>create\<close>
  writes its wire format and its \<open>parse\<close> reads it back. Three elements are excluded from
  \<open>element_valid\<close>, since the code cannot send them to itself: MTU Discovery Padding (the receiver
  accepts no padding), IEEE 802.11 Statistics (the sender passes a NULL buffer) and IEEE 802.11 Update
  Station QoS (the sender writes 15 bytes and the receiver expects 14).
\<close>

subsection \<open>Identifiers, data and operations\<close>

record capwap_message_element_id =
  id_vendor :: u32
  id_type :: u16

definition message_element_id_eq :: "capwap_message_element_id \<Rightarrow> capwap_message_element_id \<Rightarrow> bool" where
  "message_element_id_eq a b \<longleftrightarrow> id_vendor a = id_vendor b \<and> id_type a = id_type b"

datatype low_element =
    Acdescriptor (the_acdescriptor: capwap_acdescriptor_element)
  | Acipv4list (the_acipv4list: capwap_acipv4list_element)
  | Acipv6list (the_acipv6list: capwap_acipv6list_element)
  | Acname (the_acname: capwap_acname_element)
  | Acnamepriority (the_acnamepriority: capwap_acnamepriority_element)
  | Actimestamp (the_actimestamp: capwap_actimestamp_element)
  | Addmacacl (the_addmacacl: capwap_addmacacl_element)
  | Addstation (the_addstation: capwap_addstation_element)
  | Controlipv4 (the_controlipv4: capwap_controlipv4_element)
  | Controlipv6 (the_controlipv6: capwap_controlipv6_element)
  | Timers (the_timers: capwap_timers_element)
  | Datatransferdata (the_datatransferdata: capwap_datatransferdata_element)
  | Datatransfermode (the_datatransfermode: capwap_datatransfermode_element)
  | Decrypterrorreport (the_decrypterrorreport: capwap_decrypterrorreport_element)
  | Decrypterrorreportperiod (the_decrypterrorreportperiod: capwap_decrypterrorreportperiod_element)
  | Deletemacacl (the_deletemacacl: capwap_deletemacacl_element)
  | Deletestation (the_deletestation: capwap_deletestation_element)

datatype high_element =
    Discoverytype (the_discoverytype: capwap_discoverytype_element)
  | Duplicateipv4 (the_duplicateipv4: capwap_duplicateipv4_element)
  | Duplicateipv6 (the_duplicateipv6: capwap_duplicateipv6_element)
  | Idletimeout (the_idletimeout: capwap_idletimeout_element)
  | Imagedata (the_imagedata: capwap_imagedata_element)
  | Imageidentifier (the_imageidentifier: capwap_imageidentifier_element)
  | Imageinfo (the_imageinfo: capwap_imageinfo_element)
  | Initdownload (the_initdownload: capwap_initdownload_element)
  | Location (the_location: capwap_location_element)
  | Maximumlength (the_maximumlength: capwap_maximumlength_element)
  | Localipv4 (the_localipv4: capwap_localipv4_element)
  | Localipv6 (the_localipv6: capwap_localipv6_element)
  | Radioadmstate (the_radioadmstate: capwap_radioadmstate_element)
  | Radiooprstate (the_radiooprstate: capwap_radiooprstate_element)
  | Resultcode (the_resultcode: capwap_resultcode_element)
  | Returnedmessage (the_returnedmessage: capwap_returnedmessage_element)
  | Sessionid (the_sessionid: capwap_sessionid_element)
  | Statisticstimer (the_statisticstimer: capwap_statisticstimer_element)
  | Vendorpayload (the_vendorpayload: capwap_vendorpayload_element)
  | Wtpboarddata (the_wtpboarddata: capwap_wtpboarddata_element)
  | Wtpdescriptor (the_wtpdescriptor: capwap_wtpdescriptor_element)
  | Wtpfallback (the_wtpfallback: capwap_wtpfallback_element)
  | Wtpframetunnelmode (the_wtpframetunnelmode: capwap_wtpframetunnelmode_element)
  | Wtpmactype (the_wtpmactype: capwap_wtpmactype_element)
  | Wtpname (the_wtpname: capwap_wtpname_element)
  | Wtpradiostat (the_wtpradiostat: capwap_wtpradiostat_element)
  | Wtprebootstat (the_wtprebootstat: capwap_wtprebootstat_element)
  | Wtpstaticipaddress (the_wtpstaticipaddress: capwap_wtpstaticipaddress_element)
  | Transport (the_transport: capwap_transport_element)
  | Mtudiscovery (the_mtudiscovery: capwap_mtudiscovery_element)
  | Ecnsupport (the_ecnsupport: capwap_ecnsupport_element)

datatype ieee80211_element =
    Addwlan (the_addwlan: capwap_80211_addwlan_element)
  | Antenna (the_antenna: capwap_80211_antenna_element)
  | Assignbssid (the_assignbssid: capwap_80211_assignbssid_element)
  | Deletewlan (the_deletewlan: capwap_80211_deletewlan_element)
  | Directsequencecontrol (the_directsequencecontrol: capwap_80211_directsequencecontrol_element)
  | Ie (the_ie: capwap_80211_ie_element)
  | Macoperation (the_macoperation: capwap_80211_macoperation_element)
  | Miccountermeasures (the_miccountermeasures: capwap_80211_miccountermeasures_element)
  | Multidomaincapability (the_multidomaincapability: capwap_80211_multidomaincapability_element)
  | Ofdmcontrol (the_ofdmcontrol: capwap_80211_ofdmcontrol_element)
  | Rateset (the_rateset: capwap_80211_rateset_element)
  | Supportedrates (the_supportedrates: capwap_80211_supportedrates_element)
  | Rsnaerrorreport (the_rsnaerrorreport: capwap_80211_rsnaerrorreport_element)
  | Station (the_station: capwap_80211_station_element)
  | Stationqos (the_stationqos: capwap_80211_stationqos_element)
  | Stationkey (the_stationkey: capwap_80211_stationkey_element)
  | Statistics (the_statistics: capwap_80211_statistics_element)
  | Txpower (the_txpower: capwap_80211_txpower_element)
  | Txpowerlevel (the_txpowerlevel: capwap_80211_txpowerlevel_element)
  | Updatestationqos (the_updatestationqos: capwap_80211_updatestationqos_element)
  | Updatewlan (the_updatewlan: capwap_80211_updatewlan_element)
  | Wtpqos (the_wtpqos: capwap_80211_wtpqos_element)
  | Wtpradioconf (the_wtpradioconf: capwap_80211_wtpradioconf_element)
  | Wtpradiofailalarm (the_wtpradiofailalarm: capwap_80211_wtpradiofailalarm_element)
  | Wtpradioinformation (the_wtpradioinformation: capwap_80211_wtpradioinformation_element)
  | Supported_mac_profiles (the_supported_mac_profiles: capwap_80211_supported_mac_profiles_element)
  | Mac_profile (the_mac_profile: capwap_80211_mac_profile_element)

datatype travelping_element =
    Wtp_timestamp (the_wtp_timestamp: capwap_vendor_travelping_wtp_timestamp_element)
  | Radioconf (the_radioconf: capwap_80211n_radioconf_element)
  | Station_info (the_station_info: capwap_80211n_station_info_element)
  | Encryption_capability (the_encryption_capability: capwap_vendor_travelping_80211_encryption_capability_element)
  | Update_key (the_update_key: capwap_vendor_travelping_80211_update_key_element)

datatype capwap_element =
    Low low_element
  | High high_element
  | Ieee80211 ieee80211_element
  | Travelping travelping_element

datatype message_element_category = CAPWAP_MESSAGE_ELEMENT_SINGLE | CAPWAP_MESSAGE_ELEMENT_ARRAY

record ('w, 'r) capwap_message_elements_ops =
  category :: message_element_category
  create :: "capwap_element \<Rightarrow> 'w capwap_write_message_elements_ops \<Rightarrow> 'w \<Rightarrow> 'w option"
  parse :: "junk \<Rightarrow> 'r capwap_read_message_elements_ops \<Rightarrow> 'r \<Rightarrow> (capwap_element option \<times> 'r) option"

text \<open>The cast of the \<open>void*\<close> argument of \<open>create\<close> and of the result of \<open>parse\<close>.\<close>

definition as_low :: "(low_element \<Rightarrow> bool) \<Rightarrow> (low_element \<Rightarrow> 'e) \<Rightarrow> capwap_element \<Rightarrow> 'e option" where
  "as_low is get data = (case data of Low x \<Rightarrow> if is x then Some (get x) else None | _ \<Rightarrow> None)"

definition as_high :: "(high_element \<Rightarrow> bool) \<Rightarrow> (high_element \<Rightarrow> 'e) \<Rightarrow> capwap_element \<Rightarrow> 'e option" where
  "as_high is get data = (case data of High x \<Rightarrow> if is x then Some (get x) else None | _ \<Rightarrow> None)"

definition as_ieee80211 :: "(ieee80211_element \<Rightarrow> bool) \<Rightarrow> (ieee80211_element \<Rightarrow> 'e) \<Rightarrow> capwap_element \<Rightarrow> 'e option" where
  "as_ieee80211 is get data = (case data of Ieee80211 x \<Rightarrow> if is x then Some (get x) else None | _ \<Rightarrow> None)"

definition as_travelping :: "(travelping_element \<Rightarrow> bool) \<Rightarrow> (travelping_element \<Rightarrow> 'e) \<Rightarrow> capwap_element \<Rightarrow> 'e option" where
  "as_travelping is get data = (case data of Travelping x \<Rightarrow> if is x then Some (get x) else None | _ \<Rightarrow> None)"

definition element_ops ::
    "message_element_category \<Rightarrow> (capwap_element \<Rightarrow> 'e option) \<Rightarrow> ('e \<Rightarrow> capwap_element) \<Rightarrow>
     ('e \<Rightarrow> 'w capwap_write_message_elements_ops \<Rightarrow> 'w \<Rightarrow> 'w option) \<Rightarrow>
     (junk \<Rightarrow> 'r capwap_read_message_elements_ops \<Rightarrow> 'r \<Rightarrow> ('e option \<times> 'r) option) \<Rightarrow>
     ('w, 'r) capwap_message_elements_ops" where
  "element_ops cat cast wrap cr pa =
     \<lparr>category = cat,
      create = (\<lambda>data func h. cast data \<bind> (\<lambda>e. cr e func h)),
      parse = (\<lambda>m func h. map_option (\<lambda>(r, h). (map_option wrap r, h)) (pa m func h))\<rparr>"

definition capwap_element_acdescriptor_ops where
  "capwap_element_acdescriptor_ops = element_ops CAPWAP_MESSAGE_ELEMENT_SINGLE (as_low is_Acdescriptor the_acdescriptor) (\<lambda>e. Low (Acdescriptor e))
     capwap_acdescriptor_element_create capwap_acdescriptor_element_parsing"

definition capwap_element_acipv4list_ops where
  "capwap_element_acipv4list_ops = element_ops CAPWAP_MESSAGE_ELEMENT_SINGLE (as_low is_Acipv4list the_acipv4list) (\<lambda>e. Low (Acipv4list e))
     capwap_acipv4list_element_create capwap_acipv4list_element_parsing"

definition capwap_element_acipv6list_ops where
  "capwap_element_acipv6list_ops = element_ops CAPWAP_MESSAGE_ELEMENT_SINGLE (as_low is_Acipv6list the_acipv6list) (\<lambda>e. Low (Acipv6list e))
     capwap_acipv6list_element_create capwap_acipv6list_element_parsing"

definition capwap_element_acname_ops where
  "capwap_element_acname_ops = element_ops CAPWAP_MESSAGE_ELEMENT_SINGLE (as_low is_Acname the_acname) (\<lambda>e. Low (Acname e))
     capwap_acname_element_create capwap_acname_element_parsing"

definition capwap_element_acnamepriority_ops where
  "capwap_element_acnamepriority_ops = element_ops CAPWAP_MESSAGE_ELEMENT_ARRAY (as_low is_Acnamepriority the_acnamepriority) (\<lambda>e. Low (Acnamepriority e))
     capwap_acnamepriority_element_create capwap_acnamepriority_element_parsing"

definition capwap_element_actimestamp_ops where
  "capwap_element_actimestamp_ops = element_ops CAPWAP_MESSAGE_ELEMENT_SINGLE (as_low is_Actimestamp the_actimestamp) (\<lambda>e. Low (Actimestamp e))
     capwap_actimestamp_element_create capwap_actimestamp_element_parsing"

definition capwap_element_addmacacl_ops where
  "capwap_element_addmacacl_ops = element_ops CAPWAP_MESSAGE_ELEMENT_SINGLE (as_low is_Addmacacl the_addmacacl) (\<lambda>e. Low (Addmacacl e))
     capwap_addmacacl_element_create capwap_addmacacl_element_parsing"

definition capwap_element_addstation_ops where
  "capwap_element_addstation_ops = element_ops CAPWAP_MESSAGE_ELEMENT_SINGLE (as_low is_Addstation the_addstation) (\<lambda>e. Low (Addstation e))
     capwap_addstation_element_create capwap_addstation_element_parsing"

definition capwap_element_controlipv4_ops where
  "capwap_element_controlipv4_ops = element_ops CAPWAP_MESSAGE_ELEMENT_ARRAY (as_low is_Controlipv4 the_controlipv4) (\<lambda>e. Low (Controlipv4 e))
     capwap_controlipv4_element_create capwap_controlipv4_element_parsing"

definition capwap_element_controlipv6_ops where
  "capwap_element_controlipv6_ops = element_ops CAPWAP_MESSAGE_ELEMENT_ARRAY (as_low is_Controlipv6 the_controlipv6) (\<lambda>e. Low (Controlipv6 e))
     capwap_controlipv6_element_create capwap_controlipv6_element_parsing"

definition capwap_element_timers_ops where
  "capwap_element_timers_ops = element_ops CAPWAP_MESSAGE_ELEMENT_SINGLE (as_low is_Timers the_timers) (\<lambda>e. Low (Timers e))
     capwap_timers_element_create capwap_timers_element_parsing"

definition capwap_element_datatransferdata_ops where
  "capwap_element_datatransferdata_ops = element_ops CAPWAP_MESSAGE_ELEMENT_SINGLE (as_low is_Datatransferdata the_datatransferdata) (\<lambda>e. Low (Datatransferdata e))
     capwap_datatransferdata_element_create capwap_datatransferdata_element_parsing"

definition capwap_element_datatransfermode_ops where
  "capwap_element_datatransfermode_ops = element_ops CAPWAP_MESSAGE_ELEMENT_SINGLE (as_low is_Datatransfermode the_datatransfermode) (\<lambda>e. Low (Datatransfermode e))
     capwap_datatransfermode_element_create capwap_datatransfermode_element_parsing"

definition capwap_element_decrypterrorreport_ops where
  "capwap_element_decrypterrorreport_ops = element_ops CAPWAP_MESSAGE_ELEMENT_SINGLE (as_low is_Decrypterrorreport the_decrypterrorreport) (\<lambda>e. Low (Decrypterrorreport e))
     capwap_decrypterrorreport_element_create capwap_decrypterrorreport_element_parsing"

definition capwap_element_decrypterrorreportperiod_ops where
  "capwap_element_decrypterrorreportperiod_ops = element_ops CAPWAP_MESSAGE_ELEMENT_ARRAY (as_low is_Decrypterrorreportperiod the_decrypterrorreportperiod) (\<lambda>e. Low (Decrypterrorreportperiod e))
     capwap_decrypterrorreportperiod_element_create capwap_decrypterrorreportperiod_element_parsing"

definition capwap_element_deletemacacl_ops where
  "capwap_element_deletemacacl_ops = element_ops CAPWAP_MESSAGE_ELEMENT_SINGLE (as_low is_Deletemacacl the_deletemacacl) (\<lambda>e. Low (Deletemacacl e))
     capwap_deletemacacl_element_create capwap_deletemacacl_element_parsing"

definition capwap_element_deletestation_ops where
  "capwap_element_deletestation_ops = element_ops CAPWAP_MESSAGE_ELEMENT_SINGLE (as_low is_Deletestation the_deletestation) (\<lambda>e. Low (Deletestation e))
     capwap_deletestation_element_create capwap_deletestation_element_parsing"

definition capwap_element_discoverytype_ops where
  "capwap_element_discoverytype_ops = element_ops CAPWAP_MESSAGE_ELEMENT_SINGLE (as_high is_Discoverytype the_discoverytype) (\<lambda>e. High (Discoverytype e))
     capwap_discoverytype_element_create capwap_discoverytype_element_parsing"

definition capwap_element_duplicateipv4_ops where
  "capwap_element_duplicateipv4_ops = element_ops CAPWAP_MESSAGE_ELEMENT_SINGLE (as_high is_Duplicateipv4 the_duplicateipv4) (\<lambda>e. High (Duplicateipv4 e))
     capwap_duplicateipv4_element_create capwap_duplicateipv4_element_parsing"

definition capwap_element_duplicateipv6_ops where
  "capwap_element_duplicateipv6_ops = element_ops CAPWAP_MESSAGE_ELEMENT_SINGLE (as_high is_Duplicateipv6 the_duplicateipv6) (\<lambda>e. High (Duplicateipv6 e))
     capwap_duplicateipv6_element_create capwap_duplicateipv6_element_parsing"

definition capwap_element_idletimeout_ops where
  "capwap_element_idletimeout_ops = element_ops CAPWAP_MESSAGE_ELEMENT_SINGLE (as_high is_Idletimeout the_idletimeout) (\<lambda>e. High (Idletimeout e))
     capwap_idletimeout_element_create capwap_idletimeout_element_parsing"

definition capwap_element_imagedata_ops where
  "capwap_element_imagedata_ops = element_ops CAPWAP_MESSAGE_ELEMENT_SINGLE (as_high is_Imagedata the_imagedata) (\<lambda>e. High (Imagedata e))
     capwap_imagedata_element_create capwap_imagedata_element_parsing"

definition capwap_element_imageidentifier_ops where
  "capwap_element_imageidentifier_ops = element_ops CAPWAP_MESSAGE_ELEMENT_SINGLE (as_high is_Imageidentifier the_imageidentifier) (\<lambda>e. High (Imageidentifier e))
     capwap_imageidentifier_element_create capwap_imageidentifier_element_parsing"

definition capwap_element_imageinfo_ops where
  "capwap_element_imageinfo_ops = element_ops CAPWAP_MESSAGE_ELEMENT_SINGLE (as_high is_Imageinfo the_imageinfo) (\<lambda>e. High (Imageinfo e))
     capwap_imageinfo_element_create capwap_imageinfo_element_parsing"

definition capwap_element_initdownload_ops where
  "capwap_element_initdownload_ops = element_ops CAPWAP_MESSAGE_ELEMENT_SINGLE (as_high is_Initdownload the_initdownload) (\<lambda>e. High (Initdownload e))
     capwap_initdownload_element_create capwap_initdownload_element_parsing"

definition capwap_element_location_ops where
  "capwap_element_location_ops = element_ops CAPWAP_MESSAGE_ELEMENT_SINGLE (as_high is_Location the_location) (\<lambda>e. High (Location e))
     capwap_location_element_create capwap_location_element_parsing"

definition capwap_element_maximumlength_ops where
  "capwap_element_maximumlength_ops = element_ops CAPWAP_MESSAGE_ELEMENT_SINGLE (as_high is_Maximumlength the_maximumlength) (\<lambda>e. High (Maximumlength e))
     capwap_maximumlength_element_create capwap_maximumlength_element_parsing"

definition capwap_element_localipv4_ops where
  "capwap_element_localipv4_ops = element_ops CAPWAP_MESSAGE_ELEMENT_SINGLE (as_high is_Localipv4 the_localipv4) (\<lambda>e. High (Localipv4 e))
     capwap_localipv4_element_create capwap_localipv4_element_parsing"

definition capwap_element_localipv6_ops where
  "capwap_element_localipv6_ops = element_ops CAPWAP_MESSAGE_ELEMENT_SINGLE (as_high is_Localipv6 the_localipv6) (\<lambda>e. High (Localipv6 e))
     capwap_localipv6_element_create capwap_localipv6_element_parsing"

definition capwap_element_radioadmstate_ops where
  "capwap_element_radioadmstate_ops = element_ops CAPWAP_MESSAGE_ELEMENT_ARRAY (as_high is_Radioadmstate the_radioadmstate) (\<lambda>e. High (Radioadmstate e))
     capwap_radioadmstate_element_create capwap_radioadmstate_element_parsing"

definition capwap_element_radiooprstate_ops where
  "capwap_element_radiooprstate_ops = element_ops CAPWAP_MESSAGE_ELEMENT_ARRAY (as_high is_Radiooprstate the_radiooprstate) (\<lambda>e. High (Radiooprstate e))
     capwap_radiooprstate_element_create capwap_radiooprstate_element_parsing"

definition capwap_element_resultcode_ops where
  "capwap_element_resultcode_ops = element_ops CAPWAP_MESSAGE_ELEMENT_SINGLE (as_high is_Resultcode the_resultcode) (\<lambda>e. High (Resultcode e))
     capwap_resultcode_element_create capwap_resultcode_element_parsing"

definition capwap_element_returnedmessage_ops where
  "capwap_element_returnedmessage_ops = element_ops CAPWAP_MESSAGE_ELEMENT_ARRAY (as_high is_Returnedmessage the_returnedmessage) (\<lambda>e. High (Returnedmessage e))
     capwap_returnedmessage_element_create capwap_returnedmessage_element_parsing"

definition capwap_element_sessionid_ops where
  "capwap_element_sessionid_ops = element_ops CAPWAP_MESSAGE_ELEMENT_SINGLE (as_high is_Sessionid the_sessionid) (\<lambda>e. High (Sessionid e))
     capwap_sessionid_element_create capwap_sessionid_element_parsing"

definition capwap_element_statisticstimer_ops where
  "capwap_element_statisticstimer_ops = element_ops CAPWAP_MESSAGE_ELEMENT_SINGLE (as_high is_Statisticstimer the_statisticstimer) (\<lambda>e. High (Statisticstimer e))
     capwap_statisticstimer_element_create capwap_statisticstimer_element_parsing"

definition capwap_element_vendorpayload_ops where
  "capwap_element_vendorpayload_ops = element_ops CAPWAP_MESSAGE_ELEMENT_ARRAY (as_high is_Vendorpayload the_vendorpayload) (\<lambda>e. High (Vendorpayload e))
     capwap_vendorpayload_element_create capwap_vendorpayload_element_parsing"

definition capwap_element_wtpboarddata_ops where
  "capwap_element_wtpboarddata_ops = element_ops CAPWAP_MESSAGE_ELEMENT_SINGLE (as_high is_Wtpboarddata the_wtpboarddata) (\<lambda>e. High (Wtpboarddata e))
     capwap_wtpboarddata_element_create capwap_wtpboarddata_element_parsing"

definition capwap_element_wtpdescriptor_ops where
  "capwap_element_wtpdescriptor_ops = element_ops CAPWAP_MESSAGE_ELEMENT_SINGLE (as_high is_Wtpdescriptor the_wtpdescriptor) (\<lambda>e. High (Wtpdescriptor e))
     capwap_wtpdescriptor_element_create capwap_wtpdescriptor_element_parsing"

definition capwap_element_wtpfallback_ops where
  "capwap_element_wtpfallback_ops = element_ops CAPWAP_MESSAGE_ELEMENT_SINGLE (as_high is_Wtpfallback the_wtpfallback) (\<lambda>e. High (Wtpfallback e))
     capwap_wtpfallback_element_create capwap_wtpfallback_element_parsing"

definition capwap_element_wtpframetunnelmode_ops where
  "capwap_element_wtpframetunnelmode_ops = element_ops CAPWAP_MESSAGE_ELEMENT_SINGLE (as_high is_Wtpframetunnelmode the_wtpframetunnelmode) (\<lambda>e. High (Wtpframetunnelmode e))
     capwap_wtpframetunnelmode_element_create capwap_wtpframetunnelmode_element_parsing"

definition capwap_element_wtpmactype_ops where
  "capwap_element_wtpmactype_ops = element_ops CAPWAP_MESSAGE_ELEMENT_SINGLE (as_high is_Wtpmactype the_wtpmactype) (\<lambda>e. High (Wtpmactype e))
     capwap_wtpmactype_element_create capwap_wtpmactype_element_parsing"

definition capwap_element_wtpname_ops where
  "capwap_element_wtpname_ops = element_ops CAPWAP_MESSAGE_ELEMENT_SINGLE (as_high is_Wtpname the_wtpname) (\<lambda>e. High (Wtpname e))
     capwap_wtpname_element_create capwap_wtpname_element_parsing"

definition capwap_element_wtpradiostat_ops where
  "capwap_element_wtpradiostat_ops = element_ops CAPWAP_MESSAGE_ELEMENT_SINGLE (as_high is_Wtpradiostat the_wtpradiostat) (\<lambda>e. High (Wtpradiostat e))
     capwap_wtpradiostat_element_create capwap_wtpradiostat_element_parsing"

definition capwap_element_wtprebootstat_ops where
  "capwap_element_wtprebootstat_ops = element_ops CAPWAP_MESSAGE_ELEMENT_SINGLE (as_high is_Wtprebootstat the_wtprebootstat) (\<lambda>e. High (Wtprebootstat e))
     capwap_wtprebootstat_element_create capwap_wtprebootstat_element_parsing"

definition capwap_element_wtpstaticipaddress_ops where
  "capwap_element_wtpstaticipaddress_ops = element_ops CAPWAP_MESSAGE_ELEMENT_SINGLE (as_high is_Wtpstaticipaddress the_wtpstaticipaddress) (\<lambda>e. High (Wtpstaticipaddress e))
     capwap_wtpstaticipaddress_element_create capwap_wtpstaticipaddress_element_parsing"

definition capwap_element_transport_ops where
  "capwap_element_transport_ops = element_ops CAPWAP_MESSAGE_ELEMENT_SINGLE (as_high is_Transport the_transport) (\<lambda>e. High (Transport e))
     capwap_transport_element_create capwap_transport_element_parsing"

definition capwap_element_mtudiscovery_ops where
  "capwap_element_mtudiscovery_ops = element_ops CAPWAP_MESSAGE_ELEMENT_SINGLE (as_high is_Mtudiscovery the_mtudiscovery) (\<lambda>e. High (Mtudiscovery e))
     capwap_mtudiscovery_element_create capwap_mtudiscovery_element_parsing"

definition capwap_element_ecnsupport_ops where
  "capwap_element_ecnsupport_ops = element_ops CAPWAP_MESSAGE_ELEMENT_SINGLE (as_high is_Ecnsupport the_ecnsupport) (\<lambda>e. High (Ecnsupport e))
     capwap_ecnsupport_element_create capwap_ecnsupport_element_parsing"

definition capwap_element_80211_addwlan_ops where
  "capwap_element_80211_addwlan_ops = element_ops CAPWAP_MESSAGE_ELEMENT_SINGLE (as_ieee80211 is_Addwlan the_addwlan) (\<lambda>e. Ieee80211 (Addwlan e))
     capwap_80211_addwlan_element_create capwap_80211_addwlan_element_parsing"

definition capwap_element_80211_antenna_ops where
  "capwap_element_80211_antenna_ops = element_ops CAPWAP_MESSAGE_ELEMENT_ARRAY (as_ieee80211 is_Antenna the_antenna) (\<lambda>e. Ieee80211 (Antenna e))
     capwap_80211_antenna_element_create capwap_80211_antenna_element_parsing"

definition capwap_element_80211_assignbssid_ops where
  "capwap_element_80211_assignbssid_ops = element_ops CAPWAP_MESSAGE_ELEMENT_SINGLE (as_ieee80211 is_Assignbssid the_assignbssid) (\<lambda>e. Ieee80211 (Assignbssid e))
     capwap_80211_assignbssid_element_create capwap_80211_assignbssid_element_parsing"

definition capwap_element_80211_deletewlan_ops where
  "capwap_element_80211_deletewlan_ops = element_ops CAPWAP_MESSAGE_ELEMENT_SINGLE (as_ieee80211 is_Deletewlan the_deletewlan) (\<lambda>e. Ieee80211 (Deletewlan e))
     capwap_80211_deletewlan_element_create capwap_80211_deletewlan_element_parsing"

definition capwap_element_80211_directsequencecontrol_ops where
  "capwap_element_80211_directsequencecontrol_ops = element_ops CAPWAP_MESSAGE_ELEMENT_ARRAY (as_ieee80211 is_Directsequencecontrol the_directsequencecontrol) (\<lambda>e. Ieee80211 (Directsequencecontrol e))
     capwap_80211_directsequencecontrol_element_create capwap_80211_directsequencecontrol_element_parsing"

definition capwap_element_80211_ie_ops where
  "capwap_element_80211_ie_ops = element_ops CAPWAP_MESSAGE_ELEMENT_ARRAY (as_ieee80211 is_Ie the_ie) (\<lambda>e. Ieee80211 (Ie e))
     capwap_80211_ie_element_create capwap_80211_ie_element_parsing"

definition capwap_element_80211_macoperation_ops where
  "capwap_element_80211_macoperation_ops = element_ops CAPWAP_MESSAGE_ELEMENT_ARRAY (as_ieee80211 is_Macoperation the_macoperation) (\<lambda>e. Ieee80211 (Macoperation e))
     capwap_80211_macoperation_element_create capwap_80211_macoperation_element_parsing"

definition capwap_element_80211_miccountermeasures_ops where
  "capwap_element_80211_miccountermeasures_ops = element_ops CAPWAP_MESSAGE_ELEMENT_SINGLE (as_ieee80211 is_Miccountermeasures the_miccountermeasures) (\<lambda>e. Ieee80211 (Miccountermeasures e))
     capwap_80211_miccountermeasures_element_create capwap_80211_miccountermeasures_element_parsing"

definition capwap_element_80211_multidomaincapability_ops where
  "capwap_element_80211_multidomaincapability_ops = element_ops CAPWAP_MESSAGE_ELEMENT_ARRAY (as_ieee80211 is_Multidomaincapability the_multidomaincapability) (\<lambda>e. Ieee80211 (Multidomaincapability e))
     capwap_80211_multidomaincapability_element_create capwap_80211_multidomaincapability_element_parsing"

definition capwap_element_80211_ofdmcontrol_ops where
  "capwap_element_80211_ofdmcontrol_ops = element_ops CAPWAP_MESSAGE_ELEMENT_ARRAY (as_ieee80211 is_Ofdmcontrol the_ofdmcontrol) (\<lambda>e. Ieee80211 (Ofdmcontrol e))
     capwap_80211_ofdmcontrol_element_create capwap_80211_ofdmcontrol_element_parsing"

definition capwap_element_80211_rateset_ops where
  "capwap_element_80211_rateset_ops = element_ops CAPWAP_MESSAGE_ELEMENT_ARRAY (as_ieee80211 is_Rateset the_rateset) (\<lambda>e. Ieee80211 (Rateset e))
     capwap_80211_rateset_element_create capwap_80211_rateset_element_parsing"

definition capwap_element_80211_supportedrates_ops where
  "capwap_element_80211_supportedrates_ops = element_ops CAPWAP_MESSAGE_ELEMENT_ARRAY (as_ieee80211 is_Supportedrates the_supportedrates) (\<lambda>e. Ieee80211 (Supportedrates e))
     capwap_80211_supportedrates_element_create capwap_80211_supportedrates_element_parsing"

definition capwap_element_80211_rsnaerrorreport_ops where
  "capwap_element_80211_rsnaerrorreport_ops = element_ops CAPWAP_MESSAGE_ELEMENT_SINGLE (as_ieee80211 is_Rsnaerrorreport the_rsnaerrorreport) (\<lambda>e. Ieee80211 (Rsnaerrorreport e))
     capwap_80211_rsnaerrorreport_element_create capwap_80211_rsnaerrorreport_element_parsing"

definition capwap_element_80211_station_ops where
  "capwap_element_80211_station_ops = element_ops CAPWAP_MESSAGE_ELEMENT_SINGLE (as_ieee80211 is_Station the_station) (\<lambda>e. Ieee80211 (Station e))
     capwap_80211_station_element_create capwap_80211_station_element_parsing"

definition capwap_element_80211_stationqos_ops where
  "capwap_element_80211_stationqos_ops = element_ops CAPWAP_MESSAGE_ELEMENT_SINGLE (as_ieee80211 is_Stationqos the_stationqos) (\<lambda>e. Ieee80211 (Stationqos e))
     capwap_80211_stationqos_element_create capwap_80211_stationqos_element_parsing"

definition capwap_element_80211_stationkey_ops where
  "capwap_element_80211_stationkey_ops = element_ops CAPWAP_MESSAGE_ELEMENT_SINGLE (as_ieee80211 is_Stationkey the_stationkey) (\<lambda>e. Ieee80211 (Stationkey e))
     capwap_80211_stationkey_element_create capwap_80211_stationkey_element_parsing"

definition capwap_element_80211_statistics_ops where
  "capwap_element_80211_statistics_ops = element_ops CAPWAP_MESSAGE_ELEMENT_ARRAY (as_ieee80211 is_Statistics the_statistics) (\<lambda>e. Ieee80211 (Statistics e))
     capwap_80211_statistics_element_create capwap_80211_statistics_element_parsing"

definition capwap_element_80211_txpower_ops where
  "capwap_element_80211_txpower_ops = element_ops CAPWAP_MESSAGE_ELEMENT_ARRAY (as_ieee80211 is_Txpower the_txpower) (\<lambda>e. Ieee80211 (Txpower e))
     capwap_80211_txpower_element_create capwap_80211_txpower_element_parsing"

definition capwap_element_80211_txpowerlevel_ops where
  "capwap_element_80211_txpowerlevel_ops = element_ops CAPWAP_MESSAGE_ELEMENT_ARRAY (as_ieee80211 is_Txpowerlevel the_txpowerlevel) (\<lambda>e. Ieee80211 (Txpowerlevel e))
     capwap_80211_txpowerlevel_element_create capwap_80211_txpowerlevel_element_parsing"

definition capwap_element_80211_updatestationqos_ops where
  "capwap_element_80211_updatestationqos_ops = element_ops CAPWAP_MESSAGE_ELEMENT_SINGLE (as_ieee80211 is_Updatestationqos the_updatestationqos) (\<lambda>e. Ieee80211 (Updatestationqos e))
     capwap_80211_updatestationqos_element_create capwap_80211_updatestationqos_element_parsing"

definition capwap_element_80211_updatewlan_ops where
  "capwap_element_80211_updatewlan_ops = element_ops CAPWAP_MESSAGE_ELEMENT_SINGLE (as_ieee80211 is_Updatewlan the_updatewlan) (\<lambda>e. Ieee80211 (Updatewlan e))
     capwap_80211_updatewlan_element_create capwap_80211_updatewlan_element_parsing"

definition capwap_element_80211_wtpqos_ops where
  "capwap_element_80211_wtpqos_ops = element_ops CAPWAP_MESSAGE_ELEMENT_ARRAY (as_ieee80211 is_Wtpqos the_wtpqos) (\<lambda>e. Ieee80211 (Wtpqos e))
     capwap_80211_wtpqos_element_create capwap_80211_wtpqos_element_parsing"

definition capwap_element_80211_wtpradioconf_ops where
  "capwap_element_80211_wtpradioconf_ops = element_ops CAPWAP_MESSAGE_ELEMENT_ARRAY (as_ieee80211 is_Wtpradioconf the_wtpradioconf) (\<lambda>e. Ieee80211 (Wtpradioconf e))
     capwap_80211_wtpradioconf_element_create capwap_80211_wtpradioconf_element_parsing"

definition capwap_element_80211_wtpradiofailalarm_ops where
  "capwap_element_80211_wtpradiofailalarm_ops = element_ops CAPWAP_MESSAGE_ELEMENT_SINGLE (as_ieee80211 is_Wtpradiofailalarm the_wtpradiofailalarm) (\<lambda>e. Ieee80211 (Wtpradiofailalarm e))
     capwap_80211_wtpradiofailalarm_element_create capwap_80211_wtpradiofailalarm_element_parsing"

definition capwap_element_80211_wtpradioinformation_ops where
  "capwap_element_80211_wtpradioinformation_ops = element_ops CAPWAP_MESSAGE_ELEMENT_ARRAY (as_ieee80211 is_Wtpradioinformation the_wtpradioinformation) (\<lambda>e. Ieee80211 (Wtpradioinformation e))
     capwap_80211_wtpradioinformation_element_create capwap_80211_wtpradioinformation_element_parsing"

definition capwap_element_80211_supported_mac_profiles_ops where
  "capwap_element_80211_supported_mac_profiles_ops = element_ops CAPWAP_MESSAGE_ELEMENT_SINGLE (as_ieee80211 is_Supported_mac_profiles the_supported_mac_profiles) (\<lambda>e. Ieee80211 (Supported_mac_profiles e))
     capwap_80211_supported_mac_profiles_element_create capwap_80211_supported_mac_profiles_element_parsing"

definition capwap_element_80211_mac_profile_ops where
  "capwap_element_80211_mac_profile_ops = element_ops CAPWAP_MESSAGE_ELEMENT_SINGLE (as_ieee80211 is_Mac_profile the_mac_profile) (\<lambda>e. Ieee80211 (Mac_profile e))
     capwap_80211_mac_profile_element_create capwap_80211_mac_profile_element_parsing"

definition capwap_element_vendor_travelping_wtp_timestamp_ops where
  "capwap_element_vendor_travelping_wtp_timestamp_ops = element_ops CAPWAP_MESSAGE_ELEMENT_SINGLE (as_travelping is_Wtp_timestamp the_wtp_timestamp) (\<lambda>e. Travelping (Wtp_timestamp e))
     capwap_vendor_travelping_wtp_timestamp_element_create capwap_vendor_travelping_wtp_timestamp_element_parsing"

definition capwap_element_80211n_radioconf_ops where
  "capwap_element_80211n_radioconf_ops = element_ops CAPWAP_MESSAGE_ELEMENT_ARRAY (as_travelping is_Radioconf the_radioconf) (\<lambda>e. Travelping (Radioconf e))
     capwap_80211n_radioconf_element_create capwap_80211n_radioconf_element_parsing"

definition capwap_element_80211n_station_info_ops where
  "capwap_element_80211n_station_info_ops = element_ops CAPWAP_MESSAGE_ELEMENT_SINGLE (as_travelping is_Station_info the_station_info) (\<lambda>e. Travelping (Station_info e))
     capwap_80211n_station_info_element_create capwap_80211n_station_info_element_parsing"

definition capwap_element_vendor_travelping_80211_encryption_capability_ops where
  "capwap_element_vendor_travelping_80211_encryption_capability_ops = element_ops CAPWAP_MESSAGE_ELEMENT_ARRAY (as_travelping is_Encryption_capability the_encryption_capability) (\<lambda>e. Travelping (Encryption_capability e))
     capwap_vendor_travelping_80211_encryption_capability_element_create capwap_vendor_travelping_80211_encryption_capability_element_parsing"

definition capwap_element_vendor_travelping_80211_update_key_ops where
  "capwap_element_vendor_travelping_80211_update_key_ops = element_ops CAPWAP_MESSAGE_ELEMENT_ARRAY (as_travelping is_Update_key the_update_key) (\<lambda>e. Travelping (Update_key e))
     capwap_vendor_travelping_80211_update_key_element_create capwap_vendor_travelping_80211_update_key_element_parsing"

subsection \<open>The tables\<close>

text \<open>The arrays have designated initialisers; a place without one is NULL.\<close>

definition capwap_message_elements :: "('w, 'r) capwap_message_elements_ops option list" where
  "capwap_message_elements = [
    Some capwap_element_acdescriptor_ops, Some capwap_element_acipv4list_ops,
    Some capwap_element_acipv6list_ops, Some capwap_element_acname_ops,
    Some capwap_element_acnamepriority_ops, Some capwap_element_actimestamp_ops,
    Some capwap_element_addmacacl_ops, Some capwap_element_addstation_ops, None,
    Some capwap_element_controlipv4_ops, Some capwap_element_controlipv6_ops,
    Some capwap_element_timers_ops, Some capwap_element_datatransferdata_ops,
    Some capwap_element_datatransfermode_ops, Some capwap_element_decrypterrorreport_ops,
    Some capwap_element_decrypterrorreportperiod_ops, Some capwap_element_deletemacacl_ops,
    Some capwap_element_deletestation_ops, None, Some capwap_element_discoverytype_ops,
    Some capwap_element_duplicateipv4_ops, Some capwap_element_duplicateipv6_ops,
    Some capwap_element_idletimeout_ops, Some capwap_element_imagedata_ops,
    Some capwap_element_imageidentifier_ops, Some capwap_element_imageinfo_ops,
    Some capwap_element_initdownload_ops, Some capwap_element_location_ops,
    Some capwap_element_maximumlength_ops, Some capwap_element_localipv4_ops,
    Some capwap_element_radioadmstate_ops, Some capwap_element_radiooprstate_ops,
    Some capwap_element_resultcode_ops, Some capwap_element_returnedmessage_ops,
    Some capwap_element_sessionid_ops, Some capwap_element_statisticstimer_ops,
    Some capwap_element_vendorpayload_ops, Some capwap_element_wtpboarddata_ops,
    Some capwap_element_wtpdescriptor_ops, Some capwap_element_wtpfallback_ops,
    Some capwap_element_wtpframetunnelmode_ops, None, None, Some capwap_element_wtpmactype_ops,
    Some capwap_element_wtpname_ops, None, Some capwap_element_wtpradiostat_ops,
    Some capwap_element_wtprebootstat_ops, Some capwap_element_wtpstaticipaddress_ops,
    Some capwap_element_localipv6_ops, Some capwap_element_transport_ops,
    Some capwap_element_mtudiscovery_ops, Some capwap_element_ecnsupport_ops]"

definition capwap_80211_message_elements :: "('w, 'r) capwap_message_elements_ops option list" where
  "capwap_80211_message_elements = [
    Some capwap_element_80211_addwlan_ops, Some capwap_element_80211_antenna_ops,
    Some capwap_element_80211_assignbssid_ops, Some capwap_element_80211_deletewlan_ops,
    Some capwap_element_80211_directsequencecontrol_ops, Some capwap_element_80211_ie_ops,
    Some capwap_element_80211_macoperation_ops, Some capwap_element_80211_miccountermeasures_ops,
    Some capwap_element_80211_multidomaincapability_ops, Some capwap_element_80211_ofdmcontrol_ops,
    Some capwap_element_80211_rateset_ops, Some capwap_element_80211_rsnaerrorreport_ops,
    Some capwap_element_80211_station_ops, Some capwap_element_80211_stationqos_ops,
    Some capwap_element_80211_stationkey_ops, Some capwap_element_80211_statistics_ops,
    Some capwap_element_80211_supportedrates_ops, Some capwap_element_80211_txpower_ops,
    Some capwap_element_80211_txpowerlevel_ops, Some capwap_element_80211_updatestationqos_ops,
    Some capwap_element_80211_updatewlan_ops, Some capwap_element_80211_wtpqos_ops,
    Some capwap_element_80211_wtpradioconf_ops, Some capwap_element_80211_wtpradiofailalarm_ops,
    Some capwap_element_80211_wtpradioinformation_ops, None, None, None, None, None, None, None,
    None, None, None, None, Some capwap_element_80211_supported_mac_profiles_ops,
    Some capwap_element_80211_mac_profile_ops]"

definition capwap_vendor_travelping_message_elements :: "('w, 'r) capwap_message_elements_ops option list" where
  "capwap_vendor_travelping_message_elements = [
    None, Some capwap_element_vendor_travelping_wtp_timestamp_ops, None, None, None, None, None,
    None, None, None, None, None, None, None, None, Some capwap_element_80211n_radioconf_ops,
    Some capwap_element_80211n_station_info_ops,
    Some capwap_element_vendor_travelping_80211_encryption_capability_ops,
    Some capwap_element_vendor_travelping_80211_update_key_ops]"

definition capwap_get_message_element_ops ::
    "capwap_message_element_id \<Rightarrow> ('w, 'r) capwap_message_elements_ops option" where
  "capwap_get_message_element_ops eid =
     (let t = unat (id_type eid)
      in if id_vendor eid = 0 then
           if 1 \<le> t \<and> t - 1 < length (capwap_message_elements :: ('w, 'r) capwap_message_elements_ops option list)
           then capwap_message_elements ! (t - 1)
           else if 1024 \<le> t \<and>
               t - 1024 < length (capwap_80211_message_elements :: ('w, 'r) capwap_message_elements_ops option list)
           then capwap_80211_message_elements ! (t - 1024)
           else None
         else if id_vendor eid = 18681 then
           if 1 \<le> t \<and>
               t - 1 < length (capwap_vendor_travelping_message_elements :: ('w, 'r) capwap_message_elements_ops option list)
           then capwap_vendor_travelping_message_elements ! (t - 1)
           else None
         else None)"

subsection \<open>What every element promises\<close>

text \<open>Identifier, operations, wire format and admissible values of an element.\<close>

fun low_type :: "low_element \<Rightarrow> u16" where
  "low_type (Acdescriptor _) = 1"
| "low_type (Acipv4list _) = 2"
| "low_type (Acipv6list _) = 3"
| "low_type (Acname _) = 4"
| "low_type (Acnamepriority _) = 5"
| "low_type (Actimestamp _) = 6"
| "low_type (Addmacacl _) = 7"
| "low_type (Addstation _) = 8"
| "low_type (Controlipv4 _) = 10"
| "low_type (Controlipv6 _) = 11"
| "low_type (Timers _) = 12"
| "low_type (Datatransferdata _) = 13"
| "low_type (Datatransfermode _) = 14"
| "low_type (Decrypterrorreport _) = 15"
| "low_type (Decrypterrorreportperiod _) = 16"
| "low_type (Deletemacacl _) = 17"
| "low_type (Deletestation _) = 18"

fun high_type :: "high_element \<Rightarrow> u16" where
  "high_type (Discoverytype _) = 20"
| "high_type (Duplicateipv4 _) = 21"
| "high_type (Duplicateipv6 _) = 22"
| "high_type (Idletimeout _) = 23"
| "high_type (Imagedata _) = 24"
| "high_type (Imageidentifier _) = 25"
| "high_type (Imageinfo _) = 26"
| "high_type (Initdownload _) = 27"
| "high_type (Location _) = 28"
| "high_type (Maximumlength _) = 29"
| "high_type (Localipv4 _) = 30"
| "high_type (Localipv6 _) = 50"
| "high_type (Radioadmstate _) = 31"
| "high_type (Radiooprstate _) = 32"
| "high_type (Resultcode _) = 33"
| "high_type (Returnedmessage _) = 34"
| "high_type (Sessionid _) = 35"
| "high_type (Statisticstimer _) = 36"
| "high_type (Vendorpayload _) = 37"
| "high_type (Wtpboarddata _) = 38"
| "high_type (Wtpdescriptor _) = 39"
| "high_type (Wtpfallback _) = 40"
| "high_type (Wtpframetunnelmode _) = 41"
| "high_type (Wtpmactype _) = 44"
| "high_type (Wtpname _) = 45"
| "high_type (Wtpradiostat _) = 47"
| "high_type (Wtprebootstat _) = 48"
| "high_type (Wtpstaticipaddress _) = 49"
| "high_type (Transport _) = 51"
| "high_type (Mtudiscovery _) = 52"
| "high_type (Ecnsupport _) = 53"

fun ieee80211_type :: "ieee80211_element \<Rightarrow> u16" where
  "ieee80211_type (Addwlan _) = 1024"
| "ieee80211_type (Antenna _) = 1025"
| "ieee80211_type (Assignbssid _) = 1026"
| "ieee80211_type (Deletewlan _) = 1027"
| "ieee80211_type (Directsequencecontrol _) = 1028"
| "ieee80211_type (Ie _) = 1029"
| "ieee80211_type (Macoperation _) = 1030"
| "ieee80211_type (Miccountermeasures _) = 1031"
| "ieee80211_type (Multidomaincapability _) = 1032"
| "ieee80211_type (Ofdmcontrol _) = 1033"
| "ieee80211_type (Rateset _) = 1034"
| "ieee80211_type (Supportedrates _) = 1040"
| "ieee80211_type (Rsnaerrorreport _) = 1035"
| "ieee80211_type (Station _) = 1036"
| "ieee80211_type (Stationqos _) = 1037"
| "ieee80211_type (Stationkey _) = 1038"
| "ieee80211_type (Statistics _) = 1039"
| "ieee80211_type (Txpower _) = 1041"
| "ieee80211_type (Txpowerlevel _) = 1042"
| "ieee80211_type (Updatestationqos _) = 1043"
| "ieee80211_type (Updatewlan _) = 1044"
| "ieee80211_type (Wtpqos _) = 1045"
| "ieee80211_type (Wtpradioconf _) = 1046"
| "ieee80211_type (Wtpradiofailalarm _) = 1047"
| "ieee80211_type (Wtpradioinformation _) = 1048"
| "ieee80211_type (Supported_mac_profiles _) = 1060"
| "ieee80211_type (Mac_profile _) = 1061"

fun travelping_type :: "travelping_element \<Rightarrow> u16" where
  "travelping_type (Wtp_timestamp _) = 2"
| "travelping_type (Radioconf _) = 16"
| "travelping_type (Station_info _) = 17"
| "travelping_type (Encryption_capability _) = 18"
| "travelping_type (Update_key _) = 19"

fun low_ops :: "low_element \<Rightarrow> ('w, 'r) capwap_message_elements_ops" where
  "low_ops (Acdescriptor _) = capwap_element_acdescriptor_ops"
| "low_ops (Acipv4list _) = capwap_element_acipv4list_ops"
| "low_ops (Acipv6list _) = capwap_element_acipv6list_ops"
| "low_ops (Acname _) = capwap_element_acname_ops"
| "low_ops (Acnamepriority _) = capwap_element_acnamepriority_ops"
| "low_ops (Actimestamp _) = capwap_element_actimestamp_ops"
| "low_ops (Addmacacl _) = capwap_element_addmacacl_ops"
| "low_ops (Addstation _) = capwap_element_addstation_ops"
| "low_ops (Controlipv4 _) = capwap_element_controlipv4_ops"
| "low_ops (Controlipv6 _) = capwap_element_controlipv6_ops"
| "low_ops (Timers _) = capwap_element_timers_ops"
| "low_ops (Datatransferdata _) = capwap_element_datatransferdata_ops"
| "low_ops (Datatransfermode _) = capwap_element_datatransfermode_ops"
| "low_ops (Decrypterrorreport _) = capwap_element_decrypterrorreport_ops"
| "low_ops (Decrypterrorreportperiod _) = capwap_element_decrypterrorreportperiod_ops"
| "low_ops (Deletemacacl _) = capwap_element_deletemacacl_ops"
| "low_ops (Deletestation _) = capwap_element_deletestation_ops"

fun high_ops :: "high_element \<Rightarrow> ('w, 'r) capwap_message_elements_ops" where
  "high_ops (Discoverytype _) = capwap_element_discoverytype_ops"
| "high_ops (Duplicateipv4 _) = capwap_element_duplicateipv4_ops"
| "high_ops (Duplicateipv6 _) = capwap_element_duplicateipv6_ops"
| "high_ops (Idletimeout _) = capwap_element_idletimeout_ops"
| "high_ops (Imagedata _) = capwap_element_imagedata_ops"
| "high_ops (Imageidentifier _) = capwap_element_imageidentifier_ops"
| "high_ops (Imageinfo _) = capwap_element_imageinfo_ops"
| "high_ops (Initdownload _) = capwap_element_initdownload_ops"
| "high_ops (Location _) = capwap_element_location_ops"
| "high_ops (Maximumlength _) = capwap_element_maximumlength_ops"
| "high_ops (Localipv4 _) = capwap_element_localipv4_ops"
| "high_ops (Localipv6 _) = capwap_element_localipv6_ops"
| "high_ops (Radioadmstate _) = capwap_element_radioadmstate_ops"
| "high_ops (Radiooprstate _) = capwap_element_radiooprstate_ops"
| "high_ops (Resultcode _) = capwap_element_resultcode_ops"
| "high_ops (Returnedmessage _) = capwap_element_returnedmessage_ops"
| "high_ops (Sessionid _) = capwap_element_sessionid_ops"
| "high_ops (Statisticstimer _) = capwap_element_statisticstimer_ops"
| "high_ops (Vendorpayload _) = capwap_element_vendorpayload_ops"
| "high_ops (Wtpboarddata _) = capwap_element_wtpboarddata_ops"
| "high_ops (Wtpdescriptor _) = capwap_element_wtpdescriptor_ops"
| "high_ops (Wtpfallback _) = capwap_element_wtpfallback_ops"
| "high_ops (Wtpframetunnelmode _) = capwap_element_wtpframetunnelmode_ops"
| "high_ops (Wtpmactype _) = capwap_element_wtpmactype_ops"
| "high_ops (Wtpname _) = capwap_element_wtpname_ops"
| "high_ops (Wtpradiostat _) = capwap_element_wtpradiostat_ops"
| "high_ops (Wtprebootstat _) = capwap_element_wtprebootstat_ops"
| "high_ops (Wtpstaticipaddress _) = capwap_element_wtpstaticipaddress_ops"
| "high_ops (Transport _) = capwap_element_transport_ops"
| "high_ops (Mtudiscovery _) = capwap_element_mtudiscovery_ops"
| "high_ops (Ecnsupport _) = capwap_element_ecnsupport_ops"

fun ieee80211_ops :: "ieee80211_element \<Rightarrow> ('w, 'r) capwap_message_elements_ops" where
  "ieee80211_ops (Addwlan _) = capwap_element_80211_addwlan_ops"
| "ieee80211_ops (Antenna _) = capwap_element_80211_antenna_ops"
| "ieee80211_ops (Assignbssid _) = capwap_element_80211_assignbssid_ops"
| "ieee80211_ops (Deletewlan _) = capwap_element_80211_deletewlan_ops"
| "ieee80211_ops (Directsequencecontrol _) = capwap_element_80211_directsequencecontrol_ops"
| "ieee80211_ops (Ie _) = capwap_element_80211_ie_ops"
| "ieee80211_ops (Macoperation _) = capwap_element_80211_macoperation_ops"
| "ieee80211_ops (Miccountermeasures _) = capwap_element_80211_miccountermeasures_ops"
| "ieee80211_ops (Multidomaincapability _) = capwap_element_80211_multidomaincapability_ops"
| "ieee80211_ops (Ofdmcontrol _) = capwap_element_80211_ofdmcontrol_ops"
| "ieee80211_ops (Rateset _) = capwap_element_80211_rateset_ops"
| "ieee80211_ops (Supportedrates _) = capwap_element_80211_supportedrates_ops"
| "ieee80211_ops (Rsnaerrorreport _) = capwap_element_80211_rsnaerrorreport_ops"
| "ieee80211_ops (Station _) = capwap_element_80211_station_ops"
| "ieee80211_ops (Stationqos _) = capwap_element_80211_stationqos_ops"
| "ieee80211_ops (Stationkey _) = capwap_element_80211_stationkey_ops"
| "ieee80211_ops (Statistics _) = capwap_element_80211_statistics_ops"
| "ieee80211_ops (Txpower _) = capwap_element_80211_txpower_ops"
| "ieee80211_ops (Txpowerlevel _) = capwap_element_80211_txpowerlevel_ops"
| "ieee80211_ops (Updatestationqos _) = capwap_element_80211_updatestationqos_ops"
| "ieee80211_ops (Updatewlan _) = capwap_element_80211_updatewlan_ops"
| "ieee80211_ops (Wtpqos _) = capwap_element_80211_wtpqos_ops"
| "ieee80211_ops (Wtpradioconf _) = capwap_element_80211_wtpradioconf_ops"
| "ieee80211_ops (Wtpradiofailalarm _) = capwap_element_80211_wtpradiofailalarm_ops"
| "ieee80211_ops (Wtpradioinformation _) = capwap_element_80211_wtpradioinformation_ops"
| "ieee80211_ops (Supported_mac_profiles _) = capwap_element_80211_supported_mac_profiles_ops"
| "ieee80211_ops (Mac_profile _) = capwap_element_80211_mac_profile_ops"

fun travelping_ops :: "travelping_element \<Rightarrow> ('w, 'r) capwap_message_elements_ops" where
  "travelping_ops (Wtp_timestamp _) = capwap_element_vendor_travelping_wtp_timestamp_ops"
| "travelping_ops (Radioconf _) = capwap_element_80211n_radioconf_ops"
| "travelping_ops (Station_info _) = capwap_element_80211n_station_info_ops"
| "travelping_ops (Encryption_capability _) = capwap_element_vendor_travelping_80211_encryption_capability_ops"
| "travelping_ops (Update_key _) = capwap_element_vendor_travelping_80211_update_key_ops"

fun low_wire :: "low_element \<Rightarrow> u8 list" where
  "low_wire (Acdescriptor e) = acdescriptor_wire e"
| "low_wire (Acipv4list e) = acipv4list_wire e"
| "low_wire (Acipv6list e) = acipv6list_wire e"
| "low_wire (Acname e) = acname_wire e"
| "low_wire (Acnamepriority e) = acnamepriority_wire e"
| "low_wire (Actimestamp e) = actimestamp_wire e"
| "low_wire (Addmacacl e) = addmacacl_wire e"
| "low_wire (Addstation e) = addstation_wire e"
| "low_wire (Controlipv4 e) = controlipv4_wire e"
| "low_wire (Controlipv6 e) = controlipv6_wire e"
| "low_wire (Timers e) = timers_wire e"
| "low_wire (Datatransferdata e) = datatransferdata_wire e"
| "low_wire (Datatransfermode e) = datatransfermode_wire e"
| "low_wire (Decrypterrorreport e) = decrypterrorreport_wire e"
| "low_wire (Decrypterrorreportperiod e) = decrypterrorreportperiod_wire e"
| "low_wire (Deletemacacl e) = deletemacacl_wire e"
| "low_wire (Deletestation e) = deletestation_wire e"

fun high_wire :: "high_element \<Rightarrow> u8 list" where
  "high_wire (Discoverytype e) = discoverytype_wire e"
| "high_wire (Duplicateipv4 e) = duplicateipv4_wire e"
| "high_wire (Duplicateipv6 e) = duplicateipv6_wire e"
| "high_wire (Idletimeout e) = idletimeout_wire e"
| "high_wire (Imagedata e) = imagedata_wire e"
| "high_wire (Imageidentifier e) = imageidentifier_wire e"
| "high_wire (Imageinfo e) = imageinfo_wire e"
| "high_wire (Initdownload e) = initdownload_wire e"
| "high_wire (Location e) = location_wire e"
| "high_wire (Maximumlength e) = maximumlength_wire e"
| "high_wire (Localipv4 e) = localipv4_wire e"
| "high_wire (Localipv6 e) = localipv6_wire e"
| "high_wire (Radioadmstate e) = radioadmstate_wire e"
| "high_wire (Radiooprstate e) = radiooprstate_wire e"
| "high_wire (Resultcode e) = resultcode_wire e"
| "high_wire (Returnedmessage e) = returnedmessage_wire e"
| "high_wire (Sessionid e) = sessionid_wire e"
| "high_wire (Statisticstimer e) = statisticstimer_wire e"
| "high_wire (Vendorpayload e) = vendorpayload_wire e"
| "high_wire (Wtpboarddata e) = wtpboarddata_wire e"
| "high_wire (Wtpdescriptor e) = wtpdescriptor_wire e"
| "high_wire (Wtpfallback e) = wtpfallback_wire e"
| "high_wire (Wtpframetunnelmode e) = wtpframetunnelmode_wire e"
| "high_wire (Wtpmactype e) = wtpmactype_wire e"
| "high_wire (Wtpname e) = wtpname_wire e"
| "high_wire (Wtpradiostat e) = wtpradiostat_wire e"
| "high_wire (Wtprebootstat e) = wtprebootstat_wire e"
| "high_wire (Wtpstaticipaddress e) = wtpstaticipaddress_wire e"
| "high_wire (Transport e) = transport_wire e"
| "high_wire (Mtudiscovery e) = mtudiscovery_wire e"
| "high_wire (Ecnsupport e) = ecnsupport_wire e"

fun ieee80211_wire :: "ieee80211_element \<Rightarrow> u8 list" where
  "ieee80211_wire (Addwlan e) = addwlan_wire e"
| "ieee80211_wire (Antenna e) = antenna_wire e"
| "ieee80211_wire (Assignbssid e) = assignbssid_wire e"
| "ieee80211_wire (Deletewlan e) = deletewlan_wire e"
| "ieee80211_wire (Directsequencecontrol e) = directsequencecontrol_wire e"
| "ieee80211_wire (Ie e) = ie_wire e"
| "ieee80211_wire (Macoperation e) = macoperation_wire e"
| "ieee80211_wire (Miccountermeasures e) = miccountermeasures_wire e"
| "ieee80211_wire (Multidomaincapability e) = multidomaincapability_wire e"
| "ieee80211_wire (Ofdmcontrol e) = ofdmcontrol_wire e"
| "ieee80211_wire (Rateset e) = rateset_wire e"
| "ieee80211_wire (Supportedrates e) = supportedrates_wire e"
| "ieee80211_wire (Rsnaerrorreport e) = rsnaerrorreport_wire e"
| "ieee80211_wire (Station e) = station_wire e"
| "ieee80211_wire (Stationqos e) = stationqos_wire e"
| "ieee80211_wire (Stationkey e) = stationkey_wire e"
| "ieee80211_wire (Statistics e) = statistics_wire e"
| "ieee80211_wire (Txpower e) = txpower_wire e"
| "ieee80211_wire (Txpowerlevel e) = txpowerlevel_wire e"
| "ieee80211_wire (Updatestationqos e) = updatestationqos_wire e"
| "ieee80211_wire (Updatewlan e) = updatewlan_wire e"
| "ieee80211_wire (Wtpqos e) = wtpqos_wire e"
| "ieee80211_wire (Wtpradioconf e) = wtpradioconf_wire e"
| "ieee80211_wire (Wtpradiofailalarm e) = wtpradiofailalarm_wire e"
| "ieee80211_wire (Wtpradioinformation e) = wtpradioinformation_wire e"
| "ieee80211_wire (Supported_mac_profiles e) = supported_mac_profiles_wire e"
| "ieee80211_wire (Mac_profile e) = mac_profile_wire e"

fun travelping_wire :: "travelping_element \<Rightarrow> u8 list" where
  "travelping_wire (Wtp_timestamp e) = wtp_timestamp_wire e"
| "travelping_wire (Radioconf e) = radioconf_wire e"
| "travelping_wire (Station_info e) = station_info_wire e"
| "travelping_wire (Encryption_capability e) = encryption_capability_wire e"
| "travelping_wire (Update_key e) = update_key_wire e"

fun low_valid :: "low_element \<Rightarrow> bool" where
  "low_valid (Acdescriptor e) = acdescriptor_valid e"
| "low_valid (Acipv4list e) = acipv4list_valid e"
| "low_valid (Acipv6list e) = acipv6list_valid e"
| "low_valid (Acname e) = acname_valid e"
| "low_valid (Acnamepriority e) = acnamepriority_valid e"
| "low_valid (Actimestamp e) = True"
| "low_valid (Addmacacl e) = addmacacl_valid e"
| "low_valid (Addstation e) = addstation_valid e"
| "low_valid (Controlipv4 e) = controlipv4_valid e"
| "low_valid (Controlipv6 e) = controlipv6_valid e"
| "low_valid (Timers e) = True"
| "low_valid (Datatransferdata e) = datatransferdata_valid e"
| "low_valid (Datatransfermode e) = datatransfermode_valid e"
| "low_valid (Decrypterrorreport e) = decrypterrorreport_valid e"
| "low_valid (Decrypterrorreportperiod e) = decrypterrorreportperiod_valid e"
| "low_valid (Deletemacacl e) = deletemacacl_valid e"
| "low_valid (Deletestation e) = deletestation_valid e"

fun high_valid :: "high_element \<Rightarrow> bool" where
  "high_valid (Discoverytype e) = discoverytype_valid e"
| "high_valid (Duplicateipv4 e) = duplicateipv4_valid e"
| "high_valid (Duplicateipv6 e) = duplicateipv6_valid e"
| "high_valid (Idletimeout e) = True"
| "high_valid (Imagedata e) = imagedata_valid e"
| "high_valid (Imageidentifier e) = imageidentifier_valid e"
| "high_valid (Imageinfo e) = imageinfo_valid e"
| "high_valid (Initdownload e) = initdownload_valid e"
| "high_valid (Location e) = location_valid e"
| "high_valid (Maximumlength e) = True"
| "high_valid (Localipv4 e) = localipv4_valid e"
| "high_valid (Localipv6 e) = localipv6_valid e"
| "high_valid (Radioadmstate e) = radioadmstate_valid e"
| "high_valid (Radiooprstate e) = radiooprstate_valid e"
| "high_valid (Resultcode e) = resultcode_valid e"
| "high_valid (Returnedmessage e) = returnedmessage_valid e"
| "high_valid (Sessionid e) = sessionid_valid e"
| "high_valid (Statisticstimer e) = True"
| "high_valid (Vendorpayload e) = vendorpayload_valid e"
| "high_valid (Wtpboarddata e) = wtpboarddata_valid e"
| "high_valid (Wtpdescriptor e) = wtpdescriptor_valid e"
| "high_valid (Wtpfallback e) = wtpfallback_valid e"
| "high_valid (Wtpframetunnelmode e) = wtpframetunnelmode_valid e"
| "high_valid (Wtpmactype e) = wtpmactype_valid e"
| "high_valid (Wtpname e) = wtpname_valid e"
| "high_valid (Wtpradiostat e) = wtpradiostat_valid e"
| "high_valid (Wtprebootstat e) = True"
| "high_valid (Wtpstaticipaddress e) = wtpstaticipaddress_valid e"
| "high_valid (Transport e) = transport_valid e"
| "high_valid (Mtudiscovery e) = False"
| "high_valid (Ecnsupport e) = ecnsupport_valid e"

fun ieee80211_valid :: "ieee80211_element \<Rightarrow> bool" where
  "ieee80211_valid (Addwlan e) = addwlan_valid e"
| "ieee80211_valid (Antenna e) = antenna_valid e"
| "ieee80211_valid (Assignbssid e) = assignbssid_valid e"
| "ieee80211_valid (Deletewlan e) = True"
| "ieee80211_valid (Directsequencecontrol e) = directsequencecontrol_valid e"
| "ieee80211_valid (Ie e) = ie_valid e"
| "ieee80211_valid (Macoperation e) = True"
| "ieee80211_valid (Miccountermeasures e) = miccountermeasures_valid e"
| "ieee80211_valid (Multidomaincapability e) = True"
| "ieee80211_valid (Ofdmcontrol e) = True"
| "ieee80211_valid (Rateset e) = rateset_valid e"
| "ieee80211_valid (Supportedrates e) = supportedrates_valid e"
| "ieee80211_valid (Rsnaerrorreport e) = rsnaerrorreport_valid e"
| "ieee80211_valid (Station e) = station_valid e"
| "ieee80211_valid (Stationqos e) = stationqos_valid e"
| "ieee80211_valid (Stationkey e) = stationkey_valid e"
| "ieee80211_valid (Statistics e) = False"
| "ieee80211_valid (Txpower e) = True"
| "ieee80211_valid (Txpowerlevel e) = txpowerlevel_valid e"
| "ieee80211_valid (Updatestationqos e) = False"
| "ieee80211_valid (Updatewlan e) = updatewlan_valid e"
| "ieee80211_valid (Wtpqos e) = wtpqos_valid e"
| "ieee80211_valid (Wtpradioconf e) = wtpradioconf_valid e"
| "ieee80211_valid (Wtpradiofailalarm e) = True"
| "ieee80211_valid (Wtpradioinformation e) = True"
| "ieee80211_valid (Supported_mac_profiles e) = supported_mac_profiles_valid e"
| "ieee80211_valid (Mac_profile e) = True"

fun travelping_valid :: "travelping_element \<Rightarrow> bool" where
  "travelping_valid (Wtp_timestamp e) = wtp_timestamp_valid e"
| "travelping_valid (Radioconf e) = radioconf_valid e"
| "travelping_valid (Station_info e) = station_info_valid e"
| "travelping_valid (Encryption_capability e) = encryption_capability_valid e"
| "travelping_valid (Update_key e) = update_key_valid e"

fun element_id :: "capwap_element \<Rightarrow> capwap_message_element_id" where
  "element_id (Low x) = \<lparr>id_vendor = 0, id_type = low_type x\<rparr>"
| "element_id (High x) = \<lparr>id_vendor = 0, id_type = high_type x\<rparr>"
| "element_id (Ieee80211 x) = \<lparr>id_vendor = 0, id_type = ieee80211_type x\<rparr>"
| "element_id (Travelping x) = \<lparr>id_vendor = 18681, id_type = travelping_type x\<rparr>"

fun ops_of_element :: "capwap_element \<Rightarrow> ('w, 'r) capwap_message_elements_ops" where
  "ops_of_element (Low x) = low_ops x"
| "ops_of_element (High x) = high_ops x"
| "ops_of_element (Ieee80211 x) = ieee80211_ops x"
| "ops_of_element (Travelping x) = travelping_ops x"

fun element_wire :: "capwap_element \<Rightarrow> u8 list" where
  "element_wire (Low x) = low_wire x"
| "element_wire (High x) = high_wire x"
| "element_wire (Ieee80211 x) = ieee80211_wire x"
| "element_wire (Travelping x) = travelping_wire x"

fun element_valid :: "capwap_element \<Rightarrow> bool" where
  "element_valid (Low x) = low_valid x"
| "element_valid (High x) = high_valid x"
| "element_valid (Ieee80211 x) = ieee80211_valid x"
| "element_valid (Travelping x) = travelping_valid x"

text \<open>The table gives the operations of the element.\<close>

lemma low_lookup:
  "capwap_get_message_element_ops (element_id (Low x)) = Some (low_ops x)"
  by (cases x) (simp_all add: capwap_get_message_element_ops_def capwap_message_elements_def)

lemma high_lookup:
  "capwap_get_message_element_ops (element_id (High x)) = Some (high_ops x)"
  by (cases x) (simp_all add: capwap_get_message_element_ops_def capwap_message_elements_def)

lemma ieee80211_lookup:
  "capwap_get_message_element_ops (element_id (Ieee80211 x)) = Some (ieee80211_ops x)"
  by (cases x) (simp_all add: capwap_get_message_element_ops_def capwap_80211_message_elements_def capwap_message_elements_def)

lemma travelping_lookup:
  "capwap_get_message_element_ops (element_id (Travelping x)) = Some (travelping_ops x)"
  by (cases x) (simp_all add: capwap_get_message_element_ops_def capwap_vendor_travelping_message_elements_def)

lemma element_lookup: "capwap_get_message_element_ops (element_id e) = Some (ops_of_element e)"
  by (cases e) (simp_all only: low_lookup high_lookup ieee80211_lookup travelping_lookup ops_of_element.simps)

context message_writer begin

lemma low_created:
  "low_valid x \<Longrightarrow> length (low_wire x) \<le> room h \<Longrightarrow> create (low_ops x) (Low x) func h = Some (app (low_wire x) h)"
  by (cases x) (simp_all add: element_ops_def as_low_def
      capwap_element_acdescriptor_ops_def acdescriptor_create
      capwap_element_acipv4list_ops_def acipv4list_create
      capwap_element_acipv6list_ops_def acipv6list_create
      capwap_element_acname_ops_def acname_create
      capwap_element_acnamepriority_ops_def acnamepriority_create
      capwap_element_actimestamp_ops_def actimestamp_create
      capwap_element_addmacacl_ops_def addmacacl_create
      capwap_element_addstation_ops_def addstation_create
      capwap_element_controlipv4_ops_def controlipv4_create
      capwap_element_controlipv6_ops_def controlipv6_create
      capwap_element_timers_ops_def timers_create
      capwap_element_datatransferdata_ops_def datatransferdata_create
      capwap_element_datatransfermode_ops_def datatransfermode_create
      capwap_element_decrypterrorreport_ops_def decrypterrorreport_create
      capwap_element_decrypterrorreportperiod_ops_def decrypterrorreportperiod_create
      capwap_element_deletemacacl_ops_def deletemacacl_create
      capwap_element_deletestation_ops_def deletestation_create)

lemma high_created:
  "high_valid x \<Longrightarrow> length (high_wire x) \<le> room h \<Longrightarrow> create (high_ops x) (High x) func h = Some (app (high_wire x) h)"
  by (cases x) (simp_all add: element_ops_def as_high_def
      capwap_element_discoverytype_ops_def discoverytype_create
      capwap_element_duplicateipv4_ops_def duplicateipv4_create
      capwap_element_duplicateipv6_ops_def duplicateipv6_create
      capwap_element_idletimeout_ops_def idletimeout_create
      capwap_element_imagedata_ops_def imagedata_create
      capwap_element_imageidentifier_ops_def imageidentifier_create
      capwap_element_imageinfo_ops_def imageinfo_create
      capwap_element_initdownload_ops_def initdownload_create
      capwap_element_location_ops_def location_create
      capwap_element_maximumlength_ops_def maximumlength_create
      capwap_element_localipv4_ops_def localipv4_create
      capwap_element_localipv6_ops_def localipv6_create
      capwap_element_radioadmstate_ops_def radioadmstate_create
      capwap_element_radiooprstate_ops_def radiooprstate_create
      capwap_element_resultcode_ops_def resultcode_create
      capwap_element_returnedmessage_ops_def returnedmessage_create
      capwap_element_sessionid_ops_def sessionid_create
      capwap_element_statisticstimer_ops_def statisticstimer_create
      capwap_element_vendorpayload_ops_def vendorpayload_create
      capwap_element_wtpboarddata_ops_def wtpboarddata_create
      capwap_element_wtpdescriptor_ops_def wtpdescriptor_create
      capwap_element_wtpfallback_ops_def wtpfallback_create
      capwap_element_wtpframetunnelmode_ops_def wtpframetunnelmode_create
      capwap_element_wtpmactype_ops_def wtpmactype_create
      capwap_element_wtpname_ops_def wtpname_create
      capwap_element_wtpradiostat_ops_def wtpradiostat_create
      capwap_element_wtprebootstat_ops_def wtprebootstat_create
      capwap_element_wtpstaticipaddress_ops_def wtpstaticipaddress_create
      capwap_element_transport_ops_def transport_create
      capwap_element_mtudiscovery_ops_def 
      capwap_element_ecnsupport_ops_def ecnsupport_create)

lemma ieee80211_created:
  "ieee80211_valid x \<Longrightarrow> length (ieee80211_wire x) \<le> room h \<Longrightarrow> create (ieee80211_ops x) (Ieee80211 x) func h = Some (app (ieee80211_wire x) h)"
  by (cases x) (simp_all add: element_ops_def as_ieee80211_def
      capwap_element_80211_addwlan_ops_def addwlan_create
      capwap_element_80211_antenna_ops_def antenna_create
      capwap_element_80211_assignbssid_ops_def assignbssid_create
      capwap_element_80211_deletewlan_ops_def deletewlan_create
      capwap_element_80211_directsequencecontrol_ops_def directsequencecontrol_create
      capwap_element_80211_ie_ops_def ie_create
      capwap_element_80211_macoperation_ops_def macoperation_create
      capwap_element_80211_miccountermeasures_ops_def miccountermeasures_create
      capwap_element_80211_multidomaincapability_ops_def multidomaincapability_create
      capwap_element_80211_ofdmcontrol_ops_def ofdmcontrol_create
      capwap_element_80211_rateset_ops_def rateset_create
      capwap_element_80211_supportedrates_ops_def supportedrates_create
      capwap_element_80211_rsnaerrorreport_ops_def rsnaerrorreport_create
      capwap_element_80211_station_ops_def station_create
      capwap_element_80211_stationqos_ops_def stationqos_create
      capwap_element_80211_stationkey_ops_def stationkey_create
      capwap_element_80211_statistics_ops_def 
      capwap_element_80211_txpower_ops_def txpower_create
      capwap_element_80211_txpowerlevel_ops_def txpowerlevel_create
      capwap_element_80211_updatestationqos_ops_def 
      capwap_element_80211_updatewlan_ops_def updatewlan_create
      capwap_element_80211_wtpqos_ops_def wtpqos_create
      capwap_element_80211_wtpradioconf_ops_def wtpradioconf_create
      capwap_element_80211_wtpradiofailalarm_ops_def wtpradiofailalarm_create
      capwap_element_80211_wtpradioinformation_ops_def wtpradioinformation_create
      capwap_element_80211_supported_mac_profiles_ops_def supported_mac_profiles_create
      capwap_element_80211_mac_profile_ops_def mac_profile_create)

lemma travelping_created:
  "travelping_valid x \<Longrightarrow> length (travelping_wire x) \<le> room h \<Longrightarrow> create (travelping_ops x) (Travelping x) func h = Some (app (travelping_wire x) h)"
  by (cases x) (simp_all add: element_ops_def as_travelping_def
      capwap_element_vendor_travelping_wtp_timestamp_ops_def wtp_timestamp_create
      capwap_element_80211n_radioconf_ops_def radioconf_create
      capwap_element_80211n_station_info_ops_def station_info_create
      capwap_element_vendor_travelping_80211_encryption_capability_ops_def encryption_capability_create
      capwap_element_vendor_travelping_80211_update_key_ops_def update_key_create)

lemma element_created:
  assumes "element_valid e" "length (element_wire e) \<le> room h"
  shows "create (ops_of_element e) e func h = Some (app (element_wire e) h)"
  using assms low_created high_created ieee80211_created travelping_created by (cases e) auto

end

context message_reader begin

lemma low_parsed:
  assumes "inv h" "stream h = low_wire x @ rest" "unat (allow h) = length (low_wire x)" "low_valid x"
  shows "parse (low_ops x) m func h = Some (Some (Low x), adv (length (low_wire x)) h)"
  using assms
  by (cases x) (simp_all add: element_ops_def
      capwap_element_acdescriptor_ops_def acdescriptor_parse
      capwap_element_acipv4list_ops_def acipv4list_parse
      capwap_element_acipv6list_ops_def acipv6list_parse
      capwap_element_acname_ops_def acname_parse
      capwap_element_acnamepriority_ops_def acnamepriority_parse
      capwap_element_actimestamp_ops_def actimestamp_parse
      capwap_element_addmacacl_ops_def addmacacl_parse
      capwap_element_addstation_ops_def addstation_parse
      capwap_element_controlipv4_ops_def controlipv4_parse
      capwap_element_controlipv6_ops_def controlipv6_parse
      capwap_element_timers_ops_def timers_parse
      capwap_element_datatransferdata_ops_def datatransferdata_parse
      capwap_element_datatransfermode_ops_def datatransfermode_parse
      capwap_element_decrypterrorreport_ops_def decrypterrorreport_parse
      capwap_element_decrypterrorreportperiod_ops_def decrypterrorreportperiod_parse
      capwap_element_deletemacacl_ops_def deletemacacl_parse
      capwap_element_deletestation_ops_def deletestation_parse)

lemma high_parsed:
  assumes "inv h" "stream h = high_wire x @ rest" "unat (allow h) = length (high_wire x)" "high_valid x"
  shows "parse (high_ops x) m func h = Some (Some (High x), adv (length (high_wire x)) h)"
  using assms
  by (cases x) (simp_all add: element_ops_def
      capwap_element_discoverytype_ops_def discoverytype_parse
      capwap_element_duplicateipv4_ops_def duplicateipv4_parse
      capwap_element_duplicateipv6_ops_def duplicateipv6_parse
      capwap_element_idletimeout_ops_def idletimeout_parse
      capwap_element_imagedata_ops_def imagedata_parse
      capwap_element_imageidentifier_ops_def imageidentifier_parse
      capwap_element_imageinfo_ops_def imageinfo_parse
      capwap_element_initdownload_ops_def initdownload_parse
      capwap_element_location_ops_def location_parse
      capwap_element_maximumlength_ops_def maximumlength_parse
      capwap_element_localipv4_ops_def localipv4_parse
      capwap_element_localipv6_ops_def localipv6_parse
      capwap_element_radioadmstate_ops_def radioadmstate_parse
      capwap_element_radiooprstate_ops_def radiooprstate_parse
      capwap_element_resultcode_ops_def resultcode_parse
      capwap_element_returnedmessage_ops_def returnedmessage_parse
      capwap_element_sessionid_ops_def sessionid_parse
      capwap_element_statisticstimer_ops_def statisticstimer_parse
      capwap_element_vendorpayload_ops_def vendorpayload_parse
      capwap_element_wtpboarddata_ops_def wtpboarddata_parse
      capwap_element_wtpdescriptor_ops_def wtpdescriptor_parse
      capwap_element_wtpfallback_ops_def wtpfallback_parse
      capwap_element_wtpframetunnelmode_ops_def wtpframetunnelmode_parse
      capwap_element_wtpmactype_ops_def wtpmactype_parse
      capwap_element_wtpname_ops_def wtpname_parse
      capwap_element_wtpradiostat_ops_def wtpradiostat_parse
      capwap_element_wtprebootstat_ops_def wtprebootstat_parse
      capwap_element_wtpstaticipaddress_ops_def wtpstaticipaddress_parse
      capwap_element_transport_ops_def transport_parse
      capwap_element_mtudiscovery_ops_def 
      capwap_element_ecnsupport_ops_def ecnsupport_parse)

lemma ieee80211_parsed:
  assumes "inv h" "stream h = ieee80211_wire x @ rest" "unat (allow h) = length (ieee80211_wire x)" "ieee80211_valid x"
  shows "parse (ieee80211_ops x) m func h = Some (Some (Ieee80211 x), adv (length (ieee80211_wire x)) h)"
  using assms
  by (cases x) (simp_all add: element_ops_def
      capwap_element_80211_addwlan_ops_def addwlan_parse
      capwap_element_80211_antenna_ops_def antenna_parse
      capwap_element_80211_assignbssid_ops_def assignbssid_parse
      capwap_element_80211_deletewlan_ops_def deletewlan_parse
      capwap_element_80211_directsequencecontrol_ops_def directsequencecontrol_parse
      capwap_element_80211_ie_ops_def ie_parse
      capwap_element_80211_macoperation_ops_def macoperation_parse
      capwap_element_80211_miccountermeasures_ops_def miccountermeasures_parse
      capwap_element_80211_multidomaincapability_ops_def multidomaincapability_parse
      capwap_element_80211_ofdmcontrol_ops_def ofdmcontrol_parse
      capwap_element_80211_rateset_ops_def rateset_parse
      capwap_element_80211_supportedrates_ops_def supportedrates_parse
      capwap_element_80211_rsnaerrorreport_ops_def rsnaerrorreport_parse
      capwap_element_80211_station_ops_def station_parse
      capwap_element_80211_stationqos_ops_def stationqos_parse
      capwap_element_80211_stationkey_ops_def stationkey_parse
      capwap_element_80211_statistics_ops_def 
      capwap_element_80211_txpower_ops_def txpower_parse
      capwap_element_80211_txpowerlevel_ops_def txpowerlevel_parse
      capwap_element_80211_updatestationqos_ops_def 
      capwap_element_80211_updatewlan_ops_def updatewlan_parse
      capwap_element_80211_wtpqos_ops_def wtpqos_parse
      capwap_element_80211_wtpradioconf_ops_def wtpradioconf_parse
      capwap_element_80211_wtpradiofailalarm_ops_def wtpradiofailalarm_parse
      capwap_element_80211_wtpradioinformation_ops_def wtpradioinformation_parse
      capwap_element_80211_supported_mac_profiles_ops_def supported_mac_profiles_parse
      capwap_element_80211_mac_profile_ops_def mac_profile_parse)

lemma travelping_parsed:
  assumes "inv h" "stream h = travelping_wire x @ rest" "unat (allow h) = length (travelping_wire x)" "travelping_valid x"
  shows "parse (travelping_ops x) m func h = Some (Some (Travelping x), adv (length (travelping_wire x)) h)"
  using assms
  by (cases x) (simp_all add: element_ops_def
      capwap_element_vendor_travelping_wtp_timestamp_ops_def wtp_timestamp_parse
      capwap_element_80211n_radioconf_ops_def radioconf_parse
      capwap_element_80211n_station_info_ops_def station_info_parse
      capwap_element_vendor_travelping_80211_encryption_capability_ops_def encryption_capability_parse
      capwap_element_vendor_travelping_80211_update_key_ops_def update_key_parse)

lemma element_parsed:
  assumes "inv h" "stream h = element_wire e @ rest" "unat (allow h) = length (element_wire e)" "element_valid e"
  shows "parse (ops_of_element e) m func h = Some (Some e, adv (length (element_wire e)) h)"
  using assms low_parsed high_parsed ieee80211_parsed travelping_parsed by (cases e) auto

end

end
