(* ===== verification/Capwap_Transmit.thy ===== *)
theory Capwap_Transmit
  imports Capwap_Header Capwap_Element_Table
begin

text \<open>
  The transmit side of the packet manager (\<^verbatim>\<open>common/capwap_protocol.c\<close>): a control message is written
  into a list of fragments, each with a buffer of \<open>mtu\<close> bytes. The write operations interpret the
  interface \<open>message_writer\<close> for as long as the bytes fit into the last fragment; the theorems at the
  end say what becomes of a block that does not.

  The field \<open>tx_memory\<close> stands for the contents of the memory that \<open>capwap_alloc\<close> returns for the next
  fragments. The pointer \<open>ctrlmsg\<close> is its position in the buffer of the first fragment.
\<close>

subsection \<open>Fragments\<close>

record capwap_fragment_packet_item =
  frag_size :: u16
  frag_offset :: u16
  frag_buffer :: "u8 list"

record capwap_packet_txmng =
  tx_mtu :: u16
  tx_fragmentlist :: "capwap_fragment_packet_item list"
  tx_ctrlmsg :: "nat option"
  tx_writerpacketsize :: u16
  tx_memory :: "nat \<Rightarrow> junk"

text \<open>
  A new fragment at the end of the list. \<open>memset\<close> is given \<open>sizeof(sizeof(...))\<close>: only \<open>size\<close>,
  \<open>offset\<close> and the first four bytes of the buffer are cleared (on a 64-bit machine).
\<close>

definition capwap_packet_txmng_create_fragment_item :: "capwap_packet_txmng \<Rightarrow> capwap_packet_txmng" where
  "capwap_packet_txmng_create_fragment_item tx =
     (let fl = tx_fragmentlist tx;
          n = unat (tx_mtu tx);
          packet = \<lparr>frag_size = tx_mtu tx, frag_offset = 0,
            frag_buffer = overlay (replicate (min 4 n) 0) (junk_bytes (tx_memory tx (length fl)) 0 n)\<rparr>
      in tx\<lparr>tx_fragmentlist := fl @ [packet]\<rparr>)"

text \<open>Replacing fragment \<open>i\<close>.\<close>

definition tx_update :: "nat \<Rightarrow> capwap_fragment_packet_item \<Rightarrow> capwap_packet_txmng \<Rightarrow> capwap_packet_txmng" where
  "tx_update i f tx = tx\<lparr>tx_fragmentlist := (tx_fragmentlist tx)[i := f]\<rparr>"

text \<open>\<open>txmngpacket->ctrlmsg->length = htons(ntohs(txmngpacket->ctrlmsg->length) + k)\<close>\<close>

definition add_ctrl_length :: "nat \<Rightarrow> u16 \<Rightarrow> capwap_fragment_packet_item \<Rightarrow> capwap_fragment_packet_item" where
  "add_ctrl_length c k f =
     f\<lparr>frag_buffer := buf_write (c + 5)
         (u16_bytes (be16 (frag_buffer f ! (c + 5)) (frag_buffer f ! (c + 6)) + k)) (frag_buffer f)\<rparr>"

definition tx_add_ctrl_length :: "u16 \<Rightarrow> capwap_packet_txmng \<Rightarrow> capwap_packet_txmng option" where
  "tx_add_ctrl_length k tx = do {
     c \<leftarrow> tx_ctrlmsg tx;
     ASSERT (tx_fragmentlist tx \<noteq> [] \<and> c + 8 \<le> length (frag_buffer (tx_fragmentlist tx ! 0)));
     Some (tx_update 0 (add_ctrl_length c k (tx_fragmentlist tx ! 0)) tx) }"

subsection \<open>Writing a block\<close>

text \<open>\<open>min(length, (fragmentpacket->size - packetpos))\<close>, an \<open>int\<close> stored as \<open>unsigned short\<close>.\<close>

definition available_space :: "u16 \<Rightarrow> capwap_fragment_packet_item \<Rightarrow> u16 \<Rightarrow> u16" where
  "available_space len f pos = of_int (min (uint len) (uint (frag_size f) - uint pos))"

text \<open>The branch \<open>if (!available)\<close>: the next fragment of the list, or a new one.\<close>

definition write_next_fragment :: "nat \<Rightarrow> u16 \<Rightarrow> capwap_packet_txmng \<Rightarrow>
    (nat \<times> u16 \<times> u16 \<times> capwap_packet_txmng) option" where
  "write_next_fragment i len tx =
     (let (pos, tx) =
        (if Suc i < length (tx_fragmentlist tx)
         then (ucast (GET_HLEN_HEADER (frag_buffer (tx_fragmentlist tx ! Suc i))) :: u16, tx)
         else
           let tx = capwap_packet_txmng_create_fragment_item tx;
               f = tx_fragmentlist tx ! Suc i;
               b = buf_write 0 (take 8 (frag_buffer (tx_fragmentlist tx ! 0))) (frag_buffer f);
               offset = frag_offset f + 8;
               size = frag_size f - of_int ((uint (frag_size f) - uint offset) mod 8);
               b = SET_FLAG_M_HEADER b False;
               b = SET_FLAG_W_HEADER b False;
               b = SET_HLEN_HEADER b 2
           in (offset, tx_update (Suc i) \<lparr>frag_size = size, frag_offset = offset, frag_buffer = b\<rparr> tx));
      available = available_space len (tx_fragmentlist tx ! Suc i) pos
      in do { ASSERT (0 < available); Some (Suc i, pos, available, tx) })"

text \<open>The part of the loop body after \<open>/* Write data */\<close>.\<close>

definition write_store :: "u8 list \<Rightarrow> nat \<Rightarrow> u16 \<Rightarrow> u16 \<Rightarrow> capwap_packet_txmng \<Rightarrow> capwap_packet_txmng option" where
  "write_store data i pos available tx = do {
     let f = tx_fragmentlist tx ! i;
     ASSERT (unat available \<le> length data \<and> unat pos + unat available \<le> length (frag_buffer f));
     let b = buf_write (unat pos) (take (unat available) data) (frag_buffer f);
     let tx = tx\<lparr>tx_writerpacketsize := tx_writerpacketsize tx + available\<rparr>;
     if unat available + unat pos > unat (frag_offset f)
     then tx_add_ctrl_length (available + pos - frag_offset f)
            (tx_update i (f\<lparr>frag_buffer := b, frag_offset := available + pos\<rparr>) tx)
     else Some (tx_update i (f\<lparr>frag_buffer := b\<rparr>) tx) }"

text \<open>
  The loop \<open>while (length > 0)\<close>. Neither \<open>data\<close> nor \<open>packetpos\<close> is advanced in it.
\<close>

partial_function (option) write_loop ::
    "u8 list \<Rightarrow> nat \<Rightarrow> u16 \<Rightarrow> u16 \<Rightarrow> capwap_packet_txmng \<Rightarrow> (u16 \<times> capwap_packet_txmng) option" where
  "write_loop data i pos len tx =
     (if \<not> 0 < len then Some (len, tx)
      else do {
        (i, pos, available, tx) \<leftarrow>
          (let available = available_space len (tx_fragmentlist tx ! i) pos in
           if available = 0 then write_next_fragment i len tx else Some (i, pos, available, tx));
        tx \<leftarrow> write_store data i pos available tx;
        write_loop data i pos (len - available) tx })"

definition capwap_fragment_write_block_from_pos ::
    "capwap_packet_txmng \<Rightarrow> u8 list option \<Rightarrow> u16 \<Rightarrow> nat \<times> u16 \<Rightarrow> (int \<times> capwap_packet_txmng) option" where
  "capwap_fragment_write_block_from_pos tx data len writepos = do {
     data \<leftarrow> data;
     ASSERT (0 < len);
     let (i, pos) = writepos;
     ASSERT (i < length (tx_fragmentlist tx) \<and> pos \<le> frag_size (tx_fragmentlist tx ! i));
     (len, tx) \<leftarrow> write_loop data i pos len tx;
     Some (uint len, tx) }"

text \<open>The position behind the last byte written.\<close>

definition tx_writepos :: "capwap_packet_txmng \<Rightarrow> nat \<times> u16" where
  "tx_writepos tx = (let i = length (tx_fragmentlist tx) - 1 in (i, frag_offset (tx_fragmentlist tx ! i)))"

definition capwap_fragment_write_block ::
    "capwap_packet_txmng \<Rightarrow> u8 list option \<Rightarrow> u16 \<Rightarrow> (int \<times> capwap_packet_txmng) option" where
  "capwap_fragment_write_block tx data len = do {
     data \<leftarrow> data;
     ASSERT (0 < len \<and> tx_fragmentlist tx \<noteq> []);
     capwap_fragment_write_block_from_pos tx (Some data) len (tx_writepos tx) }"

definition capwap_fragment_write_u8 :: "capwap_packet_txmng \<Rightarrow> u8 \<Rightarrow> (int \<times> capwap_packet_txmng) option" where
  "capwap_fragment_write_u8 tx data = do {
     (r, tx) \<leftarrow> capwap_fragment_write_block tx (Some [data]) 1;
     Some (if r \<noteq> 1 then -1 else 1, tx) }"

definition capwap_fragment_write_u16_from_pos ::
    "capwap_packet_txmng \<Rightarrow> u16 \<Rightarrow> nat \<times> u16 \<Rightarrow> (int \<times> capwap_packet_txmng) option" where
  "capwap_fragment_write_u16_from_pos tx data writepos = do {
     (r, tx) \<leftarrow> capwap_fragment_write_block_from_pos tx (Some (u16_bytes data)) 2 writepos;
     Some (if r \<noteq> 2 then -1 else 2, tx) }"

definition capwap_fragment_write_u16 :: "capwap_packet_txmng \<Rightarrow> u16 \<Rightarrow> (int \<times> capwap_packet_txmng) option" where
  "capwap_fragment_write_u16 tx data = do {
     (r, tx) \<leftarrow> capwap_fragment_write_block tx (Some (u16_bytes data)) 2;
     Some (if r \<noteq> 2 then -1 else 2, tx) }"

definition capwap_fragment_write_u32 :: "capwap_packet_txmng \<Rightarrow> u32 \<Rightarrow> (int \<times> capwap_packet_txmng) option" where
  "capwap_fragment_write_u32 tx data = do {
     (r, tx) \<leftarrow> capwap_fragment_write_block tx (Some (u32_bytes data)) 4;
     Some (if r \<noteq> 4 then -1 else 4, tx) }"

definition tx_write_ops :: "capwap_packet_txmng capwap_write_message_elements_ops" where
  "tx_write_ops = \<lparr>write_u8 = capwap_fragment_write_u8, write_u16 = capwap_fragment_write_u16,
     write_u32 = capwap_fragment_write_u32, write_block = capwap_fragment_write_block\<rparr>"

subsection \<open>Building a control message\<close>

definition capwap_packet_txmng_create ::
    "u8 list \<Rightarrow> u16 \<Rightarrow> (nat \<Rightarrow> junk) \<Rightarrow> capwap_packet_txmng option" where
  "capwap_packet_txmng_create data mtu memory = do {
     let tx = \<lparr>tx_mtu = mtu, tx_fragmentlist = [], tx_ctrlmsg = None, tx_writerpacketsize = 0,
               tx_memory = memory\<rparr>;
     let tx = capwap_packet_txmng_create_fragment_item tx;
     let f = tx_fragmentlist tx ! 0;
     let headerlength = (ucast (GET_HLEN_HEADER data) * 4 :: u16);
     let size = frag_size f - of_int ((uint (frag_size f) - uint headerlength) mod 8);
     ASSERT (headerlength < size);
     Some (tx_update 0 \<lparr>frag_size = size, frag_offset = frag_offset f + headerlength,
       frag_buffer = buf_write 0 (take (unat headerlength) data) (frag_buffer f)\<rparr> tx) }"

text \<open>\<open>Some None\<close> is the NULL that is returned when the MTU is too small.\<close>

definition capwap_packet_txmng_create_ctrl_message ::
    "u8 list \<Rightarrow> u32 \<Rightarrow> u8 \<Rightarrow> u16 \<Rightarrow> (nat \<Rightarrow> junk) \<Rightarrow> capwap_packet_txmng option option" where
  "capwap_packet_txmng_create_ctrl_message data type seq mtu memory = do {
     ASSERT (0 < mtu);
     let headerlength = (ucast (GET_HLEN_HEADER data) * 4 :: u16);
     if unat mtu < unat headerlength + 8 then Some None
     else do {
       tx \<leftarrow> capwap_packet_txmng_create data mtu memory;
       let f = tx_fragmentlist tx ! 0;
       ASSERT (unat (frag_offset f) + 8 < unat (frag_size f));
       let c = unat (frag_offset f);
       let b = buf_write c (u32_bytes type @ [seq] @ u16_bytes 3 @ [0]) (frag_buffer f);
       Some (Some (tx_update 0 (f\<lparr>frag_buffer := b, frag_offset := frag_offset f + 8\<rparr>)
         (tx\<lparr>tx_ctrlmsg := Some c\<rparr>))) } }"

definition CAPWAP_ELEMENT_VENDORPAYLOAD_TYPE :: u16 where
  "CAPWAP_ELEMENT_VENDORPAYLOAD_TYPE = 37"

definition capwap_packet_txmng_add_message_element ::
    "capwap_packet_txmng \<Rightarrow> capwap_message_element_id \<Rightarrow> capwap_element \<Rightarrow> capwap_packet_txmng option" where
  "capwap_packet_txmng_add_message_element tx eid data = do {
     func \<leftarrow> (capwap_get_message_element_ops eid :: (capwap_packet_txmng, unit) capwap_message_elements_ops option);
     (_, tx) \<leftarrow> write_u16 tx_write_ops tx
       (if id_vendor eid \<noteq> 0 then CAPWAP_ELEMENT_VENDORPAYLOAD_TYPE else id_type eid);
     let writepos = tx_writepos tx;
     (_, tx) \<leftarrow> write_u16 tx_write_ops tx 0;
     let tx = tx\<lparr>tx_writerpacketsize := 0\<rparr>;
     tx \<leftarrow> (if id_vendor eid \<noteq> 0 then do {
               (_, tx) \<leftarrow> write_u32 tx_write_ops tx (id_vendor eid);
               (_, tx) \<leftarrow> write_u16 tx_write_ops tx (id_type eid);
               Some tx }
             else Some tx);
     tx \<leftarrow> create func data tx_write_ops tx;
     (_, tx) \<leftarrow> capwap_fragment_write_u16_from_pos tx (tx_writerpacketsize tx) writepos;
     Some tx }"

text \<open>
  The fragments leave the list one by one, with the fragment fields of their headers set; the result
  is what is appended to the caller's list.
\<close>

fun fragment_packets ::
    "u16 \<Rightarrow> u16 \<Rightarrow> capwap_fragment_packet_item list \<Rightarrow> capwap_fragment_packet_item list" where
  "fragment_packets fragmentid fragmentoffset [] = []"
| "fragment_packets fragmentid fragmentoffset (f # fs) =
     (let b = frag_buffer f in
      if fragmentoffset = 0 \<and> fs = [] then
        let b = SET_FLAG_F_HEADER b False;
            b = SET_FRAGMENT_ID_HEADER b 0;
            b = SET_FRAGMENT_OFFSET_HEADER b 0;
            b = SET_FLAG_L_HEADER b False
        in f\<lparr>frag_buffer := b\<rparr> # fragment_packets fragmentid fragmentoffset fs
      else
        let b = SET_FLAG_F_HEADER b True;
            b = SET_FRAGMENT_ID_HEADER b fragmentid;
            b = SET_FRAGMENT_OFFSET_HEADER b fragmentoffset;
            b = SET_FLAG_L_HEADER b (fs = [])
        in f\<lparr>frag_buffer := b\<rparr> # fragment_packets fragmentid (fragmentoffset + frag_offset f mod 8) fs)"

definition capwap_packet_txmng_get_fragment_packets ::
    "capwap_packet_txmng \<Rightarrow> capwap_fragment_packet_item list \<Rightarrow> u16 \<Rightarrow>
     capwap_packet_txmng \<times> capwap_fragment_packet_item list" where
  "capwap_packet_txmng_get_fragment_packets tx fragmentlist fragmentid =
     (tx\<lparr>tx_fragmentlist := []\<rparr>, fragmentlist @ fragment_packets fragmentid 0 (tx_fragmentlist tx))"

subsection \<open>Appending within a fragment\<close>

definition append_bytes :: "u8 list \<Rightarrow> capwap_fragment_packet_item \<Rightarrow> capwap_fragment_packet_item" where
  "append_bytes bs f = f\<lparr>frag_buffer := buf_write (unat (frag_offset f)) bs (frag_buffer f),
     frag_offset := frag_offset f + of_nat (length bs)\<rparr>"

text \<open>
  The state between two writes: the control message lies in front of the first fragment's offset, and
  the last fragment's offset and size are inside its buffer.
\<close>

definition tx_inv :: "capwap_packet_txmng \<Rightarrow> bool" where
  "tx_inv tx \<longleftrightarrow> tx_fragmentlist tx \<noteq> [] \<and>
     (\<exists>c. tx_ctrlmsg tx = Some c \<and> c + 8 \<le> unat (frag_offset (tx_fragmentlist tx ! 0))) \<and>
     unat (frag_offset (tx_fragmentlist tx ! 0)) \<le> length (frag_buffer (tx_fragmentlist tx ! 0)) \<and>
     frag_offset (last (tx_fragmentlist tx)) \<le> frag_size (last (tx_fragmentlist tx)) \<and>
     unat (frag_size (last (tx_fragmentlist tx))) \<le> length (frag_buffer (last (tx_fragmentlist tx)))"

definition tx_room :: "capwap_packet_txmng \<Rightarrow> nat" where
  "tx_room tx = (if tx_inv tx
     then unat (frag_size (last (tx_fragmentlist tx))) - unat (frag_offset (last (tx_fragmentlist tx))) else 0)"

definition tx_app :: "u8 list \<Rightarrow> capwap_packet_txmng \<Rightarrow> capwap_packet_txmng" where
  "tx_app bs tx = (if bs = [] then tx else
     let fl = tx_fragmentlist tx;
         i = length fl - 1;
         fl = fl[i := append_bytes bs (fl ! i)];
         fl = fl[0 := add_ctrl_length (the (tx_ctrlmsg tx)) (of_nat (length bs)) (fl ! 0)]
     in tx\<lparr>tx_fragmentlist := fl, tx_writerpacketsize := tx_writerpacketsize tx + of_nat (length bs)\<rparr>)"

lemma add_ctrl_length_sel [simp]:
  "frag_size (add_ctrl_length c k f) = frag_size f" "frag_offset (add_ctrl_length c k f) = frag_offset f"
  by (simp_all add: add_ctrl_length_def)

lemma length_add_ctrl_length [simp]:
  "c + 8 \<le> length (frag_buffer f) \<Longrightarrow> length (frag_buffer (add_ctrl_length c k f)) = length (frag_buffer f)"
  by (simp add: add_ctrl_length_def)

lemma append_bytes_sel [simp]:
  "frag_size (append_bytes bs f) = frag_size f"
  "frag_offset (append_bytes bs f) = frag_offset f + of_nat (length bs)"
  by (simp_all add: append_bytes_def)

lemma length_append_bytes [simp]:
  "unat (frag_offset f) + length bs \<le> length (frag_buffer f) \<Longrightarrow>
   length (frag_buffer (append_bytes bs f)) = length (frag_buffer f)"
  by (simp add: append_bytes_def)

lemma add_ctrl_length_twice:
  assumes "c + 8 \<le> length (frag_buffer f)"
  shows "add_ctrl_length c j (add_ctrl_length c k f) = add_ctrl_length c (k + j) f"
proof -
  have "be16 (buf_write (c + 5) (u16_bytes v) b ! (c + 5)) (buf_write (c + 5) (u16_bytes v) b ! (c + 6)) = v"
    if "c + 8 \<le> length b" for v b
    using that by (simp add: nth_buf_write u16_bytes_def)
  then show ?thesis
    using assms by (simp add: add_ctrl_length_def buf_write_over add.assoc)
qed

lemma append_add_ctrl:
  assumes "c + 8 \<le> unat (frag_offset f)" "unat (frag_offset f) + length bs \<le> length (frag_buffer f)"
  shows "append_bytes bs (add_ctrl_length c k f) = add_ctrl_length c k (append_bytes bs f)"
  using assms buf_write_commute [of "c + 5" _ "unat (frag_offset f)" bs "frag_buffer f"]
  by (intro capwap_fragment_packet_item.equality) (simp_all add: add_ctrl_length_def append_bytes_def nth_buf_write)

lemma append_append:
  assumes "unat (frag_offset f) + length bs + length cs \<le> length (frag_buffer f)"
    and "unat (frag_offset f) + length bs < 65536"
  shows "append_bytes cs (append_bytes bs f) = append_bytes (bs @ cs) f"
  using assms
  by (simp add: append_bytes_def unat_add_of_nat_u16 buf_write_append add.assoc)

text \<open>One fragment, or a first and a last one.\<close>

lemma tx_inv_cases:
  assumes "tx_inv tx"
  obtains (one) f c where "tx_fragmentlist tx = [f]" "tx_ctrlmsg tx = Some c" "c + 8 \<le> unat (frag_offset f)"
      "frag_offset f \<le> frag_size f" "unat (frag_size f) \<le> length (frag_buffer f)"
  | (more) f c mid g where "tx_fragmentlist tx = f # mid @ [g]" "tx_ctrlmsg tx = Some c"
      "c + 8 \<le> unat (frag_offset f)" "unat (frag_offset f) \<le> length (frag_buffer f)"
      "frag_offset g \<le> frag_size g" "unat (frag_size g) \<le> length (frag_buffer g)"
proof -
  obtain f fs where "tx_fragmentlist tx = f # fs"
    using assms by (cases "tx_fragmentlist tx") (auto simp: tx_inv_def)
  then show ?thesis
    using assms one more by (cases fs rule: rev_cases) (auto simp: tx_inv_def)
qed

lemma tx_app_one:
  "tx_fragmentlist tx = [f] \<Longrightarrow> tx_ctrlmsg tx = Some c \<Longrightarrow> bs \<noteq> [] \<Longrightarrow>
   tx_app bs tx = tx\<lparr>tx_fragmentlist := [add_ctrl_length c (of_nat (length bs)) (append_bytes bs f)],
     tx_writerpacketsize := tx_writerpacketsize tx + of_nat (length bs)\<rparr>"
  by (simp add: tx_app_def)

lemma tx_app_more:
  "tx_fragmentlist tx = f # mid @ [g] \<Longrightarrow> tx_ctrlmsg tx = Some c \<Longrightarrow> bs \<noteq> [] \<Longrightarrow>
   tx_app bs tx = tx\<lparr>tx_fragmentlist := add_ctrl_length c (of_nat (length bs)) f # mid @ [append_bytes bs g],
     tx_writerpacketsize := tx_writerpacketsize tx + of_nat (length bs)\<rparr>"
  by (simp add: tx_app_def Let_def list_update_append nth_append)

lemma tx_app_inv:
  assumes "tx_inv tx" "length bs \<le> tx_room tx"
  shows "tx_inv (tx_app bs tx)" "tx_room (tx_app bs tx) = tx_room tx - length bs"
proof -
  have *: "tx_inv (tx_app bs tx) \<and> tx_room (tx_app bs tx) = tx_room tx - length bs"
  proof (cases "bs = []")
    case False
    show ?thesis
      using assms(1)
    proof (cases rule: tx_inv_cases)
      case (one f c)
      have "unat (frag_offset f) + length bs \<le> unat (frag_size f)"
        using assms one by (simp add: tx_room_def word_le_nat_alt)
      then show ?thesis
        using assms(1) one False unat_add_within_u16 [of "frag_offset f" "length bs" "frag_size f"]
        by (simp add: tx_app_one [OF one(1,2)] tx_inv_def tx_room_def word_le_nat_alt)
    next
      case (more f c mid g)
      have "unat (frag_offset g) + length bs \<le> unat (frag_size g)"
        using assms more by (simp add: tx_room_def word_le_nat_alt)
      then show ?thesis
        using assms(1) more False unat_add_within_u16 [of "frag_offset g" "length bs" "frag_size g"]
        by (simp add: tx_app_more [OF more(1,2)] tx_inv_def tx_room_def word_le_nat_alt)
    qed
  qed (use assms in \<open>simp add: tx_app_def\<close>)
  then show "tx_inv (tx_app bs tx)" "tx_room (tx_app bs tx) = tx_room tx - length bs"
    by simp_all
qed

lemma tx_app_app:
  assumes "length bs + length cs \<le> tx_room tx"
  shows "tx_app cs (tx_app bs tx) = tx_app (bs @ cs) tx"
proof (cases "bs = [] \<or> cs = []")
  case False
  then have inv: "tx_inv tx"
    using assms by (cases "tx_inv tx") (auto simp: tx_room_def)
  then show ?thesis
  proof (cases rule: tx_inv_cases)
    case (one f c)
    have fit: "unat (frag_offset f) + length bs + length cs \<le> unat (frag_size f)"
      using assms one inv False by (simp add: tx_room_def word_le_nat_alt)
    then have off: "unat (frag_offset f + of_nat (length bs)) = unat (frag_offset f) + length bs"
      by (intro unat_add_within_u16 [where w = "frag_size f"]) linarith
    have app: "append_bytes cs (append_bytes bs f) = append_bytes (bs @ cs) f"
      using one fit unat_u16_less [of "frag_size f"] by (intro append_append) linarith+
    have "append_bytes cs (add_ctrl_length c k (append_bytes bs f)) = add_ctrl_length c k (append_bytes (bs @ cs) f)" for k
      using one fit off by (subst append_add_ctrl) (simp_all add: app)
    then show ?thesis
      using one False fit
      by (simp add: tx_app_one [OF one(1,2)] tx_app_one add_ctrl_length_twice add.assoc)
  next
    case (more f c mid g)
    have "unat (frag_offset g) + length bs + length cs \<le> unat (frag_size g)"
      using assms more inv False by (simp add: tx_room_def word_le_nat_alt)
    then have "append_bytes cs (append_bytes bs g) = append_bytes (bs @ cs) g"
      using more unat_u16_less [of "frag_size g"] by (intro append_append) linarith+
    then show ?thesis
      using more False
      by (simp add: tx_app_more [OF more(1,2)] tx_app_more add_ctrl_length_twice add.assoc)
  qed
qed (auto simp: tx_app_def)

lemma available_within:
  assumes "unat len + unat pos \<le> unat (frag_size f)"
  shows "available_space len f pos = len"
proof -
  have "min (uint len) (uint (frag_size f) - uint pos) = uint len"
    using assms unfolding uint_nat by linarith
  then show ?thesis by (simp only: available_space_def word_of_int_uint)
qed

lemma available_rest:
  assumes "unat pos \<le> unat (frag_size f)" "unat (frag_size f) \<le> unat len + unat pos"
  shows "available_space len f pos = frag_size f - pos"
proof -
  have "min (uint len) (uint (frag_size f) - uint pos) = uint (frag_size f) - uint pos"
    using assms unfolding uint_nat by linarith
  then show ?thesis by (simp only: available_space_def of_int_diff word_of_int_uint)
qed

text \<open>A position is stored into, at the end of the last fragment.\<close>

lemma write_store_app:
  assumes "tx_inv tx" "0 < n" "unat n \<le> length data" "unat n \<le> tx_room tx"
  shows "write_store data (fst (tx_writepos tx)) (snd (tx_writepos tx)) n tx = Some (tx_app (take (unat n) data) tx)"
proof -
  have n: "0 < unat n" using assms(2) by (simp add: word_less_nat_alt)
  then have ne: "take (unat n) data \<noteq> []" using assms(3) by auto
  show ?thesis
    using assms(1)
  proof (cases rule: tx_inv_cases)
    case (one f c)
    have "unat (frag_offset f) + unat n \<le> unat (frag_size f)"
      using assms one by (simp add: tx_room_def word_le_nat_alt)
    then show ?thesis
      using assms(3) one n
      by (simp add: write_store_def tx_writepos_def tx_app_one [OF one(1,2) ne] tx_add_ctrl_length_def
          tx_update_def append_bytes_def min_absorb2 add.commute)
  next
    case (more f c mid g)
    have "unat (frag_offset g) + unat n \<le> unat (frag_size g)"
      using assms more by (simp add: tx_room_def word_le_nat_alt)
    then show ?thesis
      using assms(3) more n
      by (simp add: write_store_def tx_writepos_def tx_app_more [OF more(1,2) ne] tx_add_ctrl_length_def
          tx_update_def append_bytes_def min_absorb2 add.commute nth_append list_update_append)
  qed
qed

lemma tx_room_inv: "0 < tx_room tx \<Longrightarrow> tx_inv tx"
  by (auto simp: tx_room_def split: if_splits)

lemma write_loop_within:
  assumes "0 < n" "unat n \<le> length data" "unat n + unat pos \<le> unat (frag_size (tx_fragmentlist tx ! i))"
  shows "write_loop data i pos n tx = map_option (Pair 0) (write_store data i pos n tx)"
proof -
  have "available_space n (tx_fragmentlist tx ! i) pos = n"
    using assms(3) by (rule available_within)
  then show ?thesis
    using assms(1) by (subst write_loop.simps)
      (auto simp: write_loop.simps [of _ _ _ 0] map_option_case split: option.splits)
qed

lemma write_block_app:
  assumes "0 < n" "unat n \<le> length data" "unat n \<le> tx_room tx"
  shows "capwap_fragment_write_block tx (Some data) n = Some (0, tx_app (take (unat n) data) tx)"
proof -
  have "0 < unat n" using assms(1) by (simp add: word_less_nat_alt)
  with assms(3) have inv: "tx_inv tx" by (intro tx_room_inv) linarith
  obtain i pos where wp: "tx_writepos tx = (i, pos)" by fastforce
  have i: "tx_fragmentlist tx \<noteq> []" "tx_fragmentlist tx ! i = last (tx_fragmentlist tx)"
    "pos = frag_offset (last (tx_fragmentlist tx))"
    using inv wp by (auto simp: tx_writepos_def tx_inv_def last_conv_nth Let_def)
  have fit: "pos \<le> frag_size (tx_fragmentlist tx ! i)" "unat n + unat pos \<le> unat (frag_size (tx_fragmentlist tx ! i))"
    using assms(3) inv by (auto simp: i tx_room_def tx_inv_def word_le_nat_alt)
  have "i < length (tx_fragmentlist tx)"
    using wp i(1) by (auto simp: tx_writepos_def Let_def)
  moreover have "write_store data i pos n tx = Some (tx_app (take (unat n) data) tx)"
    using write_store_app [OF inv assms] wp by simp
  ultimately show ?thesis
    using assms fit i(1)
    by (simp add: capwap_fragment_write_block_def capwap_fragment_write_block_from_pos_def wp write_loop_within)
qed

interpretation tx: message_writer tx_write_ops tx_room tx_app
proof
  fix h :: capwap_packet_txmng and v w x and n :: u16 and buf bs cs
  show "1 \<le> tx_room h \<Longrightarrow> map_option snd (write_u8 tx_write_ops h v) = Some (tx_app [v] h)"
    by (simp add: tx_write_ops_def capwap_fragment_write_u8_def write_block_app)
  show "2 \<le> tx_room h \<Longrightarrow> map_option snd (write_u16 tx_write_ops h w) = Some (tx_app (u16_bytes w) h)"
    by (simp add: tx_write_ops_def capwap_fragment_write_u16_def write_block_app)
  show "4 \<le> tx_room h \<Longrightarrow> map_option snd (write_u32 tx_write_ops h x) = Some (tx_app (u32_bytes x) h)"
    by (simp add: tx_write_ops_def capwap_fragment_write_u32_def write_block_app)
  show "0 < n \<Longrightarrow> unat n \<le> length buf \<Longrightarrow> unat n \<le> tx_room h \<Longrightarrow>
      map_option snd (write_block tx_write_ops h (Some buf) n) = Some (tx_app (take (unat n) buf) h)"
    by (simp add: tx_write_ops_def write_block_app)
  show "write_block tx_write_ops h None n = None"
    by (simp add: tx_write_ops_def capwap_fragment_write_block_def)
  show "length bs \<le> tx_room h \<Longrightarrow> tx_room (tx_app bs h) = tx_room h - length bs"
    using tx_app_inv(2) [of h bs] by (cases "tx_inv h") (auto simp: tx_room_def tx_app_def)
  show "length bs + length cs \<le> tx_room h \<Longrightarrow> tx_app cs (tx_app bs h) = tx_app (bs @ cs) h"
    by (rule tx_app_app)
  show "tx_app [] h = h" by (simp add: tx_app_def)
qed

subsection \<open>Adding a message element\<close>

text \<open>What a message element looks like in the packet.\<close>

definition element_payload :: "capwap_element \<Rightarrow> u8 list" where
  "element_payload e = (if id_vendor (element_id e) \<noteq> 0
     then u32_bytes (id_vendor (element_id e)) @ u16_bytes (id_type (element_id e)) else []) @ element_wire e"

definition element_tlv :: "capwap_element \<Rightarrow> u8 list" where
  "element_tlv e =
     u16_bytes (if id_vendor (element_id e) \<noteq> 0 then CAPWAP_ELEMENT_VENDORPAYLOAD_TYPE else id_type (element_id e)) @
     u16_bytes (of_nat (length (element_payload e))) @ element_payload e"

lemma tx_app_writerpacketsize:
  "tx_app bs (tx\<lparr>tx_writerpacketsize := v\<rparr>) = (tx_app bs tx)\<lparr>tx_writerpacketsize := v + of_nat (length bs)\<rparr>"
  by (simp add: tx_app_def Let_def)

lemma tx_inv_writerpacketsize [simp]: "tx_inv (tx\<lparr>tx_writerpacketsize := v\<rparr>) = tx_inv tx"
  by (simp add: tx_inv_def)

lemma tx_room_writerpacketsize [simp]: "tx_room (tx\<lparr>tx_writerpacketsize := v\<rparr>) = tx_room tx"
  by (simp add: tx_room_def)

lemma tx_writepos_app:
  assumes "tx_inv tx"
  shows "tx_writepos (tx_app bs tx) = (fst (tx_writepos tx), snd (tx_writepos tx) + of_nat (length bs))"
  using assms by (cases rule: tx_inv_cases)
    (cases "bs = []"; simp add: tx_app_one tx_app_more tx_writepos_def tx.app_Nil nth_append)+

text \<open>Bytes that were appended are replaced in place.\<close>

definition patch_bytes :: "nat \<Rightarrow> u8 list \<Rightarrow> capwap_fragment_packet_item \<Rightarrow> capwap_fragment_packet_item" where
  "patch_bytes p bs f = f\<lparr>frag_buffer := buf_write p bs (frag_buffer f)\<rparr>"

lemma patch_append:
  assumes "length ys = length zs" "unat (frag_offset f) + length (xs @ ys @ rs) \<le> length (frag_buffer f)"
  shows "patch_bytes (unat (frag_offset f) + length xs) zs (append_bytes (xs @ ys @ rs) f) = append_bytes (xs @ zs @ rs) f"
  using assms buf_write_patch [of ys zs "unat (frag_offset f)" xs rs "frag_buffer f"]
  by (intro capwap_fragment_packet_item.equality) (simp_all add: patch_bytes_def append_bytes_def)

lemma patch_add_ctrl:
  assumes "c + 8 \<le> p" "p + length bs \<le> length (frag_buffer f)"
  shows "patch_bytes p bs (add_ctrl_length c k f) = add_ctrl_length c k (patch_bytes p bs f)"
  using assms buf_write_commute [of "c + 5" _ p bs "frag_buffer f"]
  by (intro capwap_fragment_packet_item.equality) (simp_all add: add_ctrl_length_def patch_bytes_def nth_buf_write)

lemma write_from_pos_patch:
  assumes "i < length (tx_fragmentlist tx)" "tx_fragmentlist tx ! i = f" "0 < unat n" "unat n = length zs"
    and "unat pos + length zs \<le> unat (frag_offset f)" "frag_offset f \<le> frag_size f"
    and "unat (frag_size f) \<le> length (frag_buffer f)"
  shows "capwap_fragment_write_block_from_pos tx (Some zs) n (i, pos) =
    Some (0, tx_update i (patch_bytes (unat pos) zs f) (tx\<lparr>tx_writerpacketsize := tx_writerpacketsize tx + n\<rparr>))"
proof -
  have n: "0 < n" using assms(3) by (simp add: word_less_nat_alt)
  have "write_store zs i pos n tx = Some (tx_update i (patch_bytes (unat pos) zs f)
     (tx\<lparr>tx_writerpacketsize := tx_writerpacketsize tx + n\<rparr>))"
    using assms by (simp add: write_store_def patch_bytes_def word_le_nat_alt)
  then have "write_loop zs i pos n tx = Some (0, tx_update i (patch_bytes (unat pos) zs f)
     (tx\<lparr>tx_writerpacketsize := tx_writerpacketsize tx + n\<rparr>))"
    using assms n by (subst write_loop_within) (simp_all add: word_le_nat_alt)
  then show ?thesis
    using assms n by (simp add: capwap_fragment_write_block_from_pos_def word_le_nat_alt)
qed

lemma tx_patch:
  assumes "tx_inv tx" "length (xs @ ys @ rs) \<le> tx_room tx" "length ys = length zs" "ys \<noteq> []"
    and "tx_writepos tx = (i, pos)" "unat n = length zs"
  shows "capwap_fragment_write_block_from_pos ((tx_app (xs @ ys @ rs) tx)\<lparr>tx_writerpacketsize := w\<rparr>) (Some zs) n
      (i, pos + of_nat (length xs)) = Some (0, (tx_app (xs @ zs @ rs) tx)\<lparr>tx_writerpacketsize := w + n\<rparr>)"
proof -
  let ?all = "xs @ ys @ rs" and ?p = "pos + of_nat (length xs)"
  define tx' where "tx' = (tx_app ?all tx)\<lparr>tx_writerpacketsize := w\<rparr>"
  have ne: "?all \<noteq> []" "xs @ zs @ rs \<noteq> []" "0 < unat n" and len: "length (xs @ zs @ rs) = length ?all"
    using assms(3,4,6) by auto
  have offs: "unat (v + of_nat (length xs)) = unat v + length xs"
    "unat (v + of_nat (length ?all)) = unat v + length ?all" if "unat v + length ?all \<le> unat z" for v z :: u16
    using that by (auto intro!: unat_add_within_u16 [where w = z] simp del: of_nat_add)
  show ?thesis
    using assms(1)
  proof (cases rule: tx_inv_cases)
    case (one f c)
    let ?f = "add_ctrl_length c (of_nat (length ?all)) (append_bytes ?all f)"
    have i: "i = 0" "pos = frag_offset f"
      using assms(5) one(1) by (simp_all add: tx_writepos_def)
    have fit: "unat (frag_offset f) + length ?all \<le> unat (frag_size f)"
      using assms(1,2) one by (simp add: tx_room_def word_le_nat_alt)
    have fl: "tx_fragmentlist tx' = [?f]"
      using one ne(1) by (simp add: tx'_def tx_app_one)
    have "patch_bytes (unat ?p) zs ?f = add_ctrl_length c (of_nat (length ?all)) (append_bytes (xs @ zs @ rs) f)"
      using fit one(3-5) assms(3) offs [OF fit] by (simp add: i patch_add_ctrl patch_append)
    then show ?thesis
      using write_from_pos_patch [of i tx' ?f n zs ?p] fit offs [OF fit] fl one assms(3,6) ne len
      by (simp add: tx'_def i tx_app_one tx_update_def word_le_nat_alt)
  next
    case (more f c mid g)
    let ?g = "append_bytes ?all g"
    have i: "i = Suc (length mid)" "pos = frag_offset g"
      using assms(5) more(1) by (simp_all add: tx_writepos_def nth_append)
    have fit: "unat (frag_offset g) + length ?all \<le> unat (frag_size g)"
      using assms(1,2) more by (simp add: tx_room_def word_le_nat_alt)
    have fl: "tx_fragmentlist tx' = add_ctrl_length c (of_nat (length ?all)) f # mid @ [?g]"
      using more ne(1) by (simp add: tx'_def tx_app_more)
    have "patch_bytes (unat ?p) zs ?g = append_bytes (xs @ zs @ rs) g"
      using fit more(5,6) assms(3) offs [OF fit] by (simp add: i patch_append)
    then show ?thesis
      using write_from_pos_patch [of i tx' ?g n zs ?p] fit offs [OF fit] fl more assms(3,6) ne len
      by (simp add: tx'_def i tx_app_more tx_update_def word_le_nat_alt nth_append list_update_append)
  qed
qed

lemma add_message_element_app:
  assumes "element_valid e" "tx_inv tx" "length (element_tlv e) \<le> tx_room tx"
  shows "capwap_packet_txmng_add_message_element tx (element_id e) e =
    Some ((tx_app (element_tlv e) tx)\<lparr>tx_writerpacketsize := of_nat (length (element_payload e)) + 2\<rparr>)"
proof -
  let ?eid = "element_id e"
  let ?ty = "u16_bytes (if id_vendor ?eid \<noteq> 0 then CAPWAP_ELEMENT_VENDORPAYLOAD_TYPE else id_type ?eid)"
  let ?pl = "element_payload e"
  define tx1 where "tx1 = (tx_app (?ty @ u16_bytes 0) tx)\<lparr>tx_writerpacketsize := 0\<rparr>"
  obtain i pos where wp: "tx_writepos tx = (i, pos)" by fastforce
  have room: "4 + length ?pl \<le> tx_room tx"
    using assms(3) by (simp add: element_tlv_def)
  have r1: "tx_room tx1 = tx_room tx - 4"
    using room by (simp add: tx1_def tx.room_app)
  have wp2: "tx_writepos (tx_app ?ty tx) = (i, pos + of_nat (length ?ty))"
    using tx_writepos_app [OF assms(2)] wp by simp
  have tx4: "tx_app ?pl tx1 = (tx_app (?ty @ u16_bytes 0 @ ?pl) tx)\<lparr>tx_writerpacketsize := of_nat (length ?pl)\<rparr>"
    using room by (simp add: tx1_def tx_app_writerpacketsize)
  have patch: "capwap_fragment_write_u16_from_pos (tx_app ?pl tx1) (of_nat (length ?pl)) (i, pos + of_nat (length ?ty)) =
      Some (-1, (tx_app (element_tlv e) tx)\<lparr>tx_writerpacketsize := of_nat (length ?pl) + 2\<rparr>)"
    using room tx_patch [OF assms(2) _ _ _ wp, of ?ty "u16_bytes 0" ?pl "u16_bytes (of_nat (length ?pl))" 2]
    by (simp add: capwap_fragment_write_u16_from_pos_def tx4 element_tlv_def u16_bytes_def)
  have wps: "tx_writerpacketsize (tx_app ?pl tx1) = of_nat (length ?pl)"
    by (simp add: tx4)
  show ?thesis
  proof (cases "id_vendor ?eid = 0")
    case True
    then show ?thesis
      using room r1 [unfolded tx1_def] assms(1) patch [unfolded tx1_def] wps [unfolded tx1_def] wp2
      by (simp add: capwap_packet_txmng_add_message_element_def element_lookup element_payload_def
          tx.element_created)
  next
    case False
    then show ?thesis
      using room r1 [unfolded tx1_def] assms(1) patch [unfolded tx1_def] wps [unfolded tx1_def] wp2
      by (simp add: capwap_packet_txmng_add_message_element_def element_lookup element_payload_def
          tx.element_created)
  qed
qed

subsection \<open>A block that does not fit\<close>

lemma tx_update_same: "tx_fragmentlist tx ! i = f \<Longrightarrow> tx_update i f tx = tx"
  by (auto simp: tx_update_def)

lemma patch_same:
  assumes "take n bs = take n (drop p (frag_buffer f))" "n \<le> length bs" "p + length bs \<le> length (frag_buffer f)"
  shows "patch_bytes p (take n bs) f = f"
proof -
  have "buf_write p (take n bs) (frag_buffer f) = frag_buffer f"
    using assms by (simp add: buf_write_def min_absorb2) (metis append_take_drop_id drop_drop add.commute)
  then show ?thesis by (simp add: patch_bytes_def)
qed

text \<open>Once the fragment is full, the rounds that are left write the start of the block again.\<close>

lemma write_loop_full:
  assumes "tx_fragmentlist tx ! i = f" "i < length (tx_fragmentlist tx)"
    and "frag_offset f = frag_size f" "unat (frag_size f) \<le> length (frag_buffer f)" "unat pos < unat (frag_size f)"
    and "take (unat (frag_size f) - unat pos) data = drop (unat pos) (take (unat (frag_size f)) (frag_buffer f))"
    and "unat (frag_size f) - unat pos \<le> length data"
  shows "write_loop data i pos len tx = Some (0, tx\<lparr>tx_writerpacketsize := tx_writerpacketsize tx + len\<rparr>)"
  using assms
proof (induction "unat len" arbitrary: len tx rule: less_induct)
  case less
  show ?case
  proof (cases "len = 0")
    case True
    then show ?thesis by (simp add: write_loop.simps)
  next
    case False
    let ?a = "available_space len f pos"
    have len: "0 < unat len" using False by (simp add: unat_gt_0)
    have a: "unat ?a = min (unat len) (unat (frag_size f) - unat pos)"
    proof (cases "unat len + unat pos \<le> unat (frag_size f)")
      case True
      then show ?thesis using available_within [OF True] by simp
    next
      case False
      then show ?thesis using available_rest [of pos f len] less.prems(5) by simp
    qed
    let ?n = "unat ?a"
    have n: "0 < ?n" "?n \<le> unat len" "?n + unat pos \<le> unat (frag_size f)" "?n \<le> length data"
      using len less.prems(5,7) a by linarith+
    have a0: "?a \<noteq> 0" using n(1) by auto
    have "take ?n data = take ?n (drop (unat pos) (frag_buffer f))"
    proof -
      have "take ?n (take (unat (frag_size f) - unat pos) data) = take ?n (take (unat (frag_size f) - unat pos) (drop (unat pos) (frag_buffer f)))"
        using less.prems(6) by (simp add: drop_take)
      then show ?thesis using n(3) by (simp add: min_absorb1)
    qed
    then have same: "patch_bytes (unat pos) (take ?n data) f = f"
      using n(3,4) less.prems(4) patch_same [of ?n "take ?n data" "unat pos" f] by simp
    let ?tx = "tx\<lparr>tx_writerpacketsize := tx_writerpacketsize tx + ?a\<rparr>"
    have st: "write_store data i pos ?a tx = Some ?tx"
      using n less.prems(1-4) same
      by (simp add: write_store_def patch_bytes_def tx_update_same)
    have "write_loop data i pos (len - ?a) ?tx = Some (0, ?tx\<lparr>tx_writerpacketsize := tx_writerpacketsize ?tx + (len - ?a)\<rparr>)"
      using n less.prems by (intro less.hyps) auto
    then show ?thesis
      using len a0 st less.prems(1) by (subst write_loop.simps) (simp add: word_less_nat_alt)
  qed
qed

lemma append_bytes_content:
  assumes "unat (frag_offset f) + length bs \<le> length (frag_buffer f)"
  shows "take (length bs) (drop (unat (frag_offset f)) (frag_buffer (append_bytes bs f))) = bs"
  using assms by (simp add: append_bytes_def buf_write_def)

lemma add_ctrl_length_behind:
  assumes "c + 8 \<le> p" "p \<le> length (frag_buffer f)"
  shows "drop p (frag_buffer (add_ctrl_length c k f)) = drop p (frag_buffer f)"
  using assms by (simp add: add_ctrl_length_def buf_write_def)

text \<open>The last fragment after an append: its offset, its size and the bytes appended.\<close>

lemma tx_app_last:
  assumes "tx_inv tx" "length bs \<le> tx_room tx" "tx_writepos tx = (i, pos)"
  obtains f where "tx_fragmentlist (tx_app bs tx) ! i = f" "i < length (tx_fragmentlist (tx_app bs tx))"
    "frag_size f = frag_size (last (tx_fragmentlist tx))" "unat (frag_offset f) = unat pos + length bs"
    "unat (frag_size f) \<le> length (frag_buffer f)" "take (length bs) (drop (unat pos) (frag_buffer f)) = bs"
proof (cases "bs = []")
  case True
  then show ?thesis
    using assms that by (auto simp: tx.app_Nil tx_inv_def tx_writepos_def Let_def last_conv_nth)
next
  case False
  show ?thesis
    using assms(1)
  proof (cases rule: tx_inv_cases)
    case (one f c)
    have fit: "unat (frag_offset f) + length bs \<le> unat (frag_size f)"
      using assms(1,2) one by (simp add: tx_room_def word_le_nat_alt)
    show ?thesis
      using one fit False assms(3) unat_add_within_u16 [OF fit]
      by (intro that [of "add_ctrl_length c (of_nat (length bs)) (append_bytes bs f)"])
        (auto simp: tx_app_one tx_writepos_def add_ctrl_length_behind append_bytes_content)
  next
    case (more f c mid g)
    have fit: "unat (frag_offset g) + length bs \<le> unat (frag_size g)"
      using assms(1,2) more by (simp add: tx_room_def word_le_nat_alt)
    show ?thesis
      using more fit False assms(3) unat_add_within_u16 [OF fit]
      by (intro that [of "append_bytes bs g"])
        (auto simp: tx_app_more tx_writepos_def append_bytes_content nth_append)
  qed
qed

lemma write_block_truncated:
  assumes "0 < tx_room tx" "tx_room tx < unat n" "unat n \<le> length data"
  shows "capwap_fragment_write_block tx (Some data) n =
    Some (0, (tx_app (take (tx_room tx) data) tx)\<lparr>tx_writerpacketsize := tx_writerpacketsize tx + n\<rparr>)"
proof -
  let ?r = "tx_room tx" and ?l = "last (tx_fragmentlist tx)"
  define r where "r = (of_nat ?r :: u16)"
  have inv: "tx_inv tx" using assms(1) by (rule tx_room_inv)
  have "?r < 65536"
    using assms(2) unat_u16_less [of n] by linarith
  then have rr: "unat r = ?r" "0 < r"
    using assms(1) by (simp_all add: r_def word_less_nat_alt)
  obtain i pos where wp: "tx_writepos tx = (i, pos)" by fastforce
  have i: "tx_fragmentlist tx \<noteq> []" "tx_fragmentlist tx ! i = ?l" "pos = frag_offset ?l" "i < length (tx_fragmentlist tx)"
    using inv wp by (auto simp: tx_writepos_def tx_inv_def last_conv_nth Let_def)
  have pos: "unat pos + ?r = unat (frag_size ?l)" "pos \<le> frag_size ?l"
    using inv by (auto simp: i tx_room_def tx_inv_def word_le_nat_alt)
  have av: "available_space n ?l pos = r"
  proof -
    have "available_space n ?l pos = frag_size ?l - pos"
      using pos assms(2) by (intro available_rest) linarith+
    also have "\<dots> = r"
      using pos by (intro word_unat_eq_iff [THEN iffD2]) (simp add: rr word_le_nat_alt)
    finally show ?thesis .
  qed
  let ?tx = "tx_app (take ?r data) tx"
  have st: "write_store data i pos r tx = Some ?tx"
    using write_store_app [OF inv rr(2), of data] wp rr assms by simp
  obtain f where f: "tx_fragmentlist ?tx ! i = f" "i < length (tx_fragmentlist ?tx)" "frag_size f = frag_size ?l"
    "unat (frag_offset f) = unat pos + length (take ?r data)" "unat (frag_size f) \<le> length (frag_buffer f)"
    "take (length (take ?r data)) (drop (unat pos) (frag_buffer f)) = take ?r data"
    using tx_app_last [OF inv _ wp, of "take ?r data"] by auto
  have "write_loop data i pos (n - r) ?tx = Some (0, ?tx\<lparr>tx_writerpacketsize := tx_writerpacketsize ?tx + (n - r)\<rparr>)"
  proof (rule write_loop_full [OF f(1,2)])
    show "frag_offset f = frag_size f"
      using f(3,4) pos(1) assms by (intro word_unat_eq_iff [THEN iffD2]) simp
    show "unat pos < unat (frag_size f)" "unat (frag_size f) - unat pos \<le> length data"
      using pos(1) assms f(3) by auto
    show "take (unat (frag_size f) - unat pos) data = drop (unat pos) (take (unat (frag_size f)) (frag_buffer f))"
      using f(3,6) pos(1) assms by (simp add: drop_take flip: pos(1))
  qed (use f(5) in simp)
  moreover have "tx_writerpacketsize ?tx = tx_writerpacketsize tx + r"
    using assms by (auto simp: tx_app_def Let_def r_def)
  moreover have "0 < n" using assms by (auto simp: word_less_nat_alt)
  moreover have "r \<noteq> 0" using rr(2) by auto
  ultimately have "write_loop data i pos n tx = Some (0, ?tx\<lparr>tx_writerpacketsize := tx_writerpacketsize tx + n\<rparr>)"
    using rr(2) av st i(2) by (subst write_loop.simps) simp
  then show ?thesis
    using assms i pos(2) \<open>0 < n\<close>
    by (simp add: capwap_fragment_write_block_def capwap_fragment_write_block_from_pos_def wp)
qed

subsection \<open>A message in one fragment\<close>

text \<open>The bytes of a fragment that are sent.\<close>

definition fragment_bytes :: "capwap_fragment_packet_item \<Rightarrow> u8 list" where
  "fragment_bytes f = take (unat (frag_offset f)) (frag_buffer f)"

lemma fragment_bytes_append:
  assumes "unat (frag_offset f) + length bs \<le> unat (frag_size f)" "unat (frag_size f) \<le> length (frag_buffer f)"
  shows "fragment_bytes (append_bytes bs f) = fragment_bytes f @ bs"
  using assms(2) take_buf_write_end [of "unat (frag_offset f)" bs "frag_buffer f"] unat_add_within_u16 [OF assms(1)] assms(1)
  by (simp add: fragment_bytes_def append_bytes_def)

lemma fragment_bytes_add_ctrl:
  assumes "fragment_bytes f = hdr @ ty @ u16_bytes k @ rest" "length hdr = c" "length ty = 5" "rest \<noteq> []"
    and "unat (frag_offset f) \<le> length (frag_buffer f)"
  shows "fragment_bytes (add_ctrl_length c n f) = hdr @ ty @ u16_bytes (k + n) @ rest"
proof -
  let ?o = "unat (frag_offset f)" and ?b = "frag_buffer f"
  have "length (fragment_bytes f) = ?o" using assms(5) by (simp add: fragment_bytes_def)
  then have o: "c + 7 < ?o" using assms(1-4) by (cases rest) auto
  have at: "?b ! i = fragment_bytes f ! i" if "i < ?o" for i
    using that by (simp add: fragment_bytes_def)
  have "be16 (?b ! (c + 5)) (?b ! (c + 6)) = k"
    using o assms(2,3) at [of "c + 5"] at [of "c + 6"] by (simp add: assms(1) nth_append u16_bytes_def)
  then have "fragment_bytes (add_ctrl_length c n f) = buf_write (c + 5) (u16_bytes (k + n)) (fragment_bytes f)"
    using o assms(5) by (simp add: fragment_bytes_def add_ctrl_length_def take_buf_write)
  also have "\<dots> = hdr @ ty @ u16_bytes (k + n) @ rest"
    using assms(2,3) by (simp add: assms(1) buf_write_def)
  finally show ?thesis .
qed

lemma unat_hlen_times_4: "unat (ucast (GET_HLEN_HEADER b) * 4 :: u16) = unat (GET_HLEN_HEADER b) * 4"
proof -
  have "unat (GET_HLEN_HEADER b) * 4 < 65536"
    using unat_u8_less [of "GET_HLEN_HEADER b"] by linarith
  then show ?thesis by (simp add: unat_word_ariths)
qed

lemma unat_round_down_u16:
  assumes "unat (h :: u16) \<le> unat (mtu :: u16)"
  shows "unat (mtu - of_int ((uint mtu - uint h) mod 8)) = unat mtu - (unat mtu - unat h) mod 8"
proof -
  have "uint mtu - uint h = int (unat mtu - unat h)"
    unfolding uint_nat using assms by linarith
  then have "(uint mtu - uint h) mod 8 = int ((unat mtu - unat h) mod 8)"
    by (simp only: zmod_int of_nat_numeral)
  moreover have m: "(unat mtu - unat h) mod 8 \<le> unat mtu"
    using mod_less_eq_dividend [of "unat mtu - unat h" 8] by linarith
  moreover have "unat (of_nat ((unat mtu - unat h) mod 8) :: u16) = (unat mtu - unat h) mod 8"
    by (rule unat_of_nat_u16) (meson le_less_trans m unat_u16_less)
  ultimately show ?thesis by (simp add: unat_u16_minus)
qed

text \<open>A new message: header and control message are in the first fragment, and nothing else.\<close>

lemma create_ctrl_message_fresh:
  assumes "h = unat (GET_HLEN_HEADER data) * 4" "h \<le> length data" "h + 16 \<le> unat mtu"
  obtains tx f where "capwap_packet_txmng_create_ctrl_message data type seq mtu memory = Some (Some tx)"
    "tx_fragmentlist tx = [f]" "tx_ctrlmsg tx = Some h" "unat (frag_offset f) = h + 8"
    "unat (frag_size f) = unat mtu - (unat mtu - h) mod 8" "length (frag_buffer f) = unat mtu"
    "fragment_bytes f = take h data @ (u32_bytes type @ [seq]) @ u16_bytes 3 @ [0]"
proof -
  define hl where "hl = (ucast (GET_HLEN_HEADER data) * 4 :: u16)"
  define size where "size = mtu - of_int ((uint mtu - uint hl) mod 8)"
  define b where "b = buf_write 0 (take h data) (overlay (replicate (min 4 (unat mtu)) 0) (junk_bytes (memory 0) 0 (unat mtu)))"
  define f where "f = \<lparr>frag_size = size, frag_offset = hl + 8,
     frag_buffer = buf_write h (u32_bytes type @ [seq] @ u16_bytes 3 @ [0]) b\<rparr>"
  define tx where "tx = \<lparr>tx_mtu = mtu, tx_fragmentlist = [f], tx_ctrlmsg = Some h, tx_writerpacketsize = 0,
     tx_memory = memory\<rparr>"
  have hl: "unat hl = h"
    by (simp add: hl_def unat_hlen_times_4 assms(1))
  have size: "unat size = unat mtu - (unat mtu - h) mod 8"
    using assms(3) hl by (simp add: size_def unat_round_down_u16)
  have "(unat mtu - h) mod 8 < 8" by simp
  then have fits: "h + 8 < unat size"
    using assms(3) size by linarith
  have b: "length b = unat mtu"
    using assms(2,3) by (simp add: b_def)
  have off: "unat (hl + 8) = h + 8"
    using unat_add_within_u16 [of hl 8 size] fits hl by simp
  have len: "length (frag_buffer f) = unat mtu"
    using assms(3) b by (simp add: f_def)
  have "take h b = take h data"
    using assms(2,3) by (simp add: b_def buf_write_def)
  then have bytes: "fragment_bytes f = take h data @ (u32_bytes type @ [seq]) @ u16_bytes 3 @ [0]"
    using take_buf_write_end [of h "u32_bytes type @ [seq] @ u16_bytes 3 @ [0]" b] b assms(3)
    by (simp add: fragment_bytes_def f_def off)
  have mtu: "0 < mtu" "\<not> unat mtu < h + 8"
    using assms(3) by (auto simp: word_less_nat_alt)
  have "hl < size" using fits hl by (simp add: word_less_nat_alt)
  then have "capwap_packet_txmng_create data mtu memory = Some
    \<lparr>tx_mtu = mtu, tx_fragmentlist = [\<lparr>frag_size = size, frag_offset = hl, frag_buffer = b\<rparr>], tx_ctrlmsg = None,
     tx_writerpacketsize = 0, tx_memory = memory\<rparr>"
    using hl by (simp add: capwap_packet_txmng_create_def capwap_packet_txmng_create_fragment_item_def Let_def
        tx_update_def b_def size_def flip: hl_def)
  then have "capwap_packet_txmng_create_ctrl_message data type seq mtu memory = Some (Some tx)"
    using mtu fits hl
    by (simp add: capwap_packet_txmng_create_ctrl_message_def Let_def tx_update_def tx_def f_def flip: hl_def)
  then show ?thesis
    by (rule that [where f = f]) (simp_all add: tx_def off size len bytes f_def [THEN arg_cong [where f = frag_size]]
        f_def [THEN arg_cong [where f = frag_offset]])
qed

text \<open>The message elements of a message, one after the other.\<close>

definition add_message_elements :: "capwap_element list \<Rightarrow> capwap_packet_txmng \<Rightarrow> capwap_packet_txmng option" where
  "add_message_elements = write_each (\<lambda>e tx. capwap_packet_txmng_add_message_element tx (element_id e) e)"

lemma add_message_elements_app:
  assumes "\<forall>e\<in>set es. element_valid e" "tx_inv tx" "length (concat (map element_tlv es)) \<le> tx_room tx"
  shows "\<exists>w. add_message_elements es tx = Some ((tx_app (concat (map element_tlv es)) tx)\<lparr>tx_writerpacketsize := w\<rparr>)"
  using assms
proof (induction es arbitrary: tx)
  case Nil
  show ?case
    by (rule exI [of _ "tx_writerpacketsize tx"]) (simp add: add_message_elements_def tx.app_Nil)
next
  case (Cons e es)
  define t where "t = (tx_app (element_tlv e) tx)\<lparr>tx_writerpacketsize := of_nat (length (element_payload e)) + 2\<rparr>"
  have e: "capwap_packet_txmng_add_message_element tx (element_id e) e = Some t"
    unfolding t_def using Cons.prems by (intro add_message_element_app) auto
  have "tx_inv t" "tx_room t = tx_room tx - length (element_tlv e)"
    using Cons.prems tx_app_inv [of tx "element_tlv e"] by (auto simp: t_def)
  moreover from this have "length (concat (map element_tlv es)) \<le> tx_room t"
    using Cons.prems(3) by simp
  ultimately obtain w where "add_message_elements es t = Some ((tx_app (concat (map element_tlv es)) t)\<lparr>tx_writerpacketsize := w\<rparr>)"
    using Cons.IH [of t] Cons.prems(1) by auto
  moreover have "(tx_app (concat (map element_tlv es)) t)\<lparr>tx_writerpacketsize := w\<rparr> =
      (tx_app (concat (map element_tlv (e # es))) tx)\<lparr>tx_writerpacketsize := w\<rparr>"
    using Cons.prems(3) by (simp add: t_def tx_app_writerpacketsize tx_app_app)
  ultimately show ?case
    using e by (auto simp: add_message_elements_def)
qed

text \<open>
  Building a message from a header, a type and a list of elements that fit into one fragment: the
  fragment handed to the caller holds the header with its fragment fields cleared, the control
  message with the length of what follows, and the elements.
\<close>

definition clear_fragment_fields :: "u8 list \<Rightarrow> u8 list" where
  "clear_fragment_fields b =
     SET_FLAG_L_HEADER (SET_FRAGMENT_OFFSET_HEADER (SET_FRAGMENT_ID_HEADER (SET_FLAG_F_HEADER b False) 0) 0) False"

definition message_bytes :: "u8 list \<Rightarrow> u32 \<Rightarrow> u8 \<Rightarrow> capwap_element list \<Rightarrow> u8 list" where
  "message_bytes data type seq es =
     (let body = concat (map element_tlv es) in
      clear_fragment_fields (take (unat (GET_HLEN_HEADER data) * 4) data) @
      u32_bytes type @ [seq] @ u16_bytes (of_nat (3 + length body)) @ [0] @ body)"

lemma clear_fragment_fields_append:
  "8 \<le> length b \<Longrightarrow> clear_fragment_fields (b @ c) = clear_fragment_fields b @ c"
  by (simp add: clear_fragment_fields_def header_accessor_defs nth_append list_update_append)

lemma length_clear_fragment_fields [simp]: "length (clear_fragment_fields b) = length b"
  by (simp add: clear_fragment_fields_def)

lemma clear_fragment_fields_take:
  "8 \<le> n \<Longrightarrow> n \<le> length b \<Longrightarrow> take n (clear_fragment_fields b) = clear_fragment_fields (take n b)"
  using clear_fragment_fields_append [of "take n b" "drop n b"] by simp

lemma message_built:
  assumes "h = unat (GET_HLEN_HEADER data) * 4" "8 \<le> h" "h \<le> length data" "h + 16 \<le> unat mtu"
    and "\<forall>e\<in>set es. element_valid e"
    and "h + 8 + length (concat (map element_tlv es)) \<le> unat mtu - (unat mtu - h) mod 8"
  obtains tx tx' f tx'' where
    "capwap_packet_txmng_create_ctrl_message data type seq mtu memory = Some (Some tx)"
    "add_message_elements es tx = Some tx'"
    "capwap_packet_txmng_get_fragment_packets tx' [] fragmentid = (tx'', [f])"
    "fragment_bytes f = message_bytes data type seq es"
    "unat (frag_offset f) = h + 8 + length (concat (map element_tlv es))"
    "unat (frag_offset f) \<le> length (frag_buffer f)"
proof -
  define body where "body = concat (map element_tlv es)"
  note room = assms(6) [folded body_def]
  obtain tx f where tx: "capwap_packet_txmng_create_ctrl_message data type seq mtu memory = Some (Some tx)"
    "tx_fragmentlist tx = [f]" "tx_ctrlmsg tx = Some h" "unat (frag_offset f) = h + 8"
    "unat (frag_size f) = unat mtu - (unat mtu - h) mod 8" "length (frag_buffer f) = unat mtu"
    "fragment_bytes f = take h data @ (u32_bytes type @ [seq]) @ u16_bytes 3 @ [0]"
    by (rule create_ctrl_message_fresh [OF assms(1,3,4)])
  have fit: "unat (frag_offset f) + length body \<le> unat (frag_size f)"
    using room tx(4,5) by simp
  have inv: "tx_inv tx"
    using tx fit by (simp add: tx_inv_def word_le_nat_alt)
  have "length body \<le> tx_room tx"
    using inv fit tx(2) by (simp add: tx_room_def)
  then obtain w where add: "add_message_elements es tx = Some ((tx_app body tx)\<lparr>tx_writerpacketsize := w\<rparr>)"
    using add_message_elements_app [OF assms(5) inv] by (auto simp: body_def)
  define g where "g = (if body = [] then f else add_ctrl_length h (of_nat (length body)) (append_bytes body f))"
  have gfl: "tx_fragmentlist (tx_app body tx) = [g]"
    using tx(2,3) by (simp add: g_def tx_app_one tx.app_Nil)
  have goff: "unat (frag_offset g) = h + 8 + length body" "length (frag_buffer g) = unat mtu"
    using unat_add_within_u16 [OF fit] tx fit by (auto simp: g_def)
  have gb: "fragment_bytes g = take h data @ (u32_bytes type @ [seq]) @ u16_bytes (3 + of_nat (length body)) @ [0] @ body"
  proof (cases "body = []")
    case False
    have "fragment_bytes (append_bytes body f) = take h data @ (u32_bytes type @ [seq]) @ u16_bytes 3 @ [0] @ body"
      using fragment_bytes_append [OF fit] tx by simp
    then show ?thesis
      using False unat_add_within_u16 [OF fit] tx fit assms(3)
        fragment_bytes_add_ctrl [of "append_bytes body f" "take h data" "u32_bytes type @ [seq]" 3 "[0] @ body" h "of_nat (length body)"]
      by (simp add: g_def)
  qed (simp add: g_def tx(7))
  define f' where "f' = g\<lparr>frag_buffer := clear_fragment_fields (frag_buffer g)\<rparr>"
  have "fragment_bytes f' = clear_fragment_fields (fragment_bytes g)"
    using goff assms(2) room by (simp add: f'_def fragment_bytes_def clear_fragment_fields_take)
  also have "\<dots> = message_bytes data type seq es"
    using assms(2,3) by (simp add: gb clear_fragment_fields_append message_bytes_def Let_def body_def flip: assms(1))
  finally have bytes: "fragment_bytes f' = message_bytes data type seq es" .
  have "capwap_packet_txmng_get_fragment_packets ((tx_app body tx)\<lparr>tx_writerpacketsize := w\<rparr>) [] fragmentid =
      ((tx_app body tx)\<lparr>tx_writerpacketsize := w, tx_fragmentlist := []\<rparr>, [f'])"
    by (simp add: capwap_packet_txmng_get_fragment_packets_def gfl f'_def clear_fragment_fields_def Let_def)
  from that [OF tx(1) add this bytes] show ?thesis
    using goff room by (simp add: f'_def body_def)
qed

end
