(* ===== verification/Capwap_Receive.thy ===== *)
theory Capwap_Receive
  imports Capwap_Transmit
begin

text \<open>
  The receive side of the packet manager (\<^verbatim>\<open>common/capwap_protocol.c\<close>): received packets are collected in
  a list of fragments; once a message is complete its control message and its message elements are read
  through the operations of \<open>capwap_read_message_elements_ops\<close>. They interpret the interface
  \<open>message_reader\<close>, with the payloads of the fragments, one behind the other, as the stream.

  The pointer \<open>item\<close> of a read position is an index into the list of fragments, \<open>None\<close> being NULL; the
  pointer \<open>header\<close> is the buffer it points to.
\<close>

subsection \<open>State\<close>

record capwap_control_message =
  msg_type :: u32
  msg_seq :: u8
  msg_length :: u16
  msg_flags :: u8

type_synonym read_block_from_pos = "nat option \<times> u16"

record capwap_packet_rxmng =
  rx_fragmentlist :: "capwap_fragment_packet_item list"
  rx_packetlength :: "64 word"
  rx_header :: "u8 list option"
  rx_ctrlmsg :: capwap_control_message
  rx_readbodypos :: read_block_from_pos
  rx_readpos :: read_block_from_pos
  rx_readerpacketallowed :: u16

subsection \<open>Reading\<close>

definition capwap_fragment_read_ready :: "capwap_packet_rxmng \<Rightarrow> u16" where
  "capwap_fragment_read_ready rx =
     (if fst (rx_readpos rx) \<noteq> None then rx_readerpacketallowed rx else 0)"

text \<open>
  The loop \<open>while (readpos->item && readdataleft)\<close>: the bytes copied, the position and \<open>readdataleft\<close>
  at its end.
\<close>

partial_function (option) read_rounds ::
    "capwap_fragment_packet_item list \<Rightarrow> nat option \<Rightarrow> u16 \<Rightarrow> u16 \<Rightarrow> (u8 list \<times> read_block_from_pos \<times> u16) option" where
  "read_rounds fl item pos readdataleft =
     (case item of
        None \<Rightarrow> Some ([], (item, pos), readdataleft)
      | Some i \<Rightarrow>
          if readdataleft = 0 then Some ([], (item, pos), readdataleft)
          else do {
            ASSERT (i < length fl);
            let packet = fl ! i;
            let bufferlength = frag_size packet - pos;
            let copylength = min bufferlength readdataleft;
            ASSERT (unat pos + unat copylength \<le> length (frag_buffer packet));
            let bs = take (unat copylength) (drop (unat pos) (frag_buffer packet));
            let pos = pos + copylength;
            let (item, pos) =
              (if pos = frag_size packet then
                 if Suc i < length fl
                 then (Some (Suc i), ucast (GET_HLEN_HEADER (frag_buffer (fl ! Suc i))) * 4)
                 else (None, 0)
               else (Some i, pos));
            (rest, readpos, left) \<leftarrow> read_rounds fl item pos (readdataleft - copylength);
            Some (bs @ rest, readpos, left) })"

definition capwap_fragment_read_block_from_pos ::
    "capwap_fragment_packet_item list \<Rightarrow> u16 \<Rightarrow> read_block_from_pos \<Rightarrow> u16 \<Rightarrow>
     (u16 \<times> u8 list \<times> read_block_from_pos) option" where
  "capwap_fragment_read_block_from_pos fl len readpos lengthallowed = do {
     ASSERT (0 < len);
     let len = (if 0 < lengthallowed then min len lengthallowed else len);
     (bs, readpos, readdataleft) \<leftarrow> read_rounds fl (fst readpos) (snd readpos) len;
     Some (len - readdataleft, bs, readpos) }"

definition capwap_fragment_read_block ::
    "capwap_packet_rxmng \<Rightarrow> u16 \<Rightarrow> (u8 list \<times> capwap_packet_rxmng) option" where
  "capwap_fragment_read_block rx len = do {
     (readlength, bs, readpos) \<leftarrow>
       capwap_fragment_read_block_from_pos (rx_fragmentlist rx) len (rx_readpos rx) (rx_readerpacketallowed rx);
     Some (bs, rx\<lparr>rx_readpos := readpos, rx_readerpacketallowed := rx_readerpacketallowed rx - readlength\<rparr>) }"

definition capwap_fragment_read_u8 :: "capwap_packet_rxmng \<Rightarrow> (u8 option \<times> capwap_packet_rxmng) option" where
  "capwap_fragment_read_u8 rx = do {
     (bs, rx) \<leftarrow> capwap_fragment_read_block rx 1;
     Some (bytes_u8 bs, rx) }"

definition capwap_fragment_read_u16 :: "capwap_packet_rxmng \<Rightarrow> (u16 option \<times> capwap_packet_rxmng) option" where
  "capwap_fragment_read_u16 rx = do {
     (bs, rx) \<leftarrow> capwap_fragment_read_block rx 2;
     Some (bytes_u16 bs, rx) }"

definition capwap_fragment_read_u32 :: "capwap_packet_rxmng \<Rightarrow> (u32 option \<times> capwap_packet_rxmng) option" where
  "capwap_fragment_read_u32 rx = do {
     (bs, rx) \<leftarrow> capwap_fragment_read_block rx 4;
     Some (bytes_u32 bs, rx) }"

definition rx_read_ops :: "capwap_packet_rxmng capwap_read_message_elements_ops" where
  "rx_read_ops = \<lparr>read_ready = capwap_fragment_read_ready, read_u8 = capwap_fragment_read_u8,
     read_u16 = capwap_fragment_read_u16, read_u32 = capwap_fragment_read_u32,
     read_block = capwap_fragment_read_block\<rparr>"

subsection \<open>Collecting fragments\<close>

definition capwap_packet_rxmng_create_message :: capwap_packet_rxmng where
  "capwap_packet_rxmng_create_message =
     \<lparr>rx_fragmentlist = [], rx_packetlength = 0, rx_header = None,
      rx_ctrlmsg = \<lparr>msg_type = 0, msg_seq = 0, msg_length = 0, msg_flags = 0\<rparr>,
      rx_readbodypos = (None, 0), rx_readpos = (None, 0), rx_readerpacketallowed = 0\<rparr>"

definition capwap_packet_rxmng_complete :: "capwap_packet_rxmng \<Rightarrow> capwap_packet_rxmng option" where
  "capwap_packet_rxmng_complete rx = do {
     ASSERT (0 < rx_packetlength rx);
     ASSERT (rx_fragmentlist rx \<noteq> []);
     let b = frag_buffer (rx_fragmentlist rx ! 0);
     let rx = rx\<lparr>rx_readpos := (Some 0, ucast (GET_HLEN_HEADER b) * 4), rx_header := Some b,
                 rx_readerpacketallowed := 8\<rparr>;
     let msg = rx_ctrlmsg rx;
     (t, rx) \<leftarrow> get_u32 rx_read_ops (msg_type msg) rx;
     (s, rx) \<leftarrow> get_u8 rx_read_ops (msg_seq msg) rx;
     (l, rx) \<leftarrow> get_u16 rx_read_ops (msg_length msg) rx;
     (f, rx) \<leftarrow> get_u8 rx_read_ops (msg_flags msg) rx;
     Some (rx\<lparr>rx_ctrlmsg := \<lparr>msg_type = t, msg_seq = s, msg_length = l, msg_flags = f\<rparr>,
              rx_readbodypos := rx_readpos rx\<rparr>) }"

definition capwap_packet_rxmng_create_fragment_item :: "u8 list \<Rightarrow> capwap_fragment_packet_item" where
  "capwap_packet_rxmng_create_fragment_item data =
     \<lparr>frag_size = of_nat (length data), frag_offset = of_nat (length data), frag_buffer = data\<rparr>"

datatype recv_result = CAPWAP_WRONG_FRAGMENT | CAPWAP_REQUEST_MORE_FRAGMENT | CAPWAP_RECEIVE_COMPLETE_PACKET

text \<open>
  The loop \<open>/* Order fragment */\<close>: every branch of its body leaves it, so only the first fragment is ever
  looked at. \<open>None\<close> is the return of \<open>CAPWAP_WRONG_FRAGMENT\<close>.
\<close>

definition order_fragment ::
    "u8 list \<Rightarrow> capwap_fragment_packet_item list \<Rightarrow> capwap_fragment_packet_item list option" where
  "order_fragment data fl =
     (case fl of
        [] \<Rightarrow> Some [capwap_packet_rxmng_create_fragment_item data]
      | f # fs \<Rightarrow>
          let fragoffset = GET_FRAGMENT_OFFSET_HEADER data;
              fragoffsetsearch = GET_FRAGMENT_OFFSET_HEADER (frag_buffer f)
          in if fragoffset < fragoffsetsearch then Some (capwap_packet_rxmng_create_fragment_item data # fl)
             else if fragoffset > fragoffsetsearch \<and> fs = []
             then Some (fl @ [capwap_packet_rxmng_create_fragment_item data])
             else if unat (frag_size f) \<noteq> length data then None
             else if take (unat (frag_size f)) (frag_buffer f) \<noteq> take (unat (frag_size f)) data then None
             else Some fl)"

text \<open>
  The loop \<open>/* Sanity check and complete */\<close>: the value returned from inside it, \<open>None\<close> when it runs to its
  end, and \<open>packetlength\<close>.
\<close>

fun sanity_fragments ::
    "u16 \<Rightarrow> 64 word \<Rightarrow> capwap_fragment_packet_item list \<Rightarrow> recv_result option \<times> 64 word" where
  "sanity_fragments sanityfragoffset packetlength [] = (None, packetlength)"
| "sanity_fragments sanityfragoffset packetlength (f # fs) =
     (let fragoffsetsearch = GET_FRAGMENT_OFFSET_HEADER (frag_buffer f);
          len = frag_size f - ucast (GET_HLEN_HEADER (frag_buffer f)) * 4 :: u16
      in if sanityfragoffset < fragoffsetsearch then (Some CAPWAP_REQUEST_MORE_FRAGMENT, packetlength)
         else if sanityfragoffset > fragoffsetsearch then (Some CAPWAP_WRONG_FRAGMENT, packetlength)
         else sanity_fragments (sanityfragoffset + len div 8) (packetlength + ucast len) fs)"

definition capwap_packet_rxmng_add_recv_packet ::
    "capwap_packet_rxmng \<Rightarrow> u8 list \<Rightarrow> (recv_result \<times> capwap_packet_rxmng) option" where
  "capwap_packet_rxmng_add_recv_packet rx data = do {
     ASSERT (0 < length data);
     ASSERT (8 \<le> length data);
     let headersize = unat (GET_HLEN_HEADER data) * 4;
     if IS_FLAG_F_HEADER data then
       if (int (length data) - int headersize) mod 8 \<noteq> 0 then Some (CAPWAP_WRONG_FRAGMENT, rx)
       else if rx_fragmentlist rx \<noteq> [] \<and>
           GET_FRAGMENT_ID_HEADER data \<noteq> GET_FRAGMENT_ID_HEADER (frag_buffer (rx_fragmentlist rx ! 0))
       then Some (CAPWAP_WRONG_FRAGMENT, rx)
       else (case order_fragment data (rx_fragmentlist rx) of
           None \<Rightarrow> Some (CAPWAP_WRONG_FRAGMENT, rx)
         | Some fl \<Rightarrow>
             let rx = rx\<lparr>rx_fragmentlist := fl\<rparr> in
             if IS_FLAG_L_HEADER data then
               (case sanity_fragments 0 0 fl of
                  (None, len) \<Rightarrow> do {
                    rx \<leftarrow> capwap_packet_rxmng_complete (rx\<lparr>rx_packetlength := len\<rparr>);
                    Some (CAPWAP_RECEIVE_COMPLETE_PACKET, rx) }
                | (Some CAPWAP_WRONG_FRAGMENT, len) \<Rightarrow>
                    Some (CAPWAP_WRONG_FRAGMENT, rx\<lparr>rx_packetlength := len, rx_fragmentlist := []\<rparr>)
                | (Some r, len) \<Rightarrow> Some (r, rx\<lparr>rx_packetlength := len\<rparr>))
             else Some (CAPWAP_REQUEST_MORE_FRAGMENT, rx))
     else if rx_fragmentlist rx \<noteq> [] then Some (CAPWAP_WRONG_FRAGMENT, rx)
     else do {
       rx \<leftarrow> capwap_packet_rxmng_complete
         (rx\<lparr>rx_fragmentlist := [capwap_packet_rxmng_create_fragment_item data],
             rx_packetlength := of_int (int (length data) - int headersize)\<rparr>);
       Some (CAPWAP_RECEIVE_COMPLETE_PACKET, rx) } }"

text \<open>The loop over the fragments of a request that was sent, and its last \<open>result\<close>.\<close>

fun add_request_fragments ::
    "recv_result \<Rightarrow> capwap_packet_rxmng \<Rightarrow> capwap_fragment_packet_item list \<Rightarrow>
     (recv_result \<times> capwap_packet_rxmng) option" where
  "add_request_fragments result rx [] = Some (result, rx)"
| "add_request_fragments result rx (f # fs) = do {
     (result, rx) \<leftarrow> capwap_packet_rxmng_add_recv_packet rx (take (unat (frag_offset f)) (frag_buffer f));
     if result = CAPWAP_WRONG_FRAGMENT then Some (result, rx) else add_request_fragments result rx fs }"

definition capwap_packet_rxmng_create_from_requestfragmentpacket ::
    "capwap_fragment_packet_item list \<Rightarrow> capwap_packet_rxmng option option" where
  "capwap_packet_rxmng_create_from_requestfragmentpacket requestfragmentpacket =
     (if requestfragmentpacket = [] then Some None
      else do {
        (result, rx) \<leftarrow>
          add_request_fragments CAPWAP_WRONG_FRAGMENT capwap_packet_rxmng_create_message requestfragmentpacket;
        Some (if result \<noteq> CAPWAP_RECEIVE_COMPLETE_PACKET then None else Some rx) })"

datatype message_type_check = VALID_MESSAGE_TYPE | INVALID_MESSAGE_TYPE | INVALID_REQUEST_MESSAGE_TYPE

definition capwap_check_message_type :: "capwap_packet_rxmng \<Rightarrow> message_type_check option" where
  "capwap_check_message_type rx =
     (if rx_fragmentlist rx \<noteq> [] then do {
        header \<leftarrow> rx_header rx;
        let packet = rx_fragmentlist rx ! 0;
        let binding = GET_WBID_HEADER header;
        let lengthpayload = (frag_offset packet - ucast (GET_HLEN_HEADER (frag_buffer packet)) * 4 :: u16);
        let t = unat (msg_type (rx_ctrlmsg rx));
        Some (if 8 \<le> lengthpayload then
                if CAPWAP_VALID_MESSAGE_TYPE t then VALID_MESSAGE_TYPE
                else if binding = 1 \<and> CAPWAP_VALID_IEEE80211_MESSAGE_TYPE t then VALID_MESSAGE_TYPE
                else if t mod 2 \<noteq> 0 then INVALID_REQUEST_MESSAGE_TYPE
                else INVALID_MESSAGE_TYPE
              else INVALID_MESSAGE_TYPE) }
      else Some INVALID_MESSAGE_TYPE)"

subsection \<open>The stream of a packet\<close>

definition fragment_payload :: "capwap_fragment_packet_item \<Rightarrow> u8 list" where
  "fragment_payload f = drop (unat (GET_HLEN_HEADER (frag_buffer f)) * 4) (frag_buffer f)"

text \<open>What lies behind position \<open>pos\<close> of the first of some fragments, and the position \<open>k\<close> bytes further.\<close>

fun stream_from :: "u16 \<Rightarrow> capwap_fragment_packet_item list \<Rightarrow> u8 list" where
  "stream_from pos [] = []"
| "stream_from pos (f # fs) = drop (unat pos) (frag_buffer f) @ concat (map fragment_payload fs)"

fun skip_from :: "nat \<Rightarrow> nat \<Rightarrow> u16 \<Rightarrow> capwap_fragment_packet_item list \<Rightarrow> read_block_from_pos" where
  "skip_from k i pos [] = (None, pos)"
| "skip_from k i pos (f # fs) =
     (if k = 0 then (Some i, pos)
      else if k < length (frag_buffer f) - unat pos then (Some i, pos + of_nat k)
      else case fs of
          [] \<Rightarrow> (None, 0)
        | g # _ \<Rightarrow> skip_from (k - (length (frag_buffer f) - unat pos)) (Suc i) (ucast (GET_HLEN_HEADER (frag_buffer g)) * 4) fs)"

definition fragment_ok :: "capwap_fragment_packet_item \<Rightarrow> bool" where
  "fragment_ok f \<longleftrightarrow> unat (frag_size f) = length (frag_buffer f) \<and>
     unat (GET_HLEN_HEADER (frag_buffer f)) * 4 \<le> length (frag_buffer f)"

lemma fragment_ok_less: "fragment_ok f \<Longrightarrow> length (frag_buffer f) < 65536"
  by (metis fragment_ok_def unat_u16_less)

lemma stream_from_next:
  "stream_from (ucast (GET_HLEN_HEADER (frag_buffer g)) * 4) (g # fs) = concat (map fragment_payload (g # fs))"
  by (simp add: fragment_payload_def unat_hlen_times_4)

lemma drop_eq_ConsD:
  assumes "drop i xs = y # ys"
  shows "i < length xs \<and> xs ! i = y \<and> drop (Suc i) xs = ys"
proof -
  have i: "i < length xs" using assms by (cases "i < length xs") auto
  then show ?thesis using Cons_nth_drop_Suc [OF i] assms by simp
qed

lemma read_rounds_stream:
  assumes "drop i fl = fs" "fs \<noteq> []" "\<forall>f\<in>set fs. fragment_ok f" "unat pos \<le> length (frag_buffer (hd fs))"
  shows "read_rounds fl (Some i) pos n =
    Some (take (unat n) (stream_from pos fs), skip_from (unat n) i pos fs,
      n - of_nat (min (unat n) (length (stream_from pos fs))))"
  using assms
proof (induction fs arbitrary: i pos n)
  case Nil
  then show ?case by simp
next
  case (Cons f fs)
  have i: "i < length fl" "fl ! i = f" "drop (Suc i) fl = fs"
    using drop_eq_ConsD [OF Cons.prems(1)] by auto
  have f: "unat (frag_size f) = length (frag_buffer f)" "unat pos \<le> unat (frag_size f)"
    using Cons.prems by (auto simp: fragment_ok_def)
  show ?case
  proof (cases "n = 0")
    case True
    then show ?thesis by (simp add: read_rounds.simps)
  next
    case False
    then have n: "0 < unat n" by (simp add: unat_gt_0)
    let ?room = "length (frag_buffer f) - unat pos"
    have bl: "unat (frag_size f - pos) = ?room"
      using f by simp
    have mn: "unat (min (frag_size f - pos) n) = min ?room (unat n)"
      by (simp add: min_def word_le_nat_alt bl)
    show ?thesis
    proof (cases "unat n < ?room")
      case True
      then have "min (frag_size f - pos) n = n"
        by (simp add: min_def word_le_nat_alt bl)
      moreover have "pos + n \<noteq> frag_size f"
      proof
        assume "pos + n = frag_size f"
        then have "frag_size f - pos = n" by (metis add_diff_cancel_left')
        then show False using True bl by simp
      qed
      ultimately show ?thesis
        using True f i n False by (subst read_rounds.simps) (simp add: read_rounds.simps [of _ _ _ 0] min_absorb1)
    next
      case False
      then have mr: "min (frag_size f - pos) n = frag_size f - pos"
        by (simp add: min_def word_le_nat_alt bl)
      have room: "(of_nat ?room :: u16) = frag_size f - pos"
        unfolding bl [symmetric] by simp
      show ?thesis
      proof (cases fs)
        case Nil
        then show ?thesis
          using False n f i mr room \<open>n \<noteq> 0\<close>
          by (subst read_rounds.simps) (simp add: read_rounds.simps [of _ None] min_absorb2)
      next
        case (Cons g gs)
        let ?p = "ucast (GET_HLEN_HEADER (frag_buffer g)) * 4 :: u16" and ?n = "n - (frag_size f - pos)"
        have g: "fl ! Suc i = g" "Suc i < length fl"
          using drop_eq_ConsD [of "Suc i" fl g gs] i(3) Cons by auto
        have length_payload: "length (fragment_payload g) = length (frag_buffer g) - unat ?p"
          by (simp add: fragment_payload_def unat_hlen_times_4)
        have un: "unat ?n = unat n - ?room"
          using False bl by simp
        have "read_rounds fl (Some (Suc i)) ?p ?n = Some (take (unat ?n) (stream_from ?p fs), skip_from (unat ?n) (Suc i) ?p fs,
            ?n - of_nat (min (unat ?n) (length (stream_from ?p fs))))"
          using Cons.IH i(3) \<open>fs = g # gs\<close> Cons.prems(3) by (intro Cons.IH) (auto simp: fragment_ok_def unat_hlen_times_4)
        moreover have "n - of_nat (min (unat n) (?room + m)) = ?n - of_nat (min (unat n - ?room) m)" for m
        proof -
          have "min (unat n) (?room + m) = ?room + min (unat n - ?room) m"
            using False by auto
          then show ?thesis by (simp only: of_nat_add room diff_diff_eq)
        qed
        ultimately show ?thesis
          using False n f i mr g \<open>n \<noteq> 0\<close> Cons un stream_from_next [of g gs]
          by (subst read_rounds.simps) (simp add: length_payload)
      qed
    qed
  qed
qed

subsection \<open>The reader interface\<close>

definition rx_stream :: "capwap_packet_rxmng \<Rightarrow> u8 list" where
  "rx_stream rx = (case rx_readpos rx of
     (None, _) \<Rightarrow> []
   | (Some i, pos) \<Rightarrow> stream_from pos (drop i (rx_fragmentlist rx)))"

definition rx_ended :: "capwap_packet_rxmng \<Rightarrow> bool" where
  "rx_ended rx \<longleftrightarrow> fst (rx_readpos rx) = None"

definition rx_inv :: "capwap_packet_rxmng \<Rightarrow> bool" where
  "rx_inv rx \<longleftrightarrow> (\<forall>f\<in>set (rx_fragmentlist rx). fragment_ok f) \<and>
     (case rx_readpos rx of
        (None, _) \<Rightarrow> True
      | (Some i, pos) \<Rightarrow> i < length (rx_fragmentlist rx) \<and> unat pos \<le> length (frag_buffer (rx_fragmentlist rx ! i)))"

definition rx_adv :: "nat \<Rightarrow> capwap_packet_rxmng \<Rightarrow> capwap_packet_rxmng" where
  "rx_adv k rx = (if k = 0 then rx else rx\<lparr>rx_readpos := (case rx_readpos rx of
       (None, pos) \<Rightarrow> (None, pos)
     | (Some i, pos) \<Rightarrow> skip_from k i pos (drop i (rx_fragmentlist rx))),
     rx_readerpacketallowed := rx_readerpacketallowed rx - of_nat (min k (length (rx_stream rx)))\<rparr>)"

lemma rx_adv_sel [simp]:
  "rx_fragmentlist (rx_adv k rx) = rx_fragmentlist rx" "rx_header (rx_adv k rx) = rx_header rx"
  "rx_ctrlmsg (rx_adv k rx) = rx_ctrlmsg rx" "rx_readbodypos (rx_adv k rx) = rx_readbodypos rx"
  "rx_packetlength (rx_adv k rx) = rx_packetlength rx"
  by (simp_all add: rx_adv_def)

lemma rx_inv_update [simp]:
  "rx_inv (rx\<lparr>rx_ctrlmsg := m\<rparr>) = rx_inv rx" "rx_inv (rx\<lparr>rx_readbodypos := p\<rparr>) = rx_inv rx"
  "rx_inv (rx\<lparr>rx_readerpacketallowed := a\<rparr>) = rx_inv rx"
  by (simp_all add: rx_inv_def split: prod.splits option.splits)

lemma rx_stream_update [simp]:
  "rx_stream (rx\<lparr>rx_ctrlmsg := m\<rparr>) = rx_stream rx" "rx_stream (rx\<lparr>rx_readbodypos := p\<rparr>) = rx_stream rx"
  "rx_stream (rx\<lparr>rx_readerpacketallowed := a\<rparr>) = rx_stream rx"
  by (simp_all add: rx_stream_def split: prod.splits option.splits)

text \<open>Skipping inside a list of fragments, for the laws of \<open>rx_adv\<close>.\<close>

lemma skip_from_stream:
  assumes "\<forall>f\<in>set fs. fragment_ok f" "fs \<noteq> []" "unat pos \<le> length (frag_buffer (hd fs))"
  shows "case skip_from k i pos fs of
      (None, p) \<Rightarrow> drop k (stream_from pos fs) = [] \<and> (\<forall>l. skip_from (k + l) i pos fs = (None, p))
    | (Some j, p) \<Rightarrow> i \<le> j \<and> j < i + length fs \<and> unat p \<le> length (frag_buffer (fs ! (j - i))) \<and>
        stream_from p (drop (j - i) fs) = drop k (stream_from pos fs) \<and>
        (\<forall>l. skip_from l j p (drop (j - i) fs) = skip_from (k + l) i pos fs)"
  using assms
proof (induction fs arbitrary: i pos k)
  case (Cons f fs)
  have len: "length (frag_buffer f) < 65536" "unat pos \<le> length (frag_buffer f)"
    using Cons.prems fragment_ok_less by auto
  let ?room = "length (frag_buffer f) - unat pos"
  consider "k = 0" | "k \<noteq> 0" "k < ?room" | "k \<noteq> 0" "?room \<le> k" "fs = []" | g gs where "k \<noteq> 0" "?room \<le> k" "fs = g # gs"
    by (cases "k = 0"; cases "k < ?room"; cases fs) (auto simp: not_less)
  then show ?case
  proof cases
    case 1
    then show ?thesis using len by simp
  next
    case 2
    then have p: "unat (pos + of_nat k) = unat pos + k"
      using len by (intro unat_add_of_nat_u16) linarith
    have skip: "skip_from l i (pos + of_nat k) (f # fs) = skip_from (k + l) i pos (f # fs)" for l
    proof (cases "k + l < ?room")
      case True
      then have "l < length (frag_buffer f) - (unat pos + k)" by linarith
      then show ?thesis using True 2 p by (simp add: add.assoc)
    next
      case False
      then have "\<not> l < length (frag_buffer f) - (unat pos + k)" "l \<noteq> 0"
        "l - (length (frag_buffer f) - (unat pos + k)) = k + l - ?room"
        using 2 by linarith+
      then show ?thesis using False 2 p by (cases fs) simp_all
    qed
    have st: "drop k (stream_from pos (f # fs)) = stream_from (pos + of_nat k) (f # fs)"
      using 2 p by (simp add: add.commute)
    have r: "skip_from k i pos (f # fs) = (Some i, pos + of_nat k)"
      using 2 by simp
    have "unat (pos + of_nat k) \<le> length (frag_buffer f)"
      using 2 p by linarith
    then show ?thesis
      unfolding r st by (simp add: skip del: skip_from.simps stream_from.simps)
  next
    case 3
    then show ?thesis using len by simp
  next
    case (4 g gs)
    let ?p = "ucast (GET_HLEN_HEADER (frag_buffer g)) * 4 :: u16"
    have "unat ?p \<le> length (frag_buffer g)"
      using Cons.prems 4 by (simp add: fragment_ok_def unat_hlen_times_4)
    then have IH: "case skip_from (k - ?room) (Suc i) ?p fs of
        (None, p) \<Rightarrow> drop (k - ?room) (stream_from ?p fs) = [] \<and> (\<forall>l. skip_from (k - ?room + l) (Suc i) ?p fs = (None, p))
      | (Some j, p) \<Rightarrow> Suc i \<le> j \<and> j < Suc i + length fs \<and> unat p \<le> length (frag_buffer (fs ! (j - Suc i))) \<and>
        stream_from p (drop (j - Suc i) fs) = drop (k - ?room) (stream_from ?p fs) \<and>
        (\<forall>l. skip_from l j p (drop (j - Suc i) fs) = skip_from (k - ?room + l) (Suc i) ?p fs)"
      using Cons.prems 4 by (intro Cons.IH) auto
    have s: "drop k (stream_from pos (f # fs)) = drop (k - ?room) (stream_from ?p fs)"
      using 4 len stream_from_next [of g gs] by simp
    have k: "skip_from (k + l) i pos (f # fs) = skip_from (k - ?room + l) (Suc i) ?p fs" for l
      using 4 by simp
    obtain a p where r: "skip_from (k - ?room) (Suc i) ?p fs = (a, p)" by fastforce
    have r': "skip_from k i pos (f # fs) = (a, p)"
      using k [of 0] r by simp
    show ?thesis
    proof (cases a)
      case None
      then show ?thesis using IH unfolding r r' s by (simp add: k del: skip_from.simps stream_from.simps)
    next
      case (Some j)
      then have "Suc i \<le> j" using IH r by simp
      then obtain d where d: "j = Suc i + d" by (auto simp: le_iff_add)
      show ?thesis
        using IH unfolding r r' s Some by (simp add: d k del: skip_from.simps stream_from.simps)
    qed
  qed
qed simp

lemma rx_adv_ended: "rx_readpos rx = (None, pos) \<Longrightarrow> rx_adv k rx = rx"
  by (simp add: rx_adv_def rx_stream_def)

lemma rx_adv_live:
  assumes "rx_inv rx" "rx_readpos rx = (Some i, pos)"
  shows "rx_adv k rx = rx\<lparr>rx_readpos := skip_from k i pos (drop i (rx_fragmentlist rx)),
     rx_readerpacketallowed := rx_readerpacketallowed rx - of_nat (min k (length (rx_stream rx)))\<rparr>"
proof -
  obtain f fs where "drop i (rx_fragmentlist rx) = f # fs"
    using assms by (cases "drop i (rx_fragmentlist rx)") (auto simp: rx_inv_def)
  then show ?thesis
    using assms(2) by (cases "k = 0") (simp_all add: rx_adv_def)
qed

lemma rx_skip:
  assumes "rx_inv rx" "rx_readpos rx = (Some i, pos)"
  shows "case skip_from k i pos (drop i (rx_fragmentlist rx)) of
      (None, p) \<Rightarrow> drop k (rx_stream rx) = [] \<and> (\<forall>l. skip_from (k + l) i pos (drop i (rx_fragmentlist rx)) = (None, p))
    | (Some j, p) \<Rightarrow> j < length (rx_fragmentlist rx) \<and> unat p \<le> length (frag_buffer (rx_fragmentlist rx ! j)) \<and>
        stream_from p (drop j (rx_fragmentlist rx)) = drop k (rx_stream rx) \<and>
        (\<forall>l. skip_from l j p (drop j (rx_fragmentlist rx)) = skip_from (k + l) i pos (drop i (rx_fragmentlist rx)))"
proof -
  let ?fs = "drop i (rx_fragmentlist rx)"
  have i: "i < length (rx_fragmentlist rx)" "unat pos \<le> length (frag_buffer (hd ?fs))" "?fs \<noteq> []"
    "\<forall>f\<in>set ?fs. fragment_ok f"
    using assms by (auto simp: rx_inv_def hd_drop_conv_nth dest: in_set_dropD)
  show ?thesis
    using skip_from_stream [OF i(4,3,2), of k i] assms(2) i(1)
    by (auto simp: rx_stream_def split: prod.splits option.splits)
qed

lemma rx_adv_law:
  assumes "rx_inv rx"
  shows "rx_inv (rx_adv k rx)" "rx_stream (rx_adv k rx) = drop k (rx_stream rx)"
    "rx_readerpacketallowed (rx_adv k rx) = rx_readerpacketallowed rx - of_nat (min k (length (rx_stream rx)))"
    "rx_adv l (rx_adv k rx) = rx_adv (k + l) rx"
proof -
  have *: "rx_inv (rx_adv k rx) \<and> rx_stream (rx_adv k rx) = drop k (rx_stream rx) \<and>
    rx_readerpacketallowed (rx_adv k rx) = rx_readerpacketallowed rx - of_nat (min k (length (rx_stream rx))) \<and>
    rx_adv l (rx_adv k rx) = rx_adv (k + l) rx"
  proof (cases "rx_readpos rx")
    case (Pair item pos)
    show ?thesis
    proof (cases item)
      case None
      then have "rx_stream rx = []" using Pair by (simp add: rx_stream_def)
      then show ?thesis using None Pair assms by (simp add: rx_adv_ended)
    next
      case (Some i)
      note live = Pair [unfolded Some]
      let ?fl = "rx_fragmentlist rx"
      obtain a p where r: "skip_from k i pos (drop i ?fl) = (a, p)" by fastforce
      note sk = rx_skip [OF assms live, of k, unfolded r]
      have adv: "rx_adv k rx = rx\<lparr>rx_readpos := (a, p),
          rx_readerpacketallowed := rx_readerpacketallowed rx - of_nat (min k (length (rx_stream rx)))\<rparr>"
        using rx_adv_live [OF assms live] r by simp
      have inv: "rx_inv (rx_adv k rx)"
        using assms sk by (simp add: adv rx_inv_def split: option.splits)
      have str: "rx_stream (rx_adv k rx) = drop k (rx_stream rx)"
        using sk by (simp add: adv rx_stream_def split: option.splits)
      have al: "rx_readerpacketallowed rx - of_nat (min (k + l) (length (rx_stream rx))) =
          rx_readerpacketallowed rx - of_nat (min k (length (rx_stream rx))) - of_nat (min l (length (rx_stream rx) - k))"
      proof -
        have "min (k + l) (length (rx_stream rx)) = min k (length (rx_stream rx)) + min l (length (rx_stream rx) - k)"
          by linarith
        then show ?thesis by (simp only: of_nat_add diff_diff_eq)
      qed
      have "rx_adv l (rx_adv k rx) = rx_adv (k + l) rx"
      proof (cases a)
        case None
        then have "rx_adv l (rx_adv k rx) = rx_adv k rx"
          by (intro rx_adv_ended [of _ p]) (simp add: adv)
        moreover have "length (rx_stream rx) \<le> k" using sk None by simp
        ultimately show ?thesis
          using sk None rx_adv_live [OF assms live, of "k + l"] by (simp add: adv)
      next
        case (Some j)
        then have "rx_readpos (rx_adv k rx) = (Some j, p)" by (simp add: adv)
        from rx_adv_live [OF inv this, of l] rx_adv_live [OF assms live, of "k + l"] show ?thesis
          using sk Some by (simp add: str al) (simp add: adv)
      qed
      then show ?thesis using inv str by (simp add: adv)
    qed
  qed
  then show "rx_inv (rx_adv k rx)" "rx_stream (rx_adv k rx) = drop k (rx_stream rx)"
    "rx_readerpacketallowed (rx_adv k rx) = rx_readerpacketallowed rx - of_nat (min k (length (rx_stream rx)))"
    "rx_adv l (rx_adv k rx) = rx_adv (k + l) rx"
    by simp_all
qed

lemma rx_read_block:
  assumes "rx_inv rx" "0 < n"
  shows "capwap_fragment_read_block rx n = Some (take (grant (rx_readerpacketallowed rx) n) (rx_stream rx),
    rx_adv (grant (rx_readerpacketallowed rx) n) rx)"
proof -
  define m where "m = (if 0 < rx_readerpacketallowed rx then min n (rx_readerpacketallowed rx) else n)"
  have g: "grant (rx_readerpacketallowed rx) n = unat m"
    by (auto simp: grant_def m_def min_def word_le_nat_alt)
  show ?thesis
  proof (cases "rx_readpos rx")
    case (Pair item pos)
    show ?thesis
    proof (cases item)
      case None
      then show ?thesis
        using Pair assms(2) rx_adv_ended [of rx pos "unat m"]
        by (simp add: capwap_fragment_read_block_def capwap_fragment_read_block_from_pos_def read_rounds.simps [of _ None]
            g rx_stream_def flip: m_def)
    next
      case (Some i)
      note live = Pair [unfolded Some]
      let ?fs = "drop i (rx_fragmentlist rx)"
      have i: "?fs \<noteq> []" "\<forall>f\<in>set ?fs. fragment_ok f" "unat pos \<le> length (frag_buffer (hd ?fs))"
        using assms(1) live by (auto simp: rx_inv_def hd_drop_conv_nth dest: in_set_dropD)
      have s: "rx_stream rx = stream_from pos ?fs" using live by (simp add: rx_stream_def)
      show ?thesis
        using live assms(2) read_rounds_stream [OF refl i, of m] rx_adv_live [OF assms(1) live, of "unat m"]
        by (simp add: capwap_fragment_read_block_def capwap_fragment_read_block_from_pos_def g s flip: m_def)
    qed
  qed
qed

interpretation rx: message_reader rx_read_ops rx_stream rx_readerpacketallowed rx_ended rx_adv rx_inv
proof
  fix h :: capwap_packet_rxmng and n :: u16 and k l
  show "rx_inv h \<Longrightarrow> read_ready rx_read_ops h = (if rx_ended h then 0 else rx_readerpacketallowed h)"
    by (simp add: rx_read_ops_def capwap_fragment_read_ready_def rx_ended_def)
  show "rx_inv h \<Longrightarrow> read_u8 rx_read_ops h = Some (bytes_u8 (take (grant (rx_readerpacketallowed h) 1) (rx_stream h)),
      rx_adv (grant (rx_readerpacketallowed h) 1) h)"
    by (simp add: rx_read_ops_def capwap_fragment_read_u8_def rx_read_block)
  show "rx_inv h \<Longrightarrow> read_u16 rx_read_ops h = Some (bytes_u16 (take (grant (rx_readerpacketallowed h) 2) (rx_stream h)),
      rx_adv (grant (rx_readerpacketallowed h) 2) h)"
    by (simp add: rx_read_ops_def capwap_fragment_read_u16_def rx_read_block)
  show "rx_inv h \<Longrightarrow> read_u32 rx_read_ops h = Some (bytes_u32 (take (grant (rx_readerpacketallowed h) 4) (rx_stream h)),
      rx_adv (grant (rx_readerpacketallowed h) 4) h)"
    by (simp add: rx_read_ops_def capwap_fragment_read_u32_def rx_read_block)
  show "rx_inv h \<Longrightarrow> 0 < n \<Longrightarrow> read_block rx_read_ops h n =
      Some (take (grant (rx_readerpacketallowed h) n) (rx_stream h), rx_adv (grant (rx_readerpacketallowed h) n) h)"
    by (simp add: rx_read_ops_def rx_read_block)
  show "read_block rx_read_ops h 0 = None"
    by (simp add: rx_read_ops_def capwap_fragment_read_block_def capwap_fragment_read_block_from_pos_def)
  show "rx_adv 0 h = h" by (simp add: rx_adv_def)
  show "rx_inv h \<Longrightarrow> rx_ended h \<Longrightarrow> rx_stream h = []"
    by (auto simp: rx_ended_def rx_stream_def split: prod.splits)
qed (auto simp: rx_adv_law)

subsection \<open>A packet in one piece\<close>

text \<open>The state after a message arrived in one packet.\<close>

lemma complete_reads:
  assumes "0 < rx_packetlength rx" "rx_fragmentlist rx = [f]" "fragment_ok f"
    and "fragment_payload f = u32_bytes t @ [s] @ u16_bytes l @ [fg] @ body"
  obtains rx' where "capwap_packet_rxmng_complete rx = Some rx'"
    "rx_ctrlmsg rx' = \<lparr>msg_type = t, msg_seq = s, msg_length = l, msg_flags = fg\<rparr>"
    "rx_header rx' = Some (frag_buffer f)" "rx_fragmentlist rx' = [f]" "rx_readerpacketallowed rx' = 0"
    "rx_inv rx'" "rx_stream rx' = body" "rx_readbodypos rx' = rx_readpos rx'"
proof -
  define r where "r = rx\<lparr>rx_readpos := (Some 0, ucast (GET_HLEN_HEADER (frag_buffer f)) * 4),
     rx_header := Some (frag_buffer f), rx_readerpacketallowed := 8\<rparr>"
  have inv: "rx_inv r"
    using assms(2,3) by (simp add: rx_inv_def r_def unat_hlen_times_4 fragment_ok_def)
  have str: "rx_stream r = u32_bytes t @ [s] @ u16_bytes l @ [fg] @ body"
    using assms(2,4) by (simp add: rx_stream_def r_def unat_hlen_times_4 fragment_payload_def)
  have all: "unat (rx_readerpacketallowed r) = 8"
    by (simp add: r_def)
  define r' where "r' = rx_adv 8 r"
  let ?m = "\<lparr>msg_type = t, msg_seq = s, msg_length = l, msg_flags = fg\<rparr>"
  have "capwap_packet_rxmng_complete rx = Some (r'\<lparr>rx_ctrlmsg := ?m, rx_readbodypos := rx_readpos r'\<rparr>)"
    using inv str all assms(1,2)
    by (simp add: capwap_packet_rxmng_complete_def Let_def r'_def flip: r_def)
  moreover have "rx_inv r'" "rx_stream r' = body" "unat (rx_readerpacketallowed r') = 0"
    using inv str all by (simp_all add: r'_def)
  moreover have "rx_fragmentlist r' = [f]" "rx_header r' = Some (frag_buffer f)"
    using assms(2) by (simp_all add: r'_def r_def)
  ultimately show ?thesis
    by (intro that [of "r'\<lparr>rx_ctrlmsg := ?m, rx_readbodypos := rx_readpos r'\<rparr>"]) (simp_all add: unat_eq_0)
qed

lemma recv_single:
  assumes "\<not> IS_FLAG_F_HEADER data" "8 \<le> length data" "length data < 65536"
    and "h = unat (GET_HLEN_HEADER data) * 4" "h \<le> length data"
    and "drop h data = u32_bytes t @ [s] @ u16_bytes l @ [fg] @ body"
  obtains rx where "capwap_packet_rxmng_add_recv_packet capwap_packet_rxmng_create_message data =
      Some (CAPWAP_RECEIVE_COMPLETE_PACKET, rx)"
    "rx_ctrlmsg rx = \<lparr>msg_type = t, msg_seq = s, msg_length = l, msg_flags = fg\<rparr>"
    "rx_header rx = Some data" "rx_inv rx" "rx_stream rx = body" "rx_readbodypos rx = rx_readpos rx"
    "rx_readerpacketallowed rx = 0" "rx_fragmentlist rx = [capwap_packet_rxmng_create_fragment_item data]"
proof -
  let ?f = "capwap_packet_rxmng_create_fragment_item data"
  let ?rx = "capwap_packet_rxmng_create_message\<lparr>rx_fragmentlist := [?f],
    rx_packetlength := of_int (int (length data) - int h)\<rparr>"
  have "8 \<le> length (drop h data)" using assms(6) by simp
  then have "int (length data) - int h = int (length data - h)" "0 < length data - h"
    by simp_all
  moreover have "length data - h < 2 ^ 64" using assms(3) by simp
  ultimately have "of_int (int (length data) - int h) = (of_nat (length data - h) :: 64 word)"
    "unat (of_nat (length data - h) :: 64 word) = length data - h"
    by (simp_all only: of_int_of_nat_eq unat_of_nat) simp
  then have "(0 :: 64 word) < of_int (int (length data) - int h)"
    using \<open>0 < length data - h\<close> by (simp only: word_less_nat_alt unsigned_0)
  then have len: "0 < rx_packetlength ?rx" by simp
  have f: "fragment_ok ?f" "fragment_payload ?f = u32_bytes t @ [s] @ u16_bytes l @ [fg] @ body" "frag_buffer ?f = data"
    using assms by (simp_all add: fragment_ok_def fragment_payload_def capwap_packet_rxmng_create_fragment_item_def)
  have fl: "rx_fragmentlist ?rx = [?f]" by simp
  obtain rx where rx: "capwap_packet_rxmng_complete ?rx = Some rx"
    "rx_ctrlmsg rx = \<lparr>msg_type = t, msg_seq = s, msg_length = l, msg_flags = fg\<rparr>"
    "rx_header rx = Some (frag_buffer ?f)" "rx_fragmentlist rx = [?f]" "rx_readerpacketallowed rx = 0"
    "rx_inv rx" "rx_stream rx = body" "rx_readbodypos rx = rx_readpos rx"
    by (rule complete_reads [OF len fl f(1,2)])
  have "capwap_packet_rxmng_add_recv_packet capwap_packet_rxmng_create_message data =
      Some (CAPWAP_RECEIVE_COMPLETE_PACKET, rx)"
    using assms(1,2) rx(1) \<open>0 < length data - h\<close>
    by (auto simp add: capwap_packet_rxmng_add_recv_packet_def Let_def capwap_packet_rxmng_create_message_def simp flip: assms(4))
  then show ?thesis using rx f(3) by (intro that) auto
qed

subsection \<open>Fragments\<close>

text \<open>
  A fragment that is not the last is collected, or rejected for its size; in no case does it complete a
  message.
\<close>

lemma recv_first_fragment:
  assumes "IS_FLAG_F_HEADER data" "\<not> IS_FLAG_L_HEADER data" "8 \<le> length data"
  shows "capwap_packet_rxmng_add_recv_packet capwap_packet_rxmng_create_message data =
    (if (int (length data) - int (unat (GET_HLEN_HEADER data) * 4)) mod 8 \<noteq> 0
     then Some (CAPWAP_WRONG_FRAGMENT, capwap_packet_rxmng_create_message)
     else Some (CAPWAP_REQUEST_MORE_FRAGMENT,
       capwap_packet_rxmng_create_message\<lparr>rx_fragmentlist := [capwap_packet_rxmng_create_fragment_item data]\<rparr>))"
  using assms by (cases data) (simp_all add: capwap_packet_rxmng_add_recv_packet_def Let_def
      capwap_packet_rxmng_create_message_def order_fragment_def)

lemma mod_8_masked: "(x mod 8 :: u16) AND 0xfff8 = 0"
proof -
  have "x mod 8 = take_bit 3 x" by (simp add: take_bit_eq_mod)
  moreover have "(take_bit 3 x :: u16) AND 0xfff8 = 0"
  proof (rule bit_word_eqI)
    fix n assume "n < LENGTH(16)"
    then consider "n = 0" | "n = 1" | "n = 2" | "3 \<le> n" by fastforce
    then show "bit (take_bit 3 x AND 0xfff8 :: u16) n = bit 0 n"
      by cases (auto simp: bit_simps)
  qed
  ultimately show ?thesis by simp
qed

text \<open>
  The fragment offsets the sender computes are all zero, so the receiver takes the second fragment for a
  second copy of the first one and rejects it.
\<close>

lemma header_fragmented:
  assumes "8 \<le> length b" "b ! 6 AND 0x07 = 0" "y AND 0xfff8 = 0"
  shows "header_of (SET_FLAG_L_HEADER (SET_FRAGMENT_OFFSET_HEADER (SET_FRAGMENT_ID_HEADER (SET_FLAG_F_HEADER b True) fid) y) l) =
    (header_of b)\<lparr>hdr_flag_f := True, hdr_flag_l := l, hdr_frag_id := fid, hdr_frag_off := 0\<rparr>"
proof -
  have "SET_FRAGMENT_ID_HEADER (SET_FLAG_F_HEADER b True) fid ! 6 = b ! 6"
    by (simp add: header_accessor_defs)
  then show ?thesis
    using assms by (simp add: header_of_setters)
qed

lemma header_of_take: "8 \<le> n \<Longrightarrow> header_of (take n b) = header_of b"
  by (rule header_of_cong) simp

lemma clear_fragment_fields_sel [simp]:
  assumes "8 \<le> length b"
  shows "\<not> IS_FLAG_F_HEADER (clear_fragment_fields b)" "GET_HLEN_HEADER (clear_fragment_fields b) = GET_HLEN_HEADER b"
    "GET_WBID_HEADER (clear_fragment_fields b) = GET_WBID_HEADER b"
  by (rule header_cases [OF assms], simp add: clear_fragment_fields_def header_accessor_defs bit_simps)+

lemma two_fragments_rejected:
  assumes "8 \<le> unat (frag_offset f)" "unat (frag_offset f) \<le> length (frag_buffer f)" "frag_buffer f ! 6 AND 0x07 = 0"
    and "8 \<le> unat (frag_offset g)" "unat (frag_offset g) \<le> length (frag_buffer g)" "frag_buffer g ! 6 AND 0x07 = 0"
  shows "capwap_packet_rxmng_create_from_requestfragmentpacket (fragment_packets fid 0 [f, g]) = Some None"
proof -
  let ?m = "frag_offset f mod 8"
  obtain f' g' where fp: "fragment_packets fid 0 [f, g] = [f', g']" and
    f': "f' = f\<lparr>frag_buffer := SET_FLAG_L_HEADER (SET_FRAGMENT_OFFSET_HEADER (SET_FRAGMENT_ID_HEADER
      (SET_FLAG_F_HEADER (frag_buffer f) True) fid) 0) False\<rparr>" and
    g': "g' = g\<lparr>frag_buffer := if ?m = 0 then clear_fragment_fields (frag_buffer g)
      else SET_FLAG_L_HEADER (SET_FRAGMENT_OFFSET_HEADER (SET_FRAGMENT_ID_HEADER
        (SET_FLAG_F_HEADER (frag_buffer g) True) fid) ?m) True\<rparr>"
    by (simp add: Let_def clear_fragment_fields_def)
  define fb gb where "fb = fragment_bytes f'" and "gb = fragment_bytes g'"
  have hf: "header_of fb = (header_of (frag_buffer f))\<lparr>hdr_flag_f := True, hdr_flag_l := False, hdr_frag_id := fid, hdr_frag_off := 0\<rparr>"
    using assms by (simp add: fb_def fragment_bytes_def f' header_of_take header_fragmented)
  have len: "length fb = unat (frag_offset f)" "length gb = unat (frag_offset g)"
    using assms by (simp_all add: fb_def gb_def fragment_bytes_def f' g')
  have first: "capwap_packet_rxmng_add_recv_packet capwap_packet_rxmng_create_message fb \<in>
    {Some (CAPWAP_WRONG_FRAGMENT, capwap_packet_rxmng_create_message), Some (CAPWAP_REQUEST_MORE_FRAGMENT,
       capwap_packet_rxmng_create_message\<lparr>rx_fragmentlist := [capwap_packet_rxmng_create_fragment_item fb]\<rparr>)}"
    using recv_first_fragment [of fb] hf len assms by (auto simp: header_sel)
  let ?rx = "capwap_packet_rxmng_create_message\<lparr>rx_fragmentlist := [capwap_packet_rxmng_create_fragment_item fb]\<rparr>"
  have "\<exists>rx. capwap_packet_rxmng_add_recv_packet ?rx gb = Some (CAPWAP_WRONG_FRAGMENT, rx)"
  proof (cases "?m = 0")
    case True
    then have "\<not> IS_FLAG_F_HEADER gb"
      using assms(4,5) by (simp add: gb_def fragment_bytes_def g' clear_fragment_fields_take)
    then show ?thesis
      using len assms(4) by (auto simp: capwap_packet_rxmng_add_recv_packet_def Let_def)
  next
    case False
    then have hg: "header_of gb = (header_of (frag_buffer g))\<lparr>hdr_flag_f := True, hdr_flag_l := True, hdr_frag_id := fid, hdr_frag_off := 0\<rparr>"
      using assms by (simp add: gb_def fragment_bytes_def g' header_of_take header_fragmented mod_8_masked)
    have "hdr_flag_l (header_of fb) \<noteq> hdr_flag_l (header_of gb)"
      by (simp add: hf hg)
    then have ne: "fb \<noteq> gb" by auto
    then have "order_fragment gb [capwap_packet_rxmng_create_fragment_item fb] = None"
      using hf hg len by (auto simp: order_fragment_def capwap_packet_rxmng_create_fragment_item_def header_sel)
    then show ?thesis
      using hf hg len assms(4)
      by (auto simp: capwap_packet_rxmng_add_recv_packet_def Let_def header_sel capwap_packet_rxmng_create_fragment_item_def)
  qed
  then show ?thesis
    using first fp unfolding fb_def gb_def fragment_bytes_def
    by (auto simp: capwap_packet_rxmng_create_from_requestfragmentpacket_def simp del: fragment_packets.simps)
qed

lemma recv_fragment_more:
  assumes "IS_FLAG_F_HEADER data" "8 \<le> length data"
    and "(int (length data) - int (unat (GET_HLEN_HEADER data) * 4)) mod 8 = 0"
    and "rx_fragmentlist rx \<noteq> [] \<Longrightarrow>
      GET_FRAGMENT_ID_HEADER data = GET_FRAGMENT_ID_HEADER (frag_buffer (rx_fragmentlist rx ! 0))"
    and "order_fragment data (rx_fragmentlist rx) = Some fl"
    and "IS_FLAG_L_HEADER data \<Longrightarrow> fst (sanity_fragments 0 0 fl) = Some CAPWAP_REQUEST_MORE_FRAGMENT"
  obtains rx' where "capwap_packet_rxmng_add_recv_packet rx data = Some (CAPWAP_REQUEST_MORE_FRAGMENT, rx')"
    "rx_fragmentlist rx' = fl"
proof (cases "IS_FLAG_L_HEADER data")
  case True
  obtain len where "sanity_fragments 0 0 fl = (Some CAPWAP_REQUEST_MORE_FRAGMENT, len)"
    using assms(6) [OF True] by (cases "sanity_fragments 0 0 fl") auto
  with True assms(1-5) show ?thesis
    by (intro that [of "rx\<lparr>rx_fragmentlist := fl, rx_packetlength := len\<rparr>"])
      (auto simp: capwap_packet_rxmng_add_recv_packet_def Let_def)
next
  case False
  with assms(1-5) show ?thesis
    by (intro that [of "rx\<lparr>rx_fragmentlist := fl\<rparr>"]) (auto simp: capwap_packet_rxmng_add_recv_packet_def Let_def)
qed

text \<open>
  A message cut in two with the offsets of the protocol, the second fragment at the byte offset where the
  payload of the first one ends, does not complete in either order of arrival.
\<close>

lemma proper_fragments_incomplete:
  assumes "IS_FLAG_F_HEADER d" "\<not> IS_FLAG_L_HEADER d" "GET_FRAGMENT_OFFSET_HEADER d = 0"
    and "IS_FLAG_F_HEADER e" "IS_FLAG_L_HEADER e" "GET_FRAGMENT_ID_HEADER e = GET_FRAGMENT_ID_HEADER d"
    and "length d = unat (GET_HLEN_HEADER d) * 4 + n" "length e = unat (GET_HLEN_HEADER e) * 4 + k"
    and "n mod 8 = 0" "k mod 8 = 0" "0 < n" "length d < 65536" "8 \<le> length d" "8 \<le> length e"
    and "GET_FRAGMENT_OFFSET_HEADER e = of_nat n"
  shows "(do { (_, rx) \<leftarrow> capwap_packet_rxmng_add_recv_packet capwap_packet_rxmng_create_message d;
        (r, _) \<leftarrow> capwap_packet_rxmng_add_recv_packet rx e; Some r }) = Some CAPWAP_REQUEST_MORE_FRAGMENT"
    "(do { (_, rx) \<leftarrow> capwap_packet_rxmng_add_recv_packet capwap_packet_rxmng_create_message e;
        (r, _) \<leftarrow> capwap_packet_rxmng_add_recv_packet rx d; Some r }) = Some CAPWAP_REQUEST_MORE_FRAGMENT"
proof -
  have n: "n < 65536" using assms(7,12) by linarith
  then have on: "0 < (of_nat n :: u16)" "unat (of_nat n :: u16) = n"
    using assms(11) by (simp_all add: word_less_nat_alt)
  have md: "(int (length d) - int (unat (GET_HLEN_HEADER d) * 4)) mod 8 = 0"
    "(int (length e) - int (unat (GET_HLEN_HEADER e) * 4)) mod 8 = 0"
    using assms(7-10) by (simp_all add: zmod_int flip: of_nat_mult) presburger+
  let ?i = capwap_packet_rxmng_create_fragment_item
  have pl: "frag_size (?i d) - ucast (GET_HLEN_HEADER (frag_buffer (?i d))) * 4 = of_nat n"
    by (simp add: capwap_packet_rxmng_create_fragment_item_def assms(7))
  have div: "(of_nat n :: u16) div 8 < of_nat n"
    using on assms(11) by (simp add: word_less_nat_alt unat_div)
  have sd: "fst (sanity_fragments 0 0 [?i d, ?i e]) = Some CAPWAP_REQUEST_MORE_FRAGMENT"
    using assms(3,15) pl div by (simp add: Let_def capwap_packet_rxmng_create_fragment_item_def)
  have se: "fst (sanity_fragments 0 0 [?i e]) = Some CAPWAP_REQUEST_MORE_FRAGMENT"
    using assms(15) on by (simp add: Let_def capwap_packet_rxmng_create_fragment_item_def)
  let ?new = capwap_packet_rxmng_create_message
  have new: "rx_fragmentlist ?new = []"
    by (simp add: capwap_packet_rxmng_create_message_def)
  obtain rd where rd: "capwap_packet_rxmng_add_recv_packet ?new d = Some (CAPWAP_REQUEST_MORE_FRAGMENT, rd)"
    "rx_fragmentlist rd = [?i d]"
    using assms(2) new by (rule_tac recv_fragment_more [OF assms(1,13) md(1), of ?new "[?i d]"]) (auto simp: order_fragment_def)
  obtain re where re: "capwap_packet_rxmng_add_recv_packet ?new e = Some (CAPWAP_REQUEST_MORE_FRAGMENT, re)"
    "rx_fragmentlist re = [?i e]"
    using se new by (rule_tac recv_fragment_more [OF assms(4,14) md(2), of ?new "[?i e]"]) (auto simp: order_fragment_def)
  have b: "frag_buffer (?i x) = x" for x
    by (simp add: capwap_packet_rxmng_create_fragment_item_def)
  obtain rde where "capwap_packet_rxmng_add_recv_packet rd e = Some (CAPWAP_REQUEST_MORE_FRAGMENT, rde)"
    using sd rd(2) assms(3,6,15) on
    by (rule_tac recv_fragment_more [OF assms(4,14) md(2), of rd "[?i d, ?i e]"]) (auto simp: order_fragment_def b)
  with rd(1) show "(do { (_, rx) \<leftarrow> capwap_packet_rxmng_add_recv_packet ?new d;
        (r, _) \<leftarrow> capwap_packet_rxmng_add_recv_packet rx e; Some r }) = Some CAPWAP_REQUEST_MORE_FRAGMENT"
    by simp
  obtain red where "capwap_packet_rxmng_add_recv_packet re d = Some (CAPWAP_REQUEST_MORE_FRAGMENT, red)"
    using re(2) assms(2,3,6,15) on
    by (rule_tac recv_fragment_more [OF assms(1,13) md(1), of re "[?i d, ?i e]"]) (auto simp: order_fragment_def b)
  with re(1) show "(do { (_, rx) \<leftarrow> capwap_packet_rxmng_add_recv_packet ?new e;
        (r, _) \<leftarrow> capwap_packet_rxmng_add_recv_packet rx d; Some r }) = Some CAPWAP_REQUEST_MORE_FRAGMENT"
    by simp
qed

end
