(* ===== verification/Capwap_Element.thy ===== *)
theory Capwap_Element
  imports Capwap_Receive
begin

text \<open>
  Parsing and validating a control message (\<^verbatim>\<open>common/capwap_element.c\<close>): the message elements of the body
  are read one by one into a list of items, one per identifier, and the list is checked for the elements
  its message type requires. The theorem at the end of the parser composes the whole path: what
  \<open>capwap_packet_txmng_add_message_element\<close> writes is what \<open>capwap_parsing_packet\<close> finds.
\<close>

subsection \<open>Parsed messages\<close>

text \<open>The \<open>void* data\<close> of an item: the element, or the array of the elements with this identifier.\<close>

datatype element_data = Data_Single capwap_element | Data_Array "capwap_element list"

record capwap_message_element_itemlist =
  item_id :: capwap_message_element_id
  item_category :: message_element_category
  item_data :: element_data

record capwap_parsed_packet =
  pkt_rxmngpacket :: capwap_packet_rxmng
  pkt_messages :: "capwap_message_element_itemlist list"

definition capwap_get_message_element ::
    "capwap_message_element_itemlist list \<Rightarrow> capwap_message_element_id \<Rightarrow> capwap_message_element_itemlist option" where
  "capwap_get_message_element messages eid = find (\<lambda>item. message_element_id_eq eid (item_id item)) messages"

definition capwap_get_message_element_data ::
    "capwap_message_element_itemlist list \<Rightarrow> capwap_message_element_id \<Rightarrow> element_data option" where
  "capwap_get_message_element_data messages eid = map_option item_data (capwap_get_message_element messages eid)"

subsection \<open>Parsing\<close>

datatype parsing_result = PARSING_COMPLETE | UNRECOGNIZED_MESSAGE_ELEMENT | INVALID_MESSAGE_ELEMENT

definition IS_80211_MESSAGE_ELEMENTS :: "capwap_message_element_id \<Rightarrow> bool" where
  "IS_80211_MESSAGE_ELEMENTS eid \<longleftrightarrow> id_vendor eid = 0 \<and> 1024 \<le> id_type eid \<and> id_type eid \<le> 1048"

text \<open>
  The identifier, the category and the data of the element at the read position, whose type and length
  were read; \<open>Inl\<close> is an early return. \<open>m\<close> is the memory the element and \<open>vendor_id\<close> occupy.
\<close>

definition parsing_element ::
    "junk \<Rightarrow> u16 \<Rightarrow> u16 \<Rightarrow> capwap_packet_rxmng \<Rightarrow>
     ((parsing_result + capwap_message_element_id \<times> message_element_category \<times> capwap_element) \<times>
      capwap_packet_rxmng) option" where
  "parsing_element m type msglength rx =
     (let eid = \<lparr>id_vendor = 0, id_type = type\<rparr>;
          ops = (\<lambda>i. capwap_get_message_element_ops i :: (unit, capwap_packet_rxmng) capwap_message_elements_ops option)
      in if type = CAPWAP_ELEMENT_VENDORPAYLOAD_TYPE then
           if msglength < 7 then Some (Inl INVALID_MESSAGE_ELEMENT, rx)
           else if 2048 < msglength - 6 then Some (Inl INVALID_MESSAGE_ELEMENT, rx)
           else do {
             (v, rx) \<leftarrow> get_u32 rx_read_ops (of_nat (m 0)) rx;
             (t, rx) \<leftarrow> get_u16 rx_read_ops (of_nat (m 1)) rx;
             (case ops \<lparr>id_vendor = v, id_type = t\<rparr> of
                Some read_ops \<Rightarrow> do {
                  (element, rx) \<leftarrow> parse read_ops m rx_read_ops rx;
                  Some (case element of
                      None \<Rightarrow> Inl INVALID_MESSAGE_ELEMENT
                    | Some e \<Rightarrow> Inr (\<lparr>id_vendor = v, id_type = t\<rparr>, category read_ops, e), rx) }
              | None \<Rightarrow> do {
                  read_ops \<leftarrow> ops eid;
                  (element, rx) \<leftarrow>
                    capwap_unknown_vendorpayload_element_parsing m rx_read_ops (msglength - 6) (v, t) rx;
                  Some (case element of
                      None \<Rightarrow> Inl INVALID_MESSAGE_ELEMENT
                    | Some e \<Rightarrow> Inr (eid, category read_ops, High (Vendorpayload e)), rx) }) }
         else (case ops eid of
             None \<Rightarrow> Some (Inl UNRECOGNIZED_MESSAGE_ELEMENT, rx)
           | Some read_ops \<Rightarrow> do {
               (element, rx) \<leftarrow> parse read_ops m rx_read_ops rx;
               Some (case element of
                   None \<Rightarrow> Inl INVALID_MESSAGE_ELEMENT
                 | Some e \<Rightarrow> Inr (eid, category read_ops, e), rx) }))"

text \<open>Appending to the array of the item with this identifier; items of an identifier that is there already.\<close>

fun append_to_array ::
    "capwap_message_element_id \<Rightarrow> capwap_element \<Rightarrow> capwap_message_element_itemlist list \<Rightarrow>
     capwap_message_element_itemlist list" where
  "append_to_array eid e [] = []"
| "append_to_array eid e (item # items) =
     (if message_element_id_eq eid (item_id item)
      then (case item_data item of
              Data_Array es \<Rightarrow> item\<lparr>item_data := Data_Array (es @ [e])\<rparr> # items
            | Data_Single x \<Rightarrow> item # items)
      else item # append_to_array eid e items)"

text \<open>Storing a parsed element; \<open>None\<close> is the rejection of a second element of a single category.\<close>

definition store_element ::
    "capwap_message_element_id \<Rightarrow> message_element_category \<Rightarrow> capwap_element \<Rightarrow>
     capwap_message_element_itemlist list \<Rightarrow> capwap_message_element_itemlist list option" where
  "store_element eid cat e messages =
     (let itemlist = capwap_get_message_element messages eid in
      case cat of
        CAPWAP_MESSAGE_ELEMENT_SINGLE \<Rightarrow>
          if itemlist \<noteq> None then None
          else Some (messages @ [\<lparr>item_id = eid, item_category = cat, item_data = Data_Single e\<rparr>])
      | CAPWAP_MESSAGE_ELEMENT_ARRAY \<Rightarrow>
          if itemlist \<noteq> None then Some (append_to_array eid e messages)
          else Some (messages @ [\<lparr>item_id = eid, item_category = cat, item_data = Data_Array [e]\<rparr>]))"

text \<open>
  The loop \<open>while (bodylength > 0)\<close>; \<open>m i\<close> is the memory that round \<open>i\<close> allocates.
\<close>

partial_function (option) parsing_loop ::
    "(nat \<Rightarrow> junk) \<Rightarrow> u8 \<Rightarrow> nat \<Rightarrow> u16 \<Rightarrow> capwap_packet_rxmng \<Rightarrow> capwap_message_element_itemlist list \<Rightarrow>
     (parsing_result \<times> capwap_packet_rxmng \<times> capwap_message_element_itemlist list) option" where
  "parsing_loop m binding i bodylength rx messages =
     (if \<not> 0 < bodylength then Some (PARSING_COMPLETE, rx, messages)
      else do {
        (type, rx) \<leftarrow> read_u16 rx_read_ops (rx\<lparr>rx_readerpacketallowed := 4\<rparr>);
        (case type of
           None \<Rightarrow> Some (INVALID_MESSAGE_ELEMENT, rx, messages)
         | Some type \<Rightarrow> do {
             (msglength, rx) \<leftarrow> read_u16 rx_read_ops rx;
             (case msglength of
                None \<Rightarrow> Some (INVALID_MESSAGE_ELEMENT, rx, messages)
              | Some msglength \<Rightarrow>
                  if msglength > bodylength then Some (INVALID_MESSAGE_ELEMENT, rx, messages)
                  else if IS_80211_MESSAGE_ELEMENTS \<lparr>id_vendor = 0, id_type = type\<rparr> \<and> binding \<noteq> 1
                  then Some (UNRECOGNIZED_MESSAGE_ELEMENT, rx\<lparr>rx_readerpacketallowed := msglength\<rparr>, messages)
                  else do {
                    (r, rx) \<leftarrow> parsing_element (m i) type msglength (rx\<lparr>rx_readerpacketallowed := msglength\<rparr>);
                    (case r of
                       Inl result \<Rightarrow> Some (result, rx, messages)
                     | Inr (eid, cat, e) \<Rightarrow>
                         (case store_element eid cat e messages of
                            None \<Rightarrow> Some (INVALID_MESSAGE_ELEMENT, rx, messages)
                          | Some messages \<Rightarrow>
                              if rx_readerpacketallowed rx \<noteq> 0 then Some (INVALID_MESSAGE_ELEMENT, rx, messages)
                              else parsing_loop m binding (Suc i) (bodylength - (msglength + 4)) rx messages)) }) }) })"

definition capwap_parsing_packet ::
    "(nat \<Rightarrow> junk) \<Rightarrow> capwap_packet_rxmng \<Rightarrow> (parsing_result \<times> capwap_parsed_packet) option" where
  "capwap_parsing_packet m rx = do {
     header \<leftarrow> rx_header rx;
     let binding = GET_WBID_HEADER header;
     let rx = rx\<lparr>rx_readpos := rx_readbodypos rx\<rparr>;
     (result, rx, messages) \<leftarrow> parsing_loop m binding 0 (msg_length (rx_ctrlmsg rx) - 3) rx [];
     Some (result, \<lparr>pkt_rxmngpacket = rx, pkt_messages = messages\<rparr>) }"

subsection \<open>Validation\<close>

abbreviation CAPWAP_ELEMENT_ACDESCRIPTION :: capwap_message_element_id where
  "CAPWAP_ELEMENT_ACDESCRIPTION \<equiv> \<lparr>id_vendor = 0, id_type = 1\<rparr>"

abbreviation CAPWAP_ELEMENT_ACIPV4LIST :: capwap_message_element_id where
  "CAPWAP_ELEMENT_ACIPV4LIST \<equiv> \<lparr>id_vendor = 0, id_type = 2\<rparr>"

abbreviation CAPWAP_ELEMENT_ACIPV6LIST :: capwap_message_element_id where
  "CAPWAP_ELEMENT_ACIPV6LIST \<equiv> \<lparr>id_vendor = 0, id_type = 3\<rparr>"

abbreviation CAPWAP_ELEMENT_ACNAME :: capwap_message_element_id where
  "CAPWAP_ELEMENT_ACNAME \<equiv> \<lparr>id_vendor = 0, id_type = 4\<rparr>"

abbreviation CAPWAP_ELEMENT_ACNAMEPRIORITY :: capwap_message_element_id where
  "CAPWAP_ELEMENT_ACNAMEPRIORITY \<equiv> \<lparr>id_vendor = 0, id_type = 5\<rparr>"

abbreviation CAPWAP_ELEMENT_ACTIMESTAMP :: capwap_message_element_id where
  "CAPWAP_ELEMENT_ACTIMESTAMP \<equiv> \<lparr>id_vendor = 0, id_type = 6\<rparr>"

abbreviation CAPWAP_ELEMENT_ADDMACACL :: capwap_message_element_id where
  "CAPWAP_ELEMENT_ADDMACACL \<equiv> \<lparr>id_vendor = 0, id_type = 7\<rparr>"

abbreviation CAPWAP_ELEMENT_ADDSTATION :: capwap_message_element_id where
  "CAPWAP_ELEMENT_ADDSTATION \<equiv> \<lparr>id_vendor = 0, id_type = 8\<rparr>"

abbreviation CAPWAP_ELEMENT_CONTROLIPV4 :: capwap_message_element_id where
  "CAPWAP_ELEMENT_CONTROLIPV4 \<equiv> \<lparr>id_vendor = 0, id_type = 10\<rparr>"

abbreviation CAPWAP_ELEMENT_CONTROLIPV6 :: capwap_message_element_id where
  "CAPWAP_ELEMENT_CONTROLIPV6 \<equiv> \<lparr>id_vendor = 0, id_type = 11\<rparr>"

abbreviation CAPWAP_ELEMENT_TIMERS :: capwap_message_element_id where
  "CAPWAP_ELEMENT_TIMERS \<equiv> \<lparr>id_vendor = 0, id_type = 12\<rparr>"

abbreviation CAPWAP_ELEMENT_DECRYPTERRORREPORTPERIOD :: capwap_message_element_id where
  "CAPWAP_ELEMENT_DECRYPTERRORREPORTPERIOD \<equiv> \<lparr>id_vendor = 0, id_type = 16\<rparr>"

abbreviation CAPWAP_ELEMENT_DELETEMACACL :: capwap_message_element_id where
  "CAPWAP_ELEMENT_DELETEMACACL \<equiv> \<lparr>id_vendor = 0, id_type = 17\<rparr>"

abbreviation CAPWAP_ELEMENT_DELETESTATION :: capwap_message_element_id where
  "CAPWAP_ELEMENT_DELETESTATION \<equiv> \<lparr>id_vendor = 0, id_type = 18\<rparr>"

abbreviation CAPWAP_ELEMENT_DISCOVERYTYPE :: capwap_message_element_id where
  "CAPWAP_ELEMENT_DISCOVERYTYPE \<equiv> \<lparr>id_vendor = 0, id_type = 20\<rparr>"

abbreviation CAPWAP_ELEMENT_DUPLICATEIPV4 :: capwap_message_element_id where
  "CAPWAP_ELEMENT_DUPLICATEIPV4 \<equiv> \<lparr>id_vendor = 0, id_type = 21\<rparr>"

abbreviation CAPWAP_ELEMENT_DUPLICATEIPV6 :: capwap_message_element_id where
  "CAPWAP_ELEMENT_DUPLICATEIPV6 \<equiv> \<lparr>id_vendor = 0, id_type = 22\<rparr>"

abbreviation CAPWAP_ELEMENT_IDLETIMEOUT :: capwap_message_element_id where
  "CAPWAP_ELEMENT_IDLETIMEOUT \<equiv> \<lparr>id_vendor = 0, id_type = 23\<rparr>"

abbreviation CAPWAP_ELEMENT_IMAGEIDENTIFIER :: capwap_message_element_id where
  "CAPWAP_ELEMENT_IMAGEIDENTIFIER \<equiv> \<lparr>id_vendor = 0, id_type = 25\<rparr>"

abbreviation CAPWAP_ELEMENT_LOCATION :: capwap_message_element_id where
  "CAPWAP_ELEMENT_LOCATION \<equiv> \<lparr>id_vendor = 0, id_type = 28\<rparr>"

abbreviation CAPWAP_ELEMENT_LOCALIPV4 :: capwap_message_element_id where
  "CAPWAP_ELEMENT_LOCALIPV4 \<equiv> \<lparr>id_vendor = 0, id_type = 30\<rparr>"

abbreviation CAPWAP_ELEMENT_RADIOADMSTATE :: capwap_message_element_id where
  "CAPWAP_ELEMENT_RADIOADMSTATE \<equiv> \<lparr>id_vendor = 0, id_type = 31\<rparr>"

abbreviation CAPWAP_ELEMENT_RADIOOPRSTATE :: capwap_message_element_id where
  "CAPWAP_ELEMENT_RADIOOPRSTATE \<equiv> \<lparr>id_vendor = 0, id_type = 32\<rparr>"

abbreviation CAPWAP_ELEMENT_RESULTCODE :: capwap_message_element_id where
  "CAPWAP_ELEMENT_RESULTCODE \<equiv> \<lparr>id_vendor = 0, id_type = 33\<rparr>"

abbreviation CAPWAP_ELEMENT_SESSIONID :: capwap_message_element_id where
  "CAPWAP_ELEMENT_SESSIONID \<equiv> \<lparr>id_vendor = 0, id_type = 35\<rparr>"

abbreviation CAPWAP_ELEMENT_STATISTICSTIMER :: capwap_message_element_id where
  "CAPWAP_ELEMENT_STATISTICSTIMER \<equiv> \<lparr>id_vendor = 0, id_type = 36\<rparr>"

abbreviation CAPWAP_ELEMENT_VENDORPAYLOAD :: capwap_message_element_id where
  "CAPWAP_ELEMENT_VENDORPAYLOAD \<equiv> \<lparr>id_vendor = 0, id_type = 37\<rparr>"

abbreviation CAPWAP_ELEMENT_WTPBOARDDATA :: capwap_message_element_id where
  "CAPWAP_ELEMENT_WTPBOARDDATA \<equiv> \<lparr>id_vendor = 0, id_type = 38\<rparr>"

abbreviation CAPWAP_ELEMENT_WTPDESCRIPTOR :: capwap_message_element_id where
  "CAPWAP_ELEMENT_WTPDESCRIPTOR \<equiv> \<lparr>id_vendor = 0, id_type = 39\<rparr>"

abbreviation CAPWAP_ELEMENT_WTPFALLBACK :: capwap_message_element_id where
  "CAPWAP_ELEMENT_WTPFALLBACK \<equiv> \<lparr>id_vendor = 0, id_type = 40\<rparr>"

abbreviation CAPWAP_ELEMENT_WTPFRAMETUNNELMODE :: capwap_message_element_id where
  "CAPWAP_ELEMENT_WTPFRAMETUNNELMODE \<equiv> \<lparr>id_vendor = 0, id_type = 41\<rparr>"

abbreviation CAPWAP_ELEMENT_WTPMACTYPE :: capwap_message_element_id where
  "CAPWAP_ELEMENT_WTPMACTYPE \<equiv> \<lparr>id_vendor = 0, id_type = 44\<rparr>"

abbreviation CAPWAP_ELEMENT_WTPNAME :: capwap_message_element_id where
  "CAPWAP_ELEMENT_WTPNAME \<equiv> \<lparr>id_vendor = 0, id_type = 45\<rparr>"

abbreviation CAPWAP_ELEMENT_WTPRADIOSTAT :: capwap_message_element_id where
  "CAPWAP_ELEMENT_WTPRADIOSTAT \<equiv> \<lparr>id_vendor = 0, id_type = 47\<rparr>"

abbreviation CAPWAP_ELEMENT_WTPREBOOTSTAT :: capwap_message_element_id where
  "CAPWAP_ELEMENT_WTPREBOOTSTAT \<equiv> \<lparr>id_vendor = 0, id_type = 48\<rparr>"

abbreviation CAPWAP_ELEMENT_WTPSTATICIPADDRESS :: capwap_message_element_id where
  "CAPWAP_ELEMENT_WTPSTATICIPADDRESS \<equiv> \<lparr>id_vendor = 0, id_type = 49\<rparr>"

abbreviation CAPWAP_ELEMENT_LOCALIPV6 :: capwap_message_element_id where
  "CAPWAP_ELEMENT_LOCALIPV6 \<equiv> \<lparr>id_vendor = 0, id_type = 50\<rparr>"

abbreviation CAPWAP_ELEMENT_ECNSUPPORT :: capwap_message_element_id where
  "CAPWAP_ELEMENT_ECNSUPPORT \<equiv> \<lparr>id_vendor = 0, id_type = 53\<rparr>"

abbreviation CAPWAP_ELEMENT_80211_ADD_WLAN :: capwap_message_element_id where
  "CAPWAP_ELEMENT_80211_ADD_WLAN \<equiv> \<lparr>id_vendor = 0, id_type = 1024\<rparr>"

abbreviation CAPWAP_ELEMENT_80211_DELETE_WLAN :: capwap_message_element_id where
  "CAPWAP_ELEMENT_80211_DELETE_WLAN \<equiv> \<lparr>id_vendor = 0, id_type = 1027\<rparr>"

abbreviation CAPWAP_ELEMENT_80211_STATION :: capwap_message_element_id where
  "CAPWAP_ELEMENT_80211_STATION \<equiv> \<lparr>id_vendor = 0, id_type = 1036\<rparr>"

abbreviation CAPWAP_ELEMENT_80211_UPDATE_WLAN :: capwap_message_element_id where
  "CAPWAP_ELEMENT_80211_UPDATE_WLAN \<equiv> \<lparr>id_vendor = 0, id_type = 1044\<rparr>"

abbreviation CAPWAP_ELEMENT_80211_WTPRADIOINFORMATION :: capwap_message_element_id where
  "CAPWAP_ELEMENT_80211_WTPRADIOINFORMATION \<equiv> \<lparr>id_vendor = 0, id_type = 1048\<rparr>"

definition CAPWAP_RESULTCODE_OK :: "u32 \<Rightarrow> bool" where
  "CAPWAP_RESULTCODE_OK x \<longleftrightarrow> x = 0 \<or> x = 2"

text \<open>\<open>resultcode && !CAPWAP_RESULTCODE_OK(resultcode->code)\<close>\<close>

definition resultcode_error :: "capwap_parsed_packet \<Rightarrow> bool" where
  "resultcode_error packet \<longleftrightarrow>
     (case capwap_get_message_element_data (pkt_messages packet) CAPWAP_ELEMENT_RESULTCODE of
        Some (Data_Single (High (Resultcode r))) \<Rightarrow> \<not> CAPWAP_RESULTCODE_OK (resultcode_code r)
      | _ \<Rightarrow> False)"

text \<open>
  The cases of the \<open>switch\<close> in which the function returns 0: \<open>has\<close> tells which elements are there,
  \<open>error\<close> whether the result code is one of a failure.
\<close>

definition elements_required ::
    "nat \<Rightarrow> u8 \<Rightarrow> (capwap_message_element_id \<Rightarrow> bool) \<Rightarrow> bool \<Rightarrow> bool" where
  "elements_required t binding has error \<longleftrightarrow>
     (if t = 1 then
         has CAPWAP_ELEMENT_DISCOVERYTYPE \<and> has CAPWAP_ELEMENT_WTPBOARDDATA \<and> has
         CAPWAP_ELEMENT_WTPDESCRIPTOR \<and> has CAPWAP_ELEMENT_WTPFRAMETUNNELMODE \<and> has
         CAPWAP_ELEMENT_WTPMACTYPE \<and> (binding = 1 \<longrightarrow> has
         CAPWAP_ELEMENT_80211_WTPRADIOINFORMATION)
       else if t = 2 then
         (has CAPWAP_ELEMENT_ACDESCRIPTION \<and> has CAPWAP_ELEMENT_ACNAME \<and> (has
         CAPWAP_ELEMENT_CONTROLIPV4 \<or> has CAPWAP_ELEMENT_CONTROLIPV6)) \<or> error
       else if t = 3 then
         has CAPWAP_ELEMENT_LOCATION \<and> has CAPWAP_ELEMENT_WTPBOARDDATA \<and> has
         CAPWAP_ELEMENT_WTPDESCRIPTOR \<and> has CAPWAP_ELEMENT_WTPNAME \<and> has CAPWAP_ELEMENT_SESSIONID
         \<and> has CAPWAP_ELEMENT_WTPFRAMETUNNELMODE \<and> has CAPWAP_ELEMENT_WTPMACTYPE \<and> has
         CAPWAP_ELEMENT_ECNSUPPORT \<and> (has CAPWAP_ELEMENT_LOCALIPV4 \<or> has CAPWAP_ELEMENT_LOCALIPV6)
         \<and> (binding = 1 \<longrightarrow> has CAPWAP_ELEMENT_80211_WTPRADIOINFORMATION)
       else if t = 4 then
         (has CAPWAP_ELEMENT_RESULTCODE \<and> has CAPWAP_ELEMENT_ACDESCRIPTION \<and> has
         CAPWAP_ELEMENT_ACNAME \<and> has CAPWAP_ELEMENT_ECNSUPPORT \<and> (has CAPWAP_ELEMENT_CONTROLIPV4
         \<or> has CAPWAP_ELEMENT_CONTROLIPV6) \<and> (has CAPWAP_ELEMENT_LOCALIPV4 \<or> has
         CAPWAP_ELEMENT_LOCALIPV6)) \<or> error
       else if t = 5 then
         has CAPWAP_ELEMENT_ACNAME \<and> has CAPWAP_ELEMENT_RADIOADMSTATE \<and> has
         CAPWAP_ELEMENT_STATISTICSTIMER \<and> has CAPWAP_ELEMENT_WTPREBOOTSTAT \<and> (binding = 1
         \<longrightarrow> has CAPWAP_ELEMENT_80211_WTPRADIOINFORMATION)
       else if t = 6 then
         (has CAPWAP_ELEMENT_TIMERS \<and> has CAPWAP_ELEMENT_DECRYPTERRORREPORTPERIOD \<and> has
         CAPWAP_ELEMENT_IDLETIMEOUT \<and> has CAPWAP_ELEMENT_WTPFALLBACK \<and> (has
         CAPWAP_ELEMENT_ACIPV4LIST \<or> has CAPWAP_ELEMENT_ACIPV6LIST)) \<or> error
       else if t = 7 then
         has CAPWAP_ELEMENT_ACNAMEPRIORITY \<or> has CAPWAP_ELEMENT_ACTIMESTAMP \<or> has
         CAPWAP_ELEMENT_ADDMACACL \<or> has CAPWAP_ELEMENT_TIMERS \<or> has
         CAPWAP_ELEMENT_DECRYPTERRORREPORTPERIOD \<or> has CAPWAP_ELEMENT_DELETEMACACL \<or> has
         CAPWAP_ELEMENT_IDLETIMEOUT \<or> has CAPWAP_ELEMENT_LOCATION \<or> has CAPWAP_ELEMENT_RADIOADMSTATE
         \<or> has CAPWAP_ELEMENT_STATISTICSTIMER \<or> has CAPWAP_ELEMENT_WTPFALLBACK \<or> has
         CAPWAP_ELEMENT_WTPNAME \<or> has CAPWAP_ELEMENT_WTPSTATICIPADDRESS \<or> has
         CAPWAP_ELEMENT_IMAGEIDENTIFIER \<or> has CAPWAP_ELEMENT_VENDORPAYLOAD
       else if t = 8 then
         True
       else if t = 9 then
         has CAPWAP_ELEMENT_DECRYPTERRORREPORTPERIOD \<or> has CAPWAP_ELEMENT_DUPLICATEIPV4 \<or> has
         CAPWAP_ELEMENT_DUPLICATEIPV6 \<or> has CAPWAP_ELEMENT_WTPRADIOSTAT \<or> has
         CAPWAP_ELEMENT_WTPREBOOTSTAT \<or> has CAPWAP_ELEMENT_DELETESTATION \<or> has
         CAPWAP_ELEMENT_VENDORPAYLOAD
       else if t = 10 then
         True
       else if t = 11 then
         has CAPWAP_ELEMENT_RADIOOPRSTATE \<and> has CAPWAP_ELEMENT_RESULTCODE
       else if t = 12 then
         True
       else if t = 13 then
         True
       else if t = 14 then
         True
       else if t = 15 then
         True
       else if t = 16 then
         has CAPWAP_ELEMENT_RESULTCODE
       else if t = 17 then
         has CAPWAP_ELEMENT_IMAGEIDENTIFIER
       else if t = 18 then
         True
       else if t = 19 then
         has CAPWAP_ELEMENT_DISCOVERYTYPE \<and> has CAPWAP_ELEMENT_WTPBOARDDATA \<and> has
         CAPWAP_ELEMENT_WTPDESCRIPTOR \<and> has CAPWAP_ELEMENT_WTPFRAMETUNNELMODE \<and> has
         CAPWAP_ELEMENT_WTPMACTYPE \<and> (binding = 1 \<longrightarrow> has
         CAPWAP_ELEMENT_80211_WTPRADIOINFORMATION)
       else if t = 20 then
         (has CAPWAP_ELEMENT_ACDESCRIPTION \<and> has CAPWAP_ELEMENT_ACNAME \<and> (has
         CAPWAP_ELEMENT_CONTROLIPV4 \<or> has CAPWAP_ELEMENT_CONTROLIPV6)) \<or> error
       else if t = 21 then
         False
       else if t = 22 then
         has CAPWAP_ELEMENT_RESULTCODE
       else if t = 23 then
         True
       else if t = 24 then
         has CAPWAP_ELEMENT_RESULTCODE
       else if t = 25 then
         (if has CAPWAP_ELEMENT_ADDSTATION then binding = 1 \<longrightarrow> has CAPWAP_ELEMENT_80211_STATION
         else has CAPWAP_ELEMENT_DELETESTATION)
       else if t = 26 then
         has CAPWAP_ELEMENT_RESULTCODE
       else if t = 3398913 then
         has CAPWAP_ELEMENT_80211_ADD_WLAN \<or> has CAPWAP_ELEMENT_80211_UPDATE_WLAN \<or> has
         CAPWAP_ELEMENT_80211_DELETE_WLAN
       else if t = 3398914 then
         has CAPWAP_ELEMENT_RESULTCODE
       else False)"

definition capwap_validate_parsed_packet :: "capwap_parsed_packet \<Rightarrow> int option" where
  "capwap_validate_parsed_packet packet = do {
     header \<leftarrow> rx_header (pkt_rxmngpacket packet);
     Some (if elements_required (unat (msg_type (rx_ctrlmsg (pkt_rxmngpacket packet)))) (GET_WBID_HEADER header)
             (\<lambda>eid. capwap_get_message_element (pkt_messages packet) eid \<noteq> None) (resultcode_error packet)
           then 0 else -1) }"

subsection \<open>Parsing what was sent\<close>

text \<open>
  The elements that survive the way through a message: a vendor payload must not carry the identifier of
  an element that has a parser of its own, and the elements of a vendor must fit into a vendor payload.
\<close>

definition vendor_has_parser :: "capwap_vendorpayload_element \<Rightarrow> bool" where
  "vendor_has_parser v \<longleftrightarrow>
     (capwap_get_message_element_ops \<lparr>id_vendor = vendorpayload_vendorid v, id_type = vendorpayload_elementid v\<rparr>
       :: (unit, capwap_packet_rxmng) capwap_message_elements_ops option) \<noteq> None"

definition element_sendable :: "capwap_element \<Rightarrow> bool" where
  "element_sendable e \<longleftrightarrow> element_valid e \<and>
     (case e of
        High x \<Rightarrow> is_Vendorpayload x \<longrightarrow> \<not> vendor_has_parser (the_vendorpayload x)
      | Travelping x \<Rightarrow> 0 < length (travelping_wire x) \<and> length (travelping_wire x) \<le> 2048
      | _ \<Rightarrow> True)"

abbreviation element_category :: "capwap_element \<Rightarrow> message_element_category" where
  "element_category e \<equiv> category (ops_of_element e :: (unit, capwap_packet_rxmng) capwap_message_elements_ops)"

lemma sendable_valid: "element_sendable e \<Longrightarrow> element_valid e"
  by (simp add: element_sendable_def)

definition wire_type :: "capwap_element \<Rightarrow> u16" where
  "wire_type e = (if id_vendor (element_id e) \<noteq> 0 then CAPWAP_ELEMENT_VENDORPAYLOAD_TYPE else id_type (element_id e))"

lemma low_type_not_vendor: "low_type x \<noteq> 37"
  by (cases x) simp_all

lemma high_type_vendor: "high_type x = 37 \<longleftrightarrow> is_Vendorpayload x"
  by (cases x) simp_all

lemma ieee80211_type_not_vendor: "ieee80211_type x \<noteq> 37"
  by (cases x) simp_all

lemma parsing_element_plain:
  assumes "rx_inv rx" "rx_stream rx = element_wire e @ rest" "unat (rx_readerpacketallowed rx) = length (element_wire e)"
    and "element_valid e" "id_vendor (element_id e) = 0" "id_type (element_id e) \<noteq> 37"
  shows "parsing_element m (id_type (element_id e)) n rx =
    Some (Inr (element_id e, element_category e, e), rx_adv (length (element_wire e)) rx)"
proof -
  have eid: "\<lparr>id_vendor = 0, id_type = id_type (element_id e)\<rparr> = element_id e"
    using assms(5) by simp
  have "parse (ops_of_element e :: (unit, capwap_packet_rxmng) capwap_message_elements_ops) m rx_read_ops rx =
      Some (Some e, rx_adv (length (element_wire e)) rx)"
    by (rule rx.element_parsed [OF assms(1-4)])
  then show ?thesis
    using assms by (simp add: eid parsing_element_def Let_def CAPWAP_ELEMENT_VENDORPAYLOAD_TYPE_def element_lookup)
qed

lemma parsing_element_vendor:
  assumes "rx_inv rx" "rx_stream rx = vendorpayload_wire v @ rest"
    and "unat (rx_readerpacketallowed rx) = length (vendorpayload_wire v)"
    and "vendorpayload_valid v" "\<not> vendor_has_parser v" "unat n = length (vendorpayload_wire v)"
  shows "parsing_element m 37 n rx =
    Some (Inr (element_id (High (Vendorpayload v)), element_category (High (Vendorpayload v)), High (Vendorpayload v)),
      rx_adv (length (vendorpayload_wire v)) rx)"
  using assms element_lookup [of "High (Vendorpayload v)", where 'a = unit and 'b = capwap_packet_rxmng]
  by (cases v) (auto simp: parsing_element_def CAPWAP_ELEMENT_VENDORPAYLOAD_TYPE_def capwap_unknown_vendorpayload_element_parsing_def
      vendorpayload_wire_def vendorpayload_valid_def u16_nat Let_def vendor_has_parser_def)

lemma parsing_element_travelping:
  assumes "rx_inv rx" "rx_stream rx = element_payload (Travelping x) @ rest"
    and "unat (rx_readerpacketallowed rx) = length (element_payload (Travelping x))"
    and "element_sendable (Travelping x)" "unat n = length (element_payload (Travelping x))"
  shows "parsing_element m 37 n rx =
    Some (Inr (element_id (Travelping x), element_category (Travelping x), Travelping x),
      rx_adv (length (element_payload (Travelping x))) rx)"
proof -
  have p: "element_payload (Travelping x) = u32_bytes 18681 @ u16_bytes (travelping_type x) @ travelping_wire x"
    by (simp add: element_payload_def)
  define rx' where "rx' = rx_adv 6 rx"
  have "parse (ops_of_element (Travelping x) :: (unit, capwap_packet_rxmng) capwap_message_elements_ops) m rx_read_ops rx' =
      Some (Some (Travelping x), rx_adv (length (element_wire (Travelping x))) rx')"
    using assms p by (intro rx.element_parsed [where rest = rest]) (auto simp: rx'_def element_sendable_def)
  then show ?thesis
    using assms p element_lookup [of "Travelping x", where 'a = unit and 'b = capwap_packet_rxmng]
    by (auto simp: parsing_element_def CAPWAP_ELEMENT_VENDORPAYLOAD_TYPE_def u16_nat Let_def rx'_def element_sendable_def)
qed

lemma parsing_element_sent:
  assumes "rx_inv rx" "rx_stream rx = element_payload e @ rest" "unat (rx_readerpacketallowed rx) = length (element_payload e)"
    and "element_sendable e" "unat n = length (element_payload e)"
  shows "parsing_element m (wire_type e) n rx =
    Some (Inr (element_id e, element_category e, e), rx_adv (length (element_payload e)) rx)"
proof -
  have valid: "element_valid e"
    using assms(4) by (rule sendable_valid)
  consider v where "e = High (Vendorpayload v)" | x where "e = Travelping x"
    | "id_vendor (element_id e) = 0" "id_type (element_id e) \<noteq> 37"
    by (cases e; cases "\<exists>v. e = High (Vendorpayload v)")
      (auto simp: low_type_not_vendor high_type_vendor ieee80211_type_not_vendor is_Vendorpayload_def)
  then show ?thesis
  proof cases
    case (1 v)
    then show ?thesis
      using assms parsing_element_vendor [of rx v rest n m]
      by (simp add: element_payload_def wire_type_def element_sendable_def)
  next
    case (2 x)
    then show ?thesis
      using assms parsing_element_travelping [of rx x rest n m]
      by (simp add: wire_type_def CAPWAP_ELEMENT_VENDORPAYLOAD_TYPE_def)
  next
    case 3
    then show ?thesis
      using assms valid parsing_element_plain [of rx e rest m n]
      by (simp add: element_payload_def wire_type_def)
  qed
qed

text \<open>
  What the items hold: for every identifier the element, or all elements in the order they were sent.
\<close>

definition element_items :: "capwap_element list \<Rightarrow> capwap_message_element_id \<Rightarrow> element_data option" where
  "element_items es eid =
     (case filter (\<lambda>e. element_id e = eid) es of
        [] \<Rightarrow> None
      | x # xs \<Rightarrow> Some (case element_category x of
            CAPWAP_MESSAGE_ELEMENT_SINGLE \<Rightarrow> Data_Single x
          | CAPWAP_MESSAGE_ELEMENT_ARRAY \<Rightarrow> Data_Array (x # xs)))"

definition single_once :: "capwap_element list \<Rightarrow> bool" where
  "single_once es \<longleftrightarrow> distinct (map element_id (filter (\<lambda>e. element_category e = CAPWAP_MESSAGE_ELEMENT_SINGLE) es))"

lemma message_element_id_eq_iff [simp]: "message_element_id_eq a b \<longleftrightarrow> a = b"
  by (cases a; cases b) (simp add: message_element_id_eq_def)

lemma same_category: "element_id e = element_id f \<Longrightarrow> element_category e = element_category f"
  by (metis element_lookup option.inject)

lemma get_data_Cons:
  "capwap_get_message_element_data (x # xs) eid =
     (if eid = item_id x then Some (item_data x) else capwap_get_message_element_data xs eid)"
  by (simp add: capwap_get_message_element_data_def capwap_get_message_element_def)

lemma get_data_append:
  "capwap_get_message_element_data (xs @ [x]) eid =
     (case capwap_get_message_element_data xs eid of
        Some d \<Rightarrow> Some d | None \<Rightarrow> if eid = item_id x then Some (item_data x) else None)"
  by (induction xs) (simp_all add: get_data_Cons capwap_get_message_element_data_def capwap_get_message_element_def)

lemma get_data_append_to_array:
  "capwap_get_message_element_data (append_to_array eid e xs) i =
     (if i = eid then case capwap_get_message_element_data xs eid of
          Some (Data_Array es) \<Rightarrow> Some (Data_Array (es @ [e])) | d \<Rightarrow> d
      else capwap_get_message_element_data xs i)"
  by (induction xs)
    (auto simp: get_data_Cons capwap_get_message_element_data_def capwap_get_message_element_def split: element_data.splits option.splits)

lemma get_element_None:
  "capwap_get_message_element xs eid = None \<longleftrightarrow> capwap_get_message_element_data xs eid = None"
  by (simp add: capwap_get_message_element_data_def)

lemma store_element_items:
  assumes "\<And>i. capwap_get_message_element_data ms i = element_items ps i" "single_once (ps @ [e])"
  obtains ms' where "store_element (element_id e) (element_category e) e ms = Some ms'"
    "\<And>i. capwap_get_message_element_data ms' i = element_items (ps @ [e]) i"
proof (cases "filter (\<lambda>x. element_id x = element_id e) ps")
  case Nil
  then have none: "capwap_get_message_element ms (element_id e) = None"
    using assms(1) by (simp add: get_element_None element_items_def)
  let ?d = "case element_category e of CAPWAP_MESSAGE_ELEMENT_SINGLE \<Rightarrow> Data_Single e
     | CAPWAP_MESSAGE_ELEMENT_ARRAY \<Rightarrow> Data_Array [e]"
  let ?ms = "ms @ [\<lparr>item_id = element_id e, item_category = element_category e, item_data = ?d\<rparr>]"
  have "store_element (element_id e) (element_category e) e ms = Some ?ms"
    using none by (auto simp: store_element_def split: message_element_category.splits)
  moreover have "capwap_get_message_element_data ?ms i = element_items (ps @ [e]) i" for i
    using assms(1) Nil by (auto simp: get_data_append element_items_def split: list.splits)
  ultimately show ?thesis using that by blast
next
  case (Cons x xs)
  then have x: "x \<in> set ps" "element_id x = element_id e"
    by (auto dest: filter_eq_ConsD)
  then have cat: "element_category x = element_category e" by (intro same_category)
  have arr: "element_category e = CAPWAP_MESSAGE_ELEMENT_ARRAY"
    using assms(2) x cat by (cases "element_category e") (auto simp: single_once_def image_iff)
  have some: "capwap_get_message_element ms (element_id e) \<noteq> None"
    using assms(1) Cons by (simp add: get_element_None element_items_def)
  have "store_element (element_id e) (element_category e) e ms = Some (append_to_array (element_id e) e ms)"
    using some arr by (simp add: store_element_def)
  moreover have "capwap_get_message_element_data (append_to_array (element_id e) e ms) i = element_items (ps @ [e]) i" for i
    using assms(1) Cons arr cat by (auto simp: get_data_append_to_array element_items_def split: list.splits)
  ultimately show ?thesis using that by blast
qed

definition binding_accepts :: "u8 \<Rightarrow> capwap_element \<Rightarrow> bool" where
  "binding_accepts binding e \<longleftrightarrow>
     (IS_80211_MESSAGE_ELEMENTS \<lparr>id_vendor = 0, id_type = wire_type e\<rparr> \<longrightarrow> binding = 1)"

text \<open>One round of the loop, at an element that was sent.\<close>

lemma parsing_round:
  assumes "rx_inv rx" "rx_stream rx = element_tlv e @ rest" "element_sendable e" "binding_accepts binding e"
    and "0 < n" "length (element_payload e) \<le> unat n"
    and "store_element (element_id e) (element_category e) e ms = Some ms'"
  obtains rx' where "rx_inv rx'" "rx_stream rx' = rest"
    "\<And>p a. rx'\<lparr>rx_readpos := p, rx_readerpacketallowed := a\<rparr> = rx\<lparr>rx_readpos := p, rx_readerpacketallowed := a\<rparr>"
    "parsing_loop m binding i n rx ms =
       parsing_loop m binding (Suc i) (n - (of_nat (length (element_payload e)) + 4)) rx' ms'"
proof -
  let ?L = "length (element_payload e)"
  have tlv: "element_tlv e = u16_bytes (wire_type e) @ u16_bytes (of_nat ?L) @ element_payload e"
    by (simp add: element_tlv_def wire_type_def)
  have L: "?L < 65536"
    using assms(6) unat_u16_less [of n] by linarith
  define rx1 where "rx1 = rx\<lparr>rx_readerpacketallowed := 4\<rparr>"
  have rx1: "rx_inv rx1" "rx_stream rx1 = u16_bytes (wire_type e) @ u16_bytes (of_nat ?L) @ element_payload e @ rest"
    "unat (rx_readerpacketallowed rx1) = 4"
    using assms(1,2) by (simp_all add: rx1_def tlv)
  have r1: "read_u16 rx_read_ops rx1 = Some (Some (wire_type e), rx_adv 2 rx1)"
    "read_u16 rx_read_ops (rx_adv 2 rx1) = Some (Some (of_nat ?L), rx_adv 4 rx1)"
    using rx1 by simp_all
  define rx4 where "rx4 = (rx_adv 4 rx1)\<lparr>rx_readerpacketallowed := of_nat ?L\<rparr>"
  have rx4: "rx_inv rx4" "rx_stream rx4 = element_payload e @ rest" "unat (rx_readerpacketallowed rx4) = ?L"
    using rx1 L by (simp_all add: rx4_def)
  define rx5 where "rx5 = rx_adv ?L rx4"
  have pe: "parsing_element (m i) (wire_type e) (of_nat ?L) rx4 = Some (Inr (element_id e, element_category e, e), rx5)"
    unfolding rx5_def using rx4 L assms(3) by (intro parsing_element_sent) auto
  have rx5: "rx_inv rx5" "rx_stream rx5 = rest" "rx_readerpacketallowed rx5 = 0"
    using rx4 by (simp_all add: rx5_def unat_eq_0 [symmetric])
  have frame: "rx5\<lparr>rx_readpos := p, rx_readerpacketallowed := a\<rparr> = rx\<lparr>rx_readpos := p, rx_readerpacketallowed := a\<rparr>" for p a
    by (simp add: rx5_def rx4_def rx1_def rx_adv_def)
  have "\<not> of_nat ?L > n"
    using L assms(6) by (auto simp: word_less_nat_alt)
  moreover have "\<not> (IS_80211_MESSAGE_ELEMENTS \<lparr>id_vendor = 0, id_type = wire_type e\<rparr> \<and> binding \<noteq> 1)"
    using assms(4) by (auto simp: binding_accepts_def)
  ultimately have "parsing_loop m binding i n rx ms = parsing_loop m binding (Suc i) (n - (of_nat ?L + 4)) rx5 ms'"
    using r1 pe assms(5,7) rx5(3)
    by (subst parsing_loop.simps) (auto simp add: rx1_def [symmetric] rx4_def [symmetric])
  then show ?thesis using that rx5 frame by blast
qed

lemma parsing_loop_sent:
  assumes "rx_inv rx" "rx_stream rx = concat (map element_tlv es) @ rest"
    and "unat n = length (concat (map element_tlv es))"
    and "\<forall>e\<in>set es. element_sendable e \<and> binding_accepts binding e"
    and "\<And>i. capwap_get_message_element_data ms i = element_items ps i" "single_once (ps @ es)"
  shows "\<exists>rx' ms'. parsing_loop m binding i n rx ms = Some (PARSING_COMPLETE, rx', ms') \<and>
    rx' = rx\<lparr>rx_readpos := rx_readpos rx', rx_readerpacketallowed := rx_readerpacketallowed rx'\<rparr> \<and>
    (\<forall>i. capwap_get_message_element_data ms' i = element_items (ps @ es) i)"
  using assms
proof (induction es arbitrary: i n rx ms ps)
  case Nil
  then have "n = 0" by (simp add: unat_eq_0)
  then show ?case using Nil.prems(5) by (subst parsing_loop.simps) simp
next
  case (Cons e es)
  let ?L = "length (element_payload e)"
  have tlv: "length (element_tlv e) = 4 + ?L"
    by (simp add: element_tlv_def)
  have L: "4 + ?L \<le> unat n" "0 < n"
    using Cons.prems(3) by (auto simp: tlv word_less_nat_alt)
  have once: "single_once (ps @ [e])" "single_once ((ps @ [e]) @ es)"
    using Cons.prems(6) by (auto simp: single_once_def)
  obtain ms' where ms': "store_element (element_id e) (element_category e) e ms = Some ms'"
    "\<And>i. capwap_get_message_element_data ms' i = element_items (ps @ [e]) i"
    using store_element_items [OF Cons.prems(5) once(1)] by blast
  have n': "unat (n - (of_nat ?L + 4)) = length (concat (map element_tlv es))"
  proof -
    have "of_nat ?L + 4 = (of_nat (?L + 4) :: u16)" by simp
    moreover have "?L + 4 < 65536"
      using L unat_u16_less [of n] by linarith
    ultimately have "unat (of_nat ?L + 4 :: u16) = ?L + 4"
      by (simp only: unat_of_nat_u16)
    then show ?thesis using Cons.prems(3) L by (simp add: tlv)
  qed
  have str: "rx_stream rx = element_tlv e @ concat (map element_tlv es) @ rest"
    using Cons.prems(2) by simp
  have e: "element_sendable e" "binding_accepts binding e" "\<forall>e\<in>set es. element_sendable e \<and> binding_accepts binding e"
    using Cons.prems(4) by auto
  have Ln: "?L \<le> unat n" using L by simp
  obtain rx5 where rx5: "rx_inv rx5" "rx_stream rx5 = concat (map element_tlv es) @ rest"
    "\<And>p a. rx5\<lparr>rx_readpos := p, rx_readerpacketallowed := a\<rparr> = rx\<lparr>rx_readpos := p, rx_readerpacketallowed := a\<rparr>"
    "parsing_loop m binding i n rx ms = parsing_loop m binding (Suc i) (n - (of_nat ?L + 4)) rx5 ms'"
    using parsing_round [OF Cons.prems(1) str e(1,2) L(2) Ln ms'(1), of m i] by blast
  from Cons.IH [OF rx5(1,2) n' e(3) ms'(2) once(2), of "Suc i"] show ?case
    by (auto simp: rx5(3,4))
qed

lemma message_received:
  assumes "h = unat (GET_HLEN_HEADER data) * 4" "8 \<le> h" "h \<le> length data"
    and "h + 8 + length (concat (map element_tlv es)) < 65536"
    and "\<forall>e\<in>set es. element_sendable e \<and> binding_accepts (GET_WBID_HEADER data) e" "single_once es"
  obtains rx packet where "capwap_packet_rxmng_add_recv_packet capwap_packet_rxmng_create_message
      (message_bytes data type seq es) = Some (CAPWAP_RECEIVE_COMPLETE_PACKET, rx)"
    "rx_ctrlmsg rx = \<lparr>msg_type = type, msg_seq = seq,
       msg_length = of_nat (3 + length (concat (map element_tlv es))), msg_flags = 0\<rparr>"
    "capwap_parsing_packet m rx = Some (PARSING_COMPLETE, packet)"
    "\<And>eid. capwap_get_message_element_data (pkt_messages packet) eid = element_items es eid"
    "rx_header (pkt_rxmngpacket packet) = Some (message_bytes data type seq es)"
    "rx_ctrlmsg (pkt_rxmngpacket packet) = rx_ctrlmsg rx"
proof -
  define body where "body = concat (map element_tlv es)"
  define ctrl where "ctrl = u32_bytes type @ [seq] @ u16_bytes (of_nat (3 + length body)) @ [0] @ body"
  define b where "b = take h data @ ctrl"
  let ?p = "message_bytes data type seq es"
  have p: "?p = clear_fragment_fields b"
    using assms(2,3) by (simp add: message_bytes_def Let_def b_def ctrl_def body_def clear_fragment_fields_append flip: assms(1))
  have len: "length b = h + 8 + length body"
    using assms(3) by (simp add: b_def ctrl_def)
  have hdr: "header_of b = header_of data"
    using assms(2,3) by (intro header_of_cong) (simp add: b_def nth_append)
  then have "GET_HLEN_HEADER b = GET_HLEN_HEADER data" "GET_WBID_HEADER b = GET_WBID_HEADER data"
    unfolding header_sel by simp_all
  then have sel: "\<not> IS_FLAG_F_HEADER ?p" "GET_HLEN_HEADER ?p = GET_HLEN_HEADER data" "GET_WBID_HEADER ?p = GET_WBID_HEADER data"
    using assms(2) len by (simp_all add: p)
  have drop: "drop h ?p = u32_bytes type @ [seq] @ u16_bytes (of_nat (3 + length body)) @ [0] @ body"
    using assms(2,3) by (simp add: p b_def clear_fragment_fields_append ctrl_def)
  obtain rx where rx: "capwap_packet_rxmng_add_recv_packet capwap_packet_rxmng_create_message ?p =
      Some (CAPWAP_RECEIVE_COMPLETE_PACKET, rx)"
    "rx_ctrlmsg rx = \<lparr>msg_type = type, msg_seq = seq, msg_length = of_nat (3 + length body), msg_flags = 0\<rparr>"
    "rx_header rx = Some ?p" "rx_inv rx" "rx_stream rx = body" "rx_readbodypos rx = rx_readpos rx"
    using assms(1,2,4) len sel drop by (rule_tac recv_single [of ?p h]) (auto simp: p body_def)
  have n: "unat (of_nat (3 + length body) - 3 :: u16) = length body"
    using assms(4) by (simp add: body_def)
  obtain rx' ms' where loop: "parsing_loop m (GET_WBID_HEADER ?p) 0 (of_nat (3 + length body) - 3) rx [] = Some (PARSING_COMPLETE, rx', ms')"
    "rx' = rx\<lparr>rx_readpos := rx_readpos rx', rx_readerpacketallowed := rx_readerpacketallowed rx'\<rparr>"
    "\<forall>i. capwap_get_message_element_data ms' i = element_items es i"
    using parsing_loop_sent [of rx es "[]" "of_nat (3 + length body) - 3" "GET_WBID_HEADER ?p" "[]" "[]" m 0] rx n assms(5,6) sel
    by (auto simp: body_def capwap_get_message_element_data_def capwap_get_message_element_def element_items_def)
  have "capwap_parsing_packet m rx = Some (PARSING_COMPLETE, \<lparr>pkt_rxmngpacket = rx', pkt_messages = ms'\<rparr>)"
  proof -
    have "rx\<lparr>rx_readpos := rx_readbodypos rx\<rparr> = rx" using rx(6) by simp
    then show ?thesis using rx loop(1) by (simp add: capwap_parsing_packet_def)
  qed
  moreover have "rx_header rx' = Some ?p" "rx_ctrlmsg rx' = rx_ctrlmsg rx"
    by (subst loop(2); simp add: rx(3))+
  ultimately show ?thesis
    using rx(1,2) loop(3) by (intro that [of rx "\<lparr>pkt_rxmngpacket = rx', pkt_messages = ms'\<rparr>"]) (simp_all add: body_def)
qed

end
