(* ===== verification/Capwap_Parsed.thy ===== *)
theory Capwap_Parsed
  imports Capwap_Element
begin

text \<open>
  What holds of every parsed message, whatever bytes arrived: the items of a packet have distinct
  identifiers, and the data of an item is of the type its identifier stands for, so the casts from
  \<open>void*\<close> by which the controller reads it are safe.
\<close>

subsection \<open>The parsers of the tables\<close>

text \<open>A parser gives only elements with the identifier it is registered under.\<close>

definition parses_as :: "capwap_message_element_id \<Rightarrow> ('w, 'r) capwap_message_elements_ops \<Rightarrow> bool" where
  "parses_as eid ops \<longleftrightarrow> (\<forall>m func h e h'. parse ops m func h = Some (Some e, h') \<longrightarrow> element_id e = eid)"

lemma element_ops_parses_as:
  "(\<And>x. element_id (wrap x) = eid) \<Longrightarrow> parses_as eid (element_ops cat cast wrap cr pa)"
  by (auto simp: parses_as_def element_ops_def bind_eq_Some_conv)

primrec table_parses :: "u32 \<Rightarrow> u16 \<Rightarrow> ('w, 'r) capwap_message_elements_ops option list \<Rightarrow> bool" where
  "table_parses v t [] = True"
| "table_parses v t (x # xs) =
     ((\<forall>ops. x = Some ops \<longrightarrow> parses_as \<lparr>id_vendor = v, id_type = t\<rparr> ops) \<and> table_parses v (t + 1) xs)"

lemma table_parses_nth:
  "table_parses v t xs \<Longrightarrow> i < length xs \<Longrightarrow> xs ! i = Some ops \<Longrightarrow>
   parses_as \<lparr>id_vendor = v, id_type = t + of_nat i\<rparr> ops"
proof (induction xs arbitrary: t i)
  case (Cons x xs)
  show ?case
  proof (cases i)
    case (Suc j)
    then have "parses_as \<lparr>id_vendor = v, id_type = (t + 1) + of_nat j\<rparr> ops"
      using Cons.prems by (intro Cons.IH) auto
    then show ?thesis by (simp add: Suc ac_simps)
  qed (use Cons.prems in simp)
qed simp

lemmas message_element_ops_defs =
  capwap_element_acdescriptor_ops_def capwap_element_acipv4list_ops_def capwap_element_acipv6list_ops_def
  capwap_element_acname_ops_def capwap_element_acnamepriority_ops_def capwap_element_actimestamp_ops_def
  capwap_element_addmacacl_ops_def capwap_element_addstation_ops_def capwap_element_controlipv4_ops_def
  capwap_element_controlipv6_ops_def capwap_element_timers_ops_def
  capwap_element_datatransferdata_ops_def capwap_element_datatransfermode_ops_def
  capwap_element_decrypterrorreport_ops_def capwap_element_decrypterrorreportperiod_ops_def
  capwap_element_deletemacacl_ops_def capwap_element_deletestation_ops_def
  capwap_element_discoverytype_ops_def capwap_element_duplicateipv4_ops_def
  capwap_element_duplicateipv6_ops_def capwap_element_idletimeout_ops_def
  capwap_element_imagedata_ops_def capwap_element_imageidentifier_ops_def
  capwap_element_imageinfo_ops_def capwap_element_initdownload_ops_def capwap_element_location_ops_def
  capwap_element_maximumlength_ops_def capwap_element_localipv4_ops_def capwap_element_localipv6_ops_def
  capwap_element_radioadmstate_ops_def capwap_element_radiooprstate_ops_def
  capwap_element_resultcode_ops_def capwap_element_returnedmessage_ops_def
  capwap_element_sessionid_ops_def capwap_element_statisticstimer_ops_def
  capwap_element_vendorpayload_ops_def capwap_element_wtpboarddata_ops_def
  capwap_element_wtpdescriptor_ops_def capwap_element_wtpfallback_ops_def
  capwap_element_wtpframetunnelmode_ops_def capwap_element_wtpmactype_ops_def
  capwap_element_wtpname_ops_def capwap_element_wtpradiostat_ops_def capwap_element_wtprebootstat_ops_def
  capwap_element_wtpstaticipaddress_ops_def capwap_element_transport_ops_def
  capwap_element_mtudiscovery_ops_def capwap_element_ecnsupport_ops_def
  capwap_element_80211_addwlan_ops_def capwap_element_80211_antenna_ops_def
  capwap_element_80211_assignbssid_ops_def capwap_element_80211_deletewlan_ops_def
  capwap_element_80211_directsequencecontrol_ops_def capwap_element_80211_ie_ops_def
  capwap_element_80211_macoperation_ops_def capwap_element_80211_miccountermeasures_ops_def
  capwap_element_80211_multidomaincapability_ops_def capwap_element_80211_ofdmcontrol_ops_def
  capwap_element_80211_rateset_ops_def capwap_element_80211_supportedrates_ops_def
  capwap_element_80211_rsnaerrorreport_ops_def capwap_element_80211_station_ops_def
  capwap_element_80211_stationqos_ops_def capwap_element_80211_stationkey_ops_def
  capwap_element_80211_statistics_ops_def capwap_element_80211_txpower_ops_def
  capwap_element_80211_txpowerlevel_ops_def capwap_element_80211_updatestationqos_ops_def
  capwap_element_80211_updatewlan_ops_def capwap_element_80211_wtpqos_ops_def
  capwap_element_80211_wtpradioconf_ops_def capwap_element_80211_wtpradiofailalarm_ops_def
  capwap_element_80211_wtpradioinformation_ops_def capwap_element_80211_supported_mac_profiles_ops_def
  capwap_element_80211_mac_profile_ops_def capwap_element_vendor_travelping_wtp_timestamp_ops_def
  capwap_element_80211n_radioconf_ops_def capwap_element_80211n_station_info_ops_def
  capwap_element_vendor_travelping_80211_encryption_capability_ops_def
  capwap_element_vendor_travelping_80211_update_key_ops_def

lemma message_elements_parse: "table_parses 0 1 capwap_message_elements"
  by (simp add: capwap_message_elements_def message_element_ops_defs element_ops_parses_as)

lemma ieee80211_elements_parse: "table_parses 0 1024 capwap_80211_message_elements"
  by (simp add: capwap_80211_message_elements_def message_element_ops_defs element_ops_parses_as)

lemma travelping_elements_parse: "table_parses 18681 1 capwap_vendor_travelping_message_elements"
  by (simp add: capwap_vendor_travelping_message_elements_def message_element_ops_defs element_ops_parses_as)

lemma type_of_index: "k \<le> unat t \<Longrightarrow> of_nat k + of_nat (unat t - k) = (t :: u16)"
  by (simp flip: of_nat_add)

lemma lookup_parses_as:
  assumes "capwap_get_message_element_ops eid = Some ops"
  shows "parses_as eid ops"
proof -
  have t1: "1 \<le> unat (id_type eid) \<Longrightarrow> 1 + of_nat (unat (id_type eid) - 1) = id_type eid"
    using type_of_index [of 1 "id_type eid"] by simp
  have t1024: "1024 \<le> unat (id_type eid) \<Longrightarrow> 1024 + of_nat (unat (id_type eid) - 1024) = id_type eid"
    using type_of_index [of 1024 "id_type eid"] by simp
  consider "id_vendor eid = 0" "1 \<le> unat (id_type eid)" "unat (id_type eid) - 1 < length (capwap_message_elements :: ('a, 'b) capwap_message_elements_ops option list)"
      "capwap_message_elements ! (unat (id_type eid) - 1) = Some ops"
    | "id_vendor eid = 0" "1024 \<le> unat (id_type eid)" "unat (id_type eid) - 1024 < length (capwap_80211_message_elements :: ('a, 'b) capwap_message_elements_ops option list)"
      "capwap_80211_message_elements ! (unat (id_type eid) - 1024) = Some ops"
    | "id_vendor eid = 18681" "1 \<le> unat (id_type eid)" "unat (id_type eid) - 1 < length (capwap_vendor_travelping_message_elements :: ('a, 'b) capwap_message_elements_ops option list)"
      "capwap_vendor_travelping_message_elements ! (unat (id_type eid) - 1) = Some ops"
    using assms by (auto simp: capwap_get_message_element_ops_def Let_def split: if_splits)
  then show ?thesis
  proof cases
    case 1
    from table_parses_nth [OF message_elements_parse 1(3,4)] show ?thesis
      using 1 by (cases eid) (simp add: t1 [OF 1(2)])
  next
    case 2
    from table_parses_nth [OF ieee80211_elements_parse 2(3,4)] show ?thesis
      using 2 by (cases eid) (simp add: t1024 [OF 2(2)])
  next
    case 3
    from table_parses_nth [OF travelping_elements_parse 3(3,4)] show ?thesis
      using 3 by (cases eid) (simp add: t1 [OF 3(2)])
  qed
qed

subsection \<open>The items of a packet\<close>

text \<open>The category an identifier is registered with.\<close>

definition category_of :: "capwap_message_element_id \<Rightarrow> message_element_category option" where
  "category_of eid =
     map_option category (capwap_get_message_element_ops eid :: (unit, capwap_packet_rxmng) capwap_message_elements_ops option)"

text \<open>
  An item of a single category holds one element, an item of an array category one or more; all of them
  have the identifier of the item.
\<close>

definition item_ok :: "capwap_message_element_itemlist \<Rightarrow> bool" where
  "item_ok item \<longleftrightarrow> category_of (item_id item) = Some (item_category item) \<and>
     (case item_category item of
        CAPWAP_MESSAGE_ELEMENT_SINGLE \<Rightarrow> \<exists>e. item_data item = Data_Single e \<and> element_id e = item_id item
      | CAPWAP_MESSAGE_ELEMENT_ARRAY \<Rightarrow>
          \<exists>es. item_data item = Data_Array es \<and> es \<noteq> [] \<and> (\<forall>e\<in>set es. element_id e = item_id item))"

definition messages_ok :: "capwap_message_element_itemlist list \<Rightarrow> bool" where
  "messages_ok messages \<longleftrightarrow> distinct (map item_id messages) \<and> (\<forall>item\<in>set messages. item_ok item)"

lemma messages_ok_Nil [simp]: "messages_ok []"
  by (simp add: messages_ok_def)

lemma find_None_ids:
  "capwap_get_message_element messages eid = None \<longleftrightarrow> eid \<notin> item_id ` set messages"
  by (auto simp: capwap_get_message_element_def find_None_iff)

lemma messages_ok_append:
  "messages_ok (messages @ [item]) \<longleftrightarrow>
     messages_ok messages \<and> item_ok item \<and> capwap_get_message_element messages (item_id item) = None"
  by (auto simp: messages_ok_def find_None_ids)

lemma append_to_array_ids [simp]: "map item_id (append_to_array eid e messages) = map item_id messages"
  by (induction messages) (auto split: element_data.splits)

lemma item_ok_append:
  "item_ok item \<Longrightarrow> item_data item = Data_Array es \<Longrightarrow> element_id e = item_id item \<Longrightarrow>
   item_ok (item\<lparr>item_data := Data_Array (es @ [e])\<rparr>)"
  by (auto simp: item_ok_def split: message_element_category.splits)

lemma append_to_array_ok:
  "\<forall>item\<in>set messages. item_ok item \<Longrightarrow> element_id e = eid \<Longrightarrow>
   \<forall>item\<in>set (append_to_array eid e messages). item_ok item"
  by (induction messages) (auto split: element_data.splits intro: item_ok_append)

lemma store_element_ok:
  assumes "messages_ok messages" "category_of eid = Some cat" "element_id e = eid"
    and "store_element eid cat e messages = Some messages'"
  shows "messages_ok messages'"
proof (cases "capwap_get_message_element messages eid = None")
  case True
  then show ?thesis
    using assms by (auto simp: store_element_def messages_ok_append item_ok_def split: message_element_category.splits)
next
  case False
  then have "messages' = append_to_array eid e messages"
    using assms(4) by (auto simp: store_element_def Let_def split: message_element_category.splits)
  then show ?thesis
    using assms(1,3) append_to_array_ok by (auto simp: messages_ok_def)
qed

lemma parsing_element_ok:
  assumes "parsing_element m type msglength rx = Some (Inr (eid, cat, e), rx')"
  shows "category_of eid = Some cat \<and> element_id e = eid"
proof -
  let ?ops = "capwap_get_message_element_ops :: capwap_message_element_id \<Rightarrow> (unit, capwap_packet_rxmng) capwap_message_elements_ops option"
  consider ops m h h' where "?ops eid = Some ops" "cat = category ops" "parse ops m rx_read_ops h = Some (Some e, h')"
    | ops v where "?ops eid = Some ops" "cat = category ops" "eid = \<lparr>id_vendor = 0, id_type = 37\<rparr>" "e = High (Vendorpayload v)"
    using assms unfolding parsing_element_def Let_def CAPWAP_ELEMENT_VENDORPAYLOAD_TYPE_def
    by (auto simp: bind_eq_Some_conv split: if_splits option.splits prod.splits)
  then show ?thesis
    proof cases
    case (1 ops m h h')
    then show ?thesis
      using lookup_parses_as [OF 1(1)] unfolding parses_as_def category_of_def by (metis option.map(2))
  qed (simp add: category_of_def)
qed

lemma store_parsed_ok:
  "parsing_element m type msglength rx = Some (Inr (eid, cat, e), rx') \<Longrightarrow>
   store_element eid cat e messages = Some messages' \<Longrightarrow> messages_ok messages \<Longrightarrow> messages_ok messages'"
  using parsing_element_ok store_element_ok by blast

lemma parsing_loop_ok:
  assumes "parsing_loop m binding i bodylength rx messages = Some (r, rx', messages')" "messages_ok messages"
  shows "messages_ok messages'"
proof -
  have "messages_ok messages \<longrightarrow> messages_ok (snd (snd (r, rx', messages')))"
  proof (rule parsing_loop.raw_induct [where P = "\<lambda>m binding i bodylength rx messages r. messages_ok messages \<longrightarrow> messages_ok (snd (snd r))",
      OF _ assms(1)], goal_cases)
    case (1 rec m binding i bodylength rx messages y)
    then show ?case
      by (cases y) (auto split: Option.bind_splits if_splits option.splits sum.splits prod.splits dest: store_parsed_ok)
  qed
  then show ?thesis using assms(2) by simp
qed

subsection \<open>Validating what was sent\<close>

lemma element_items_None: "element_items es eid = None \<longleftrightarrow> eid \<notin> element_id ` set es"
  by (auto simp: element_items_def filter_empty_conv split: list.splits dest!: filter_eq_ConsD)

lemma resultcode_id: "element_id e = CAPWAP_ELEMENT_RESULTCODE \<longleftrightarrow> (\<exists>r. e = High (Resultcode r))"
proof
  assume *: "element_id e = CAPWAP_ELEMENT_RESULTCODE"
  show "\<exists>r. e = High (Resultcode r)"
  proof (cases e)
    case (Low x)
    with * show ?thesis by (cases x) simp_all
  next
    case (High x)
    with * show ?thesis by (cases x) simp_all
  next
    case (Ieee80211 x)
    with * show ?thesis by (cases x) simp_all
  qed (use * in simp)
qed auto

lemma single_once_filter:
  assumes "single_once es" "e \<in> set es" "element_category e = CAPWAP_MESSAGE_ELEMENT_SINGLE"
  shows "filter (\<lambda>x. element_id x = element_id e) es = [e]"
proof -
  let ?single = "\<lambda>x. element_category x = CAPWAP_MESSAGE_ELEMENT_SINGLE"
  obtain xs ys where es: "es = xs @ e # ys"
    using assms(2) by (meson split_list)
  have "element_id x \<noteq> element_id e" if "x \<in> set xs \<union> set ys" for x
  proof
    assume eq: "element_id x = element_id e"
    then have "element_category x = CAPWAP_MESSAGE_ELEMENT_SINGLE"
      using same_category assms(3) by metis
    then have "element_id e \<in> set (map element_id (filter ?single xs)) \<union> set (map element_id (filter ?single ys))"
      unfolding eq [symmetric] set_map set_filter using that by blast
    moreover have "distinct (map element_id (filter ?single xs) @ element_id e # map element_id (filter ?single ys))"
      using assms(1,3) unfolding es single_once_def by simp
    ultimately show False
      unfolding distinct_append distinct.simps by (meson UnE disjoint_iff list.set_intros(1))
  qed
  then show ?thesis
    unfolding es by (auto simp: filter_empty_conv)
qed

lemma sent_resultcode_error:
  assumes "\<And>eid. capwap_get_message_element_data (pkt_messages packet) eid = element_items es eid" "single_once es"
  shows "resultcode_error packet \<longleftrightarrow> (\<exists>r. High (Resultcode r) \<in> set es \<and> \<not> CAPWAP_RESULTCODE_OK (resultcode_code r))"
proof (cases "CAPWAP_ELEMENT_RESULTCODE \<in> element_id ` set es")
  case True
  then obtain r where r: "High (Resultcode r) \<in> set es"
    by (metis imageE resultcode_id)
  have id: "element_id (High (Resultcode r)) = CAPWAP_ELEMENT_RESULTCODE" and cat: "element_category (High (Resultcode r)) = CAPWAP_MESSAGE_ELEMENT_SINGLE"
    by (simp_all add: capwap_element_resultcode_ops_def element_ops_def)
  from single_once_filter [OF assms(2) r cat]
  have flt: "filter (\<lambda>x. element_id x = CAPWAP_ELEMENT_RESULTCODE) es = [High (Resultcode r)]"
    unfolding id .
  have "s = r" if "High (Resultcode s) \<in> set es" for s
  proof -
    have "High (Resultcode s) \<in> set (filter (\<lambda>x. element_id x = CAPWAP_ELEMENT_RESULTCODE) es)"
      using that by simp
    then show ?thesis unfolding flt by simp
  qed
  moreover have "resultcode_error packet \<longleftrightarrow> \<not> CAPWAP_RESULTCODE_OK (resultcode_code r)"
    by (simp add: resultcode_error_def assms(1) element_items_def flt capwap_element_resultcode_ops_def element_ops_def)
  ultimately show ?thesis
    using r by blast
next
  case False
  then have "element_items es CAPWAP_ELEMENT_RESULTCODE = None"
    by (simp add: element_items_None)
  then show ?thesis
    using False by (force simp: resultcode_error_def assms(1))
qed

lemma message_bytes_WBID:
  assumes "8 \<le> unat (GET_HLEN_HEADER data) * 4" "unat (GET_HLEN_HEADER data) * 4 \<le> length data"
  shows "GET_WBID_HEADER (message_bytes data type seq es) = GET_WBID_HEADER data"
proof -
  let ?h = "unat (GET_HLEN_HEADER data) * 4"
  have "GET_WBID_HEADER (message_bytes data type seq es) = GET_WBID_HEADER (clear_fragment_fields (take ?h data))"
    using assms by (simp add: message_bytes_def Let_def GET_WBID_HEADER_def nth_append)
  also have "\<dots> = GET_WBID_HEADER data"
    using assms by (subst clear_fragment_fields_sel(3)) (simp_all add: GET_WBID_HEADER_def)
  finally show ?thesis .
qed

end
