(* ===== verification/Capwap_Hash.thy ===== *)
theory Capwap_Hash
  imports Capwap_Prelude
begin

text \<open>
  The hash table of \<^verbatim>\<open>common/capwap_hash.c\<close>: an array of buckets, each a binary search tree that is
  rebalanced with the height each item stores. A bucket is a tree of values; the pointer to an item is
  the path that leads to it from the root, and the parent pointer is that path without its last step.
  The callbacks a table is given (\<open>item_gethash\<close>, \<open>item_getkey\<close>, \<open>item_cmp\<close>) are the locale
  \<open>hash_client\<close>, interpreted for the tables of the access controller. The results: adding keeps the
  trees ordered and balanced and updates the map the table stands for; deleting removes one key but leaves
  stale heights; searching looks at the root and its two children only.
\<close>

subsection \<open>Items\<close>

datatype 'd capwap_hash_item =
    NULL_item
  | Item (item_data: 'd) (item_height: int) (item_left: "'d capwap_hash_item") (item_right: "'d capwap_hash_item")

datatype side = LeftSide | RightSide

type_synonym item_path = "side list"

definition capwap_hash_create_item :: "'d \<Rightarrow> 'd capwap_hash_item" where
  "capwap_hash_create_item data = Item data 0 NULL_item NULL_item"

fun capwap_hash_update_height :: "'d capwap_hash_item \<Rightarrow> 'd capwap_hash_item" where
  "capwap_hash_update_height NULL_item = NULL_item"
| "capwap_hash_update_height (Item d h l r) =
     Item d (case l of
         Item _ hl _ _ \<Rightarrow> (case r of Item _ hr _ _ \<Rightarrow> if hl > hr then hl + 1 else hr + 1 | NULL_item \<Rightarrow> hl + 1)
       | NULL_item \<Rightarrow> (case r of Item _ hr _ _ \<Rightarrow> hr + 1 | NULL_item \<Rightarrow> 0)) l r"

fun capwap_hash_set_left_item :: "'d capwap_hash_item \<Rightarrow> 'd capwap_hash_item \<Rightarrow> 'd capwap_hash_item" where
  "capwap_hash_set_left_item NULL_item child = NULL_item"
| "capwap_hash_set_left_item (Item d h l r) child = capwap_hash_update_height (Item d h child r)"

fun capwap_hash_set_right_item :: "'d capwap_hash_item \<Rightarrow> 'd capwap_hash_item \<Rightarrow> 'd capwap_hash_item" where
  "capwap_hash_set_right_item NULL_item child = NULL_item"
| "capwap_hash_set_right_item (Item d h l r) child = capwap_hash_update_height (Item d h l child)"

fun capwap_hash_get_balance_item :: "'d capwap_hash_item \<Rightarrow> int option" where
  "capwap_hash_get_balance_item NULL_item = None"
| "capwap_hash_get_balance_item (Item d h l r) =
     Some (case l of
         Item _ hl _ _ \<Rightarrow> (case r of Item _ hr _ _ \<Rightarrow> hl - hr | NULL_item \<Rightarrow> hl + 1)
       | NULL_item \<Rightarrow> (case r of Item _ hr _ _ \<Rightarrow> - (hr + 1) | NULL_item \<Rightarrow> 0))"

text \<open>The item at the end of a path, and the tree with this item replaced.\<close>

fun item_at :: "item_path \<Rightarrow> 'd capwap_hash_item \<Rightarrow> 'd capwap_hash_item" where
  "item_at [] t = t"
| "item_at (s # p) NULL_item = NULL_item"
| "item_at (s # p) (Item d h l r) = item_at p (case s of LeftSide \<Rightarrow> l | RightSide \<Rightarrow> r)"

fun put_item :: "item_path \<Rightarrow> 'd capwap_hash_item \<Rightarrow> 'd capwap_hash_item \<Rightarrow> 'd capwap_hash_item" where
  "put_item [] x t = x"
| "put_item (s # p) x NULL_item = NULL_item"
| "put_item (s # p) x (Item d h l r) =
     (case s of LeftSide \<Rightarrow> Item d h (put_item p x l) r | RightSide \<Rightarrow> Item d h l (put_item p x r))"

text \<open>
  Making \<open>x\<close> the child of the parent of the item at path \<open>p\<close>, on the side of that item, or the root:
  the parent's height is updated with it.
\<close>

definition set_child_item :: "item_path \<Rightarrow> 'd capwap_hash_item \<Rightarrow> 'd capwap_hash_item \<Rightarrow> 'd capwap_hash_item" where
  "set_child_item p x t =
     (if p = [] then x
      else let parent = item_at (butlast p) t
           in put_item (butlast p)
                (case last p of
                   LeftSide \<Rightarrow> capwap_hash_set_left_item parent x
                 | RightSide \<Rightarrow> capwap_hash_set_right_item parent x) t)"

subsection \<open>Rebalancing\<close>

definition capwap_hash_rotate_left :: "item_path \<Rightarrow> 'd capwap_hash_item \<Rightarrow> 'd capwap_hash_item option" where
  "capwap_hash_rotate_left p t =
     (case item_at p t of
        Item d h l r \<Rightarrow>
          (case r of
             Item _ _ rl _ \<Rightarrow>
               Some (set_child_item p (capwap_hash_set_left_item r (capwap_hash_set_right_item (item_at p t) rl)) t)
           | NULL_item \<Rightarrow> None)
      | NULL_item \<Rightarrow> None)"

definition capwap_hash_rotate_right :: "item_path \<Rightarrow> 'd capwap_hash_item \<Rightarrow> 'd capwap_hash_item option" where
  "capwap_hash_rotate_right p t =
     (case item_at p t of
        Item d h l r \<Rightarrow>
          (case l of
             Item _ _ _ lr \<Rightarrow>
               Some (set_child_item p (capwap_hash_set_right_item l (capwap_hash_set_left_item (item_at p t) lr)) t)
           | NULL_item \<Rightarrow> None)
      | NULL_item \<Rightarrow> None)"

text \<open>The balanced tree, and the path on which the item is now.\<close>

definition capwap_hash_balance_tree ::
    "item_path \<Rightarrow> 'd capwap_hash_item \<Rightarrow> ('d capwap_hash_item \<times> item_path) option" where
  "capwap_hash_balance_tree p t = do {
     result \<leftarrow> capwap_hash_get_balance_item (item_at p t);
     if result > 1 then do {
       b \<leftarrow> capwap_hash_get_balance_item (item_at (p @ [LeftSide]) t);
       t \<leftarrow> (if b < 0 then capwap_hash_rotate_left (p @ [LeftSide]) t else Some t);
       t \<leftarrow> capwap_hash_rotate_right p t;
       Some (t, p @ [RightSide]) }
     else if result < -1 then do {
       b \<leftarrow> capwap_hash_get_balance_item (item_at (p @ [RightSide]) t);
       t \<leftarrow> (if b > 0 then capwap_hash_rotate_right (p @ [RightSide]) t else Some t);
       t \<leftarrow> capwap_hash_rotate_left p t;
       Some (t, p @ [LeftSide]) }
     else Some (t, p) }"

text \<open>
  The loop \<open>/* Rebalancing tree */\<close> of \<open>capwap_hash_add\<close>, from the item at path \<open>p\<close> up to the root. An item
  that was rotated is a child of the one that took its place.
\<close>

partial_function (option) rebalancing ::
    "item_path \<Rightarrow> 'd capwap_hash_item \<Rightarrow> 'd capwap_hash_item option" where
  "rebalancing p t = do {
     (t, p) \<leftarrow> capwap_hash_balance_tree p (put_item p (capwap_hash_update_height (item_at p t)) t);
     if p = [] then Some t else rebalancing (butlast p) t }"

subsection \<open>Tables\<close>

record ('k, 'd) hash_callbacks =
  item_gethash :: "'k \<Rightarrow> nat \<Rightarrow> nat"
  item_getkey :: "'d \<Rightarrow> 'k"
  item_cmp :: "'k \<Rightarrow> 'k \<Rightarrow> int"

text \<open>\<open>hash_freed\<close> collects the data that is handed to \<open>item_free\<close>.\<close>

record 'd capwap_hash =
  hash_items :: "'d capwap_hash_item list"
  hash_hashsize :: nat
  hash_count :: nat
  hash_freed :: "'d list"

definition capwap_hash_create :: "nat \<Rightarrow> 'd capwap_hash option" where
  "capwap_hash_create hashsize = do {
     ASSERT (hashsize > 0);
     Some \<lparr>hash_items = replicate hashsize NULL_item, hash_hashsize = hashsize, hash_count = 0, hash_freed = []\<rparr> }"

text \<open>
  The loop that searches the position: the tree with the data stored in it, and where the data went, the
  path of a new item or the data that was replaced.
\<close>

fun hash_insert ::
    "('k, 'd) hash_callbacks \<Rightarrow> 'd \<Rightarrow> 'd capwap_hash_item \<Rightarrow> 'd capwap_hash_item \<times> ('d + item_path)" where
  "hash_insert cb data NULL_item = (capwap_hash_create_item data, Inr [])"
| "hash_insert cb data (Item d h l r) =
     (let result = item_cmp cb (item_getkey cb data) (item_getkey cb d) in
      if result = 0 then (Item data h l r, Inl d)
      else if result < 0 then
        if l \<noteq> NULL_item then
          let (l', w) = hash_insert cb data l in (Item d h l' r, map_sum id (Cons LeftSide) w)
        else (capwap_hash_set_left_item (Item d h l r) (capwap_hash_create_item data), Inr [LeftSide])
      else
        if r \<noteq> NULL_item then
          let (r', w) = hash_insert cb data r in (Item d h l r', map_sum id (Cons RightSide) w)
        else (capwap_hash_set_right_item (Item d h l r) (capwap_hash_create_item data), Inr [RightSide]))"

definition capwap_hash_add :: "('k, 'd) hash_callbacks \<Rightarrow> 'd capwap_hash \<Rightarrow> 'd \<Rightarrow> 'd capwap_hash option" where
  "capwap_hash_add cb hash data = do {
     let hashvalue = item_gethash cb (item_getkey cb data) (hash_hashsize hash);
     ASSERT (hashvalue < hash_hashsize hash);
     let search = hash_items hash ! hashvalue;
     if search = NULL_item then
       Some (hash\<lparr>hash_count := hash_count hash + 1,
                  hash_items := (hash_items hash)[hashvalue := capwap_hash_create_item data]\<rparr>)
     else
       (case hash_insert cb data search of
          (t, Inl old) \<Rightarrow>
            Some (hash\<lparr>hash_freed := hash_freed hash @ [old], hash_items := (hash_items hash)[hashvalue := t]\<rparr>)
        | (t, Inr p) \<Rightarrow> do {
            t \<leftarrow> rebalancing p t;
            Some (hash\<lparr>hash_count := hash_count hash + 1, hash_items := (hash_items hash)[hashvalue := t]\<rparr>) }) }"

text \<open>
  The loop of \<open>capwap_hash_search_items\<close>: the next item is a child of \<open>item\<close>, the item the search
  started at, and not of \<open>search\<close>.
\<close>

partial_function (option) search_items_loop ::
    "('k, 'd) hash_callbacks \<Rightarrow> 'd capwap_hash_item \<Rightarrow> 'k \<Rightarrow> item_path \<Rightarrow> item_path option option" where
  "search_items_loop cb item key search =
     (case item_at search item of
        NULL_item \<Rightarrow> Some None
      | Item d _ _ _ \<Rightarrow>
          let result = item_cmp cb key (item_getkey cb d) in
          if result = 0 then Some (Some search)
          else if result < 0 then search_items_loop cb item key [LeftSide]
          else search_items_loop cb item key [RightSide])"

definition capwap_hash_search_items ::
    "('k, 'd) hash_callbacks \<Rightarrow> 'd capwap_hash_item \<Rightarrow> 'k \<Rightarrow> item_path option option" where
  "capwap_hash_search_items cb item key = search_items_loop cb item key []"

definition capwap_hash_search :: "('k, 'd) hash_callbacks \<Rightarrow> 'd capwap_hash \<Rightarrow> 'k \<Rightarrow> 'd option option" where
  "capwap_hash_search cb hash key = do {
     let hashvalue = item_gethash cb key (hash_hashsize hash);
     ASSERT (hashvalue < length (hash_items hash));
     let items = hash_items hash ! hashvalue;
     if items = NULL_item then Some None
     else do {
       result \<leftarrow> capwap_hash_search_items cb items key;
       Some (map_option (\<lambda>p. item_data (item_at p items)) result) } }"

text \<open>
  The item that replaces an item with two children: the last one of the left subtree, or the first one of
  the right subtree, together with what is left of the subtree. Only the parent of the item that
  leaves the subtree is given a new height.
\<close>

fun take_rightmost :: "'d capwap_hash_item \<Rightarrow> ('d \<times> 'd capwap_hash_item) option" where
  "take_rightmost NULL_item = None"
| "take_rightmost (Item d h l r) =
     (case r of
        NULL_item \<Rightarrow> None
      | Item rd _ rl rr \<Rightarrow>
          if rr = NULL_item then Some (rd, capwap_hash_set_right_item (Item d h l r) rl)
          else map_option (\<lambda>(x, r'). (x, Item d h l r')) (take_rightmost r))"

fun take_leftmost :: "'d capwap_hash_item \<Rightarrow> ('d \<times> 'd capwap_hash_item) option" where
  "take_leftmost NULL_item = None"
| "take_leftmost (Item d h l r) =
     (case l of
        NULL_item \<Rightarrow> None
      | Item ld _ ll lr \<Rightarrow>
          if ll = NULL_item then Some (ld, capwap_hash_set_left_item (Item d h l r) lr)
          else map_option (\<lambda>(x, l'). (x, Item d h l' r)) (take_leftmost l))"

definition hash_replacement :: "'d capwap_hash_item \<Rightarrow> 'd capwap_hash_item option" where
  "hash_replacement search = do {
     b \<leftarrow> capwap_hash_get_balance_item search;
     let l = item_left search;
     let r = item_right search;
     if b > 0 then
       if item_right l = NULL_item then Some (capwap_hash_set_right_item l r)
       else do {
         (x, l) \<leftarrow> take_rightmost l;
         Some (capwap_hash_set_right_item (capwap_hash_set_left_item (capwap_hash_create_item x) l) r) }
     else
       if item_left r = NULL_item then Some (capwap_hash_set_left_item r l)
       else do {
         (x, r) \<leftarrow> take_leftmost r;
         Some (capwap_hash_set_right_item (capwap_hash_set_left_item (capwap_hash_create_item x) l) r) } }"

text \<open>Taking the item at path \<open>p\<close> out of its tree.\<close>

definition hash_unlink :: "item_path \<Rightarrow> 'd capwap_hash_item \<Rightarrow> 'd capwap_hash_item option" where
  "hash_unlink p t =
     (case item_at p t of
        NULL_item \<Rightarrow> None
      | Item d h l r \<Rightarrow>
          if l = NULL_item \<or> r = NULL_item then
            let child = (if r = NULL_item then l else r) in
            if p \<noteq> [] then map_option fst (capwap_hash_balance_tree (butlast p) (set_child_item p child t))
            else Some child
          else do {
            replacement \<leftarrow> hash_replacement (item_at p t);
            map_option fst (capwap_hash_balance_tree p (set_child_item p replacement t)) })"

definition capwap_hash_deleteitem ::
    "'d capwap_hash \<Rightarrow> item_path \<Rightarrow> nat \<Rightarrow> 'd capwap_hash option" where
  "capwap_hash_deleteitem hash search hashvalue = do {
     ASSERT (hashvalue < hash_hashsize hash);
     let t = hash_items hash ! hashvalue;
     t' \<leftarrow> hash_unlink search t;
     Some (hash\<lparr>hash_items := (hash_items hash)[hashvalue := t'], hash_count := hash_count hash - 1,
                hash_freed := hash_freed hash @ [item_data (item_at search t)]\<rparr>) }"

definition capwap_hash_delete :: "('k, 'd) hash_callbacks \<Rightarrow> 'd capwap_hash \<Rightarrow> 'k \<Rightarrow> 'd capwap_hash option" where
  "capwap_hash_delete cb hash key = do {
     let hashvalue = item_gethash cb key (hash_hashsize hash);
     ASSERT (hashvalue < hash_hashsize hash);
     if hash_items hash ! hashvalue = NULL_item then Some hash
     else do {
       search \<leftarrow> capwap_hash_search_items cb (hash_items hash ! hashvalue) key;
       (case search of
          None \<Rightarrow> Some hash
        | Some p \<Rightarrow> capwap_hash_deleteitem hash p hashvalue) } }"

text \<open>The data of a tree, in the order in which \<open>capwap_hash_free_items\<close> frees it.\<close>

fun capwap_hash_free_items :: "'d capwap_hash_item \<Rightarrow> 'd list" where
  "capwap_hash_free_items NULL_item = []"
| "capwap_hash_free_items (Item d h l r) = capwap_hash_free_items l @ capwap_hash_free_items r @ [d]"

definition capwap_hash_deleteall :: "'d capwap_hash \<Rightarrow> 'd capwap_hash" where
  "capwap_hash_deleteall hash =
     hash\<lparr>hash_freed := hash_freed hash @ concat (map capwap_hash_free_items (hash_items hash)),
          hash_items := replicate (length (hash_items hash)) NULL_item, hash_count := 0\<rparr>"

subsection \<open>Iteration\<close>

datatype hash_result = HASH_BREAK | HASH_CONTINUE | HASH_DELETE_AND_BREAK | HASH_DELETE_AND_CONTINUE

text \<open>
  The callback works on a state (\<open>param\<close> and what it points to). The items to be removed are put in
  front of the list \<open>removeitems\<close>, here with their data.
\<close>

fun capwap_hash_foreach_items ::
    "('d \<Rightarrow> 's \<Rightarrow> hash_result \<times> 's) \<Rightarrow> 'd capwap_hash_item \<Rightarrow> 'd list \<Rightarrow> 's \<Rightarrow> hash_result \<times> 'd list \<times> 's" where
  "capwap_hash_foreach_items f NULL_item removeitems s = (HASH_CONTINUE, removeitems, s)"
| "capwap_hash_foreach_items f (Item d h l r) removeitems s =
     (let (result, removeitems, s) = capwap_hash_foreach_items f l removeitems s in
      if result = HASH_BREAK then (HASH_BREAK, removeitems, s)
      else
        let (result, s) = f d s;
            removeitems =
              (if result = HASH_DELETE_AND_BREAK \<or> result = HASH_DELETE_AND_CONTINUE then d # removeitems else removeitems)
        in if result = HASH_BREAK \<or> result = HASH_DELETE_AND_BREAK then (HASH_BREAK, removeitems, s)
           else capwap_hash_foreach_items f r removeitems s)"

fun foreach_buckets ::
    "('d \<Rightarrow> 's \<Rightarrow> hash_result \<times> 's) \<Rightarrow> 'd capwap_hash_item list \<Rightarrow> 'd list \<Rightarrow> 's \<Rightarrow> 'd list \<times> 's" where
  "foreach_buckets f [] removeitems s = (removeitems, s)"
| "foreach_buckets f (t # ts) removeitems s =
     (let (result, removeitems, s) = capwap_hash_foreach_items f t removeitems s
      in if result = HASH_BREAK then (removeitems, s) else foreach_buckets f ts removeitems s)"

text \<open>The pointer to a marked item, found again as the path of the item with this data.\<close>

fun path_of_data :: "'d \<Rightarrow> 'd capwap_hash_item \<Rightarrow> item_path option" where
  "path_of_data x NULL_item = None"
| "path_of_data x (Item d h l r) =
     (if d = x then Some []
      else case path_of_data x l of
          Some p \<Rightarrow> Some (LeftSide # p)
        | None \<Rightarrow> map_option (Cons RightSide) (path_of_data x r))"

fun delete_marked ::
    "('k, 'd) hash_callbacks \<Rightarrow> 'd list \<Rightarrow> 'd capwap_hash \<Rightarrow> 'd capwap_hash option" where
  "delete_marked cb [] hash = Some hash"
| "delete_marked cb (d # removeitems) hash = do {
     let hashvalue = item_gethash cb (item_getkey cb d) (hash_hashsize hash);
     p \<leftarrow> path_of_data d (hash_items hash ! hashvalue);
     hash \<leftarrow> capwap_hash_deleteitem hash p hashvalue;
     delete_marked cb removeitems hash }"

definition capwap_hash_foreach ::
    "('k, 'd) hash_callbacks \<Rightarrow> 'd capwap_hash \<Rightarrow> ('d \<Rightarrow> 's \<Rightarrow> hash_result \<times> 's) \<Rightarrow> 's \<Rightarrow> ('d capwap_hash \<times> 's) option" where
  "capwap_hash_foreach cb hash f s = do {
     let (removeitems, s) = foreach_buckets f (hash_items hash) [] s;
     hash \<leftarrow> delete_marked cb removeitems hash;
     Some (hash, s) }"

subsection \<open>Trees\<close>

fun inorder :: "'d capwap_hash_item \<Rightarrow> 'd list" where
  "inorder NULL_item = []"
| "inorder (Item d h l r) = inorder l @ d # inorder r"

text \<open>The stored height of a tree.\<close>

fun ht :: "'d capwap_hash_item \<Rightarrow> int" where
  "ht NULL_item = -1"
| "ht (Item d h l r) = h"

fun heights_nonneg :: "'d capwap_hash_item \<Rightarrow> bool" where
  "heights_nonneg NULL_item \<longleftrightarrow> True"
| "heights_nonneg (Item d h l r) \<longleftrightarrow> 0 \<le> h \<and> heights_nonneg l \<and> heights_nonneg r"

text \<open>Balanced trees with the right heights.\<close>

fun avl :: "'d capwap_hash_item \<Rightarrow> bool" where
  "avl NULL_item \<longleftrightarrow> True"
| "avl (Item d h l r) \<longleftrightarrow> avl l \<and> avl r \<and> h = 1 + max (ht l) (ht r) \<and> \<bar>ht l - ht r\<bar> \<le> 1"

lemma ht_ge: "heights_nonneg t \<Longrightarrow> -1 \<le> ht t"
  by (cases t) auto

lemma avl_nonneg: "avl t \<Longrightarrow> heights_nonneg t"
proof (induction t)
  case (Item d h l r)
  then show ?case using ht_ge [of l] ht_ge [of r] by auto
qed simp

lemma avl_ht_ge: "avl t \<Longrightarrow> -1 \<le> ht t"
  by (simp add: avl_nonneg ht_ge)

lemma ht_eq_NULL: "heights_nonneg t \<Longrightarrow> ht t = -1 \<longleftrightarrow> t = NULL_item"
  by (cases t) auto

lemma update_height_eq:
  "heights_nonneg l \<Longrightarrow> heights_nonneg r \<Longrightarrow>
   capwap_hash_update_height (Item d h l r) = Item d (1 + max (ht l) (ht r)) l r"
  using ht_ge [of l] ht_ge [of r] by (cases l; cases r) auto

lemma balance_eq: "capwap_hash_get_balance_item (Item d h l r) = Some (ht l - ht r)"
  by (cases l; cases r) auto

lemma inorder_update_height [simp]: "inorder (capwap_hash_update_height t) = inorder t"
  by (cases t) auto

lemma update_height_NULL [simp]: "capwap_hash_update_height t = NULL_item \<longleftrightarrow> t = NULL_item"
  by (cases t) auto

declare capwap_hash_update_height.simps(2) [simp del] capwap_hash_get_balance_item.simps(2) [simp del]

lemma set_left_eq:
  "heights_nonneg x \<Longrightarrow> heights_nonneg r \<Longrightarrow>
   capwap_hash_set_left_item (Item d h l r) x = Item d (1 + max (ht x) (ht r)) x r"
  by (simp add: update_height_eq)

lemma set_right_eq:
  "heights_nonneg l \<Longrightarrow> heights_nonneg x \<Longrightarrow>
   capwap_hash_set_right_item (Item d h l r) x = Item d (1 + max (ht l) (ht x)) l x"
  by (simp add: update_height_eq)

lemma inorder_set_item:
  "inorder (capwap_hash_set_left_item (Item d h l r) x) = inorder x @ d # inorder r"
  "inorder (capwap_hash_set_right_item (Item d h l r) x) = inorder l @ d # inorder x"
  by simp_all

lemma set_item_not_NULL:
  "capwap_hash_set_left_item (Item d h l r) x \<noteq> NULL_item" "capwap_hash_set_right_item (Item d h l r) x \<noteq> NULL_item"
  by simp_all

lemma nonneg_set_item:
  "heights_nonneg (Item d h l r) \<Longrightarrow> heights_nonneg x \<Longrightarrow> heights_nonneg (capwap_hash_set_left_item (Item d h l r) x)"
  "heights_nonneg (Item d h l r) \<Longrightarrow> heights_nonneg x \<Longrightarrow> heights_nonneg (capwap_hash_set_right_item (Item d h l r) x)"
  using ht_ge [of l] ht_ge [of r] ht_ge [of x] by (auto simp: update_height_eq)

subsection \<open>Paths\<close>

lemma item_at_append [simp]: "item_at (p @ q) t = item_at q (item_at p t)"
proof (induction p t rule: item_at.induct)
  case (2 s p)
  show ?case by (cases q) auto
qed auto

lemma put_item_append:
  "item_at p t \<noteq> NULL_item \<Longrightarrow> put_item (p @ q) x t = put_item p (put_item q x (item_at p t)) t"
  by (induction p t rule: item_at.induct) (auto split: side.splits)

lemma item_at_put [simp]: "item_at p t \<noteq> NULL_item \<Longrightarrow> item_at p (put_item p x t) = x"
  by (induction p t rule: item_at.induct) (auto split: side.splits)

lemma put_item_put [simp]: "put_item p x (put_item p y t) = put_item p x t"
  by (induction p t rule: item_at.induct) (auto split: side.splits)

lemma put_item_NULL: "put_item p x t = NULL_item \<longleftrightarrow> (if p = [] then x else t) = NULL_item"
  by (cases p; cases t) (auto split: side.splits)

lemma inorder_put_cong: "inorder x = inorder y \<Longrightarrow> inorder (put_item p x t) = inorder (put_item p y t)"
  by (induction p t rule: item_at.induct) (auto split: side.splits)

lemma put_item_same [simp]: "put_item p (item_at p t) t = t"
  by (induction p t rule: item_at.induct) (auto split: side.splits)

lemma inorder_put: "inorder x = inorder (item_at p t) \<Longrightarrow> inorder (put_item p x t) = inorder t"
  using inorder_put_cong [of x "item_at p t" p t] by simp

text \<open>What lies in front of and behind the subtree at a path.\<close>

lemma inorder_context:
  assumes "item_at p t \<noteq> NULL_item"
  obtains xs ys where "\<And>x. inorder (put_item p x t) = xs @ inorder x @ ys"
proof -
  have "\<exists>xs ys. \<forall>x. inorder (put_item p x t) = xs @ inorder x @ ys"
    using assms
  proof (induction p t rule: item_at.induct)
    case (1 t)
    show ?case by (intro exI [of _ "[]"]) simp
  next
    case (3 s p d h l r)
    then obtain xs ys where *: "\<forall>x. inorder (put_item p x (case s of LeftSide \<Rightarrow> l | RightSide \<Rightarrow> r)) = xs @ inorder x @ ys"
      by auto
    show ?case
    proof (cases s)
      case LeftSide
      with * show ?thesis by (intro exI [of _ xs] exI [of _ "ys @ d # inorder r"]) auto
    next
      case RightSide
      with * show ?thesis by (intro exI [of _ "inorder l @ d # xs"] exI [of _ ys]) auto
    qed
  qed simp
  then show ?thesis using that by blast
qed

lemma set_child_snoc: "set_child_item (p @ [s]) x t =
    put_item p (case s of LeftSide \<Rightarrow> capwap_hash_set_left_item (item_at p t) x
      | RightSide \<Rightarrow> capwap_hash_set_right_item (item_at p t) x) t"
  by (simp add: set_child_item_def Let_def)

lemma set_child_Nil [simp]: "set_child_item [] x t = x"
  by (simp add: set_child_item_def)

lemma inorder_set_child:
  assumes "item_at p t \<noteq> NULL_item"
  shows "inorder (set_child_item p x t) = inorder (put_item p x t)"
proof (cases p rule: rev_cases)
  case (snoc q s)
  then have q: "item_at q t \<noteq> NULL_item"
    using assms by auto
  then obtain d h l r where i: "item_at q t = Item d h l r" by (cases "item_at q t") auto
  show ?thesis
    unfolding snoc set_child_snoc put_item_append [OF q]
    by (intro inorder_put_cong) (simp add: i split: side.splits)
qed simp

lemma item_at_set_child [simp]:
  assumes "item_at p t \<noteq> NULL_item"
  shows "item_at p (set_child_item p x t) = x"
proof (cases p rule: rev_cases)
  case (snoc q s)
  then have q: "item_at q t \<noteq> NULL_item"
    using assms by auto
  then obtain d h l r where i: "item_at q t = Item d h l r" by (cases "item_at q t") auto
  show ?thesis
    unfolding snoc set_child_snoc item_at_append item_at_put [OF q]
    by (simp add: i capwap_hash_update_height.simps split: side.splits)
qed simp

lemma nonneg_put: "heights_nonneg t \<Longrightarrow> heights_nonneg x \<Longrightarrow> heights_nonneg (put_item p x t)"
  by (induction p t rule: item_at.induct) (auto split: side.splits)

lemma nonneg_item_at: "heights_nonneg t \<Longrightarrow> heights_nonneg (item_at p t)"
  by (induction p t rule: item_at.induct) (auto split: side.splits)

lemma nonneg_set_child:
  assumes "heights_nonneg t" "heights_nonneg x"
  shows "heights_nonneg (set_child_item p x t)"
proof (cases p rule: rev_cases)
  case (snoc q s)
  show ?thesis
  proof (cases "item_at q t")
    case (Item d h l r)
    then have "heights_nonneg l" "heights_nonneg r"
      using nonneg_item_at [OF assms(1), of q] by auto
    then show ?thesis
      unfolding snoc set_child_snoc using assms ht_ge [of x] ht_ge [of l] ht_ge [of r]
      by (intro nonneg_put) (auto simp: Item update_height_eq split: side.splits)
  qed (use assms in \<open>auto simp: snoc set_child_snoc intro!: nonneg_put split: side.splits\<close>)
qed (use assms in simp)

subsection \<open>Balancing\<close>

text \<open>The two rotations as operations on a subtree.\<close>

fun rot_left :: "'d capwap_hash_item \<Rightarrow> 'd capwap_hash_item option" where
  "rot_left (Item d h l (Item rd rh rl rr)) =
     Some (capwap_hash_set_left_item (Item rd rh rl rr) (capwap_hash_set_right_item (Item d h l (Item rd rh rl rr)) rl))"
| "rot_left _ = None"

fun rot_right :: "'d capwap_hash_item \<Rightarrow> 'd capwap_hash_item option" where
  "rot_right (Item d h (Item ld lh ll lr) r) =
     Some (capwap_hash_set_right_item (Item ld lh ll lr) (capwap_hash_set_left_item (Item d h (Item ld lh ll lr) r) lr))"
| "rot_right _ = None"

lemma rotate_left_eq: "capwap_hash_rotate_left p t = map_option (\<lambda>x. set_child_item p x t) (rot_left (item_at p t))"
  by (cases "item_at p t" rule: rot_left.cases) (auto simp: capwap_hash_rotate_left_def)

lemma rotate_right_eq: "capwap_hash_rotate_right p t = map_option (\<lambda>x. set_child_item p x t) (rot_right (item_at p t))"
  by (cases "item_at p t" rule: rot_right.cases) (auto simp: capwap_hash_rotate_right_def)

lemma rot_left_props:
  assumes "rot_left t = Some x" "heights_nonneg t"
  shows "inorder x = inorder t" "heights_nonneg x" "x \<noteq> NULL_item"
proof -
  have "inorder x = inorder t \<and> heights_nonneg x \<and> x \<noteq> NULL_item"
    using assms by (cases t rule: rot_left.cases) (auto simp del: capwap_hash_set_left_item.simps capwap_hash_set_right_item.simps
        simp: inorder_set_item set_item_not_NULL nonneg_set_item)
  then show "inorder x = inorder t" "heights_nonneg x" "x \<noteq> NULL_item"
    by simp_all
qed

lemma rot_right_props:
  assumes "rot_right t = Some x" "heights_nonneg t"
  shows "inorder x = inorder t" "heights_nonneg x" "x \<noteq> NULL_item"
proof -
  have "inorder x = inorder t \<and> heights_nonneg x \<and> x \<noteq> NULL_item"
    using assms by (cases t rule: rot_right.cases) (auto simp del: capwap_hash_set_left_item.simps capwap_hash_set_right_item.simps
        simp: inorder_set_item set_item_not_NULL nonneg_set_item)
  then show "inorder x = inorder t" "heights_nonneg x" "x \<noteq> NULL_item"
    by simp_all
qed

lemma rotate_step:
  assumes "rot_left (item_at p t) = Some x \<or> rot_right (item_at p t) = Some x" "heights_nonneg t"
  shows "inorder (set_child_item p x t) = inorder t" "heights_nonneg (set_child_item p x t)"
    "item_at p (set_child_item p x t) \<noteq> NULL_item"
proof -
  have p: "item_at p t \<noteq> NULL_item"
    using assms(1) by auto
  have x: "inorder x = inorder (item_at p t)" "heights_nonneg x" "x \<noteq> NULL_item"
    using assms rot_left_props rot_right_props nonneg_item_at by metis+
  show "inorder (set_child_item p x t) = inorder t"
    by (simp add: inorder_set_child [OF p] inorder_put x)
  show "heights_nonneg (set_child_item p x t)"
    by (intro nonneg_set_child assms x)
  show "item_at p (set_child_item p x t) \<noteq> NULL_item"
    using p x by simp
qed

lemma rot_left_defined: "heights_nonneg t \<Longrightarrow> capwap_hash_get_balance_item t = Some b \<Longrightarrow> b < 0 \<Longrightarrow> rot_left t \<noteq> None"
  by (cases t rule: rot_left.cases) (auto simp: balance_eq dest: ht_ge)

lemma rot_right_defined: "heights_nonneg t \<Longrightarrow> capwap_hash_get_balance_item t = Some b \<Longrightarrow> b > 0 \<Longrightarrow> rot_right t \<noteq> None"
  by (cases t rule: rot_right.cases) (auto simp: balance_eq dest: ht_ge)

lemma balance_left_heavy:
  assumes "heights_nonneg t" "item_at p t = Item d h l r" "ht l - ht r > 1"
  obtains t' p' where "capwap_hash_balance_tree p t = Some (t', p')" "inorder t' = inorder t" "heights_nonneg t'"
    "item_at p t' \<noteq> NULL_item"
proof -
  note i = assms(2)
  have nn: "heights_nonneg l" "heights_nonneg r"
    using nonneg_item_at [OF assms(1), of p] by (auto simp: i)
  have "l \<noteq> NULL_item" using assms(3) ht_ge [OF nn(2)] by auto
  then obtain b where b: "capwap_hash_get_balance_item l = Some b" by (cases l) (auto simp: balance_eq)
  obtain t1 where t1: "(if b < 0 then capwap_hash_rotate_left (p @ [LeftSide]) t else Some t) = Some t1"
    "inorder t1 = inorder t" "heights_nonneg t1" "item_at p t1 \<noteq> NULL_item" "item_left (item_at p t1) \<noteq> NULL_item"
  proof (cases "b < 0")
    case True
    then obtain x where x: "rot_left l = Some x" using rot_left_defined [OF nn(1) b] by auto
    have at: "item_at (p @ [LeftSide]) t = l" by (simp add: i)
    note st = rotate_step [of "p @ [LeftSide]" t x, unfolded at, OF disjI1 [OF x] assms(1)]
    have "item_at p (set_child_item (p @ [LeftSide]) x t) \<noteq> NULL_item" "item_left (item_at p (set_child_item (p @ [LeftSide]) x t)) \<noteq> NULL_item"
      using st(3) unfolding item_at_append by (cases "item_at p (set_child_item (p @ [LeftSide]) x t)"; simp)+
    then show ?thesis
      using that True st x at by (simp add: rotate_left_eq)
  next
    case False
    then show ?thesis using that assms(1) i \<open>l \<noteq> NULL_item\<close> by simp
  qed
  obtain y where y: "rot_right (item_at p t1) = Some y"
    using t1(4,5) by (cases "item_at p t1" rule: rot_right.cases) auto
  note st = rotate_step [OF disjI2 [OF y] t1(3)]
  have "capwap_hash_balance_tree p t = Some (set_child_item p y t1, p @ [RightSide])"
    using assms(3) b t1(1) y by (simp add: capwap_hash_balance_tree_def i balance_eq rotate_right_eq)
  then show ?thesis using that st t1(2) by simp
qed

lemma balance_right_heavy:
  assumes "heights_nonneg t" "item_at p t = Item d h l r" "ht l - ht r < -1"
  obtains t' p' where "capwap_hash_balance_tree p t = Some (t', p')" "inorder t' = inorder t" "heights_nonneg t'"
    "item_at p t' \<noteq> NULL_item"
proof -
  note i = assms(2)
  have nn: "heights_nonneg l" "heights_nonneg r"
    using nonneg_item_at [OF assms(1), of p] by (auto simp: i)
  have "r \<noteq> NULL_item" using assms(3) ht_ge [OF nn(1)] by auto
  then obtain b where b: "capwap_hash_get_balance_item r = Some b" by (cases r) (auto simp: balance_eq)
  obtain t1 where t1: "(if b > 0 then capwap_hash_rotate_right (p @ [RightSide]) t else Some t) = Some t1"
    "inorder t1 = inorder t" "heights_nonneg t1" "item_at p t1 \<noteq> NULL_item" "item_right (item_at p t1) \<noteq> NULL_item"
  proof (cases "b > 0")
    case True
    then obtain x where x: "rot_right r = Some x" using rot_right_defined [OF nn(2) b] by auto
    have at: "item_at (p @ [RightSide]) t = r" by (simp add: i)
    note st = rotate_step [of "p @ [RightSide]" t x, unfolded at, OF disjI2 [OF x] assms(1)]
    have "item_at p (set_child_item (p @ [RightSide]) x t) \<noteq> NULL_item" "item_right (item_at p (set_child_item (p @ [RightSide]) x t)) \<noteq> NULL_item"
      using st(3) unfolding item_at_append by (cases "item_at p (set_child_item (p @ [RightSide]) x t)"; simp)+
    then show ?thesis
      using that True st x at by (simp add: rotate_right_eq)
  next
    case False
    then show ?thesis using that assms(1) i \<open>r \<noteq> NULL_item\<close> by simp
  qed
  obtain y where y: "rot_left (item_at p t1) = Some y"
    using t1(4,5) by (cases "item_at p t1" rule: rot_left.cases) auto
  note st = rotate_step [OF disjI1 [OF y] t1(3)]
  have "capwap_hash_balance_tree p t = Some (set_child_item p y t1, p @ [LeftSide])"
    using assms(3) b t1(1) y by (simp add: capwap_hash_balance_tree_def i balance_eq rotate_left_eq)
  then show ?thesis using that st t1(2) by simp
qed

lemma balance_even:
  assumes "item_at p t = Item d h l r" "\<bar>ht l - ht r\<bar> \<le> 1"
  shows "capwap_hash_balance_tree p t = Some (t, p)"
  using assms by (auto simp: capwap_hash_balance_tree_def balance_eq)

lemma balance_tree_total:
  assumes "heights_nonneg t" "item_at p t \<noteq> NULL_item"
  obtains t' p' where "capwap_hash_balance_tree p t = Some (t', p')" "inorder t' = inorder t" "heights_nonneg t'"
    "item_at p t' \<noteq> NULL_item"
proof -
  obtain d h l r where i: "item_at p t = Item d h l r"
    using assms(2) by (cases "item_at p t") auto
  consider "ht l - ht r > 1" | "ht l - ht r < -1" | "\<bar>ht l - ht r\<bar> \<le> 1"
    by linarith
  then show ?thesis
    by cases (use balance_left_heavy [OF assms(1) i] balance_right_heavy [OF assms(1) i] balance_even [OF i] that assms in metis)+
qed

subsection \<open>Rebalancing a subtree\<close>

text \<open>
  What happens in a subtree is independent of what lies above it, except that the parent's height may be
  updated: a rotation at the root of the subtree does that.
\<close>

definition above :: "side \<Rightarrow> 'd capwap_hash_item \<Rightarrow> 'd capwap_hash_item \<Rightarrow> 'd capwap_hash_item \<Rightarrow> bool" where
  "above s c x t \<longleftrightarrow> (\<exists>h. t = (case c of NULL_item \<Rightarrow> NULL_item
     | Item d _ l r \<Rightarrow> (case s of LeftSide \<Rightarrow> Item d h x r | RightSide \<Rightarrow> Item d h l x)))"

lemma set_child_above:
  assumes "above s c x t" "c \<noteq> NULL_item" "item_at p x \<noteq> NULL_item"
  shows "above s c (set_child_item p y x) (set_child_item (s # p) y t)"
proof (cases p rule: rev_cases)
  case Nil
  show ?thesis
    using assms unfolding Nil by (cases c; cases s) (auto simp: above_def set_child_item_def capwap_hash_update_height.simps)
next
  case (snoc q s')
  have "set_child_item (s # p) y t = put_item (s # q)
      (case s' of LeftSide \<Rightarrow> capwap_hash_set_left_item (item_at (s # q) t) y
      | RightSide \<Rightarrow> capwap_hash_set_right_item (item_at (s # q) t) y) t"
    using set_child_snoc [of "s # q" s' y t] by (simp add: snoc)
  then show ?thesis
    using assms unfolding snoc set_child_snoc by (cases c) (auto simp: above_def split: side.splits)
qed

lemma item_at_above: "above s c x t \<Longrightarrow> c \<noteq> NULL_item \<Longrightarrow> item_at (s # p) t = item_at p x"
  by (cases c; cases s) (auto simp: above_def)

lemma rotate_above:
  assumes "above s c x t" "c \<noteq> NULL_item"
  shows "capwap_hash_rotate_left p x = Some x' \<Longrightarrow> \<exists>t'. capwap_hash_rotate_left (s # p) t = Some t' \<and> above s c x' t'"
    "capwap_hash_rotate_right p x = Some x' \<Longrightarrow> \<exists>t'. capwap_hash_rotate_right (s # p) t = Some t' \<and> above s c x' t'"
proof -
  have p: "item_at p x \<noteq> NULL_item" if "rot_left (item_at p x) = Some y \<or> rot_right (item_at p x) = Some y" for y
    using that by auto
  show "capwap_hash_rotate_left p x = Some x' \<Longrightarrow> \<exists>t'. capwap_hash_rotate_left (s # p) t = Some t' \<and> above s c x' t'"
    "capwap_hash_rotate_right p x = Some x' \<Longrightarrow> \<exists>t'. capwap_hash_rotate_right (s # p) t = Some t' \<and> above s c x' t'"
    using set_child_above [OF assms] p by (auto simp: rotate_left_eq rotate_right_eq item_at_above [OF assms])
qed

lemma balance_above:
  assumes "above s c x t" "c \<noteq> NULL_item" "capwap_hash_balance_tree p x = Some (x', p')"
  shows "\<exists>t'. capwap_hash_balance_tree (s # p) t = Some (t', s # p') \<and> above s c x' t'"
proof -
  note at = item_at_above [OF assms(1,2)]
  obtain b where b: "capwap_hash_get_balance_item (item_at p x) = Some b"
    using assms(3) by (auto simp: capwap_hash_balance_tree_def bind_eq_Some_conv)
  consider (left) "b > 1" | (right) "b < -1" | (none) "\<bar>b\<bar> \<le> 1" by linarith
  then show ?thesis
  proof cases
    case left
    then obtain c1 x1 where c1: "capwap_hash_get_balance_item (item_at (p @ [LeftSide]) x) = Some c1"
      "(if c1 < 0 then capwap_hash_rotate_left (p @ [LeftSide]) x else Some x) = Some x1"
      "capwap_hash_rotate_right p x1 = Some x'" "p' = p @ [RightSide]"
      using assms(3) b by (auto simp: capwap_hash_balance_tree_def bind_eq_Some_conv)
    obtain t1 where t1: "(if c1 < 0 then capwap_hash_rotate_left (s # p @ [LeftSide]) t else Some t) = Some t1" "above s c x1 t1"
      using rotate_above(1) [OF assms(1,2), of "p @ [LeftSide]" x1] c1(2) assms(1) by (cases "c1 < 0") auto
    obtain t2 where "capwap_hash_rotate_right (s # p) t1 = Some t2" "above s c x' t2"
      using rotate_above(2) [OF t1(2) assms(2) c1(3)] by blast
    then show ?thesis
      using left b c1 t1 at [of p] at [of "p @ [LeftSide]"] by (auto simp: capwap_hash_balance_tree_def)
  next
    case right
    then obtain c1 x1 where c1: "capwap_hash_get_balance_item (item_at (p @ [RightSide]) x) = Some c1"
      "(if c1 > 0 then capwap_hash_rotate_right (p @ [RightSide]) x else Some x) = Some x1"
      "capwap_hash_rotate_left p x1 = Some x'" "p' = p @ [LeftSide]"
      using assms(3) b by (auto simp: capwap_hash_balance_tree_def bind_eq_Some_conv)
    obtain t1 where t1: "(if c1 > 0 then capwap_hash_rotate_right (s # p @ [RightSide]) t else Some t) = Some t1" "above s c x1 t1"
      using rotate_above(2) [OF assms(1,2), of "p @ [RightSide]" x1] c1(2) assms(1) by (cases "c1 > 0") auto
    obtain t2 where "capwap_hash_rotate_left (s # p) t1 = Some t2" "above s c x' t2"
      using rotate_above(1) [OF t1(2) assms(2) c1(3)] by blast
    then show ?thesis
      using right b c1 t1 at [of p] at [of "p @ [RightSide]"] by (auto simp: capwap_hash_balance_tree_def)
  next
    case none
    then show ?thesis
      using assms b at [of p] by (auto simp: capwap_hash_balance_tree_def)
  qed
qed

lemma rebalancing_root_height:
  "rebalancing [] (Item d h l r) = rebalancing [] (Item d h' l r)"
  by (subst (1 2) rebalancing.simps) (simp add: capwap_hash_update_height.simps)

lemma rebalancing_above:
  assumes "rebalancing p x = Some x'" "above s c x t" "c \<noteq> NULL_item" "above s c x' t'"
  shows "rebalancing (s # p) t = rebalancing [] t'"
proof -
  have "above s c x t \<longrightarrow> above s c x' t' \<longrightarrow> rebalancing (s # p) t = rebalancing [] t'" for t t'
  proof (rule rebalancing.raw_induct [where P = "\<lambda>p x x'. \<forall>t t'. above s c x t \<longrightarrow> above s c x' t' \<longrightarrow> rebalancing (s # p) t = rebalancing [] t'",
      OF _ assms(1), THEN spec, THEN spec], intro allI impI, goal_cases)
    case (1 rec p x y t t')
    let ?u = "put_item p (capwap_hash_update_height (item_at p x)) x"
    obtain x1 p1 where x1: "capwap_hash_balance_tree p ?u = Some (x1, p1)"
      "(if p1 = [] then Some x1 else rec (butlast p1) x1) = Some y"
      using 1(2) by (auto simp: bind_eq_Some_conv)
    have u: "above s c ?u (put_item (s # p) (capwap_hash_update_height (item_at (s # p) t)) t)"
      using 1(3) assms(3) by (cases c) (auto simp: above_def split: side.splits)
    obtain t1 where t1: "capwap_hash_balance_tree (s # p) (put_item (s # p) (capwap_hash_update_height (item_at (s # p) t)) t) = Some (t1, s # p1)"
      "above s c x1 t1"
      using balance_above [OF u assms(3) x1(1)] by blast
    then have step: "rebalancing (s # p) t = rebalancing (butlast (s # p1)) t1"
      by (subst rebalancing.simps) simp
    show ?case
    proof (cases "p1 = []")
      case True
      then have "above s c x1 t'" using x1(2) 1(4) by simp
      then have "rebalancing [] t1 = rebalancing [] t'"
        using t1(2) assms(3) by (cases c) (auto simp: above_def split: side.splits intro: rebalancing_root_height)
      then show ?thesis using step True by simp
    next
      case False
      then show ?thesis using step 1(1) [of "butlast p1" x1 y] x1(2) t1(2) 1(4) by simp
    qed
  qed
  then show ?thesis using assms by blast
qed

subsection \<open>Adding keeps the trees balanced\<close>

text \<open>The two cases of a tree that is too high on one side, by what balancing does.\<close>

lemma balance_avl_left:
  assumes "avl l" "avl r" "ht l = ht r + 2"
  obtains t' where "capwap_hash_balance_tree [] (Item d h l r) = Some (t', [RightSide])" "avl t'"
    "ht t' = ht l \<or> ht t' = ht l + 1" "inorder t' = inorder (Item d h l r)"
proof -
  obtain ld lh ll lr where l: "l = Item ld lh ll lr"
    using assms avl_ht_ge [of r] by (cases l) auto
  have nn: "heights_nonneg ll" "heights_nonneg lr" "heights_nonneg r" "-1 \<le> ht r"
    using assms l avl_nonneg [of ll] avl_nonneg [of lr] avl_nonneg [of r] ht_ge [of r] by auto
  show ?thesis
  proof (cases "ht ll < ht lr")
    case False
    let ?t = "Item ld (1 + max (ht ll) (1 + max (ht lr) (ht r))) ll (Item d (1 + max (ht lr) (ht r)) lr r)"
    have "capwap_hash_balance_tree [] (Item d h l r) = Some (?t, [RightSide])"
      using assms False nn ht_ge [of lr] by (simp add: capwap_hash_balance_tree_def balance_eq l rotate_right_eq update_height_eq)
    then show ?thesis
      by (rule that) (use assms False in \<open>auto simp: l\<close>)
  next
    case True
    then obtain md mh ml mr where m: "lr = Item md mh ml mr"
      using ht_ge [OF nn(1)] by (cases lr) auto
    have nm: "heights_nonneg ml" "heights_nonneg mr"
      using nn m by auto
    let ?t = "Item md (1 + max (1 + max (ht ll) (ht ml)) (1 + max (ht mr) (ht r)))
       (Item ld (1 + max (ht ll) (ht ml)) ll ml) (Item d (1 + max (ht mr) (ht r)) mr r)"
    have "capwap_hash_balance_tree [] (Item d h l r) = Some (?t, [RightSide])"
      using assms True nn nm ht_ge [of ll] ht_ge [of ml] ht_ge [of mr]
      by (simp add: capwap_hash_balance_tree_def balance_eq l m rotate_right_eq rotate_left_eq update_height_eq set_child_item_def)
    then show ?thesis
      by (rule that) (use assms True in \<open>auto simp: l m\<close>)
  qed
qed

lemma balance_avl_right:
  assumes "avl l" "avl r" "ht r = ht l + 2"
  obtains t' where "capwap_hash_balance_tree [] (Item d h l r) = Some (t', [LeftSide])" "avl t'"
    "ht t' = ht r \<or> ht t' = ht r + 1" "inorder t' = inorder (Item d h l r)"
proof -
  obtain rd rh rl rr where r: "r = Item rd rh rl rr"
    using assms avl_ht_ge [of l] by (cases r) auto
  have nn: "heights_nonneg rl" "heights_nonneg rr" "heights_nonneg l" "-1 \<le> ht l"
    using assms r avl_nonneg [of rl] avl_nonneg [of rr] avl_nonneg [of l] ht_ge [of l] by auto
  show ?thesis
  proof (cases "ht rr < ht rl")
    case False
    let ?t = "Item rd (1 + max (1 + max (ht l) (ht rl)) (ht rr)) (Item d (1 + max (ht l) (ht rl)) l rl) rr"
    have "capwap_hash_balance_tree [] (Item d h l r) = Some (?t, [LeftSide])"
      using assms False nn ht_ge [of rl] by (simp add: capwap_hash_balance_tree_def balance_eq r rotate_left_eq update_height_eq)
    then show ?thesis
      by (rule that) (use assms False in \<open>auto simp: r\<close>)
  next
    case True
    then obtain md mh ml mr where m: "rl = Item md mh ml mr"
      using ht_ge [OF nn(2)] by (cases rl) auto
    have nm: "heights_nonneg ml" "heights_nonneg mr"
      using nn m by auto
    let ?t = "Item md (1 + max (1 + max (ht l) (ht ml)) (1 + max (ht mr) (ht rr)))
       (Item d (1 + max (ht l) (ht ml)) l ml) (Item rd (1 + max (ht mr) (ht rr)) mr rr)"
    have "capwap_hash_balance_tree [] (Item d h l r) = Some (?t, [LeftSide])"
      using assms True nn nm ht_ge [of rr] ht_ge [of ml] ht_ge [of mr]
      by (simp add: capwap_hash_balance_tree_def balance_eq r m rotate_right_eq rotate_left_eq update_height_eq set_child_item_def)
    then show ?thesis
      by (rule that) (use assms True in \<open>auto simp: r m\<close>)
  qed
qed

lemma rebalancing_avl: "avl t \<Longrightarrow> t \<noteq> NULL_item \<Longrightarrow> rebalancing [] t = Some t"
proof (cases t)
  case (Item d h l r)
  assume "avl t"
  with Item show ?thesis
    by (subst rebalancing.simps) (auto simp: update_height_eq avl_nonneg balance_even)
qed simp

lemma rebalancing_root:
  assumes "avl l" "avl r" "\<bar>ht l - ht r\<bar> \<le> 2"
  obtains t' where "rebalancing [] (Item d h l r) = Some t'" "avl t'" "inorder t' = inorder (Item d h l r)"
    "ht t' = max (ht l) (ht r) \<or> ht t' = 1 + max (ht l) (ht r)" "\<bar>ht l - ht r\<bar> \<le> 1 \<longrightarrow> ht t' = 1 + max (ht l) (ht r)"
proof -
  let ?u = "Item d (1 + max (ht l) (ht r)) l r"
  have up: "rebalancing [] (Item d h l r) = rebalancing [] ?u"
    by (rule rebalancing_root_height)
  have nn: "heights_nonneg l" "heights_nonneg r"
    using assms avl_nonneg by auto
  consider "\<bar>ht l - ht r\<bar> \<le> 1" | "ht l = ht r + 2" | "ht r = ht l + 2"
    using assms(3) by linarith
  then show ?thesis
  proof cases
    case 1
    then have "rebalancing [] ?u = Some ?u" using assms by (intro rebalancing_avl) auto
    then show ?thesis using that 1 assms up by auto
  next
    case 2
    obtain t' where t': "capwap_hash_balance_tree [] ?u = Some (t', [RightSide])" "avl t'"
      "ht t' = ht l \<or> ht t' = ht l + 1" "inorder t' = inorder ?u"
      by (rule balance_avl_left [OF assms(1,2) 2])
    then have "rebalancing [] ?u = rebalancing [] t'"
      by (subst rebalancing.simps) (simp add: update_height_eq nn)
    then show ?thesis
      using that [of t'] t' up 2 rebalancing_avl [of t'] by (cases "t' = NULL_item") auto
  next
    case 3
    obtain t' where t': "capwap_hash_balance_tree [] ?u = Some (t', [LeftSide])" "avl t'"
      "ht t' = ht r \<or> ht t' = ht r + 1" "inorder t' = inorder ?u"
      by (rule balance_avl_right [OF assms(1,2) 3])
    then have "rebalancing [] ?u = rebalancing [] t'"
      by (subst rebalancing.simps) (simp add: update_height_eq nn)
    then show ?thesis
      using that [of t'] t' up 3 rebalancing_avl [of t'] by (cases "t' = NULL_item") auto
  qed
qed

lemma rebalancing_child:
  assumes "rebalancing p x = Some x'" "s = LeftSide \<and> t = Item d h x r \<and> t' = Item d h' x' r \<or> s = RightSide \<and> t = Item d h l x \<and> t' = Item d h' l x'"
  shows "rebalancing (s # p) t = rebalancing [] t'"
  using assms(2)
proof
  assume "s = LeftSide \<and> t = Item d h x r \<and> t' = Item d h' x' r"
  then show ?thesis by (intro rebalancing_above [OF assms(1), where c = t]) (auto simp: above_def)
next
  assume "s = RightSide \<and> t = Item d h l x \<and> t' = Item d h' l x'"
  then show ?thesis by (intro rebalancing_above [OF assms(1), where c = t]) (auto simp: above_def)
qed

lemma create_item_avl: "avl (capwap_hash_create_item x)" "ht (capwap_hash_create_item x) = 0"
    "inorder (capwap_hash_create_item x) = [x]" "capwap_hash_create_item x \<noteq> NULL_item"
  by (simp_all add: capwap_hash_create_item_def)

text \<open>From a child that grew by at most one level to its parent.\<close>

lemma rebalancing_grown:
  assumes "rebalancing q x = Some x'" "avl x'" "inorder x' = inorder x"
    and "avl l" "avl r" "h = 1 + max (ht l) (ht r)" "\<bar>ht l - ht r\<bar> \<le> 1"
    and "s = LeftSide \<and> t' = Item d k x r \<and> (ht x' = ht l \<or> ht x' = ht l + 1) \<or>
      s = RightSide \<and> t' = Item d k l x \<and> (ht x' = ht r \<or> ht x' = ht r + 1)"
  shows "\<exists>t''. rebalancing (s # q) t' = Some t'' \<and> avl t'' \<and> (ht t'' = h \<or> ht t'' = h + 1) \<and> inorder t'' = inorder t'"
  using assms(8)
proof
  assume s: "s = LeftSide \<and> t' = Item d k x r \<and> (ht x' = ht l \<or> ht x' = ht l + 1)"
  then have "rebalancing (s # q) t' = rebalancing [] (Item d k x' r)"
    by (intro rebalancing_child [OF assms(1)]) simp
  moreover obtain t'' where "rebalancing [] (Item d k x' r) = Some t''" "avl t''" "inorder t'' = inorder (Item d k x' r)"
    "ht t'' = max (ht x') (ht r) \<or> ht t'' = 1 + max (ht x') (ht r)" "\<bar>ht x' - ht r\<bar> \<le> 1 \<longrightarrow> ht t'' = 1 + max (ht x') (ht r)"
    by (rule rebalancing_root [OF assms(2,5), of d k]) (use s assms(7) in auto)
  ultimately show ?thesis using s assms by auto
next
  assume s: "s = RightSide \<and> t' = Item d k l x \<and> (ht x' = ht r \<or> ht x' = ht r + 1)"
  then have "rebalancing (s # q) t' = rebalancing [] (Item d k l x')"
    by (intro rebalancing_child [OF assms(1)]) simp
  moreover obtain t'' where "rebalancing [] (Item d k l x') = Some t''" "avl t''" "inorder t'' = inorder (Item d k l x')"
    "ht t'' = max (ht l) (ht x') \<or> ht t'' = 1 + max (ht l) (ht x')" "\<bar>ht l - ht x'\<bar> \<le> 1 \<longrightarrow> ht t'' = 1 + max (ht l) (ht x')"
    by (rule rebalancing_root [OF assms(4,2), of d k]) (use s assms(7) in auto)
  ultimately show ?thesis using s assms by auto
qed

lemma insert_avl:
  assumes "avl t" "t \<noteq> NULL_item" "hash_insert cb data t = (t', Inr p)"
  shows "\<exists>t''. rebalancing p t' = Some t'' \<and> avl t'' \<and> (ht t'' = ht t \<or> ht t'' = ht t + 1) \<and> inorder t'' = inorder t'"
  using assms
proof (induction t arbitrary: t' p)
  case (Item d h l r)
  let ?c = "item_cmp cb (item_getkey cb data) (item_getkey cb d)"
  have avl: "avl l" "avl r" "h = 1 + max (ht l) (ht r)" "\<bar>ht l - ht r\<bar> \<le> 1"
    using Item.prems by auto
  note new = rebalancing_avl [OF create_item_avl(1) create_item_avl(4), of data] create_item_avl [of data]
  consider (eq) "?c = 0" | (left) "?c < 0" "l \<noteq> NULL_item" | (left_new) "?c < 0" "l = NULL_item"
    | (right) "?c > 0" "r \<noteq> NULL_item" | (right_new) "?c > 0" "r = NULL_item"
    by linarith
  then show ?case
  proof cases
    case eq
    then show ?thesis using Item.prems by simp
  next
    case left
    then obtain x q where q: "hash_insert cb data l = (x, Inr q)" "t' = Item d h x r" "p = LeftSide # q"
      using Item.prems(3) by (cases "hash_insert cb data l"; cases "snd (hash_insert cb data l)") (auto simp: Let_def)
    with Item.IH(1) [OF avl(1) left(2)] obtain x' where "rebalancing q x = Some x'" "avl x'"
      "ht x' = ht l \<or> ht x' = ht l + 1" "inorder x' = inorder x" by blast
    then show ?thesis using rebalancing_grown [of q x x' l r h LeftSide t' d h] q avl by simp
  next
    case left_new
    then show ?thesis
      using Item.prems(3) new rebalancing_grown [of "[]" "capwap_hash_create_item data" "capwap_hash_create_item data" l r h LeftSide t' d] avl
      by (auto simp: update_height_eq avl_nonneg)
  next
    case right
    then obtain x q where q: "hash_insert cb data r = (x, Inr q)" "t' = Item d h l x" "p = RightSide # q"
      using Item.prems(3) by (cases "hash_insert cb data r"; cases "snd (hash_insert cb data r)") (auto simp: Let_def)
    with Item.IH(2) [OF avl(2) right(2)] obtain x' where "rebalancing q x = Some x'" "avl x'"
      "ht x' = ht r \<or> ht x' = ht r + 1" "inorder x' = inorder x" by blast
    then show ?thesis using rebalancing_grown [of q x x' l r h RightSide t' d h] q avl by simp
  next
    case right_new
    then show ?thesis
      using Item.prems(3) new rebalancing_grown [of "[]" "capwap_hash_create_item data" "capwap_hash_create_item data" l r h RightSide t' d] avl
      by (auto simp: update_height_eq avl_nonneg)
  qed
qed simp

end
