(* ===== verification/Capwap_Hash_Map.thy ===== *)
theory Capwap_Hash_Map
  imports Capwap_Hash "HOL-Library.Multiset"
begin

text \<open>
  The hash table of \<open>common/capwap_hash.c\<close> as a map. \<open>hash_client\<close> is the contract of the callbacks a
  table is created with: the comparison is a total order on keys and the hash value is an index of a
  bucket. Under it, adding, deleting and iterating refine the update, the removal and the traversal of
  \<open>hash_map\<close>; searching is characterised exactly, including when its loop does not end.
\<close>

subsection \<open>The map a table stands for\<close>

definition before :: "('k, 'd) hash_callbacks \<Rightarrow> 'd \<Rightarrow> 'd \<Rightarrow> bool" where
  "before cb x y \<longleftrightarrow> item_cmp cb (item_getkey cb x) (item_getkey cb y) < 0"

definition ordered :: "('k, 'd) hash_callbacks \<Rightarrow> 'd capwap_hash_item \<Rightarrow> bool" where
  "ordered cb t \<longleftrightarrow> sorted_wrt (before cb) (inorder t)"

definition data_map :: "('k, 'd) hash_callbacks \<Rightarrow> 'd list \<Rightarrow> 'k \<Rightarrow> 'd option" where
  "data_map cb xs k = find (\<lambda>d. item_getkey cb d = k) xs"

text \<open>
  The invariant of a table: every bucket is ordered, holds only data that is hashed to it, and the count is
  right. \<open>hash_balanced\<close> adds that the buckets are balanced.
\<close>

definition hash_inv :: "('k, 'd) hash_callbacks \<Rightarrow> 'd capwap_hash \<Rightarrow> bool" where
  "hash_inv cb hash \<longleftrightarrow> length (hash_items hash) = hash_hashsize hash \<and>
     (\<forall>i<hash_hashsize hash. ordered cb (hash_items hash ! i) \<and> heights_nonneg (hash_items hash ! i) \<and>
        (\<forall>d\<in>set (inorder (hash_items hash ! i)). item_gethash cb (item_getkey cb d) (hash_hashsize hash) = i)) \<and>
     hash_count hash = sum_list (map (length \<circ> inorder) (hash_items hash))"

definition hash_balanced :: "'d capwap_hash \<Rightarrow> bool" where
  "hash_balanced hash \<longleftrightarrow> (\<forall>t\<in>set (hash_items hash). avl t)"

definition hash_map :: "('k, 'd) hash_callbacks \<Rightarrow> 'd capwap_hash \<Rightarrow> 'k \<Rightarrow> 'd option" where
  "hash_map cb hash k =
     data_map cb (inorder (hash_items hash ! item_gethash cb k (hash_hashsize hash))) k"

lemma hash_balanced_update:
  "hash_balanced hash \<Longrightarrow> avl t \<Longrightarrow> hash_balanced (hash\<lparr>hash_items := (hash_items hash)[i := t], hash_count := c, hash_freed := f\<rparr>)"
  by (auto simp: hash_balanced_def dest: set_update_subset_insert [THEN subsetD])

lemma replace_avl: "avl t \<Longrightarrow> hash_insert cb data t = (t', Inl old) \<Longrightarrow> avl t' \<and> ht t' = ht t"
proof (induction t arbitrary: t')
  case (Item d h l r)
  let ?c = "item_cmp cb (item_getkey cb data) (item_getkey cb d)"
  have avl: "avl l" "avl r" using Item.prems(1) by auto
  consider (eq) "?c = 0" | (left) "?c < 0" "l \<noteq> NULL_item" | (right) "?c > 0" "r \<noteq> NULL_item"
    | (new) "?c < 0" "l = NULL_item" | (new') "?c > 0" "r = NULL_item"
    by linarith
  then show ?case
  proof cases
    case eq
    then show ?thesis using Item.prems by auto
  next
    case left
    then obtain x where "hash_insert cb data l = (x, Inl old)" "t' = Item d h x r"
      using Item.prems(2) by (cases "hash_insert cb data l"; cases "snd (hash_insert cb data l)") auto
    then show ?thesis using Item.IH(1) [OF avl(1)] Item.prems(1) by auto
  next
    case right
    then obtain x where "hash_insert cb data r = (x, Inl old)" "t' = Item d h l x"
      using Item.prems(2) by (cases "hash_insert cb data r"; cases "snd (hash_insert cb data r)") auto
    then show ?thesis using Item.IH(2) [OF avl(2)] Item.prems(1) by auto
  qed (use Item.prems(2) in simp_all)
qed (simp add: capwap_hash_create_item_def)

subsection \<open>What the callbacks promise\<close>

locale hash_client =
  fixes cb :: "('k, 'd) hash_callbacks" and hashsize :: nat
  assumes cmp_eq: "item_cmp cb a b = 0 \<longleftrightarrow> a = b"
    and cmp_sym: "item_cmp cb a b < 0 \<longleftrightarrow> item_cmp cb b a > 0"
    and cmp_trans: "item_cmp cb a b < 0 \<Longrightarrow> item_cmp cb b c < 0 \<Longrightarrow> item_cmp cb a c < 0"
    and gethash_bound: "item_gethash cb a hashsize < hashsize"
begin

lemma before_trans: "before cb x y \<Longrightarrow> before cb y z \<Longrightarrow> before cb x z"
  unfolding before_def by (rule cmp_trans)

lemma before_key: "before cb x y \<Longrightarrow> item_getkey cb x \<noteq> item_getkey cb y"
  unfolding before_def using cmp_eq by (metis less_irrefl)

lemma data_map_Nil [simp]: "data_map cb [] = Map.empty"
  by (simp add: data_map_def fun_eq_iff)

lemma data_map_Cons [simp]: "data_map cb (d # xs) = (data_map cb xs)(item_getkey cb d \<mapsto> d)"
  by (auto simp: data_map_def fun_eq_iff)

lemma data_map_append: "data_map cb (xs @ ys) = data_map cb ys ++ data_map cb xs"
  by (induction xs) (auto simp: map_add_def fun_eq_iff split: option.splits)

lemma data_map_dom: "data_map cb xs k = None \<longleftrightarrow> k \<notin> item_getkey cb ` set xs"
  by (induction xs) auto

lemma data_map_SomeD: "data_map cb xs k = Some d \<Longrightarrow> d \<in> set xs \<and> item_getkey cb d = k"
  by (auto simp: data_map_def find_Some_iff)

lemma data_map_insert:
  assumes "\<forall>x\<in>set xs. item_getkey cb x \<noteq> item_getkey cb d"
  shows "data_map cb (xs @ d # ys) = (data_map cb (xs @ ys))(item_getkey cb d \<mapsto> d)"
proof -
  have "data_map cb xs (item_getkey cb d) = None"
    using assms by (auto simp: data_map_dom)
  then show ?thesis
    by (auto simp: data_map_append map_add_def fun_eq_iff split: option.splits)
qed

lemma data_map_delete:
  assumes "\<forall>x\<in>set (xs @ ys). item_getkey cb x \<noteq> item_getkey cb d"
  shows "data_map cb (xs @ ys) = (data_map cb (xs @ d # ys))(item_getkey cb d := None)"
proof -
  have "data_map cb xs (item_getkey cb d) = None" "data_map cb ys (item_getkey cb d) = None"
    using assms by (auto simp: data_map_dom)
  then show ?thesis
    by (auto simp: data_map_append map_add_def fun_eq_iff split: option.splits)
qed

text \<open>Where an insertion puts the data.\<close>

lemma insert_inorder:
  assumes "ordered cb t" "hash_insert cb data t = (t', w)"
  shows "\<exists>xs ys. inorder t' = xs @ data # ys \<and> (\<forall>x\<in>set xs. before cb x data) \<and> (\<forall>y\<in>set ys. before cb data y) \<and>
    (case w of Inl old \<Rightarrow> inorder t = xs @ old # ys \<and> item_getkey cb old = item_getkey cb data | Inr p \<Rightarrow> inorder t = xs @ ys)"
  using assms
proof (induction t arbitrary: t' w)
  case NULL_item
  then show ?case by (auto simp: capwap_hash_create_item_def)
next
  case (Item d h l r)
  have ord: "ordered cb l" "ordered cb r" "\<forall>x\<in>set (inorder l). before cb x d" "\<forall>y\<in>set (inorder r). before cb d y"
    using Item.prems(1) by (auto simp: ordered_def sorted_wrt_append)
  let ?c = "item_cmp cb (item_getkey cb data) (item_getkey cb d)"
  consider (eq) "?c = 0" | (left) "?c < 0" | (right) "?c > 0" by linarith
  then show ?case
  proof cases
    case eq
    then have "item_getkey cb data = item_getkey cb d" by (simp add: cmp_eq)
    then show ?thesis
      using Item.prems(2) eq ord by (intro exI [of _ "inorder l"] exI [of _ "inorder r"]) (auto simp: before_def)
  next
    case left
    then have d: "before cb data d" by (simp add: before_def)
    have rest: "\<forall>y\<in>set (d # inorder r). before cb data y"
      using d ord(4) before_trans by auto
    show ?thesis
    proof (cases "l = NULL_item")
      case True
      then show ?thesis
        using Item.prems(2) left rest by (intro exI [of _ "[]"] exI [of _ "d # inorder r"]) (auto simp: capwap_hash_create_item_def)
    next
      case False
      obtain x v where x: "hash_insert cb data l = (x, v)" by (cases "hash_insert cb data l")
      then have w: "t' = Item d h x r" "w = map_sum id (Cons LeftSide) v"
        using Item.prems(2) left False by auto
      obtain xs ys where "inorder x = xs @ data # ys" "\<forall>x\<in>set xs. before cb x data" "\<forall>y\<in>set ys. before cb data y"
        "case v of Inl old \<Rightarrow> inorder l = xs @ old # ys \<and> item_getkey cb old = item_getkey cb data | Inr p \<Rightarrow> inorder l = xs @ ys"
        using Item.IH(1) [OF ord(1) x] by blast
      then show ?thesis
        using w rest by (intro exI [of _ xs] exI [of _ "ys @ d # inorder r"]) (auto split: sum.splits)
    qed
  next
    case right
    then have d: "before cb d data" by (simp add: before_def cmp_sym)
    have rest: "\<forall>y\<in>set (inorder l @ [d]). before cb y data"
      using d ord(3) before_trans by auto
    show ?thesis
    proof (cases "r = NULL_item")
      case True
      then show ?thesis
        using Item.prems(2) right rest by (intro exI [of _ "inorder l @ [d]"] exI [of _ "[]"]) (auto simp: capwap_hash_create_item_def)
    next
      case False
      obtain x v where x: "hash_insert cb data r = (x, v)" by (cases "hash_insert cb data r")
      then have w: "t' = Item d h l x" "w = map_sum id (Cons RightSide) v"
        using Item.prems(2) right False by auto
      obtain xs ys where "inorder x = xs @ data # ys" "\<forall>x\<in>set xs. before cb x data" "\<forall>y\<in>set ys. before cb data y"
        "case v of Inl old \<Rightarrow> inorder r = xs @ old # ys \<and> item_getkey cb old = item_getkey cb data | Inr p \<Rightarrow> inorder r = xs @ ys"
        using Item.IH(2) [OF ord(2) x] by blast
      then show ?thesis
        using w rest by (intro exI [of _ "inorder l @ d # xs"] exI [of _ ys]) (auto split: sum.splits)
    qed
  qed
qed

lemma insert_ordered:
  assumes "ordered cb t" "hash_insert cb data t = (t', w)"
  shows "ordered cb t'" "data_map cb (inorder t') = (data_map cb (inorder t))(item_getkey cb data \<mapsto> data)"
    "set (inorder t') \<subseteq> insert data (set (inorder t))"
    "length (inorder t') = length (inorder t) + (case w of Inl _ \<Rightarrow> 0 | Inr _ \<Rightarrow> 1)"
proof -
  obtain xs ys where *: "inorder t' = xs @ data # ys" "\<forall>x\<in>set xs. before cb x data" "\<forall>y\<in>set ys. before cb data y"
    "case w of Inl old \<Rightarrow> inorder t = xs @ old # ys \<and> item_getkey cb old = item_getkey cb data | Inr p \<Rightarrow> inorder t = xs @ ys"
    using insert_inorder [OF assms] by blast
  have keys: "\<forall>x\<in>set xs. item_getkey cb x \<noteq> item_getkey cb data"
    using *(2) before_key by metis
  show "ordered cb t'" "data_map cb (inorder t') = (data_map cb (inorder t))(item_getkey cb data \<mapsto> data)"
    "set (inorder t') \<subseteq> insert data (set (inorder t))"
    "length (inorder t') = length (inorder t) + (case w of Inl _ \<Rightarrow> 0 | Inr _ \<Rightarrow> 1)"
    using assms(1) * keys data_map_insert [OF keys, of ys] data_map_insert [of xs _ ys]
    by (auto simp: ordered_def sorted_wrt_append split: sum.splits)
qed

text \<open>A table after one bucket was replaced.\<close>

lemma hash_update:
  assumes "hash_inv cb hash" "i < hash_hashsize hash" "ordered cb t" "heights_nonneg t"
    and "\<forall>d\<in>set (inorder t). item_gethash cb (item_getkey cb d) (hash_hashsize hash) = i"
    and "c + length (inorder (hash_items hash ! i)) = hash_count hash + length (inorder t)"
  shows "hash_inv cb (hash\<lparr>hash_items := (hash_items hash)[i := t], hash_count := c\<rparr>)"
proof -
  have len: "length (hash_items hash) = hash_hashsize hash"
    using assms(1) by (simp add: hash_inv_def)
  let ?f = "length \<circ> inorder"
  have le: "?f (hash_items hash ! i) \<le> sum_list (map ?f (hash_items hash))"
    using assms(2) len by (intro member_le_sum_list) auto
  have "sum_list (map ?f ((hash_items hash)[i := t])) = sum_list (map ?f (hash_items hash)) + ?f t - ?f (hash_items hash ! i)"
    using assms(2) len by (simp add: map_update sum_list_update)
  then have "c = sum_list (map ?f ((hash_items hash)[i := t]))"
    using assms(1,6) le by (simp add: hash_inv_def)
  then show ?thesis
    using assms len by (auto simp: hash_inv_def nth_list_update)
qed

lemma hash_map_update:
  assumes "length (hash_items hash) = hash_hashsize hash" "i < hash_hashsize hash"
    and "data_map cb (inorder t) = (data_map cb (inorder (hash_items hash ! i)))(k := v)"
    and "item_gethash cb k (hash_hashsize hash) = i"
  shows "hash_map cb (hash\<lparr>hash_items := (hash_items hash)[i := t], hash_count := c, hash_freed := f\<rparr>) = (hash_map cb hash)(k := v)"
  using assms by (auto simp: hash_map_def fun_eq_iff nth_list_update)

lemma hash_inv_freed [simp]: "hash_inv cb (hash\<lparr>hash_freed := f\<rparr>) = hash_inv cb hash"
  by (simp add: hash_inv_def)

lemma add_result:
  assumes "hash_inv cb hash" "hash_balanced hash" "hash_hashsize hash = hashsize"
    and "i = item_gethash cb (item_getkey cb data) hashsize" "hash_insert cb data (hash_items hash ! i) = (t', w)"
    and "avl t" "inorder t = inorder t'" "c = hash_count hash + (case w of Inl _ \<Rightarrow> 0 | Inr _ \<Rightarrow> 1)"
    and "hash' = hash\<lparr>hash_items := (hash_items hash)[i := t], hash_count := c, hash_freed := f\<rparr>"
  shows "hash_inv cb hash' \<and> hash_balanced hash' \<and> hash_hashsize hash' = hashsize \<and>
    hash_map cb hash' = (hash_map cb hash)(item_getkey cb data \<mapsto> data)"
proof -
  have i: "i < hash_hashsize hash" and len: "length (hash_items hash) = hash_hashsize hash"
    using gethash_bound assms(1,3,4) by (auto simp: hash_inv_def)
  have t: "ordered cb (hash_items hash ! i)"
    "\<forall>d\<in>set (inorder (hash_items hash ! i)). item_gethash cb (item_getkey cb d) hashsize = i"
    using assms(1,3) i by (auto simp: hash_inv_def)
  note ins = insert_ordered [OF t(1) assms(5)]
  have "hash_inv cb (hash\<lparr>hash_items := (hash_items hash)[i := t], hash_count := c\<rparr>)"
    using ins t i assms(3,4,6-8) by (intro hash_update [OF assms(1)]) (auto simp: ordered_def avl_nonneg)
  moreover have "hash_map cb hash' = (hash_map cb hash)(item_getkey cb data \<mapsto> data)"
    unfolding assms(9) using ins assms(3,4,7) i by (intro hash_map_update [OF len]) auto
  ultimately show ?thesis
    using hash_balanced_update [OF assms(2,6)] assms(3,9) by simp
qed

lemma hash_add:
  assumes "hash_inv cb hash" "hash_balanced hash" "hash_hashsize hash = hashsize"
  shows "\<exists>hash'. capwap_hash_add cb hash data = Some hash' \<and> hash_inv cb hash' \<and> hash_balanced hash' \<and>
    hash_hashsize hash' = hashsize \<and> hash_map cb hash' = (hash_map cb hash)(item_getkey cb data \<mapsto> data)"
proof -
  define i where "i = item_gethash cb (item_getkey cb data) hashsize"
  have i: "i < hash_hashsize hash" "hash_items hash ! i \<in> set (hash_items hash)"
    using gethash_bound assms by (auto simp: hash_inv_def i_def)
  then have avl: "avl (hash_items hash ! i)"
    using assms(2) by (simp add: hash_balanced_def)
  obtain t' w where ins: "hash_insert cb data (hash_items hash ! i) = (t', w)"
    by (cases "hash_insert cb data (hash_items hash ! i)")
  have "\<exists>t c f. capwap_hash_add cb hash data = Some (hash\<lparr>hash_items := (hash_items hash)[i := t], hash_count := c, hash_freed := f\<rparr>) \<and>
      avl t \<and> inorder t = inorder t' \<and> c = hash_count hash + (case w of Inl _ \<Rightarrow> 0 | Inr _ \<Rightarrow> 1)"
  proof (cases "hash_items hash ! i = NULL_item")
    case True
    then show ?thesis
      using ins i(1) assms(3)
      by (intro exI [of _ t'] exI [of _ "Suc (hash_count hash)"] exI [of _ "hash_freed hash"])
        (auto simp: capwap_hash_add_def i_def [symmetric] create_item_avl)
  next
    case False
    show ?thesis
    proof (cases w)
      case (Inl old)
      then show ?thesis
        using replace_avl [OF avl ins [unfolded Inl]] ins i(1) assms(3) False
        by (intro exI [of _ t'] exI [of _ "hash_count hash"] exI [of _ "hash_freed hash @ [old]"])
          (simp add: capwap_hash_add_def i_def [symmetric])
    next
      case (Inr p)
      obtain x where "rebalancing p t' = Some x" "avl x" "inorder x = inorder t'"
        using insert_avl [OF avl False ins [unfolded Inr]] by blast
      then show ?thesis
        using ins i(1) assms(3) False Inr
        by (intro exI [of _ x] exI [of _ "Suc (hash_count hash)"] exI [of _ "hash_freed hash"])
          (simp add: capwap_hash_add_def i_def [symmetric])
    qed
  qed
  then obtain t c f where "capwap_hash_add cb hash data = Some (hash\<lparr>hash_items := (hash_items hash)[i := t], hash_count := c, hash_freed := f\<rparr>)"
    "avl t" "inorder t = inorder t'" "c = hash_count hash + (case w of Inl _ \<Rightarrow> 0 | Inr _ \<Rightarrow> 1)"
    by (elim exE conjE)
  from this(1) add_result [OF assms i_def ins this(2-4) refl, of f] show ?thesis
    by (intro exI [of _ "hash\<lparr>hash_items := (hash_items hash)[i := t], hash_count := c, hash_freed := f\<rparr>"] conjI) simp_all
qed

subsection \<open>Searching\<close>

lemma search_loop_simps:
  "item_at p t = NULL_item \<Longrightarrow> search_items_loop cb t k p = Some None"
  "item_at p t = Item d h l r \<Longrightarrow> item_cmp cb k (item_getkey cb d) = 0 \<Longrightarrow> search_items_loop cb t k p = Some (Some p)"
  "item_at p t = Item d h l r \<Longrightarrow> item_cmp cb k (item_getkey cb d) < 0 \<Longrightarrow>
     search_items_loop cb t k p = search_items_loop cb t k [LeftSide]"
  "item_at p t = Item d h l r \<Longrightarrow> item_cmp cb k (item_getkey cb d) > 0 \<Longrightarrow>
     search_items_loop cb t k p = search_items_loop cb t k [RightSide]"
  by (simp_all add: search_items_loop.simps [of cb t k p])

end

text \<open>A loop that only visits items with other keys does not end.\<close>

lemma search_loop_diverges:
  assumes "p \<in> P"
    and "\<And>q. q \<in> P \<Longrightarrow> \<exists>d h l r. item_at q t = Item d h l r \<and>
      (item_cmp cb k (item_getkey cb d) < 0 \<and> [LeftSide] \<in> P \<or> item_cmp cb k (item_getkey cb d) > 0 \<and> [RightSide] \<in> P)"
  shows "search_items_loop cb t k p = None"
proof (rule ccontr)
  assume "search_items_loop cb t k p \<noteq> None"
  then obtain y where y: "search_items_loop cb t k p = Some y" by blast
  have "p \<notin> P"
  proof (rule search_items_loop.raw_induct [where P = "\<lambda>cb' t' k' p y. cb' = cb \<longrightarrow> t' = t \<longrightarrow> k' = k \<longrightarrow> p \<notin> P", OF _ y, rule_format], goal_cases)
    case (1 rec cb' t' k' p y)
    show ?case
    proof
      assume "p \<in> P"
      then obtain d h l r where "item_at p t = Item d h l r"
        "item_cmp cb k (item_getkey cb d) < 0 \<and> [LeftSide] \<in> P \<or> item_cmp cb k (item_getkey cb d) > 0 \<and> [RightSide] \<in> P"
        using assms(2) by blast
      then show False
        using 1 by (auto split: if_splits)
    qed
  qed simp_all
  then show False using assms(1) by blast
qed

subsection \<open>Searching a bucket\<close>

text \<open>
  The keys for which the search in a bucket returns: the key of the root, a key whose side of the root has no
  item or an item with this key, and a key between the root and its child when the root has no other child.
\<close>

fun search_returns :: "('k, 'd) hash_callbacks \<Rightarrow> 'k \<Rightarrow> 'd capwap_hash_item \<Rightarrow> bool" where
  "search_returns cb k NULL_item \<longleftrightarrow> True"
| "search_returns cb k (Item d h l r) \<longleftrightarrow>
     (let result = item_cmp cb k (item_getkey cb d) in
      if result = 0 then True
      else if result < 0 then
        (case l of NULL_item \<Rightarrow> True
         | Item ld _ _ _ \<Rightarrow> item_cmp cb k (item_getkey cb ld) = 0 \<or> item_cmp cb k (item_getkey cb ld) > 0 \<and> r = NULL_item)
      else
        (case r of NULL_item \<Rightarrow> True
         | Item rd _ _ _ \<Rightarrow> item_cmp cb k (item_getkey cb rd) = 0 \<or> item_cmp cb k (item_getkey cb rd) < 0 \<and> l = NULL_item))"

lemma avl_ht_0:
  assumes "avl (Item d h l r)" "h \<le> 0"
  shows "l = NULL_item \<and> r = NULL_item"
proof -
  have "avl l" "avl r" "ht l \<le> -1" "ht r \<le> -1"
    using assms by auto
  then have "ht l = -1" "ht r = -1"
    using avl_ht_ge by (auto intro: antisym)
  then show ?thesis
    using \<open>avl l\<close> \<open>avl r\<close> ht_eq_NULL avl_nonneg by blast
qed

lemma avl_leaf:
  assumes "avl (Item d h l r)" "l = NULL_item \<and> c = r \<or> r = NULL_item \<and> c = l" "c = Item cd ch cl cr"
  shows "cl = NULL_item \<and> cr = NULL_item"
  by (rule avl_ht_0 [of cd ch]) (use assms in auto)

context hash_client
begin

lemma cmp_less_neq: "item_cmp cb a b < 0 \<Longrightarrow> a \<noteq> b" "item_cmp cb a b > 0 \<Longrightarrow> a \<noteq> b"
  using cmp_eq [of a b] by auto

lemma data_map_other:
  "\<forall>x\<in>set xs. item_getkey cb x \<noteq> k \<Longrightarrow> data_map cb xs k = None"
  by (auto simp: data_map_dom)

lemma ordered_Item: "ordered cb (Item d h l r) \<longleftrightarrow> ordered cb l \<and> ordered cb r \<and>
    (\<forall>x\<in>set (inorder l). before cb x d) \<and> (\<forall>y\<in>set (inorder r). before cb d y)"
proof -
  have "before cb x y" if "before cb x d" "before cb d y" for x y
    using that by (rule before_trans)
  then show ?thesis
    unfolding ordered_def by (auto simp: sorted_wrt_append)
qed

text \<open>The side of an item on which the data with a key is.\<close>

lemma data_map_side:
  assumes "ordered cb (Item d h l r)"
  shows "item_cmp cb k (item_getkey cb d) = 0 \<Longrightarrow> data_map cb (inorder (Item d h l r)) k = Some d"
    "item_cmp cb k (item_getkey cb d) < 0 \<Longrightarrow> data_map cb (inorder (Item d h l r)) k = data_map cb (inorder l) k"
    "item_cmp cb k (item_getkey cb d) > 0 \<Longrightarrow> data_map cb (inorder (Item d h l r)) k = data_map cb (inorder r) k"
proof -
  have l: "item_cmp cb (item_getkey cb x) (item_getkey cb d) < 0" if "x \<in> set (inorder l)" for x
    using assms that by (auto simp: ordered_Item before_def)
  have r: "item_cmp cb (item_getkey cb d) (item_getkey cb y) < 0" if "y \<in> set (inorder r)" for y
    using assms that by (auto simp: ordered_Item before_def)
  show "data_map cb (inorder (Item d h l r)) k = Some d" if "item_cmp cb k (item_getkey cb d) = 0"
  proof -
    have "data_map cb (inorder l) k = None"
      using that l cmp_less_neq(1) by (intro data_map_other) (metis cmp_eq)
    then show ?thesis using that cmp_eq by (simp add: data_map_append map_add_def)
  qed
  show "data_map cb (inorder (Item d h l r)) k = data_map cb (inorder l) k" if "item_cmp cb k (item_getkey cb d) < 0"
  proof -
    have "data_map cb (inorder r) k = None"
      using that r cmp_trans cmp_less_neq(1) by (intro data_map_other) metis
    then show ?thesis using cmp_less_neq(1) [OF that]
      by (auto simp: data_map_append map_add_def split: option.splits)
  qed
  show "data_map cb (inorder (Item d h l r)) k = data_map cb (inorder r) k" if "item_cmp cb k (item_getkey cb d) > 0"
  proof -
    have "data_map cb (inorder l) k = None"
      using that l cmp_sym cmp_trans cmp_less_neq(1) by (intro data_map_other) metis
    then show ?thesis using cmp_less_neq(2) [OF that]
      by (auto simp: data_map_append map_add_def split: option.splits)
  qed
qed

lemma search_left:
  assumes "ordered cb t" "avl t" "t = Item d h l r" "item_cmp cb k (item_getkey cb d) < 0"
  shows "map_option (map_option (\<lambda>p. item_data (item_at p t))) (search_items_loop cb t k []) =
    (if search_returns cb k t then Some (data_map cb (inorder t) k) else None)"
proof (cases l)
  case NULL_item
  then show ?thesis
    using assms data_map_side(2) [of d h l r k] search_loop_simps(3) [of "[]" t d h l r k] search_loop_simps(1) [of "[LeftSide]" t k]
    by simp
next
  case (Item ld lh ll lr)
  note ord = assms(1) [unfolded assms(3)]
  have map: "data_map cb (inorder t) k = data_map cb (inorder l) k"
    using data_map_side(2) [OF ord assms(4)] assms(3) by simp
  have ordl: "ordered cb (Item ld lh ll lr)"
    using ord Item by (simp add: ordered_Item)
  have first: "search_items_loop cb t k [] = search_items_loop cb t k [LeftSide]"
    using search_loop_simps(3) [of "[]" t d h l r k] assms(3,4) by simp
  have at: "item_at [LeftSide] t = Item ld lh ll lr" using assms(3) Item by simp
  let ?c = "item_cmp cb k (item_getkey cb ld)"
  consider (eq) "?c = 0" | (less) "?c < 0" | (leaf) "?c > 0" "r = NULL_item" | (endless) rd rh rl rr where "?c > 0" "r = Item rd rh rl rr"
    by (metis capwap_hash_item.exhaust linorder_less_linear)
  then show ?thesis
  proof cases
    case eq
    then show ?thesis
      using first search_loop_simps(2) [OF at eq] at assms(3,4) Item map data_map_side(1) [OF ordl eq] by simp
  next
    case less
    have "search_items_loop cb t k [] = None"
      by (rule search_loop_diverges [where P = "{[], [LeftSide]}"]) (use assms(3,4) Item less in auto)
    then show ?thesis using less assms(3,4) Item by simp
  next
    case leaf
    then have "ll = NULL_item \<and> lr = NULL_item" using avl_leaf [OF assms(2) [unfolded assms(3)], of l] Item by blast
    then have "data_map cb (inorder t) k = None"
      using map Item cmp_less_neq(2) [OF leaf(1)] by simp
    then show ?thesis
      using first search_loop_simps(4) [OF at leaf(1)] search_loop_simps(1) [of "[RightSide]" t k] assms(3,4) Item leaf by simp
  next
    case endless
    have "item_cmp cb k (item_getkey cb rd) < 0"
      using ord endless assms(4) cmp_trans by (auto simp: ordered_Item before_def)
    then have "search_items_loop cb t k [] = None"
      using assms(3,4) Item endless
      by (intro search_loop_diverges [where P = "{[], [LeftSide], [RightSide]}"]) auto
    then show ?thesis using endless assms(3,4) Item by simp
  qed
qed

lemma search_right:
  assumes "ordered cb t" "avl t" "t = Item d h l r" "item_cmp cb k (item_getkey cb d) > 0"
  shows "map_option (map_option (\<lambda>p. item_data (item_at p t))) (search_items_loop cb t k []) =
    (if search_returns cb k t then Some (data_map cb (inorder t) k) else None)"
proof (cases r)
  case NULL_item
  then show ?thesis
    using assms data_map_side(3) [of d h l r k] search_loop_simps(4) [of "[]" t d h l r k] search_loop_simps(1) [of "[RightSide]" t k]
    by simp
next
  case (Item rd rh rl rr)
  note ord = assms(1) [unfolded assms(3)]
  have map: "data_map cb (inorder t) k = data_map cb (inorder r) k"
    using data_map_side(3) [OF ord assms(4)] assms(3) by simp
  have ordr: "ordered cb (Item rd rh rl rr)"
    using ord Item by (simp add: ordered_Item)
  have first: "search_items_loop cb t k [] = search_items_loop cb t k [RightSide]"
    using search_loop_simps(4) [of "[]" t d h l r k] assms(3,4) by simp
  have at: "item_at [RightSide] t = Item rd rh rl rr" using assms(3) Item by simp
  let ?c = "item_cmp cb k (item_getkey cb rd)"
  consider (eq) "?c = 0" | (greater) "?c > 0" | (leaf) "?c < 0" "l = NULL_item" | (endless) ld lh ll lr where "?c < 0" "l = Item ld lh ll lr"
    by (metis capwap_hash_item.exhaust linorder_less_linear)
  then show ?thesis
  proof cases
    case eq
    then show ?thesis
      using first search_loop_simps(2) [OF at eq] at assms(3,4) Item map data_map_side(1) [OF ordr eq] by simp
  next
    case greater
    have "search_items_loop cb t k [] = None"
      by (rule search_loop_diverges [where P = "{[], [RightSide]}"]) (use assms(3,4) Item greater in auto)
    then show ?thesis using greater assms(3,4) Item by simp
  next
    case leaf
    then have "rl = NULL_item \<and> rr = NULL_item" using avl_leaf [OF assms(2) [unfolded assms(3)], of r] Item by blast
    then have "data_map cb (inorder t) k = None"
      using map Item cmp_less_neq(1) [OF leaf(1)] by simp
    then show ?thesis
      using first search_loop_simps(3) [OF at leaf(1)] search_loop_simps(1) [of "[LeftSide]" t k] assms(3,4) Item leaf by simp
  next
    case endless
    have "item_cmp cb k (item_getkey cb ld) > 0"
      using ord endless assms(4) cmp_trans cmp_sym by (auto simp: ordered_Item before_def)
    then have "search_items_loop cb t k [] = None"
      using assms(3,4) Item endless
      by (intro search_loop_diverges [where P = "{[], [LeftSide], [RightSide]}"]) auto
    then show ?thesis using endless assms(3,4) Item by simp
  qed
qed

lemma search_items:
  assumes "ordered cb t" "avl t"
  shows "map_option (map_option (\<lambda>p. item_data (item_at p t))) (capwap_hash_search_items cb t k) =
    (if search_returns cb k t then Some (data_map cb (inorder t) k) else None)"
proof (cases t)
  case NULL_item
  then show ?thesis
    using search_loop_simps(1) [of "[]" t k] by (simp add: capwap_hash_search_items_def)
next
  case (Item d h l r)
  consider (eq) "item_cmp cb k (item_getkey cb d) = 0" | (less) "item_cmp cb k (item_getkey cb d) < 0"
    | (greater) "item_cmp cb k (item_getkey cb d) > 0" by linarith
  then show ?thesis
  proof cases
    case eq
    then show ?thesis
      using Item search_loop_simps(2) [of "[]" t d h l r k] data_map_side(1) [of d h l r k] assms(1)
      by (simp add: capwap_hash_search_items_def)
  next
    case less
    then show ?thesis using search_left [OF assms Item] by (simp add: capwap_hash_search_items_def)
  next
    case greater
    then show ?thesis using search_right [OF assms Item] by (simp add: capwap_hash_search_items_def)
  qed
qed

lemma hash_bucket:
  assumes "hash_inv cb hash" "hash_balanced hash" "hash_hashsize hash = hashsize"
  shows "item_gethash cb k hashsize < length (hash_items hash)" "ordered cb (hash_items hash ! item_gethash cb k hashsize)"
    "avl (hash_items hash ! item_gethash cb k hashsize)"
proof -
  show *: "item_gethash cb k hashsize < length (hash_items hash)" "ordered cb (hash_items hash ! item_gethash cb k hashsize)"
    using assms(1,3) gethash_bound [of k] by (auto simp: hash_inv_def)
  show "avl (hash_items hash ! item_gethash cb k hashsize)"
    using assms(2) nth_mem [OF *(1)] by (simp add: hash_balanced_def)
qed

lemma hash_search:
  assumes "hash_inv cb hash" "hash_balanced hash" "hash_hashsize hash = hashsize"
  shows "capwap_hash_search cb hash k =
    (if search_returns cb k (hash_items hash ! item_gethash cb k hashsize) then Some (hash_map cb hash k) else None)"
proof -
  note b = hash_bucket [OF assms, of k]
  let ?t = "hash_items hash ! item_gethash cb k hashsize"
  show ?thesis
  proof (cases "?t = NULL_item")
    case True
    then show ?thesis using b(1) assms(3) by (simp add: capwap_hash_search_def hash_map_def)
  next
    case False
    then show ?thesis using search_items [OF b(2,3), of k] b(1) assms(3)
      by (cases "capwap_hash_search_items cb ?t k") (auto simp: capwap_hash_search_def hash_map_def split: if_splits)
  qed
qed

end

subsection \<open>Deleting an item of a bucket\<close>

lemma take_rightmost_props:
  "heights_nonneg t \<Longrightarrow> item_right t \<noteq> NULL_item \<Longrightarrow> t \<noteq> NULL_item \<Longrightarrow>
   \<exists>x t'. take_rightmost t = Some (x, t') \<and> heights_nonneg t' \<and> t' \<noteq> NULL_item \<and> inorder t = inorder t' @ [x]"
proof (induction t)
  case (Item d h l r)
  then obtain rd rh rl rr where r: "r = Item rd rh rl rr" by (cases r) auto
  show ?case
  proof (cases "rr = NULL_item")
    case True
    have "heights_nonneg (capwap_hash_set_right_item (Item d h l r) rl)"
      using Item.prems(1) r by (intro nonneg_set_item(2)) auto
    then show ?thesis
      using True r by auto
  next
    case False
    then obtain x r' where "take_rightmost r = Some (x, r')" "heights_nonneg r'" "inorder r = inorder r' @ [x]"
      using Item.IH(2) Item.prems(1) r by auto
    then show ?thesis
      using False r Item.prems(1) by auto
  qed
qed simp

lemma take_leftmost_props:
  "heights_nonneg t \<Longrightarrow> item_left t \<noteq> NULL_item \<Longrightarrow> t \<noteq> NULL_item \<Longrightarrow>
   \<exists>x t'. take_leftmost t = Some (x, t') \<and> heights_nonneg t' \<and> t' \<noteq> NULL_item \<and> inorder t = x # inorder t'"
proof (induction t)
  case (Item d h l r)
  then obtain ld lh ll lr where l: "l = Item ld lh ll lr" by (cases l) auto
  show ?case
  proof (cases "ll = NULL_item")
    case True
    have "heights_nonneg (capwap_hash_set_left_item (Item d h l r) lr)"
      using Item.prems(1) l by (intro nonneg_set_item(1)) auto
    then show ?thesis
      using True l by auto
  next
    case False
    then obtain x l' where "take_leftmost l = Some (x, l')" "heights_nonneg l'" "inorder l = x # inorder l'"
      using Item.IH(1) Item.prems(1) l by auto
    then show ?thesis
      using False l Item.prems(1) by auto
  qed
qed simp

lemma joined_item:
  assumes "heights_nonneg l" "heights_nonneg r"
  shows "heights_nonneg (capwap_hash_set_right_item (capwap_hash_set_left_item (capwap_hash_create_item x) l) r)"
    "inorder (capwap_hash_set_right_item (capwap_hash_set_left_item (capwap_hash_create_item x) l) r) = inorder l @ x # inorder r"
    "capwap_hash_set_right_item (capwap_hash_set_left_item (capwap_hash_create_item x) l) r \<noteq> NULL_item"
  using assms ht_ge [of l] ht_ge [of r] by (auto simp: capwap_hash_create_item_def set_left_eq set_right_eq update_height_eq)

lemma replacement_props:
  assumes "heights_nonneg l" "heights_nonneg r" "l \<noteq> NULL_item" "r \<noteq> NULL_item"
  shows "\<exists>x. hash_replacement (Item d h l r) = Some x \<and> heights_nonneg x \<and> x \<noteq> NULL_item \<and> inorder x = inorder l @ inorder r"
proof -
  obtain ld lh ll lr where l: "l = Item ld lh ll lr" using assms(3) by (cases l) auto
  obtain rd rh rl rr where r: "r = Item rd rh rl rr" using assms(4) by (cases r) auto
  consider (left) "ht l - ht r > 0" "item_right l = NULL_item" | (left_deep) "ht l - ht r > 0" "item_right l \<noteq> NULL_item"
    | (right) "\<not> ht l - ht r > 0" "item_left r = NULL_item" | (right_deep) "\<not> ht l - ht r > 0" "item_left r \<noteq> NULL_item"
    by blast
  then show ?thesis
  proof cases
    case left
    have "heights_nonneg (capwap_hash_set_right_item l r)" unfolding l using assms l by (intro nonneg_set_item) auto
    then show ?thesis using left l by (auto simp: hash_replacement_def balance_eq)
  next
    case left_deep
    then obtain x l' where "take_rightmost l = Some (x, l')" "heights_nonneg l'" "inorder l = inorder l' @ [x]"
      using take_rightmost_props [OF assms(1) _ assms(3)] by blast
    then show ?thesis
      using left_deep joined_item [of l' r x] assms(2) by (auto simp: hash_replacement_def balance_eq)
  next
    case right
    have "heights_nonneg (capwap_hash_set_left_item r l)" unfolding r using assms r by (intro nonneg_set_item) auto
    then show ?thesis using right r by (auto simp: hash_replacement_def balance_eq)
  next
    case right_deep
    then obtain x r' where "take_leftmost r = Some (x, r')" "heights_nonneg r'" "inorder r = x # inorder r'"
      using take_leftmost_props [OF assms(2) _ assms(4)] by blast
    then show ?thesis
      using right_deep joined_item [of l r' x] assms(1) by (auto simp: hash_replacement_def balance_eq)
  qed
qed

lemma item_at_set_child_parent:
  assumes "item_at q t \<noteq> NULL_item"
  shows "item_at q (set_child_item (q @ [s]) x t) \<noteq> NULL_item"
  using assms by (cases "item_at q t") (auto simp: set_child_snoc split: side.splits)

lemma unlink_props:
  assumes "heights_nonneg t" "item_at p t = Item d h l r"
  shows "\<exists>t' xs ys. hash_unlink p t = Some t' \<and> heights_nonneg t' \<and> inorder t = xs @ d # ys \<and> inorder t' = xs @ ys"
proof -
  have p: "item_at p t \<noteq> NULL_item" using assms(2) by simp
  obtain xs ys where ctx: "\<And>x. inorder (put_item p x t) = xs @ inorder x @ ys"
    using inorder_context [OF p] by blast
  have t: "inorder t = xs @ (inorder l @ d # inorder r) @ ys"
    using ctx [of "item_at p t"] assms(2) put_item_same [of p t] by simp
  have nn: "heights_nonneg l" "heights_nonneg r"
    using nonneg_item_at [OF assms(1), of p] assms(2) by auto
  have "\<exists>t'. hash_unlink p t = Some t' \<and> heights_nonneg t' \<and> inorder t' = xs @ (inorder l @ inorder r) @ ys"
  proof (cases "l = NULL_item \<or> r = NULL_item")
    case True
    define child where "child = (if r = NULL_item then l else r)"
    have child: "inorder child = inorder l @ inorder r" "heights_nonneg child"
      using True nn by (auto simp: child_def)
    show ?thesis
    proof (cases p rule: rev_cases)
      case Nil
      then show ?thesis using True child ctx [of child] assms(2) by (auto simp: hash_unlink_def child_def)
    next
      case (snoc q s)
      have q: "item_at q t \<noteq> NULL_item" using p snoc by auto
      obtain t' p' where "capwap_hash_balance_tree q (set_child_item p child t) = Some (t', p')" "heights_nonneg t'"
        "inorder t' = inorder (set_child_item p child t)"
        using balance_tree_total [OF nonneg_set_child [OF assms(1) child(2), of p], of q] item_at_set_child_parent [OF q, of s child] snoc
        by metis
      then show ?thesis
        using True snoc assms(2) ctx [of child] inorder_set_child [OF p, of child] child(1)
        by (auto simp: hash_unlink_def child_def [symmetric])
    qed
  next
    case False
    obtain x where x: "hash_replacement (Item d h l r) = Some x" "heights_nonneg x" "x \<noteq> NULL_item" "inorder x = inorder l @ inorder r"
      using replacement_props [OF nn] False by blast
    obtain t' p' where "capwap_hash_balance_tree p (set_child_item p x t) = Some (t', p')" "heights_nonneg t'"
      "inorder t' = inorder (set_child_item p x t)"
      using balance_tree_total [OF nonneg_set_child [OF assms(1) x(2), of p], of p] x(3) p by (metis item_at_set_child)
    then show ?thesis
      using False assms(2) ctx [of x] inorder_set_child [OF p, of x] x by (auto simp: hash_unlink_def)
  qed
  then obtain t' where "hash_unlink p t = Some t'" "heights_nonneg t'" "inorder t' = xs @ (inorder l @ inorder r) @ ys"
    by (elim exE conjE)
  then show ?thesis
    using t by (intro exI [of _ t'] exI [of _ "xs @ inorder l"] exI [of _ "inorder r @ ys"]) simp
qed

context hash_client
begin

lemma deleteitem_ok:
  assumes "hash_inv cb hash" "hash_hashsize hash = hashsize" "i < hashsize" "item_at p (hash_items hash ! i) = Item d h l r"
  shows "\<exists>hash'. capwap_hash_deleteitem hash p i = Some hash' \<and> hash_inv cb hash' \<and> hash_hashsize hash' = hashsize \<and>
    hash_map cb hash' = (hash_map cb hash)(item_getkey cb d := None) \<and> hash_count hash' + 1 = hash_count hash \<and>
    hash_freed hash' = hash_freed hash @ [d] \<and>
    (\<forall>j. j \<noteq> i \<longrightarrow> hash_items hash' ! j = hash_items hash ! j) \<and>
    set (inorder (hash_items hash' ! i)) = set (inorder (hash_items hash ! i)) - {d}"
proof -
  let ?t = "hash_items hash ! i"
  have len: "length (hash_items hash) = hashsize" and ord: "ordered cb ?t" and nn: "heights_nonneg ?t"
    and home: "\<forall>d\<in>set (inorder ?t). item_gethash cb (item_getkey cb d) hashsize = i"
    and cnt: "hash_count hash = sum_list (map (length \<circ> inorder) (hash_items hash))"
    using assms(1-3) by (auto simp: hash_inv_def)
  obtain t' xs ys where u: "hash_unlink p ?t = Some t'" "heights_nonneg t'" "inorder ?t = xs @ d # ys" "inorder t' = xs @ ys"
    using unlink_props [OF nn assms(4)] by blast
  have keys: "\<forall>x\<in>set (xs @ ys). item_getkey cb x \<noteq> item_getkey cb d"
    using ord u(3) before_key by (fastforce simp: ordered_def sorted_wrt_append)
  have ord': "ordered cb t'"
    using ord u(3,4) by (auto simp: ordered_def sorted_wrt_append)
  have pos: "length (inorder ?t) \<le> hash_count hash"
    using assms(3) len unfolding cnt by (intro member_le_sum_list) auto
  let ?h = "hash\<lparr>hash_items := (hash_items hash)[i := t'], hash_count := hash_count hash - 1\<rparr>"
  have "hash_inv cb ?h"
    using assms(2,3) ord' u home pos by (intro hash_update [OF assms(1)]) auto
  moreover have "data_map cb (inorder t') = (data_map cb (inorder ?t))(item_getkey cb d := None)"
    using data_map_delete [OF keys] u(3,4) by simp
  then have "hash_map cb (?h\<lparr>hash_freed := hash_freed hash @ [d]\<rparr>) = (hash_map cb hash)(item_getkey cb d := None)"
    using hash_map_update [of hash i t' "item_getkey cb d" None] len assms(2,3) home u(3)
    by simp
  moreover have "set (inorder t') = set (inorder ?t) - {d}" using keys u(3,4) by auto
  ultimately show ?thesis
    using u(1,3) assms(2-4) len pos
    by (intro exI [of _ "?h\<lparr>hash_freed := hash_freed hash @ [d]\<rparr>"]) (auto simp: capwap_hash_deleteitem_def)
qed

end

text \<open>The search only returns items of the tree.\<close>

lemma search_found:
  assumes "search_items_loop cb t k p = Some (Some q)"
  shows "item_at q t \<noteq> NULL_item"
proof -
  have "\<forall>q'. Some q = Some q' \<longrightarrow> item_at q' t \<noteq> NULL_item"
  proof (rule search_items_loop.raw_induct [where P = "\<lambda>cb t k p y. \<forall>q. y = Some q \<longrightarrow> item_at q t \<noteq> NULL_item", OF _ assms], goal_cases)
    case (1 rec cb t k p y)
    from 1(2) show ?case
      by (cases "item_at p t") (auto simp: Let_def split: if_splits dest!: 1(1))
  qed
  then show ?thesis by simp
qed

subsection \<open>Iteration\<close>

text \<open>The traversal of a list of data: whether it was stopped, the marked data and the state of the callback.\<close>

fun visit :: "('d \<Rightarrow> 's \<Rightarrow> hash_result \<times> 's) \<Rightarrow> 'd list \<Rightarrow> 'd list \<Rightarrow> 's \<Rightarrow> bool \<times> 'd list \<times> 's" where
  "visit f [] removeitems s = (False, removeitems, s)"
| "visit f (d # ds) removeitems s =
     (case f d s of
        (HASH_BREAK, s) \<Rightarrow> (True, removeitems, s)
      | (HASH_CONTINUE, s) \<Rightarrow> visit f ds removeitems s
      | (HASH_DELETE_AND_BREAK, s) \<Rightarrow> (True, d # removeitems, s)
      | (HASH_DELETE_AND_CONTINUE, s) \<Rightarrow> visit f ds (d # removeitems) s)"

lemma visit_append:
  "visit f (xs @ ys) rem s = (case visit f xs rem s of (True, rem, s) \<Rightarrow> (True, rem, s) | (False, rem, s) \<Rightarrow> visit f ys rem s)"
  by (induction f xs rem s rule: visit.induct) (auto split: prod.splits hash_result.splits bool.splits)

lemma foreach_items_visit:
  "capwap_hash_foreach_items f t rem s =
     (case visit f (inorder t) rem s of (stop, rem, s) \<Rightarrow> (if stop then HASH_BREAK else HASH_CONTINUE, rem, s))"
proof (induction t arbitrary: rem s)
  case (Item d h l r)
  obtain stop rem' s' where l: "visit f (inorder l) rem s = (stop, rem', s')" by (cases "visit f (inorder l) rem s")
  obtain res s'' where f: "f d s' = (res, s'')" by (cases "f d s'")
  show ?case
    by (cases stop; cases res) (simp_all add: Item l f visit_append)
qed simp

lemma foreach_buckets_visit:
  "foreach_buckets f ts rem s = snd (visit f (concat (map inorder ts)) rem s)"
proof (induction ts arbitrary: rem s)
  case (Cons t ts)
  obtain stop rem' s' where t: "visit f (inorder t) rem s = (stop, rem', s')" by (cases "visit f (inorder t) rem s")
  then show ?case by (cases stop) (simp_all add: Cons foreach_items_visit visit_append)
qed simp

lemma visit_marked:
  "distinct xs \<Longrightarrow> distinct rem \<Longrightarrow> set xs \<inter> set rem = {} \<Longrightarrow> visit f xs rem s = (stop, rem', s') \<Longrightarrow>
   distinct rem' \<and> set rem' \<subseteq> set rem \<union> set xs"
proof (induction xs arbitrary: rem s)
  case (Cons d ds)
  obtain res s1 where f: "f d s = (res, s1)" by (cases "f d s")
  show ?case
  proof (cases res)
    case HASH_CONTINUE
    then show ?thesis using Cons.IH [of rem s1] Cons.prems f by auto
  next
    case HASH_DELETE_AND_CONTINUE
    then show ?thesis using Cons.IH [of "d # rem" s1] Cons.prems f by auto
  qed (use Cons.prems f in auto)
qed simp

lemma distinct_concat_buckets:
  "\<forall>i<length xss. distinct (xss ! i) \<and> (\<forall>x\<in>set (xss ! i). g x = n + i) \<Longrightarrow> distinct (concat xss)"
proof (induction xss arbitrary: n)
  case (Cons xs xss)
  have first: "distinct xs" "\<forall>x\<in>set xs. g x = n"
    using Cons.prems by (auto dest: spec [of _ 0])
  have rest: "\<forall>i<length xss. distinct (xss ! i) \<and> (\<forall>x\<in>set (xss ! i). g x = Suc n + i)"
    using Cons.prems by (auto dest: spec [of _ "Suc i" for i])
  have "n < g x" if "x \<in> set (concat xss)" for x
    using that rest by (force simp: in_set_conv_nth [of _ xss])
  then have "set xs \<inter> set (concat xss) = {}"
    using first(2) by (metis disjoint_iff less_irrefl)
  then show ?case
    using Cons.IH [OF rest] first(1) by simp
qed simp

lemma path_of_data_item: "path_of_data x t = Some p \<Longrightarrow> \<exists>h l r. item_at p t = Item x h l r"
  by (induction x t arbitrary: p rule: path_of_data.induct) (auto split: if_splits option.splits)

lemma path_of_data_defined: "x \<in> set (inorder t) \<Longrightarrow> path_of_data x t \<noteq> None"
  by (induction x t rule: path_of_data.induct) (auto split: option.splits)

context hash_client
begin

lemma hash_delete:
  assumes "hash_inv cb hash" "hash_balanced hash" "hash_hashsize hash = hashsize"
    and "search_returns cb k (hash_items hash ! item_gethash cb k hashsize)"
  shows "\<exists>hash'. capwap_hash_delete cb hash k = Some hash' \<and> hash_inv cb hash' \<and> hash_hashsize hash' = hashsize \<and>
    hash_map cb hash' = (hash_map cb hash)(k := None) \<and>
    hash_count hash' + (if hash_map cb hash k = None then 0 else 1) = hash_count hash"
proof -
  define i t where "i = item_gethash cb k hashsize" and "t = hash_items hash ! i"
  note b = hash_bucket [OF assms(1-3), of k, folded i_def t_def]
  have i: "i < hashsize" by (simp add: i_def gethash_bound)
  have map: "hash_map cb hash k = data_map cb (inorder t) k"
    by (simp add: hash_map_def i_def t_def assms(3))
  obtain res where res: "capwap_hash_search_items cb t k = Some res" "map_option (\<lambda>p. item_data (item_at p t)) res = data_map cb (inorder t) k"
    using search_items [OF b(2,3), of k] assms(4) by (auto simp: i_def t_def)
  have del: "capwap_hash_delete cb hash k = (if t = NULL_item then Some hash else
      case res of None \<Rightarrow> Some hash | Some p \<Rightarrow> capwap_hash_deleteitem hash p i)"
    using i res(1) unfolding capwap_hash_delete_def by (simp add: i_def [symmetric] t_def [symmetric] assms(3))
  show ?thesis
  proof (cases res)
    case None
    then have "data_map cb (inorder t) k = None" using res(2) by simp
    moreover have "capwap_hash_delete cb hash k = Some hash" using del None by simp
    ultimately show ?thesis using assms(1,3) map by (intro exI [of _ hash]) auto
  next
    case (Some p)
    have "item_at p t \<noteq> NULL_item"
      using search_found [of cb t k "[]" p] res(1) Some by (simp add: capwap_hash_search_items_def)
    then obtain d h l r where at: "item_at p t = Item d h l r" by (cases "item_at p t") auto
    then have d: "data_map cb (inorder t) k = Some d" using res(2) Some by simp
    then have key: "item_getkey cb d = k" using data_map_SomeD by blast
    have "t \<noteq> NULL_item" using at by (cases p) auto
    then have "capwap_hash_delete cb hash k = capwap_hash_deleteitem hash p i" using del Some by simp
    then show ?thesis
      using deleteitem_ok [OF assms(1,3) i, folded t_def, OF at] key map d by auto
  qed
qed

lemma hash_delete_diverges:
  assumes "hash_inv cb hash" "hash_balanced hash" "hash_hashsize hash = hashsize"
    and "\<not> search_returns cb k (hash_items hash ! item_gethash cb k hashsize)"
  shows "capwap_hash_delete cb hash k = None"
proof -
  note b = hash_bucket [OF assms(1-3), of k]
  have "capwap_hash_search_items cb (hash_items hash ! item_gethash cb k hashsize) k = None"
    using search_items [OF b(2,3), of k] assms(4) by auto
  moreover have "hash_items hash ! item_gethash cb k hashsize \<noteq> NULL_item" using assms(4) by auto
  ultimately show ?thesis by (simp add: capwap_hash_delete_def assms(3))
qed

lemma delete_marked_ok:
  assumes "hash_inv cb hash" "hash_hashsize hash = hashsize" "distinct ds"
    and "\<forall>d\<in>set ds. d \<in> set (inorder (hash_items hash ! item_gethash cb (item_getkey cb d) hashsize))"
  shows "\<exists>hash'. delete_marked cb ds hash = Some hash' \<and> hash_inv cb hash' \<and> hash_hashsize hash' = hashsize \<and>
    hash_map cb hash' = (\<lambda>k. if k \<in> item_getkey cb ` set ds then None else hash_map cb hash k) \<and>
    hash_count hash' + length ds = hash_count hash \<and> hash_freed hash' = hash_freed hash @ ds"
  using assms
proof (induction ds arbitrary: hash)
  case (Cons d ds)
  define i where "i = item_gethash cb (item_getkey cb d) hashsize"
  have i: "i < hashsize" by (simp add: i_def gethash_bound)
  obtain p where p: "path_of_data d (hash_items hash ! i) = Some p"
    using path_of_data_defined Cons.prems(4) by (fastforce simp: i_def)
  obtain h l r where "item_at p (hash_items hash ! i) = Item d h l r" using path_of_data_item [OF p] by (elim exE)
  from deleteitem_ok [OF Cons.prems(1,2) i this] obtain hash1 where h1: "capwap_hash_deleteitem hash p i = Some hash1"
    "hash_inv cb hash1" "hash_hashsize hash1 = hashsize" "hash_map cb hash1 = (hash_map cb hash)(item_getkey cb d := None)"
    "hash_count hash1 + 1 = hash_count hash" "hash_freed hash1 = hash_freed hash @ [d]"
    "\<forall>j. j \<noteq> i \<longrightarrow> hash_items hash1 ! j = hash_items hash ! j"
    "set (inorder (hash_items hash1 ! i)) = set (inorder (hash_items hash ! i)) - {d}"
    by (elim exE conjE)
  have rest: "e \<in> set (inorder (hash_items hash1 ! item_gethash cb (item_getkey cb e) hashsize))" if "e \<in> set ds" for e
    using Cons.prems(3,4) that h1(7,8) by (cases "item_gethash cb (item_getkey cb e) hashsize = i") auto
  obtain hash' where h': "delete_marked cb ds hash1 = Some hash'" "hash_inv cb hash'" "hash_hashsize hash' = hashsize"
    "hash_map cb hash' = (\<lambda>k. if k \<in> item_getkey cb ` set ds then None else hash_map cb hash1 k)"
    "hash_count hash' + length ds = hash_count hash1" "hash_freed hash' = hash_freed hash1 @ ds"
    using Cons.IH [OF h1(2,3)] Cons.prems(3) rest by (auto elim!: exE conjE)
  then show ?case
    using h1 p Cons.prems(2) by (intro exI [of _ hash']) (auto simp: i_def fun_eq_iff)
qed simp

lemma bucket_data:
  assumes "hash_inv cb hash" "hash_hashsize hash = hashsize"
  shows "distinct (concat (map inorder (hash_items hash)))"
    "d \<in> set (concat (map inorder (hash_items hash))) \<Longrightarrow>
     d \<in> set (inorder (hash_items hash ! item_gethash cb (item_getkey cb d) hashsize))"
proof -
  have len: "length (hash_items hash) = hashsize"
    and bucket: "\<And>i. i < hashsize \<Longrightarrow> ordered cb (hash_items hash ! i) \<and>
      (\<forall>d\<in>set (inorder (hash_items hash ! i)). item_gethash cb (item_getkey cb d) hashsize = i)"
    using assms by (auto simp: hash_inv_def)
  show "d \<in> set (inorder (hash_items hash ! item_gethash cb (item_getkey cb d) hashsize))"
    if "d \<in> set (concat (map inorder (hash_items hash)))"
    using that bucket len by (auto simp: in_set_conv_nth [of _ "hash_items hash"])
  have "distinct (inorder (hash_items hash ! i))" if "i < hashsize" for i
  proof -
    have "distinct (map (item_getkey cb) (inorder (hash_items hash ! i)))"
      using bucket [OF that] before_key
      by (auto simp: ordered_def sorted_wrt_iff_nth_less distinct_conv_nth nat_neq_iff) metis
    then show ?thesis by (simp add: distinct_map)
  qed
  then show "distinct (concat (map inorder (hash_items hash)))"
    using bucket len by (intro distinct_concat_buckets [of _ "\<lambda>d. item_gethash cb (item_getkey cb d) hashsize" 0]) auto
qed

lemma hash_foreach:
  assumes "hash_inv cb hash" "hash_hashsize hash = hashsize"
    and "visit f (concat (map inorder (hash_items hash))) [] s = (stop, marked, s')"
  shows "\<exists>hash'. capwap_hash_foreach cb hash f s = Some (hash', s') \<and> hash_inv cb hash' \<and> hash_hashsize hash' = hashsize \<and>
    hash_map cb hash' = (\<lambda>k. if k \<in> item_getkey cb ` set marked then None else hash_map cb hash k) \<and>
    hash_count hash' + length marked = hash_count hash \<and> hash_freed hash' = hash_freed hash @ marked"
proof -
  have m: "distinct marked" "set marked \<subseteq> set (concat (map inorder (hash_items hash)))"
    using visit_marked [OF bucket_data(1) [OF assms(1,2)] _ _ assms(3)] by auto
  have "foreach_buckets f (hash_items hash) [] s = (marked, s')"
    by (simp add: foreach_buckets_visit assms(3))
  moreover have "\<forall>d\<in>set marked. d \<in> set (inorder (hash_items hash ! item_gethash cb (item_getkey cb d) hashsize))"
    using m(2) bucket_data(2) [OF assms(1,2)] by blast
  ultimately show ?thesis
    using delete_marked_ok [OF assms(1,2) m(1)] by (auto simp: capwap_hash_foreach_def)
qed

end

subsection \<open>Empty tables\<close>

lemma create_ok:
  assumes "hashsize > 0"
  shows "\<exists>hash. capwap_hash_create hashsize = Some hash \<and> hash_inv cb hash \<and> hash_balanced hash \<and> hash_hashsize hash = hashsize \<and>
    hash_count hash = 0 \<and> (\<forall>k. item_gethash cb k hashsize < hashsize \<longrightarrow> hash_map cb hash k = None)"
  using assms by (auto simp: capwap_hash_create_def hash_inv_def hash_balanced_def hash_map_def data_map_def ordered_def o_def
      sum_list_0 map_replicate_const sum_list_replicate)

lemma deleteall_ok:
  assumes "hash_inv cb hash"
  shows "hash_inv cb (capwap_hash_deleteall hash)" "hash_balanced (capwap_hash_deleteall hash)"
    "hash_hashsize (capwap_hash_deleteall hash) = hash_hashsize hash" "hash_count (capwap_hash_deleteall hash) = 0"
    "item_gethash cb k (hash_hashsize hash) < hash_hashsize hash \<Longrightarrow> hash_map cb (capwap_hash_deleteall hash) k = None"
  using assms by (auto simp: capwap_hash_deleteall_def hash_inv_def hash_balanced_def hash_map_def data_map_def ordered_def o_def
      sum_list_0 map_replicate_const sum_list_replicate)

lemma free_items_mset: "mset (capwap_hash_free_items t) = mset (inorder t)"
  by (induction t) auto

lemma deleteall_frees:
  "mset (hash_freed (capwap_hash_deleteall hash)) = mset (hash_freed hash) + mset (concat (map inorder (hash_items hash)))"
proof -
  have "mset (concat (map capwap_hash_free_items ts)) = mset (concat (map inorder ts))" for ts :: "'a capwap_hash_item list"
    by (induction ts) (auto simp: free_items_mset)
  then show ?thesis by (simp add: capwap_hash_deleteall_def)
qed

subsection \<open>Tables with at most one item in a bucket\<close>

definition hash_flat :: "'d capwap_hash \<Rightarrow> bool" where
  "hash_flat hash \<longleftrightarrow> (\<forall>t\<in>set (hash_items hash). t = NULL_item \<or> (\<exists>d. t = Item d 0 NULL_item NULL_item))"

lemma flat_balanced: "hash_flat hash \<Longrightarrow> hash_balanced hash"
  by (force simp: hash_flat_def hash_balanced_def)

lemma flat_bucket:
  assumes "hash_flat hash" "i < length (hash_items hash)"
  obtains "hash_items hash ! i = NULL_item" | d where "hash_items hash ! i = Item d 0 NULL_item NULL_item"
  using assms nth_mem unfolding hash_flat_def by blast

lemma flat_search_returns: "hash_flat hash \<Longrightarrow> i < length (hash_items hash) \<Longrightarrow> search_returns cb k (hash_items hash ! i)"
  by (erule (1) flat_bucket) auto

lemma flat_update:
  "hash_flat hash \<Longrightarrow> t = NULL_item \<or> (\<exists>d. t = Item d 0 NULL_item NULL_item) \<Longrightarrow>
   hash_flat (hash\<lparr>hash_items := (hash_items hash)[i := t], hash_count := c, hash_freed := f\<rparr>)"
  by (auto simp: hash_flat_def dest!: set_update_subset_insert [THEN subsetD])

context hash_client
begin

lemma flat_search:
  assumes "hash_inv cb hash" "hash_flat hash" "hash_hashsize hash = hashsize"
  shows "capwap_hash_search cb hash k = Some (hash_map cb hash k)"
  using hash_search [OF assms(1) flat_balanced [OF assms(2)] assms(3), of k]
    flat_search_returns [OF assms(2) hash_bucket(1) [OF assms(1) flat_balanced [OF assms(2)] assms(3)]]
  by simp

lemma flat_add:
  assumes "hash_inv cb hash" "hash_flat hash" "hash_hashsize hash = hashsize"
    and "\<forall>d. hash_map cb hash (item_getkey cb d) = Some d \<longrightarrow>
      item_gethash cb (item_getkey cb d) hashsize = item_gethash cb (item_getkey cb data) hashsize \<longrightarrow> item_getkey cb d = item_getkey cb data"
  shows "\<exists>hash'. capwap_hash_add cb hash data = Some hash' \<and> hash_inv cb hash' \<and> hash_flat hash' \<and>
    hash_hashsize hash' = hashsize \<and> hash_map cb hash' = (hash_map cb hash)(item_getkey cb data \<mapsto> data)"
proof -
  let ?i = "item_gethash cb (item_getkey cb data) hashsize"
  have b: "?i < length (hash_items hash)"
    using hash_bucket(1) [OF assms(1) flat_balanced [OF assms(2)] assms(3)] .
  have len: "length (hash_items hash) = hashsize" using assms(1,3) by (simp add: hash_inv_def)
  have "\<exists>c f. capwap_hash_add cb hash data =
      Some (hash\<lparr>hash_items := (hash_items hash)[?i := Item data 0 NULL_item NULL_item], hash_count := c, hash_freed := f\<rparr>)"
    using assms(2) b
  proof (rule flat_bucket)
    assume "hash_items hash ! ?i = NULL_item"
    then show ?thesis
      using b len by (intro exI [of _ "hash_count hash + 1"] exI [of _ "hash_freed hash"])
        (simp add: capwap_hash_add_def assms(3) capwap_hash_create_item_def)
  next
    fix d assume d: "hash_items hash ! ?i = Item d 0 NULL_item NULL_item"
    then have home: "item_gethash cb (item_getkey cb d) hashsize = ?i"
      using assms(1,3) b len by (auto simp: hash_inv_def)
    then have "hash_map cb hash (item_getkey cb d) = Some d"
      using d assms(3) by (simp add: hash_map_def)
    then have "item_getkey cb d = item_getkey cb data" using assms(4) home by blast
    then have "item_cmp cb (item_getkey cb data) (item_getkey cb d) = 0" by (simp add: cmp_eq)
    then show ?thesis
      using b len d by (intro exI [of _ "hash_count hash"] exI [of _ "hash_freed hash @ [d]"])
        (simp add: capwap_hash_add_def assms(3))
  qed
  then obtain c f where add: "capwap_hash_add cb hash data =
      Some (hash\<lparr>hash_items := (hash_items hash)[?i := Item data 0 NULL_item NULL_item], hash_count := c, hash_freed := f\<rparr>)"
    by (elim exE)
  show ?thesis
    using hash_add [OF assms(1) flat_balanced [OF assms(2)] assms(3), of data] flat_update [OF assms(2)] add by auto
qed

lemma flat_delete:
  assumes "hash_inv cb hash" "hash_flat hash" "hash_hashsize hash = hashsize"
  shows "\<exists>hash'. capwap_hash_delete cb hash k = Some hash' \<and> hash_inv cb hash' \<and> hash_flat hash' \<and>
    hash_hashsize hash' = hashsize \<and> hash_map cb hash' = (hash_map cb hash)(k := None)"
proof -
  let ?i = "item_gethash cb k hashsize"
  have b: "?i < length (hash_items hash)"
    using hash_bucket(1) [OF assms(1) flat_balanced [OF assms(2)] assms(3)] .
  have len: "length (hash_items hash) = hashsize" using assms(1,3) by (simp add: hash_inv_def)
  have "capwap_hash_delete cb hash k = Some hash' \<Longrightarrow> hash_flat hash'" for hash'
    using assms(2) b
  proof (rule flat_bucket)
    assume "capwap_hash_delete cb hash k = Some hash'" "hash_items hash ! ?i = NULL_item"
    then show ?thesis using assms(2,3) b len by (simp add: capwap_hash_delete_def)
  next
    fix d assume del: "capwap_hash_delete cb hash k = Some hash'" and d: "hash_items hash ! ?i = Item d 0 NULL_item NULL_item"
    consider "item_cmp cb k (item_getkey cb d) = 0" | "item_cmp cb k (item_getkey cb d) < 0" | "item_cmp cb k (item_getkey cb d) > 0"
      by linarith
    then show ?thesis
    proof cases
      case 1
      then have "hash' = hash\<lparr>hash_items := (hash_items hash)[?i := NULL_item], hash_count := hash_count hash - 1, hash_freed := hash_freed hash @ [d]\<rparr>"
        using del d b len assms(3) search_loop_simps(2) [of "[]" "hash_items hash ! ?i" d 0 NULL_item NULL_item k]
        by (simp add: capwap_hash_delete_def capwap_hash_search_items_def capwap_hash_deleteitem_def hash_unlink_def)
      then show ?thesis using flat_update [OF assms(2)] by simp
    next
      case 2
      then have "hash' = hash"
        using del d b len assms(3) search_loop_simps(3) [of "[]" "hash_items hash ! ?i" d 0 NULL_item NULL_item k]
          search_loop_simps(1) [of "[LeftSide]" "hash_items hash ! ?i" k]
        by (simp add: capwap_hash_delete_def capwap_hash_search_items_def)
      then show ?thesis using assms(2) by simp
    next
      case 3
      then have "hash' = hash"
        using del d b len assms(3) search_loop_simps(4) [of "[]" "hash_items hash ! ?i" d 0 NULL_item NULL_item k]
          search_loop_simps(1) [of "[RightSide]" "hash_items hash ! ?i" k]
        by (simp add: capwap_hash_delete_def capwap_hash_search_items_def)
      then show ?thesis using assms(2) by simp
    qed
  qed
  then show ?thesis
    using hash_delete [OF assms(1) flat_balanced [OF assms(2)] assms(3) flat_search_returns [OF assms(2) b]] by blast
qed

text \<open>The data of a table is what its map gives.\<close>

lemma hash_map_member:
  assumes "hash_inv cb hash" "hash_hashsize hash = hashsize"
  shows "(\<exists>t\<in>set (hash_items hash). d \<in> set (inorder t)) \<longleftrightarrow> hash_map cb hash (item_getkey cb d) = Some d"
proof
  assume "\<exists>t\<in>set (hash_items hash). d \<in> set (inorder t)"
  then have "d \<in> set (inorder (hash_items hash ! item_gethash cb (item_getkey cb d) hashsize))"
    by (intro bucket_data(2) [OF assms]) simp
  moreover have "ordered cb (hash_items hash ! item_gethash cb (item_getkey cb d) hashsize)"
    using assms gethash_bound [of "item_getkey cb d"] by (simp add: hash_inv_def)
  ultimately obtain ys zs where split: "inorder (hash_items hash ! item_gethash cb (item_getkey cb d) hashsize) = ys @ d # zs"
    "sorted_wrt (before cb) (ys @ d # zs)"
    unfolding ordered_def by (metis split_list)
  then have "\<forall>x\<in>set ys. item_getkey cb x \<noteq> item_getkey cb d"
    using before_key by (simp add: sorted_wrt_append)
  then have "data_map cb ys (item_getkey cb d) = None"
    by (rule data_map_other)
  then have "data_map cb (inorder (hash_items hash ! item_gethash cb (item_getkey cb d) hashsize)) (item_getkey cb d) = Some d"
    by (simp add: split(1) data_map_append map_add_def)
  then show "hash_map cb hash (item_getkey cb d) = Some d" by (simp add: hash_map_def assms(2))
next
  assume "hash_map cb hash (item_getkey cb d) = Some d"
  then have "d \<in> set (inorder (hash_items hash ! item_gethash cb (item_getkey cb d) hashsize))"
    using data_map_SomeD unfolding hash_map_def assms(2) by blast
  moreover have "item_gethash cb (item_getkey cb d) hashsize < length (hash_items hash)"
    using assms gethash_bound by (simp add: hash_inv_def)
  ultimately show "\<exists>t\<in>set (hash_items hash). d \<in> set (inorder t)" using nth_mem by blast
qed

end

text \<open>A table depends on the keys of its data only.\<close>

lemma hash_cong:
  assumes "\<forall>t\<in>set (hash_items hash). \<forall>d\<in>set (inorder t). item_getkey cb' d = item_getkey cb d"
    and "item_gethash cb' = item_gethash cb" "item_cmp cb' = item_cmp cb"
    and "length (hash_items hash) = hash_hashsize hash"
  shows "hash_inv cb' hash = hash_inv cb hash"
    "item_gethash cb k (hash_hashsize hash) < hash_hashsize hash \<Longrightarrow> hash_map cb' hash k = hash_map cb hash k"
proof -
  have "sorted_wrt (before cb') xs = sorted_wrt (before cb) xs" if "\<forall>d\<in>set xs. item_getkey cb' d = item_getkey cb d" for xs
    using that assms(3) by (induction xs) (auto simp: before_def)
  then have ord: "ordered cb' t = ordered cb t" if "t \<in> set (hash_items hash)" for t
    using that assms(1) by (simp add: ordered_def)
  have dm: "data_map cb' xs k = data_map cb xs k" if "\<forall>d\<in>set xs. item_getkey cb' d = item_getkey cb d" for xs
    using that by (induction xs) (auto simp: data_map_def)
  show "hash_inv cb' hash = hash_inv cb hash"
  proof -
    have "ordered cb' (hash_items hash ! i) = ordered cb (hash_items hash ! i)"
      "\<forall>d\<in>set (inorder (hash_items hash ! i)). item_getkey cb' d = item_getkey cb d" if "i < hash_hashsize hash" for i
      using that ord assms(1,4) nth_mem by metis+
    then show ?thesis unfolding hash_inv_def assms(2) by auto
  qed
  show "hash_map cb' hash k = hash_map cb hash k" if "item_gethash cb k (hash_hashsize hash) < hash_hashsize hash"
  proof -
    have "hash_items hash ! item_gethash cb k (hash_hashsize hash) \<in> set (hash_items hash)"
      using assms(4) that by simp
    then show ?thesis using dm assms(1,2) by (simp add: hash_map_def)
  qed
qed

end
