(* ===== verification/Capwap_List.thy ===== *)
theory Capwap_List
  imports Capwap_Prelude
begin

text \<open>
  The doubly linked list of \<open>common/capwap_list.c\<close>, on an explicit heap of list items, because its items are
  shared: the timers keep a second reference to an item in a hash table, and stations and WLANs keep the list
  item that holds them. The address \<open>capwap_alloc\<close> returns is an argument. \<open>list_rep\<close> relates the heap to the
  sequence of addresses a list stands for; every operation refines the operation on this sequence, never
  follows a wild pointer, and leaves what the items hold as it is.
\<close>

subsection \<open>Items and lists\<close>

type_synonym addr = nat

text \<open>
  \<open>li_item\<close> is what the pointer \<open>item\<close> refers to; \<open>li_next\<close> and \<open>li_prev\<close> are pointers to other items.
\<close>

record 'a capwap_list_item =
  li_item :: "'a option"
  li_itemsize :: int
  li_autodelete :: int
  li_next :: "addr option"
  li_prev :: "addr option"

type_synonym 'a list_heap = "addr \<Rightarrow> 'a capwap_list_item option"

record capwap_list =
  list_count :: "64 word"
  list_first :: "addr option"
  list_last :: "addr option"

definition capwap_list_create :: capwap_list where
  "capwap_list_create = \<lparr>list_count = 0, list_first = None, list_last = None\<rparr>"

definition capwap_itemlist_create_with_item :: "addr \<Rightarrow> 'a option \<Rightarrow> int \<Rightarrow> 'a list_heap \<Rightarrow> 'a list_heap" where
  "capwap_itemlist_create_with_item a item itemsize h =
     h(a \<mapsto> \<lparr>li_item = item, li_itemsize = itemsize, li_autodelete = 1, li_next = None, li_prev = None\<rparr>)"

definition capwap_itemlist_create :: "addr \<Rightarrow> 'a \<Rightarrow> int \<Rightarrow> 'a list_heap \<Rightarrow> 'a list_heap option" where
  "capwap_itemlist_create a item itemsize h = do {
     ASSERT (itemsize > 0);
     Some (capwap_itemlist_create_with_item a (Some item) itemsize h) }"

text \<open>The item that is freed together with its list item, if any, is part of the result.\<close>

definition capwap_itemlist_free :: "addr \<Rightarrow> 'a list_heap \<Rightarrow> ('a list_heap \<times> 'a option) option" where
  "capwap_itemlist_free a h = do {
     it \<leftarrow> h a;
     ASSERT (li_item it \<noteq> None);
     Some (h(a := None), if li_autodelete it \<noteq> 0 then li_item it else None) }"

partial_function (option) list_flush_loop :: "addr option \<Rightarrow> 'a list_heap \<Rightarrow> 'a list_heap option" where
  "list_flush_loop item h =
     (case item of
        None \<Rightarrow> Some h
      | Some a \<Rightarrow> do {
          it \<leftarrow> h a;
          (h, _) \<leftarrow> capwap_itemlist_free a h;
          list_flush_loop (li_next it) h })"

definition capwap_list_flush :: "capwap_list \<Rightarrow> 'a list_heap \<Rightarrow> ('a list_heap \<times> capwap_list) option" where
  "capwap_list_flush l h = do {
     h \<leftarrow> list_flush_loop (list_first l) h;
     Some (h, l\<lparr>list_first := None, list_last := None, list_count := 0\<rparr>) }"

subsection \<open>Linking and unlinking\<close>

text \<open>An assignment to a field of the item a pointer refers to.\<close>

definition set_item ::
    "addr \<Rightarrow> ('a capwap_list_item \<Rightarrow> 'a capwap_list_item) \<Rightarrow> 'a list_heap \<Rightarrow> 'a list_heap option" where
  "set_item a f h = map_option (\<lambda>it. h(a \<mapsto> f it)) (h a)"

definition capwap_itemlist_remove :: "addr \<Rightarrow> capwap_list \<Rightarrow> 'a list_heap \<Rightarrow> ('a list_heap \<times> capwap_list) option" where
  "capwap_itemlist_remove a l h = do {
     it \<leftarrow> h a;
     (h, l) \<leftarrow> (case li_prev it of
         Some p \<Rightarrow> map_option (\<lambda>h. (h, l)) (set_item p (li_next_update (\<lambda>_. li_next it)) h)
       | None \<Rightarrow> Some (h, l\<lparr>list_first := li_next it\<rparr>));
     it \<leftarrow> h a;
     (h, l) \<leftarrow> (case li_next it of
         Some n \<Rightarrow> map_option (\<lambda>h. (h, l)) (set_item n (li_prev_update (\<lambda>_. li_prev it)) h)
       | None \<Rightarrow> Some (h, l\<lparr>list_last := li_prev it\<rparr>));
     h \<leftarrow> set_item a (\<lambda>it. it\<lparr>li_next := None, li_prev := None\<rparr>) h;
     Some (h, l\<lparr>list_count := list_count l - 1\<rparr>) }"

definition capwap_itemlist_remove_head :: "capwap_list \<Rightarrow> 'a list_heap \<Rightarrow> (addr option \<times> 'a list_heap \<times> capwap_list) option" where
  "capwap_itemlist_remove_head l h =
     (case list_first l of
        None \<Rightarrow> Some (None, h, l)
      | Some a \<Rightarrow> do {
          it \<leftarrow> h a;
          let l = l\<lparr>list_first := li_next it\<rparr>;
          (h, l) \<leftarrow> (case list_first l of
              Some n \<Rightarrow> map_option (\<lambda>h. (h, l)) (set_item n (li_prev_update (\<lambda>_. None)) h)
            | None \<Rightarrow> Some (h, l\<lparr>list_last := None\<rparr>));
          h \<leftarrow> set_item a (\<lambda>it. it\<lparr>li_next := None, li_prev := None\<rparr>) h;
          Some (Some a, h, l\<lparr>list_count := list_count l - 1\<rparr>) })"

definition capwap_itemlist_insert_before ::
    "addr option \<Rightarrow> addr \<Rightarrow> capwap_list \<Rightarrow> 'a list_heap \<Rightarrow> ('a list_heap \<times> capwap_list) option" where
  "capwap_itemlist_insert_before before a l h = do {
     let l = l\<lparr>list_count := list_count l + 1\<rparr>;
     (case (if before = None then list_first l else before) of
        None \<Rightarrow> do {
          h \<leftarrow> set_item a (\<lambda>it. it\<lparr>li_next := None, li_prev := None\<rparr>) h;
          Some (h, l\<lparr>list_first := Some a, list_last := Some a\<rparr>) }
      | Some b \<Rightarrow> do {
          bi \<leftarrow> h b;
          h \<leftarrow> set_item a (\<lambda>it. it\<lparr>li_prev := li_prev bi, li_next := Some b\<rparr>) h;
          bi \<leftarrow> h b;
          (h, l) \<leftarrow> (case li_prev bi of
              None \<Rightarrow> Some (h, l\<lparr>list_first := Some a\<rparr>)
            | Some p \<Rightarrow> map_option (\<lambda>h. (h, l)) (set_item p (li_next_update (\<lambda>_. Some a)) h));
          h \<leftarrow> set_item b (li_prev_update (\<lambda>_. Some a)) h;
          Some (h, l) }) }"

definition capwap_itemlist_insert_after ::
    "addr option \<Rightarrow> addr \<Rightarrow> capwap_list \<Rightarrow> 'a list_heap \<Rightarrow> ('a list_heap \<times> capwap_list) option" where
  "capwap_itemlist_insert_after after a l h = do {
     let l = l\<lparr>list_count := list_count l + 1\<rparr>;
     (case (if after = None then list_last l else after) of
        None \<Rightarrow> do {
          h \<leftarrow> set_item a (\<lambda>it. it\<lparr>li_next := None, li_prev := None\<rparr>) h;
          Some (h, l\<lparr>list_first := Some a, list_last := Some a\<rparr>) }
      | Some b \<Rightarrow> do {
          bi \<leftarrow> h b;
          h \<leftarrow> set_item a (\<lambda>it. it\<lparr>li_prev := Some b, li_next := li_next bi\<rparr>) h;
          bi \<leftarrow> h b;
          (h, l) \<leftarrow> (case li_next bi of
              None \<Rightarrow> Some (h, l\<lparr>list_last := Some a\<rparr>)
            | Some n \<Rightarrow> map_option (\<lambda>h. (h, l)) (set_item n (li_prev_update (\<lambda>_. Some a)) h));
          h \<leftarrow> set_item b (li_next_update (\<lambda>_. Some a)) h;
          Some (h, l) }) }"

subsection \<open>The sequence a list stands for\<close>

definition first_of :: "'b list \<Rightarrow> 'b option \<Rightarrow> 'b option" where
  "first_of xs n = (case xs of [] \<Rightarrow> n | x # _ \<Rightarrow> Some x)"

definition last_of :: "'b option \<Rightarrow> 'b list \<Rightarrow> 'b option" where
  "last_of p xs = (if xs = [] then p else Some (last xs))"

lemma first_of_simps [simp]: "first_of [] n = n" "first_of (x # xs) n = Some x"
  "first_of (xs @ ys) n = first_of xs (first_of ys n)"
  by (simp_all add: first_of_def split: list.splits)

lemma last_of_simps [simp]: "last_of p [] = p" "last_of p (x # xs) = last_of (Some x) xs" "last_of p (xs @ ys) = last_of (last_of p xs) ys"
  by (auto simp: last_of_def)

text \<open>
  A segment of items: the first one has \<open>p\<close> in front of it, the last one has \<open>n\<close> behind it.
\<close>

fun segment :: "'a list_heap \<Rightarrow> addr option \<Rightarrow> addr list \<Rightarrow> addr option \<Rightarrow> bool" where
  "segment h p [] n \<longleftrightarrow> True"
| "segment h p (a # as) n \<longleftrightarrow>
     (\<exists>it. h a = Some it \<and> li_prev it = p \<and> li_next it = first_of as n) \<and> segment h (Some a) as n"

definition list_rep :: "'a list_heap \<Rightarrow> capwap_list \<Rightarrow> addr list \<Rightarrow> bool" where
  "list_rep h l xs \<longleftrightarrow> distinct xs \<and> segment h None xs None \<and> list_first l = first_of xs None \<and>
     list_last l = last_of None xs \<and> list_count l = of_nat (length xs)"

lemma segment_append [simp]: "segment h p (xs @ ys) n \<longleftrightarrow> segment h p xs (first_of ys n) \<and> segment h (last_of p xs) ys n"
  by (induction xs arbitrary: p) auto

lemma segment_frame [simp]: "a \<notin> set xs \<Longrightarrow> segment (h(a := v)) p xs n = segment h p xs n"
  by (induction xs arbitrary: p) auto

lemma segment_next: "distinct xs \<Longrightarrow> segment h p xs n \<Longrightarrow> xs \<noteq> [] \<Longrightarrow> h (last xs) = Some it \<Longrightarrow>
    segment (h(last xs \<mapsto> it\<lparr>li_next := m\<rparr>)) p xs m"
  by (cases xs rule: rev_cases) auto

lemma segment_prev: "distinct xs \<Longrightarrow> segment h p xs n \<Longrightarrow> xs \<noteq> [] \<Longrightarrow> h (hd xs) = Some it \<Longrightarrow>
    segment (h(hd xs \<mapsto> it\<lparr>li_prev := q\<rparr>)) q xs n"
  by (cases xs) auto

lemma segment_alloc: "segment h p xs n \<Longrightarrow> a \<in> set xs \<Longrightarrow> \<exists>it. h a = Some it"
  by (induction xs arbitrary: p) auto

text \<open>The items of the heap hold the same.\<close>

definition payload :: "'a list_heap \<Rightarrow> addr \<Rightarrow> 'a option option" where
  "payload h a = map_option li_item (h a)"

lemma payload_update [simp]:
  "h a = Some it \<Longrightarrow> li_item it' = li_item it \<Longrightarrow> payload (h(a \<mapsto> it')) = payload h"
  by (auto simp: payload_def fun_eq_iff)

lemma list_create_rep: "list_rep h capwap_list_create []"
  by (simp add: list_rep_def capwap_list_create_def)

subsection \<open>Every operation refines an operation on the sequence\<close>

lemma remove_rep:
  assumes "list_rep h l (xs @ a # ys)"
  shows "\<exists>h' l'. capwap_itemlist_remove a l h = Some (h', l') \<and> list_rep h' l' (xs @ ys) \<and> payload h' = payload h \<and>
    (\<forall>b. b \<notin> set (xs @ a # ys) \<longrightarrow> h' b = h b)"
  using assms
  by (cases xs rule: rev_cases; cases ys) (auto simp: capwap_itemlist_remove_def set_item_def list_rep_def)

lemma remove_head_Nil: "list_rep h l [] \<Longrightarrow> capwap_itemlist_remove_head l h = Some (None, h, l)"
  by (simp add: capwap_itemlist_remove_head_def list_rep_def)

lemma remove_head_rep:
  assumes "list_rep h l (a # ys)"
  shows "\<exists>h' l'. capwap_itemlist_remove_head l h = Some (Some a, h', l') \<and> list_rep h' l' ys \<and> payload h' = payload h \<and>
    (\<forall>b. b \<notin> set (a # ys) \<longrightarrow> h' b = h b)"
  using assms
  by (cases ys) (auto simp: capwap_itemlist_remove_head_def set_item_def list_rep_def)

lemma insert_before_rep:
  assumes "list_rep h l (xs @ b # ys)" "h a = Some it" "a \<notin> set (xs @ b # ys)"
  shows "\<exists>h' l'. capwap_itemlist_insert_before (Some b) a l h = Some (h', l') \<and> list_rep h' l' (xs @ a # b # ys) \<and> payload h' = payload h \<and>
    (\<forall>c. c \<notin> set (xs @ a # b # ys) \<longrightarrow> h' c = h c)"
  using assms
  by (cases xs rule: rev_cases) (auto simp: capwap_itemlist_insert_before_def set_item_def list_rep_def)

lemma insert_before_head_rep:
  assumes "list_rep h l xs" "h a = Some it" "a \<notin> set xs"
  shows "\<exists>h' l'. capwap_itemlist_insert_before None a l h = Some (h', l') \<and> list_rep h' l' (a # xs) \<and> payload h' = payload h \<and>
    (\<forall>c. c \<notin> set (a # xs) \<longrightarrow> h' c = h c)"
  using assms
  by (cases xs) (auto simp: capwap_itemlist_insert_before_def set_item_def list_rep_def)

lemma insert_after_rep:
  assumes "list_rep h l (xs @ b # ys)" "h a = Some it" "a \<notin> set (xs @ b # ys)"
  shows "\<exists>h' l'. capwap_itemlist_insert_after (Some b) a l h = Some (h', l') \<and> list_rep h' l' (xs @ b # a # ys) \<and> payload h' = payload h \<and>
    (\<forall>c. c \<notin> set (xs @ b # a # ys) \<longrightarrow> h' c = h c)"
  using assms
  by (cases ys) (auto simp: capwap_itemlist_insert_after_def set_item_def list_rep_def)

lemma insert_after_last_rep:
  assumes "list_rep h l xs" "h a = Some it" "a \<notin> set xs"
  shows "\<exists>h' l'. capwap_itemlist_insert_after None a l h = Some (h', l') \<and> list_rep h' l' (xs @ [a]) \<and> payload h' = payload h \<and>
    (\<forall>c. c \<notin> set (a # xs) \<longrightarrow> h' c = h c)"
  using assms
  by (cases xs rule: rev_cases) (auto simp: capwap_itemlist_insert_after_def set_item_def list_rep_def)

lemma flush_loop:
  assumes "distinct xs" "segment h p xs None" "\<forall>a\<in>set xs. \<forall>it. h a = Some it \<longrightarrow> li_item it \<noteq> None"
  shows "list_flush_loop (first_of xs None) h = Some (\<lambda>b. if b \<in> set xs then None else h b)"
  using assms
proof (induction xs arbitrary: h p)
  case (Cons a xs)
  then obtain it where it: "h a = Some it" "li_next it = first_of xs None" "li_item it \<noteq> None" by auto
  have "list_flush_loop (first_of (a # xs) None) h = list_flush_loop (first_of xs None) (h(a := None))"
    using it by (subst list_flush_loop.simps) (simp add: capwap_itemlist_free_def)
  also have "\<dots> = Some (\<lambda>b. if b \<in> set xs then None else (h(a := None)) b)"
  proof (rule Cons.IH [of "h(a := None)" "Some a"])
    show "segment (h(a := None)) (Some a) xs None"
      by (rule segment_frame [THEN iffD2]) (use Cons.prems in simp_all)
  qed (use Cons.prems in auto)
  finally show ?case by (auto simp: fun_eq_iff)
qed (simp add: list_flush_loop.simps)

lemma flush_rep:
  assumes "list_rep h l xs" "\<forall>a\<in>set xs. \<forall>it. h a = Some it \<longrightarrow> li_item it \<noteq> None"
  shows "\<exists>h' l'. capwap_list_flush l h = Some (h', l') \<and> list_rep h' l' [] \<and> h' = (\<lambda>b. if b \<in> set xs then None else h b)"
  using assms flush_loop [of xs h None] by (simp add: capwap_list_flush_def list_rep_def)

text \<open>An item outside of a list may change or be created without affecting it.\<close>

lemma list_rep_frame: "a \<notin> set xs \<Longrightarrow> list_rep (h(a := v)) l xs = list_rep h l xs"
  by (simp add: list_rep_def)

lemma list_rep_alloc: "list_rep h l xs \<Longrightarrow> a \<in> set xs \<Longrightarrow> \<exists>it. h a = Some it"
  unfolding list_rep_def using segment_alloc by blast

text \<open>Changing what an item holds leaves the links as they are.\<close>

lemma segment_item: "h a = Some it \<Longrightarrow> li_next it' = li_next it \<Longrightarrow> li_prev it' = li_prev it \<Longrightarrow>
    segment (h(a \<mapsto> it')) p xs n = segment h p xs n"
  by (induction xs arbitrary: p) auto

lemma list_rep_item: "h a = Some it \<Longrightarrow> li_next it' = li_next it \<Longrightarrow> li_prev it' = li_prev it \<Longrightarrow>
    list_rep (h(a \<mapsto> it')) l xs = list_rep h l xs"
  by (simp add: list_rep_def segment_item)

subsection \<open>Property\<close>

text \<open>
  C26. Inserting an item in front of any item of a list and removing it again gives the sequence the list had, in both
  directions of the links and with its count; the operations follow no wild pointer and change no item's contents.
\<close>

theorem list_insert_remove:
  assumes "list_rep h l (xs @ b # ys)" "h a = Some it" "a \<notin> set (xs @ b # ys)"
  shows "\<exists>h1 l1 h2 l2. capwap_itemlist_insert_before (Some b) a l h = Some (h1, l1) \<and> list_rep h1 l1 (xs @ a # b # ys) \<and>
    capwap_itemlist_remove a l1 h1 = Some (h2, l2) \<and> list_rep h2 l2 (xs @ b # ys) \<and> payload h2 = payload h"
proof -
  obtain h1 l1 where 1: "capwap_itemlist_insert_before (Some b) a l h = Some (h1, l1)" "list_rep h1 l1 (xs @ a # b # ys)" "payload h1 = payload h"
    using insert_before_rep [OF assms] by (elim exE conjE)
  obtain h2 l2 where "capwap_itemlist_remove a l1 h1 = Some (h2, l2)" "list_rep h2 l2 (xs @ b # ys)" "payload h2 = payload h1"
    using remove_rep [OF 1(2)] by (elim exE conjE)
  then show ?thesis using 1 by (intro exI [of _ h1] exI [of _ l1] exI [of _ h2] exI [of _ l2]) simp
qed

theorem list_insert_remove_witness:
  "\<exists>h1 l1 h2 l2. capwap_itemlist_insert_before (Some 1) 2 \<lparr>list_count = 1, list_first = Some 1, list_last = Some 1\<rparr>
      (capwap_itemlist_create_with_item 1 (Some ''a'') 1 (capwap_itemlist_create_with_item 2 (Some ''b'') 1 Map.empty)) = Some (h1, l1) \<and>
    list_rep h1 l1 [2, 1] \<and> capwap_itemlist_remove 2 l1 h1 = Some (h2, l2) \<and> list_rep h2 l2 [1]"
proof -
  let ?h = "capwap_itemlist_create_with_item 1 (Some ''a'') 1 (capwap_itemlist_create_with_item 2 (Some ''b'') 1 Map.empty)"
  let ?l = "\<lparr>list_count = 1, list_first = Some (1::addr), list_last = Some 1\<rparr>"
  have "list_rep ?h ?l ([] @ 1 # [])" by (simp add: list_rep_def capwap_itemlist_create_with_item_def)
  moreover have "\<exists>it. ?h 2 = Some it" by (simp add: capwap_itemlist_create_with_item_def)
  ultimately show ?thesis
    using list_insert_remove [of ?h ?l "[]" 1 "[]" 2] by auto
qed

end
