(* ===== verification/Capwap_Timeout.thy ===== *)
theory Capwap_Timeout
  imports Capwap_Hash_Map Capwap_List "HOL-Library.Signed_Division"
begin

text \<open>
  The timers of \<open>common/capwap_timeout.c\<close>: a bit field of the timer indexes in use, a list of the pending timers,
  and a hash table of the same list items by index. The heap of the list items is part of the state; the time
  of day and the address of a new item are arguments. The state is related to a queue of timers
  (\<open>timeout_rep\<close>), and every operation to its effect on this queue.
\<close>

subsection \<open>Time\<close>

record timeval =
  tv_sec :: int
  tv_usec :: int

text \<open>The division of C rounds towards zero.\<close>

definition capwap_timeout_getdelta :: "timeval \<Rightarrow> timeval \<Rightarrow> int" where
  "capwap_timeout_getdelta time1 time2 = (tv_sec time1 - tv_sec time2) * 1000 + (tv_usec time1 - tv_usec time2) sdiv 1000"

definition capwap_timeout_setexpire :: "int \<Rightarrow> timeval \<Rightarrow> timeval" where
  "capwap_timeout_setexpire durate now =
     (let sec = tv_sec now + durate sdiv 1000;
          usec = tv_usec now + durate smod 1000
      in if usec \<ge> 1000000 then \<lparr>tv_sec = sec + 1, tv_usec = usec - 1000000\<rparr> else \<lparr>tv_sec = sec, tv_usec = usec\<rparr>)"

subsection \<open>Timers\<close>

record 'c capwap_timeout_item =
  ti_index :: nat
  ti_durate :: int
  ti_expire :: timeval
  ti_callback :: "'c option"
  ti_context :: "addr option"
  ti_param :: "addr option"

record 'c capwap_timeout =
  timeoutbitfield :: "u32 list"
  itemsreference :: "addr capwap_hash"
  itemstimeout :: capwap_list
  timeout_heap :: "'c capwap_timeout_item list_heap"

definition CAPWAP_TIMEOUT_HASH_COUNT :: nat where
  "CAPWAP_TIMEOUT_HASH_COUNT = 128"

definition CAPWAP_TIMEOUT_BITFIELD_SIZE :: nat where
  "CAPWAP_TIMEOUT_BITFIELD_SIZE = 128"

definition CAPWAP_TIMEOUT_INFINITE :: int where
  "CAPWAP_TIMEOUT_INFINITE = -1"

definition CAPWAP_TIMEOUT_INDEX_NO_SET :: nat where
  "CAPWAP_TIMEOUT_INDEX_NO_SET = 0"

definition capwap_timeout_hash_item_gethash :: "nat \<Rightarrow> nat \<Rightarrow> nat" where
  "capwap_timeout_hash_item_gethash key hashsize = key mod hashsize"

text \<open>The timer of a list item. The hash table only holds items of the list.\<close>

definition timer_at :: "'c capwap_timeout_item list_heap \<Rightarrow> addr \<Rightarrow> 'c capwap_timeout_item option" where
  "timer_at h a = Option.bind (h a) li_item"

definition capwap_timeout_hash_item_getkey :: "'c capwap_timeout_item list_heap \<Rightarrow> addr \<Rightarrow> nat" where
  "capwap_timeout_hash_item_getkey h data = (case timer_at h data of Some item \<Rightarrow> ti_index item | None \<Rightarrow> 0)"

definition capwap_timeout_hash_item_cmp :: "nat \<Rightarrow> nat \<Rightarrow> int" where
  "capwap_timeout_hash_item_cmp value1 value2 = (if value1 = value2 then 0 else if value1 < value2 then -1 else 1)"

definition timeout_callbacks :: "'c capwap_timeout_item list_heap \<Rightarrow> (nat, addr) hash_callbacks" where
  "timeout_callbacks h =
     \<lparr>item_gethash = capwap_timeout_hash_item_gethash, item_getkey = capwap_timeout_hash_item_getkey h,
      item_cmp = capwap_timeout_hash_item_cmp\<rparr>"

fun set_bitfield_loop :: "nat \<Rightarrow> u32 list \<Rightarrow> nat \<times> u32 list" where
  "set_bitfield_loop i [] = (CAPWAP_TIMEOUT_INDEX_NO_SET, [])"
| "set_bitfield_loop i (bitfield # rest) =
     (case (if bitfield \<noteq> 0xffffffff then find (\<lambda>j. bitfield AND push_bit j 1 = 0) [0..<32] else None) of
        Some j \<Rightarrow> (i * 32 + j + 1, (bitfield OR push_bit j 1) # rest)
      | None \<Rightarrow> (let (value, rest) = set_bitfield_loop (i + 1) rest in (value, bitfield # rest)))"

definition capwap_timeout_set_bitfield :: "'c capwap_timeout \<Rightarrow> nat \<times> 'c capwap_timeout" where
  "capwap_timeout_set_bitfield timeout =
     (let (value, rest) = set_bitfield_loop 0 (timeoutbitfield timeout) in (value, timeout\<lparr>timeoutbitfield := rest\<rparr>))"

definition capwap_timeout_clear_bitfield :: "'c capwap_timeout \<Rightarrow> nat \<Rightarrow> 'c capwap_timeout option" where
  "capwap_timeout_clear_bitfield timeout value = do {
     ASSERT (value > 0);
     let i = (value - 1) div 32;
     ASSERT (i < length (timeoutbitfield timeout));
     Some (timeout\<lparr>timeoutbitfield :=
       (timeoutbitfield timeout)[i := timeoutbitfield timeout ! i AND NOT (push_bit ((value - 1) mod 32) 1)]\<rparr>) }"

text \<open>
  The loop that searches the place of a new timer: the first item that expires later, and the item in front
  of it.
\<close>

partial_function (option) additem_loop ::
    "'c capwap_timeout_item list_heap \<Rightarrow> timeval \<Rightarrow> addr option \<Rightarrow> addr option \<Rightarrow> (addr option \<times> addr option) option" where
  "additem_loop h expire search lst =
     (case search of
        None \<Rightarrow> Some (None, lst)
      | Some s \<Rightarrow> do {
          it \<leftarrow> h s;
          itemsearch \<leftarrow> li_item it;
          if capwap_timeout_getdelta expire (ti_expire itemsearch) < 0 then Some (Some s, lst)
          else additem_loop h expire (li_next it) (Some s) })"

definition capwap_timeout_additem ::
    "addr \<Rightarrow> capwap_list \<Rightarrow> 'c capwap_timeout_item list_heap \<Rightarrow> ('c capwap_timeout_item list_heap \<times> capwap_list) option" where
  "capwap_timeout_additem itemlist l h = do {
     item \<leftarrow> timer_at h itemlist;
     (search, lst) \<leftarrow> additem_loop h (ti_expire item) (list_first l) None;
     if search \<noteq> None then capwap_itemlist_insert_before lst itemlist l h
     else capwap_itemlist_insert_after None itemlist l h }"

definition capwap_timeout_init :: "'c capwap_timeout_item list_heap \<Rightarrow> 'c capwap_timeout option" where
  "capwap_timeout_init h = do {
     table \<leftarrow> capwap_hash_create CAPWAP_TIMEOUT_HASH_COUNT;
     Some \<lparr>timeoutbitfield = replicate CAPWAP_TIMEOUT_BITFIELD_SIZE 0, itemsreference = table,
           itemstimeout = capwap_list_create, timeout_heap = h\<rparr> }"

definition capwap_timeout_createtimer :: "'c capwap_timeout \<Rightarrow> nat \<times> 'c capwap_timeout" where
  "capwap_timeout_createtimer timeout = capwap_timeout_set_bitfield timeout"

definition capwap_timeout_unset :: "'c capwap_timeout \<Rightarrow> nat \<Rightarrow> 'c capwap_timeout option" where
  "capwap_timeout_unset timeout index =
     (if index \<noteq> CAPWAP_TIMEOUT_INDEX_NO_SET then do {
        let cb = timeout_callbacks (timeout_heap timeout);
        itemlist \<leftarrow> capwap_hash_search cb (itemsreference timeout) index;
        (case itemlist of
           None \<Rightarrow> Some timeout
         | Some a \<Rightarrow> do {
             table \<leftarrow> capwap_hash_delete cb (itemsreference timeout) index;
             (h, l) \<leftarrow> capwap_itemlist_remove a (itemstimeout timeout) (timeout_heap timeout);
             (h, _) \<leftarrow> capwap_itemlist_free a h;
             Some (timeout\<lparr>itemsreference := table, itemstimeout := l, timeout_heap := h\<rparr>) }) }
      else Some timeout)"

definition capwap_timeout_deletetimer :: "'c capwap_timeout \<Rightarrow> nat \<Rightarrow> 'c capwap_timeout option" where
  "capwap_timeout_deletetimer timeout index =
     (if index \<noteq> CAPWAP_TIMEOUT_INDEX_NO_SET then do {
        timeout \<leftarrow> capwap_timeout_unset timeout index;
        capwap_timeout_clear_bitfield timeout index }
      else Some timeout)"

text \<open>
  \<open>capwap_timeout_set\<close>: \<open>update_timer\<close> is the branch for a timer that is already pending, \<open>create_timer\<close> the rest
  of the function for a new one, at the address \<open>a\<close>.
\<close>

definition update_timer ::
    "addr \<Rightarrow> timeval \<Rightarrow> int \<Rightarrow> 'c option \<Rightarrow> addr option \<Rightarrow> addr option \<Rightarrow> 'c capwap_timeout \<Rightarrow> 'c capwap_timeout option" where
  "update_timer itemlist now durate callback context param timeout = do {
     (h, l) \<leftarrow> capwap_itemlist_remove itemlist (itemstimeout timeout) (timeout_heap timeout);
     item \<leftarrow> timer_at h itemlist;
     let item = item\<lparr>ti_durate := durate, ti_expire := capwap_timeout_setexpire durate now, ti_callback := callback,
                     ti_context := context, ti_param := param\<rparr>;
     h \<leftarrow> set_item itemlist (li_item_update (\<lambda>_. Some item)) h;
     (h, l) \<leftarrow> capwap_timeout_additem itemlist l h;
     Some (timeout\<lparr>itemstimeout := l, timeout_heap := h\<rparr>) }"

definition create_timer ::
    "addr \<Rightarrow> timeval \<Rightarrow> nat \<Rightarrow> int \<Rightarrow> 'c option \<Rightarrow> addr option \<Rightarrow> addr option \<Rightarrow> 'c capwap_timeout \<Rightarrow> 'c capwap_timeout option" where
  "create_timer a now index durate callback context param timeout = do {
     let item = \<lparr>ti_index = index, ti_durate = durate, ti_expire = capwap_timeout_setexpire durate now, ti_callback = callback,
                 ti_context = context, ti_param = param\<rparr>;
     h \<leftarrow> capwap_itemlist_create a item 56 (timeout_heap timeout);
     table \<leftarrow> capwap_hash_add (timeout_callbacks h) (itemsreference timeout) a;
     (h, l) \<leftarrow> capwap_timeout_additem a (itemstimeout timeout) h;
     Some (timeout\<lparr>itemsreference := table, itemstimeout := l, timeout_heap := h\<rparr>) }"

definition capwap_timeout_set ::
    "addr \<Rightarrow> timeval \<Rightarrow> nat \<Rightarrow> int \<Rightarrow> 'c option \<Rightarrow> addr option \<Rightarrow> addr option \<Rightarrow> 'c capwap_timeout \<Rightarrow> (nat \<times> 'c capwap_timeout) option" where
  "capwap_timeout_set a now index durate callback context param timeout = do {
     ASSERT (durate \<ge> 0);
     if index = CAPWAP_TIMEOUT_INDEX_NO_SET then do {
       let (index, timeout) = capwap_timeout_createtimer timeout;
       timeout \<leftarrow> create_timer a now index durate callback context param timeout;
       Some (index, timeout) }
     else do {
       itemlist \<leftarrow> capwap_hash_search (timeout_callbacks (timeout_heap timeout)) (itemsreference timeout) index;
       timeout \<leftarrow> (case itemlist of
           Some b \<Rightarrow> update_timer b now durate callback context param timeout
         | None \<Rightarrow> create_timer a now index durate callback context param timeout);
       Some (index, timeout) } }"

definition capwap_timeout_unsetall :: "'c capwap_timeout \<Rightarrow> 'c capwap_timeout option" where
  "capwap_timeout_unsetall timeout = do {
     let table = capwap_hash_deleteall (itemsreference timeout);
     (h, l) \<leftarrow> capwap_list_flush (itemstimeout timeout) (timeout_heap timeout);
     Some (timeout\<lparr>itemsreference := table, itemstimeout := l, timeout_heap := h\<rparr>) }"

partial_function (option) recalculate_loop ::
    "timeval \<Rightarrow> addr option \<Rightarrow> 'c capwap_timeout_item list_heap \<Rightarrow> 'c capwap_timeout_item list_heap option" where
  "recalculate_loop now search h =
     (case search of
        None \<Rightarrow> Some h
      | Some s \<Rightarrow> do {
          it \<leftarrow> h s;
          itemsearch \<leftarrow> li_item it;
          let item = itemsearch\<lparr>ti_expire := capwap_timeout_setexpire (ti_durate itemsearch) now\<rparr>;
          recalculate_loop now (li_next it) (h(s \<mapsto> it\<lparr>li_item := Some item\<rparr>)) })"

definition capwap_timeout_getcoming :: "timeval \<Rightarrow> 'c capwap_timeout \<Rightarrow> (int \<times> 'c capwap_timeout) option" where
  "capwap_timeout_getcoming now timeout =
     (case list_first (itemstimeout timeout) of
        None \<Rightarrow> Some (CAPWAP_TIMEOUT_INFINITE, timeout)
      | Some search \<Rightarrow> do {
          item \<leftarrow> timer_at (timeout_heap timeout) search;
          let delta = capwap_timeout_getdelta (ti_expire item) now;
          if delta \<le> 0 then Some (0, timeout)
          else if delta \<le> ti_durate item then Some (delta, timeout)
          else do {
            h \<leftarrow> recalculate_loop now (Some search) (timeout_heap timeout);
            Some (ti_durate item, timeout\<lparr>timeout_heap := h\<rparr>) } })"

text \<open>A callback is run on the state; what it does is a parameter.\<close>

definition capwap_timeout_hasexpired ::
    "('c \<Rightarrow> nat \<Rightarrow> addr option \<Rightarrow> addr option \<Rightarrow> 'c capwap_timeout \<Rightarrow> 'c capwap_timeout option) \<Rightarrow>
     timeval \<Rightarrow> 'c capwap_timeout \<Rightarrow> (nat \<times> 'c capwap_timeout) option" where
  "capwap_timeout_hasexpired run now timeout = do {
     (delta, timeout) \<leftarrow> capwap_timeout_getcoming now timeout;
     if delta > 0 \<or> delta = CAPWAP_TIMEOUT_INFINITE then Some (0, timeout)
     else do {
       (itemlist, h, l) \<leftarrow> capwap_itemlist_remove_head (itemstimeout timeout) (timeout_heap timeout);
       a \<leftarrow> itemlist;
       item \<leftarrow> timer_at h a;
       table \<leftarrow> capwap_hash_delete (timeout_callbacks h) (itemsreference timeout) (ti_index item);
       (h, _) \<leftarrow> capwap_itemlist_free a h;
       let timeout = timeout\<lparr>itemsreference := table, itemstimeout := l, timeout_heap := h\<rparr>;
       timeout \<leftarrow> (case ti_callback item of
           Some callback \<Rightarrow> run callback (ti_index item) (ti_context item) (ti_param item) timeout
         | None \<Rightarrow> Some timeout);
       Some (ti_index item, timeout) } }"

definition capwap_timeout_wait :: "(int \<Rightarrow> int) \<Rightarrow> int \<Rightarrow> int \<Rightarrow> int" where
  "capwap_timeout_wait usleep errno durate =
     (if durate < 0 then -1
      else if durate > 0 then
        if usleep ((durate mod 2 ^ 32 * 1000) mod 2 ^ 32) \<noteq> 0 then (if errno = 4 then 0 else -1) else 1
      else 1)"

subsection \<open>Expiry times\<close>

lemma sdiv_nonneg: "0 \<le> a \<Longrightarrow> 0 < b \<Longrightarrow> a sdiv b = a div b" for a b :: int
  by (cases "a = 0") (auto simp: signed_divide_int_def)

lemma smod_nonneg: "0 \<le> a \<Longrightarrow> 0 < b \<Longrightarrow> a smod b = a mod b" for a b :: int
  by (cases "a = 0") (auto simp: signed_modulo_int_def)

lemma sdiv_neg: "a < 0 \<Longrightarrow> 0 < b \<Longrightarrow> a sdiv b = - (- a div b)" for a b :: int
  by (auto simp: signed_divide_int_def)

lemma expire_delta:
  assumes "0 \<le> durate" "0 \<le> tv_usec now" "tv_usec now < 1000000"
  shows "capwap_timeout_getdelta (capwap_timeout_setexpire durate now) now =
    durate div 1000 * 1000 + (if tv_usec now + durate mod 1000 < 1000000 then 0 else 1)"
proof (cases "tv_usec now + durate mod 1000 < 1000000")
  case True
  have "(durate mod 1000) sdiv 1000 = 0"
    by (simp add: sdiv_nonneg)
  then show ?thesis
    using True assms by (simp add: capwap_timeout_setexpire_def capwap_timeout_getdelta_def sdiv_nonneg smod_nonneg Let_def)
next
  case False
  define r where "r = durate mod 1000"
  have r: "0 < r" "r < 1000" using False assms by (auto simp: r_def)
  have "(r - 1000000) sdiv 1000 = -999"
    using r by (simp add: sdiv_neg)
  then show ?thesis
    using False assms by (simp add: capwap_timeout_setexpire_def capwap_timeout_getdelta_def sdiv_nonneg smod_nonneg Let_def r_def [symmetric] algebra_simps)
qed

subsection \<open>The indexes in use\<close>

definition used_bits :: "u32 list \<Rightarrow> nat set" where
  "used_bits bs = {p. p < 32 * length bs \<and> bit (bs ! (p div 32)) (p mod 32)}"

definition timer_used :: "'c capwap_timeout \<Rightarrow> nat set" where
  "timer_used timeout = Suc ` used_bits (timeoutbitfield timeout)"

lemma used_bits_Cons: "used_bits (b # bs) = {j. j < 32 \<and> bit b j} \<union> (+) 32 ` used_bits bs"
proof (intro set_eqI iffI)
  fix p assume p: "p \<in> used_bits (b # bs)"
  show "p \<in> {j. j < 32 \<and> bit b j} \<union> (+) 32 ` used_bits bs"
  proof (cases "p < 32")
    case False
    then obtain q where q: "p = 32 + q" using le_Suc_ex by (metis leI)
    have "(32 + q) div 32 = Suc (q div 32)" by simp
    then have "q \<in> used_bits bs" using p q by (auto simp: used_bits_def)
    then show ?thesis using q by auto
  qed (use p in \<open>auto simp: used_bits_def\<close>)
next
  fix p assume "p \<in> {j. j < 32 \<and> bit b j} \<union> (+) 32 ` used_bits bs"
  then show "p \<in> used_bits (b # bs)"
  proof
    assume "p \<in> (+) 32 ` used_bits bs"
    then obtain q where q: "p = 32 + q" "q \<in> used_bits bs" by auto
    have "(32 + q) div 32 = Suc (q div 32)" by simp
    then show ?thesis using q by (simp add: used_bits_def)
  qed (simp add: used_bits_def)
qed

lemma set_bitfield_loop_Cons:
  "set_bitfield_loop i (b # bs) =
     (case (if b \<noteq> 0xffffffff then find (\<lambda>j. \<not> bit b j) [0..<32] else None) of
        Some j \<Rightarrow> (i * 32 + j + 1, (b OR push_bit j 1) # bs)
      | None \<Rightarrow> (let (value, rest) = set_bitfield_loop (Suc i) bs in (value, b # rest)))"
  by (simp add: push_bit_of_1 and_exp_eq_0_iff_not_bit split: option.split)

declare set_bitfield_loop.simps(2) [simp del]

lemma set_bitfield_loop:
  "set_bitfield_loop i bs = (v, bs') \<Longrightarrow>
     v = 0 \<and> bs' = bs \<and> used_bits bs = {..<32 * length bs} \<or>
     (\<exists>p < 32 * length bs. v = i * 32 + p + 1 \<and> p \<notin> used_bits bs \<and> used_bits bs' = insert p (used_bits bs) \<and>
        {..<p} \<subseteq> used_bits bs \<and> length bs' = length bs)"
proof (induction bs arbitrary: i v bs')
  case (Cons b bs)
  let ?f = "if b \<noteq> 0xffffffff then find (\<lambda>j. \<not> bit b j) [0..<32] else None"
  show ?case
  proof (cases ?f)
    case None
    have full: "\<forall>j<32. bit b j"
    proof (cases "b = 0xffffffff")
      case True
      then have "b = -1" by simp
      then show ?thesis by (simp add: bit_simps)
    qed (use None in \<open>auto simp: find_None_iff\<close>)
    obtain v1 bs1 where r: "set_bitfield_loop (Suc i) bs = (v1, bs1)" by (cases "set_bitfield_loop (Suc i) bs")
    have v: "v = v1" "bs' = b # bs1"
      using Cons.prems None r by (auto simp: set_bitfield_loop_Cons simp del: One_nat_def)
    have split: "{..<32 + n} = {j. j < 32 \<and> bit b j} \<union> (+) 32 ` {..<n}" for n :: nat
    proof -
      have "{j. j < 32 \<and> bit b j} = {0..<32}" using full by auto
      moreover have "(+) 32 ` {..<n} = {32..<32 + n}" by (simp add: lessThan_atLeast0 add.commute)
      ultimately show ?thesis by (auto simp: lessThan_atLeast0)
    qed
    from Cons.IH [OF r] show ?thesis
    proof (elim disjE exE conjE)
      fix p assume "p < 32 * length bs" "v1 = Suc i * 32 + p + 1" "p \<notin> used_bits bs" "used_bits bs1 = insert p (used_bits bs)"
        "{..<p} \<subseteq> used_bits bs" "length bs1 = length bs"
      moreover have "{..<32 + p} \<subseteq> used_bits (b # bs)"
        unfolding used_bits_Cons split by (intro Un_mono image_mono) (use calculation in simp_all)
      ultimately show ?thesis
        using v by (intro disjI2 exI [of _ "32 + p"]) (auto simp: used_bits_Cons)
    next
      assume "v1 = 0" "bs1 = bs" "used_bits bs = {..<32 * length bs}"
      then show ?thesis using v split [of "32 * length bs"] by (simp add: used_bits_Cons)
    qed
  next
    case (Some j)
    then have j: "j < 32" "\<not> bit b j" "\<forall>k<j. bit b k"
      by (auto simp: find_Some_iff split: if_splits)
    have v: "v = i * 32 + j + 1" "bs' = (b OR push_bit j 1) # bs"
      using Cons.prems Some by (auto simp: set_bitfield_loop_Cons)
    have "{k. k < 32 \<and> bit (b OR push_bit j 1) k} = insert j {k. k < 32 \<and> bit b k}"
      using j by (auto simp: bit_simps)
    then show ?thesis
      using v j by (intro disjI2 exI [of _ j]) (auto simp: used_bits_Cons)
  qed
qed (simp add: used_bits_def CAPWAP_TIMEOUT_INDEX_NO_SET_def)

lemma createtimer_fresh:
  assumes "capwap_timeout_createtimer timeout = (index, timeout')" "length (timeoutbitfield timeout) = 128"
  shows "timeout' = timeout\<lparr>timeoutbitfield := timeoutbitfield timeout'\<rparr>" "length (timeoutbitfield timeout') = 128"
    "if index = 0 then timer_used timeout = {1..4096} \<and> timeout' = timeout
     else index \<le> 4096 \<and> index \<notin> timer_used timeout \<and> timer_used timeout' = insert index (timer_used timeout) \<and>
       {1..<index} \<subseteq> timer_used timeout"
proof -
  obtain v bs where r: "set_bitfield_loop 0 (timeoutbitfield timeout) = (v, bs)" by (cases "set_bitfield_loop 0 (timeoutbitfield timeout)")
  have t: "index = v" "timeout' = timeout\<lparr>timeoutbitfield := bs\<rparr>"
    using assms(1) r by (auto simp: capwap_timeout_createtimer_def capwap_timeout_set_bitfield_def)
  have image: "Suc ` {..<n} = {1..n}" for n by (simp add: image_Suc_lessThan)
  show "timeout' = timeout\<lparr>timeoutbitfield := timeoutbitfield timeout'\<rparr>" using t by simp
  from set_bitfield_loop [OF r] have "length bs = 128 \<and> (if index = 0 then timer_used timeout = {1..4096} \<and> timeout' = timeout
     else index \<le> 4096 \<and> index \<notin> timer_used timeout \<and> timer_used timeout' = insert index (timer_used timeout) \<and>
       {1..<index} \<subseteq> timer_used timeout)"
  proof (elim disjE exE conjE)
    assume "v = 0" "bs = timeoutbitfield timeout" "used_bits (timeoutbitfield timeout) = {..<32 * length (timeoutbitfield timeout)}"
    then show ?thesis
      using t assms(2) image [of 4096] by (auto simp: timer_used_def)
  next
    fix p assume "p < 32 * length (timeoutbitfield timeout)" "v = 0 * 32 + p + 1" "p \<notin> used_bits (timeoutbitfield timeout)"
      "used_bits bs = insert p (used_bits (timeoutbitfield timeout))" "{..<p} \<subseteq> used_bits (timeoutbitfield timeout)"
      "length bs = length (timeoutbitfield timeout)"
    moreover have "{1..<Suc p} = Suc ` {..<p}" using image [of p] by (simp add: atLeastLessThanSuc_atLeastAtMost)
    ultimately show ?thesis
      using t assms(2) by (auto simp: timer_used_def)
  qed
  then show "length (timeoutbitfield timeout') = 128"
    "if index = 0 then timer_used timeout = {1..4096} \<and> timeout' = timeout
     else index \<le> 4096 \<and> index \<notin> timer_used timeout \<and> timer_used timeout' = insert index (timer_used timeout) \<and>
       {1..<index} \<subseteq> timer_used timeout"
    unfolding t(2) by (simp, metis)
qed

lemma used_bits_clear:
  assumes "p < 32 * length bs"
  shows "used_bits (bs[p div 32 := bs ! (p div 32) AND NOT (push_bit (p mod 32) 1)]) = used_bits bs - {p}"
proof -
  have i: "p div 32 < length bs" using assms by (simp add: div_less_iff_less_mult mult.commute)
  have "bit (bs[p div 32 := bs ! (p div 32) AND NOT (push_bit (p mod 32) 1)] ! (q div 32)) (q mod 32) \<longleftrightarrow>
      bit (bs ! (q div 32)) (q mod 32) \<and> q \<noteq> p" for q
  proof (cases "q div 32 = p div 32")
    case True
    then have "q \<noteq> p \<longleftrightarrow> q mod 32 \<noteq> p mod 32" by (metis div_mult_mod_eq)
    moreover have "bit (bs ! (p div 32) AND NOT (push_bit (p mod 32) 1)) (q mod 32) \<longleftrightarrow> bit (bs ! (p div 32)) (q mod 32) \<and> q mod 32 \<noteq> p mod 32"
      by (auto simp: bit_and_iff bit_not_iff bit_exp_iff)
    ultimately show ?thesis using True i by simp
  qed auto
  then show ?thesis by (auto simp: used_bits_def)
qed

lemma clear_bitfield_used:
  assumes "0 < index" "index \<le> 4096" "length (timeoutbitfield timeout) = 128"
  shows "\<exists>bs. capwap_timeout_clear_bitfield timeout index = Some (timeout\<lparr>timeoutbitfield := bs\<rparr>) \<and> length bs = 128 \<and>
    timer_used (timeout\<lparr>timeoutbitfield := bs\<rparr>) = timer_used timeout - {index}"
proof -
  define p where "p = index - 1"
  have p: "index = Suc p" "p < 4096" "p div 32 < 128" using assms by (auto simp: p_def)
  have "Suc ` (A - {p}) = Suc ` A - {index}" for A using p(1) by auto
  then show ?thesis
    using p assms(3) used_bits_clear [of p "timeoutbitfield timeout"]
    by (intro exI [of _ "(timeoutbitfield timeout)[p div 32 := timeoutbitfield timeout ! (p div 32) AND NOT (push_bit (p mod 32) 1)]"])
      (simp add: capwap_timeout_clear_bitfield_def timer_used_def Let_def)
qed

subsection \<open>The table of the timers\<close>

lemma timeout_callbacks_simps [simp]:
  "item_gethash (timeout_callbacks h) k n = k mod n"
  "item_getkey (timeout_callbacks h) a = capwap_timeout_hash_item_getkey h a"
  "item_cmp (timeout_callbacks h) k k' = capwap_timeout_hash_item_cmp k k'"
  by (simp_all add: timeout_callbacks_def capwap_timeout_hash_item_gethash_def)

interpretation timers: hash_client "timeout_callbacks h" CAPWAP_TIMEOUT_HASH_COUNT for h
  by unfold_locales (auto simp: capwap_timeout_hash_item_cmp_def CAPWAP_TIMEOUT_HASH_COUNT_def split: if_splits)

lemma timer_at_payload:
  assumes "payload h' = payload h"
  shows "timer_at h' = timer_at h"
proof -
  have "timer_at g = (\<lambda>a. Option.bind (payload g a) id)" for g :: "'a capwap_timeout_item list_heap"
    by (auto simp: timer_at_def payload_def fun_eq_iff split: Option.bind_splits)
  then show ?thesis using assms by simp
qed

lemma callbacks_cong: "timer_at h' = timer_at h \<Longrightarrow> timeout_callbacks h' = timeout_callbacks h"
  by (simp add: timeout_callbacks_def capwap_timeout_hash_item_getkey_def fun_eq_iff)

subsection \<open>The queue of the timers\<close>

text \<open>
  Where \<open>capwap_timeout_additem\<close> puts a timer: in front of the timer that precedes the first one that expires
  later.
\<close>

definition queue_insert :: "'c capwap_timeout_item \<Rightarrow> 'c capwap_timeout_item list \<Rightarrow> 'c capwap_timeout_item list" where
  "queue_insert e q =
     (let n = length (takeWhile (\<lambda>t. \<not> capwap_timeout_getdelta (ti_expire e) (ti_expire t) < 0) q)
      in if n = length q then q @ [e] else take (n - 1) q @ e # drop (n - 1) q)"

definition timers :: "'c capwap_timeout_item list_heap \<Rightarrow> addr list \<Rightarrow> 'c capwap_timeout_item list" where
  "timers h xs = map (the \<circ> timer_at h) xs"

lemma additem_loop_result:
  assumes "segment h p ys None" "\<forall>a\<in>set ys. timer_at h a \<noteq> None"
  shows "additem_loop h e (first_of ys None) p =
    Some (first_of (dropWhile (\<lambda>a. \<not> capwap_timeout_getdelta e (ti_expire (the (timer_at h a))) < 0) ys) None,
      last_of p (takeWhile (\<lambda>a. \<not> capwap_timeout_getdelta e (ti_expire (the (timer_at h a))) < 0) ys))"
  using assms
proof (induction ys arbitrary: p)
  case Nil
  show ?case by (subst additem_loop.simps) simp
next
  case (Cons a ys)
  then obtain it ti where "h a = Some it" "li_next it = first_of ys None" "li_item it = Some ti"
    by (auto simp: timer_at_def)
  then show ?case
    using Cons by (subst additem_loop.simps) (auto simp: timer_at_def)
qed

lemma additem_rep:
  assumes "list_rep h l xs" "\<forall>b\<in>set xs. timer_at h b \<noteq> None" "timer_at h a = Some e" "a \<notin> set xs"
  shows "\<exists>h' l' xs'. capwap_timeout_additem a l h = Some (h', l') \<and> list_rep h' l' xs' \<and> payload h' = payload h \<and>
    set xs' = insert a (set xs) \<and> timers h xs' = queue_insert e (timers h xs)"
proof -
  let ?P = "\<lambda>b. \<not> capwap_timeout_getdelta (ti_expire e) (ti_expire (the (timer_at h b))) < 0"
  define tw dw where "tw = takeWhile ?P xs" and "dw = dropWhile ?P xs"
  have xs: "xs = tw @ dw" by (simp add: tw_def dw_def)
  have loop: "additem_loop h (ti_expire e) (list_first l) None = Some (first_of dw None, last_of None tw)"
    using additem_loop_result [of h None xs "ti_expire e"] assms(1,2) by (simp add: list_rep_def tw_def dw_def)
  obtain it where a: "h a = Some it" using assms(3) by (auto simp: timer_at_def split: Option.bind_splits)
  have n: "length (takeWhile (\<lambda>t. \<not> capwap_timeout_getdelta (ti_expire e) (ti_expire t) < 0) (timers h xs)) = length tw"
    by (simp add: timers_def takeWhile_map tw_def o_def)
  have len: "length (timers h xs) = length tw + length dw" by (simp add: timers_def xs)
  show ?thesis
  proof (cases dw)
    case Nil
    then have "capwap_timeout_additem a l h = capwap_itemlist_insert_after None a l h"
      using loop assms(3) by (simp add: capwap_timeout_additem_def)
    moreover have "queue_insert e (timers h xs) = timers h (xs @ [a])"
      using n len Nil assms(3) by (simp add: queue_insert_def timers_def)
    ultimately show ?thesis
      using insert_after_last_rep [OF assms(1) a assms(4)] by (metis list.set(1) list.simps(15) set_append Un_insert_right sup_bot_right)
  next
    case (Cons d ds)
    then have add: "capwap_timeout_additem a l h = capwap_itemlist_insert_before (last_of None tw) a l h"
      using loop assms(3) by (simp add: capwap_timeout_additem_def)
    show ?thesis
    proof (cases tw rule: rev_cases)
      case Nil
      then have "queue_insert e (timers h xs) = timers h (a # xs)"
        using n len Cons assms(3) by (simp add: queue_insert_def timers_def)
      then show ?thesis
        using insert_before_head_rep [OF assms(1) a assms(4)] add Nil by (metis last_of_simps(1) list.simps(15))
    next
      case (snoc zs b)
      then have "queue_insert e (timers h xs) = timers h (zs @ a # b # dw)"
        using n len Cons assms(3) xs by (simp add: queue_insert_def timers_def)
      moreover have "set (zs @ a # b # dw) = insert a (set xs)" using xs snoc by auto
      ultimately show ?thesis
        using insert_before_rep [of h l zs b dw a it] assms(1,4) a add snoc xs by (metis append.assoc append_Cons append_Nil last_of_simps(1-3))
    qed
  qed
qed

subsection \<open>The state of the timers\<close>

text \<open>
  At most 128 indexes are in use, the number of the buckets. The list holds the items at the addresses \<open>xs\<close> in this
  order, the table exactly the same items, each under the index of its timer, and these indexes are in use.
\<close>

definition timeout_rep :: "'c capwap_timeout \<Rightarrow> addr list \<Rightarrow> bool" where
  "timeout_rep timeout xs \<longleftrightarrow>
     (let h = timeout_heap timeout; cb = timeout_callbacks h; table = itemsreference timeout in
      length (timeoutbitfield timeout) = 128 \<and> timer_used timeout \<subseteq> {1..128} \<and>
      list_rep h (itemstimeout timeout) xs \<and> (\<forall>a\<in>set xs. timer_at h a \<noteq> None) \<and>
      hash_inv cb table \<and> hash_flat table \<and> hash_hashsize table = 128 \<and>
      (\<forall>k a. hash_map cb table k = Some a \<longleftrightarrow> a \<in> set xs \<and> item_getkey cb a = k) \<and>
      item_getkey cb ` set xs \<subseteq> timer_used timeout)"

lemmas timers_flat_search = timers.flat_search [unfolded CAPWAP_TIMEOUT_HASH_COUNT_def]
lemmas timers_flat_add = timers.flat_add [unfolded CAPWAP_TIMEOUT_HASH_COUNT_def]
lemmas timers_flat_delete = timers.flat_delete [unfolded CAPWAP_TIMEOUT_HASH_COUNT_def]
lemmas timers_member = timers.hash_map_member [unfolded CAPWAP_TIMEOUT_HASH_COUNT_def]

text \<open>The table after an item outside of it was changed.\<close>

lemma table_cong:
  assumes "hash_inv (timeout_callbacks h) table" "hash_hashsize table = 128"
    and "\<forall>a. hash_map (timeout_callbacks h) table (item_getkey (timeout_callbacks h) a) = Some a \<longrightarrow> timer_at h' a = timer_at h a"
  shows "hash_inv (timeout_callbacks h') table" "hash_map (timeout_callbacks h') table = hash_map (timeout_callbacks h) table"
proof -
  have key: "\<forall>t\<in>set (hash_items table). \<forall>d\<in>set (inorder t). item_getkey (timeout_callbacks h') d = item_getkey (timeout_callbacks h) d"
  proof (intro ballI)
    fix t d assume "t \<in> set (hash_items table)" "d \<in> set (inorder t)"
    then have "timer_at h' d = timer_at h d" using assms(3) timers_member [OF assms(1,2)] by blast
    then show "item_getkey (timeout_callbacks h') d = item_getkey (timeout_callbacks h) d"
      by (simp add: capwap_timeout_hash_item_getkey_def)
  qed
  have fns: "item_gethash (timeout_callbacks h') = item_gethash (timeout_callbacks h)" "item_cmp (timeout_callbacks h') = item_cmp (timeout_callbacks h)"
    by (simp_all add: fun_eq_iff)
  have len: "length (hash_items table) = hash_hashsize table" using assms(1) by (simp add: hash_inv_def)
  note c = hash_cong [OF key fns len]
  show "hash_inv (timeout_callbacks h') table" using c(1) assms(1) by simp
  show "hash_map (timeout_callbacks h') table = hash_map (timeout_callbacks h) table"
    using c(2) assms(2) by (simp add: fun_eq_iff)
qed

lemma rep_key:
  assumes "timeout_rep timeout xs" "a \<in> set xs"
  obtains e where "timer_at (timeout_heap timeout) a = Some e" "ti_index e \<in> timer_used timeout" "1 \<le> ti_index e" "ti_index e \<le> 128"
    "capwap_timeout_hash_item_getkey (timeout_heap timeout) a = ti_index e"
proof -
  obtain e where e: "timer_at (timeout_heap timeout) a = Some e"
    using assms by (auto simp: timeout_rep_def Let_def)
  then have "ti_index e \<in> timer_used timeout" "timer_used timeout \<subseteq> {1..128}"
    using assms by (auto simp: timeout_rep_def Let_def capwap_timeout_hash_item_getkey_def)
  then show thesis using that e by (auto simp: capwap_timeout_hash_item_getkey_def)
qed

lemma rep_search:
  assumes "timeout_rep timeout xs"
  shows "\<exists>r. capwap_hash_search (timeout_callbacks (timeout_heap timeout)) (itemsreference timeout) index = Some r \<and>
    (case r of Some a \<Rightarrow> a \<in> set xs \<and> capwap_timeout_hash_item_getkey (timeout_heap timeout) a = index
     | None \<Rightarrow> \<forall>a\<in>set xs. capwap_timeout_hash_item_getkey (timeout_heap timeout) a \<noteq> index)"
proof -
  let ?m = "hash_map (timeout_callbacks (timeout_heap timeout)) (itemsreference timeout)"
  have "capwap_hash_search (timeout_callbacks (timeout_heap timeout)) (itemsreference timeout) index = Some (?m index)"
    using assms timers_flat_search by (auto simp: timeout_rep_def Let_def)
  moreover have "?m k = Some a \<longleftrightarrow> a \<in> set xs \<and> capwap_timeout_hash_item_getkey (timeout_heap timeout) a = k" for k a
    using assms by (simp add: timeout_rep_def Let_def)
  ultimately show ?thesis
    by (cases "?m index") (auto, metis option.distinct(1))
qed

text \<open>Timers with other indexes.\<close>

lemma timers_filter:
  assumes "timeout_rep timeout xs" "xs = ys @ a # zs" "timer_at (timeout_heap timeout) a = Some e"
  shows "timers (timeout_heap timeout) (ys @ zs) = filter (\<lambda>t. ti_index t \<noteq> ti_index e) (timers (timeout_heap timeout) xs)"
    "a \<notin> set (ys @ zs)"
proof -
  let ?h = "timeout_heap timeout"
  have d: "distinct xs" and m: "\<And>k a. hash_map (timeout_callbacks ?h) (itemsreference timeout) k = Some a \<longleftrightarrow>
      a \<in> set xs \<and> capwap_timeout_hash_item_getkey ?h a = k"
    using assms(1) by (simp_all add: timeout_rep_def Let_def list_rep_def)
  have unique: "b = c" if "b \<in> set xs" "c \<in> set xs" "capwap_timeout_hash_item_getkey ?h b = capwap_timeout_hash_item_getkey ?h c" for b c
    using m [of "capwap_timeout_hash_item_getkey ?h b" b] m [of "capwap_timeout_hash_item_getkey ?h b" c] that by simp
  show a: "a \<notin> set (ys @ zs)" using d assms(2) by auto
  have "ti_index (the (timer_at ?h b)) \<noteq> ti_index e" if "b \<in> set (ys @ zs)" for b
  proof
    assume eq: "ti_index (the (timer_at ?h b)) = ti_index e"
    have "b \<in> set xs" "a \<in> set xs" using that assms(2) by auto
    obtain e' where "timer_at ?h b = Some e'" using rep_key [OF assms(1) \<open>b \<in> set xs\<close>] by blast
    with eq assms(3) have "capwap_timeout_hash_item_getkey ?h b = capwap_timeout_hash_item_getkey ?h a"
      by (simp add: capwap_timeout_hash_item_getkey_def)
    with \<open>b \<in> set xs\<close> \<open>a \<in> set xs\<close> unique have "b = a" by blast
    then show False using that a by blast
  qed
  then show "timers ?h (ys @ zs) = filter (\<lambda>t. ti_index t \<noteq> ti_index e) (timers ?h xs)"
    using assms(2,3) by (auto simp: timers_def filter_id_conv)
qed

lemma init_rep:
  "\<exists>timeout. capwap_timeout_init h = Some timeout \<and> timeout_rep timeout [] \<and> timer_used timeout = {} \<and> timeout_heap timeout = h"
proof -
  have "(128::nat) > 0" by simp
  from create_ok [OF this, of "timeout_callbacks h"] obtain table :: "addr capwap_hash" where t: "capwap_hash_create 128 = Some table" "hash_inv (timeout_callbacks h) table"
    "hash_hashsize table = 128" "\<forall>k. hash_map (timeout_callbacks h) table k = None" by auto
  have used: "timer_used \<lparr>timeoutbitfield = replicate 128 0, itemsreference = table, itemstimeout = l, timeout_heap = h\<rparr> = {}" for l
    by (auto simp: timer_used_def used_bits_def)
  have "hash_flat table"
    using t(1) by (auto simp: capwap_hash_create_def hash_flat_def)
  then show ?thesis
    using t used list_create_rep
    by (auto simp: capwap_timeout_init_def timeout_rep_def Let_def CAPWAP_TIMEOUT_HASH_COUNT_def CAPWAP_TIMEOUT_BITFIELD_SIZE_def)
qed

subsection \<open>Every operation and the queue\<close>

lemma timers_cong: "\<forall>a\<in>set xs. timer_at h' a = timer_at h a \<Longrightarrow> timers h' xs = timers h xs"
  by (simp add: timers_def)

lemma getkey_timers:
  "\<forall>a\<in>set xs. timer_at h a \<noteq> None \<Longrightarrow> capwap_timeout_hash_item_getkey h ` set xs = ti_index ` set (timers h xs)"
  by (force simp: timers_def capwap_timeout_hash_item_getkey_def)

lemma free_timer: "timer_at h a = Some e \<Longrightarrow> \<exists>fr. capwap_itemlist_free a h = Some (h(a := None), fr)"
  by (auto simp: capwap_itemlist_free_def timer_at_def split: Option.bind_splits)

text \<open>A pending timer is taken out of the list and the table, and freed.\<close>

lemma drop_item:
  assumes "timeout_rep timeout (ys @ a # zs)" "timer_at (timeout_heap timeout) a = Some e"
    and "list_rep h l (ys @ zs)" "payload h = payload (timeout_heap timeout)"
  shows "\<exists>table h' fr. capwap_hash_delete (timeout_callbacks h) (itemsreference timeout) (ti_index e) = Some table \<and>
    capwap_itemlist_free a h = Some (h', fr) \<and>
    timeout_rep (timeout\<lparr>itemsreference := table, itemstimeout := l, timeout_heap := h'\<rparr>) (ys @ zs) \<and>
    timers h' (ys @ zs) = filter (\<lambda>t. ti_index t \<noteq> ti_index e) (timers (timeout_heap timeout) (ys @ a # zs))"
proof -
  let ?h = "timeout_heap timeout"
  let ?cb = "timeout_callbacks h"
  have at: "timer_at h = timer_at ?h" using timer_at_payload [OF assms(4)] .
  note cb = callbacks_cong [OF at]
  have rep: "hash_inv ?cb (itemsreference timeout)" "hash_flat (itemsreference timeout)" "hash_hashsize (itemsreference timeout) = 128"
    and m: "\<And>k b. hash_map ?cb (itemsreference timeout) k = Some b \<longleftrightarrow> b \<in> set (ys @ a # zs) \<and> capwap_timeout_hash_item_getkey h b = k"
    using assms(1) unfolding cb by (simp_all add: timeout_rep_def Let_def capwap_timeout_hash_item_getkey_def at)
  obtain table where t: "capwap_hash_delete ?cb (itemsreference timeout) (ti_index e) = Some table" "hash_inv ?cb table" "hash_flat table"
    "hash_hashsize table = 128" "hash_map ?cb table = (hash_map ?cb (itemsreference timeout))(ti_index e := None)"
    using timers_flat_delete [OF rep] by blast
  note a = timers_filter [OF assms(1) refl assms(2)]
  define h' where "h' = h(a := None)"
  obtain fr where free: "capwap_itemlist_free a h = Some (h', fr)"
    using free_timer [of h a e] assms(2) at unfolding h'_def by auto
  have at': "timer_at h' b = timer_at h b" if "b \<in> set (ys @ zs)" for b using that a(2) by (auto simp: h'_def timer_at_def)
  have key: "capwap_timeout_hash_item_getkey h a = ti_index e" using assms(2) at by (simp add: capwap_timeout_hash_item_getkey_def)
  have m': "hash_map ?cb table k = Some b \<longleftrightarrow> b \<in> set (ys @ zs) \<and> capwap_timeout_hash_item_getkey h b = k" for k b
  proof (cases "k = ti_index e")
    case True
    then have "hash_map ?cb (itemsreference timeout) k = Some a" using m [of k a] key by simp
    then show ?thesis using True t(5) m [of k b] a(2) by auto
  next
    case False
    then show ?thesis using t(5) m [of k b] key by auto
  qed
  have same: "timer_at h' b = timer_at h b" if "hash_map ?cb table (item_getkey ?cb b) = Some b" for b
  proof -
    have "b \<in> set (ys @ zs)" using m' that by blast
    then show ?thesis by (rule at')
  qed
  have inv: "hash_inv (timeout_callbacks h') table" "hash_map (timeout_callbacks h') table = hash_map ?cb table"
    using table_cong [OF t(2,4)] same by blast+
  have key': "capwap_timeout_hash_item_getkey h' b = capwap_timeout_hash_item_getkey h b" if "b \<in> set (ys @ zs)" for b
    using at' [OF that] by (simp add: capwap_timeout_hash_item_getkey_def)
  have "timeout_rep (timeout\<lparr>itemsreference := table, itemstimeout := l, timeout_heap := h'\<rparr>) (ys @ zs)"
    unfolding timeout_rep_def Let_def
  proof (simp add: timer_used_def inv t(3,4) m', intro conjI)
    show "length (timeoutbitfield timeout) = 128" "Suc ` used_bits (timeoutbitfield timeout) \<subseteq> {Suc 0..128}"
      using assms(1) by (simp_all add: timeout_rep_def Let_def timer_used_def)
    show "list_rep h' l (ys @ zs)" using assms(3) a(2) list_rep_frame unfolding h'_def by blast
    show "\<forall>a\<in>set ys \<union> set zs. \<exists>y. timer_at h' a = Some y"
    proof
      fix b assume "b \<in> set ys \<union> set zs"
      then have "b \<in> set (ys @ zs)" "b \<in> set (ys @ a # zs)" by auto
      then show "\<exists>y. timer_at h' b = Some y"
        using assms(1) at' at by (simp add: timeout_rep_def Let_def)
    qed
    show "\<forall>k a. ((a \<in> set ys \<or> a \<in> set zs) \<and> capwap_timeout_hash_item_getkey h a = k) =
        ((a \<in> set ys \<or> a \<in> set zs) \<and> capwap_timeout_hash_item_getkey h' a = k)"
      using key' by auto
    show "capwap_timeout_hash_item_getkey h' ` (set ys \<union> set zs) \<subseteq> Suc ` used_bits (timeoutbitfield timeout)"
      using assms(1) key' at by (auto simp: timeout_rep_def Let_def timer_used_def capwap_timeout_hash_item_getkey_def)
  qed
  moreover have "timers h' (ys @ zs) = timers ?h (ys @ zs)"
    using at' at a(2) by (intro timers_cong) auto
  ultimately show ?thesis
    using t(1) free a(1) by (intro exI [of _ table] exI [of _ h'] exI [of _ fr]) simp
qed

lemma rep_list: "timeout_rep timeout xs \<Longrightarrow> list_rep (timeout_heap timeout) (itemstimeout timeout) xs"
  by (simp add: timeout_rep_def Let_def)

lemma unset_rep:
  assumes "timeout_rep timeout xs"
  shows "\<exists>timeout' xs'. capwap_timeout_unset timeout index = Some timeout' \<and> timeout_rep timeout' xs' \<and>
    timers (timeout_heap timeout') xs' = filter (\<lambda>t. ti_index t \<noteq> index) (timers (timeout_heap timeout) xs) \<and>
    timeoutbitfield timeout' = timeoutbitfield timeout"
proof -
  let ?h = "timeout_heap timeout"
  have others: "filter (\<lambda>t. ti_index t \<noteq> index) (timers ?h xs) = timers ?h xs"
    if "\<forall>a\<in>set xs. capwap_timeout_hash_item_getkey ?h a \<noteq> index"
  proof -
    have "ti_index (the (timer_at ?h a)) \<noteq> index" if "a \<in> set xs" for a
      using rep_key [OF assms that] \<open>\<forall>a\<in>set xs. _\<close> that by (metis option.sel)
    then show ?thesis by (simp add: timers_def filter_id_conv)
  qed
  obtain r where r: "capwap_hash_search (timeout_callbacks ?h) (itemsreference timeout) index = Some r"
    "case r of Some a \<Rightarrow> a \<in> set xs \<and> capwap_timeout_hash_item_getkey ?h a = index
     | None \<Rightarrow> \<forall>a\<in>set xs. capwap_timeout_hash_item_getkey ?h a \<noteq> index"
    using rep_search [OF assms, of index] by (elim exE conjE)
  show ?thesis
  proof (cases "index = 0 \<or> r = None")
    case True
    have "\<forall>a\<in>set xs. capwap_timeout_hash_item_getkey ?h a \<noteq> index"
    proof (cases "r = None")
      case False
      with True show ?thesis by (auto elim: rep_key [OF assms])
    qed (use r(2) in simp)
    moreover have "capwap_timeout_unset timeout index = Some timeout"
      using True r(1) by (auto simp: capwap_timeout_unset_def CAPWAP_TIMEOUT_INDEX_NO_SET_def)
    ultimately show ?thesis using assms others by auto
  next
    case False
    then obtain a where a: "r = Some a" "a \<in> set xs" "capwap_timeout_hash_item_getkey ?h a = index" using r(2) by auto
    then obtain ys zs where xs: "xs = ys @ a # zs" by (meson split_list)
    obtain e where e: "timer_at ?h a = Some e" "ti_index e = index" using rep_key [OF assms a(2)] a(3) by metis
    obtain h l where l: "capwap_itemlist_remove a (itemstimeout timeout) ?h = Some (h, l)" "list_rep h l (ys @ zs)" "payload h = payload ?h"
      using remove_rep rep_list [OF assms] unfolding xs by blast
    obtain table h' fr where "capwap_hash_delete (timeout_callbacks h) (itemsreference timeout) index = Some table"
      "capwap_itemlist_free a h = Some (h', fr)"
      "timeout_rep (timeout\<lparr>itemsreference := table, itemstimeout := l, timeout_heap := h'\<rparr>) (ys @ zs)"
      "timers h' (ys @ zs) = filter (\<lambda>t. ti_index t \<noteq> index) (timers ?h xs)"
      using drop_item [OF assms [unfolded xs] e(1) l(2,3)] unfolding e(2) xs by (elim exE conjE)
    moreover have "timeout_callbacks h = timeout_callbacks ?h" using callbacks_cong timer_at_payload l(3) by blast
    ultimately show ?thesis
      using False r(1) a(1) l(1)
      by (intro exI [of _ "timeout\<lparr>itemsreference := table, itemstimeout := l, timeout_heap := h'\<rparr>"] exI [of _ "ys @ zs"])
        (simp add: capwap_timeout_unset_def CAPWAP_TIMEOUT_INDEX_NO_SET_def)
  qed
qed

lemma bitfield_rep:
  assumes "timeout_rep timeout xs" "length bs = 128" "timer_used (timeout\<lparr>timeoutbitfield := bs\<rparr>) \<subseteq> {1..128}"
    and "ti_index ` set (timers (timeout_heap timeout) xs) \<subseteq> timer_used (timeout\<lparr>timeoutbitfield := bs\<rparr>)"
  shows "timeout_rep (timeout\<lparr>timeoutbitfield := bs\<rparr>) xs"
proof -
  have "capwap_timeout_hash_item_getkey (timeout_heap timeout) ` set xs = ti_index ` set (timers (timeout_heap timeout) xs)"
    using assms(1) by (intro getkey_timers) (simp add: timeout_rep_def Let_def)
  then show ?thesis
    using assms by (simp add: timeout_rep_def Let_def)
qed

lemma rep_used:
  assumes "timeout_rep timeout xs"
  shows "ti_index ` set (timers (timeout_heap timeout) xs) \<subseteq> timer_used timeout"
proof -
  have "capwap_timeout_hash_item_getkey (timeout_heap timeout) ` set xs = ti_index ` set (timers (timeout_heap timeout) xs)"
    using assms by (intro getkey_timers) (simp add: timeout_rep_def Let_def)
  then show ?thesis
    using assms by (simp add: timeout_rep_def Let_def)
qed

lemma deletetimer_rep:
  assumes "timeout_rep timeout xs" "index \<in> timer_used timeout"
  shows "\<exists>timeout' xs'. capwap_timeout_deletetimer timeout index = Some timeout' \<and> timeout_rep timeout' xs' \<and>
    timers (timeout_heap timeout') xs' = filter (\<lambda>t. ti_index t \<noteq> index) (timers (timeout_heap timeout) xs) \<and>
    timer_used timeout' = timer_used timeout - {index}"
proof -
  have i: "0 < index" "index \<le> 4096" using assms by (auto simp: timeout_rep_def Let_def)
  obtain timeout1 xs' where u: "capwap_timeout_unset timeout index = Some timeout1" "timeout_rep timeout1 xs'"
    "timers (timeout_heap timeout1) xs' = filter (\<lambda>t. ti_index t \<noteq> index) (timers (timeout_heap timeout) xs)"
    "timeoutbitfield timeout1 = timeoutbitfield timeout"
    using unset_rep [OF assms(1), of index] by (elim exE conjE)
  have len: "length (timeoutbitfield timeout1) = 128" using u(2) by (simp add: timeout_rep_def Let_def)
  have used: "timer_used timeout1 = timer_used timeout" by (simp add: timer_used_def u(4))
  obtain bs where bs: "capwap_timeout_clear_bitfield timeout1 index = Some (timeout1\<lparr>timeoutbitfield := bs\<rparr>)" "length bs = 128"
    "timer_used (timeout1\<lparr>timeoutbitfield := bs\<rparr>) = timer_used timeout - {index}"
    using clear_bitfield_used [OF i len] used by auto
  have "timeout_rep (timeout1\<lparr>timeoutbitfield := bs\<rparr>) xs'"
  proof (rule bitfield_rep [OF u(2) bs(2)])
    show "timer_used (timeout1\<lparr>timeoutbitfield := bs\<rparr>) \<subseteq> {1..128}"
      using bs(3) assms(1) by (auto simp: timeout_rep_def Let_def)
    show "ti_index ` set (timers (timeout_heap timeout1) xs') \<subseteq> timer_used (timeout1\<lparr>timeoutbitfield := bs\<rparr>)"
      using bs(3) rep_used [OF assms(1)] u(3) by auto
  qed
  then show ?thesis
    using u bs i by (intro exI [of _ "timeout1\<lparr>timeoutbitfield := bs\<rparr>"] exI [of _ xs'])
      (simp add: capwap_timeout_deletetimer_def CAPWAP_TIMEOUT_INDEX_NO_SET_def)
qed

text \<open>The parts of the state that a new place in the queue does not change.\<close>

lemma requeue_rep:
  assumes "timeout_rep timeout xs" "\<forall>a. capwap_timeout_hash_item_getkey h a = capwap_timeout_hash_item_getkey (timeout_heap timeout) a"
    and "list_rep h l xs'" "set xs' = set xs" "\<forall>a\<in>set xs. timer_at h a \<noteq> None"
  shows "timeout_rep (timeout\<lparr>itemstimeout := l, timeout_heap := h\<rparr>) xs'"
proof -
  have "timeout_callbacks h = timeout_callbacks (timeout_heap timeout)"
    using assms(2) by (simp add: timeout_callbacks_def fun_eq_iff)
  then show ?thesis
    using assms by (simp add: timeout_rep_def Let_def timer_used_def)
qed

lemma update_timer_rep:
  assumes "timeout_rep timeout xs" "b \<in> set xs" "timer_at (timeout_heap timeout) b = Some e"
  shows "\<exists>timeout' xs'. update_timer b now durate callback context param timeout = Some timeout' \<and> timeout_rep timeout' xs' \<and>
    timeoutbitfield timeout' = timeoutbitfield timeout \<and>
    timers (timeout_heap timeout') xs' =
      queue_insert \<lparr>ti_index = ti_index e, ti_durate = durate, ti_expire = capwap_timeout_setexpire durate now,
          ti_callback = callback, ti_context = context, ti_param = param\<rparr>
        (filter (\<lambda>t. ti_index t \<noteq> ti_index e) (timers (timeout_heap timeout) xs))"
proof -
  let ?h = "timeout_heap timeout"
  let ?e = "\<lparr>ti_index = ti_index e, ti_durate = durate, ti_expire = capwap_timeout_setexpire durate now,
          ti_callback = callback, ti_context = context, ti_param = param\<rparr>"
  obtain ys zs where xs: "xs = ys @ b # zs" using assms(2) by (meson split_list)
  obtain h1 l1 where l1: "capwap_itemlist_remove b (itemstimeout timeout) ?h = Some (h1, l1)" "list_rep h1 l1 (ys @ zs)" "payload h1 = payload ?h"
    using remove_rep rep_list [OF assms(1)] unfolding xs by blast
  have at1: "timer_at h1 = timer_at ?h" using timer_at_payload [OF l1(3)] .
  obtain it where it: "h1 b = Some it" using assms(3) at1 by (metis bind_eq_None_conv option.exhaust option.distinct(1) timer_at_def)
  define h2 where "h2 = h1(b \<mapsto> it\<lparr>li_item := Some ?e\<rparr>)"
  have at2: "timer_at h2 = (timer_at ?h)(b \<mapsto> ?e)" using at1 by (auto simp: h2_def timer_at_def fun_eq_iff)
  note b = timers_filter [OF assms(1) xs assms(3)]
  have l2: "list_rep h2 l1 (ys @ zs)" using l1(2) b(2) list_rep_frame unfolding h2_def by blast
  have all: "\<forall>a\<in>set xs. timer_at ?h a \<noteq> None" using assms(1) by (simp add: timeout_rep_def Let_def)
  then have "\<forall>a\<in>set (ys @ zs). timer_at h2 a \<noteq> None" using xs at2 by auto
  from additem_rep [OF l2 this _ b(2), of ?e] obtain h3 l3 xs' where h3: "capwap_timeout_additem b l1 h2 = Some (h3, l3)"
    "list_rep h3 l3 xs'" "payload h3 = payload h2" "set xs' = insert b (set (ys @ zs))" "timers h2 xs' = queue_insert ?e (timers h2 (ys @ zs))"
    using at2 by (auto elim!: exE conjE)
  have at3: "timer_at h3 = timer_at h2" using timer_at_payload [OF h3(3)] .
  have "timers h2 (ys @ zs) = timers ?h (ys @ zs)" using b(2) at2 by (intro timers_cong) auto
  then have q: "timers h3 xs' = queue_insert ?e (filter (\<lambda>t. ti_index t \<noteq> ti_index e) (timers ?h xs))"
    using h3(5) b(1) timers_cong [of xs' h3 h2] at3 by simp
  have "timeout_rep (timeout\<lparr>itemstimeout := l3, timeout_heap := h3\<rparr>) xs'"
    using assms(1) _ h3(2)
  proof (rule requeue_rep)
    show "\<forall>a. capwap_timeout_hash_item_getkey h3 a = capwap_timeout_hash_item_getkey ?h a"
      using assms(3) at2 at3 by (simp add: capwap_timeout_hash_item_getkey_def)
    show "set xs' = set xs" using h3(4) xs by auto
    show "\<forall>a\<in>set xs. timer_at h3 a \<noteq> None" using all at2 at3 by simp
  qed
  moreover have "update_timer b now durate callback context param timeout = Some (timeout\<lparr>itemstimeout := l3, timeout_heap := h3\<rparr>)"
    using l1(1) assms(3) at1 it h3(1) by (cases e) (simp add: update_timer_def set_item_def h2_def)
  ultimately show ?thesis
    using q by (intro exI [of _ "timeout\<lparr>itemstimeout := l3, timeout_heap := h3\<rparr>"] exI [of _ xs']) simp
qed

lemma timeout_repI:
  assumes "length (timeoutbitfield timeout) = 128" "timer_used timeout \<subseteq> {1..128}"
    and "list_rep (timeout_heap timeout) (itemstimeout timeout) xs" "\<forall>a\<in>set xs. timer_at (timeout_heap timeout) a \<noteq> None"
    and "hash_inv (timeout_callbacks (timeout_heap timeout)) (itemsreference timeout)" "hash_flat (itemsreference timeout)"
    and "hash_hashsize (itemsreference timeout) = 128"
    and "\<And>k a. hash_map (timeout_callbacks (timeout_heap timeout)) (itemsreference timeout) k = Some a \<longleftrightarrow>
      a \<in> set xs \<and> capwap_timeout_hash_item_getkey (timeout_heap timeout) a = k"
    and "capwap_timeout_hash_item_getkey (timeout_heap timeout) ` set xs \<subseteq> timer_used timeout"
  shows "timeout_rep timeout xs"
  using assms by (simp add: timeout_rep_def Let_def)

lemma index_mod: "k mod 128 = k' mod 128 \<Longrightarrow> k \<in> {1..128} \<Longrightarrow> k' \<in> {1..128} \<Longrightarrow> k = k'" for k k' :: nat
  by (cases "k = 128"; cases "k' = 128") auto

lemma table_add:
  assumes "timeout_rep timeout xs" "a \<notin> set xs" "timer_at h = (timer_at (timeout_heap timeout))(a \<mapsto> e)"
    and "ti_index e \<in> timer_used timeout" "\<forall>b\<in>set xs. capwap_timeout_hash_item_getkey (timeout_heap timeout) b \<noteq> ti_index e"
  shows "\<exists>table. capwap_hash_add (timeout_callbacks h) (itemsreference timeout) a = Some table \<and> hash_inv (timeout_callbacks h) table \<and>
    hash_flat table \<and> hash_hashsize table = 128 \<and>
    (\<forall>k b. hash_map (timeout_callbacks h) table k = Some b \<longleftrightarrow> b \<in> insert a (set xs) \<and> capwap_timeout_hash_item_getkey h b = k)"
proof -
  let ?h = "timeout_heap timeout" and ?t = "itemsreference timeout"
  let ?cb = "timeout_callbacks h"
  have rep: "hash_inv (timeout_callbacks ?h) ?t" "hash_flat ?t" "hash_hashsize ?t = 128" "timer_used timeout \<subseteq> {1..128}"
    "capwap_timeout_hash_item_getkey ?h ` set xs \<subseteq> timer_used timeout"
    and m: "\<And>k b. hash_map (timeout_callbacks ?h) ?t k = Some b \<longleftrightarrow> b \<in> set xs \<and> capwap_timeout_hash_item_getkey ?h b = k"
    using assms(1) by (simp_all add: timeout_rep_def Let_def)
  have key: "capwap_timeout_hash_item_getkey h b = (if b = a then ti_index e else capwap_timeout_hash_item_getkey ?h b)" for b
    using assms(3) by (simp add: capwap_timeout_hash_item_getkey_def)
  have "\<forall>b. hash_map (timeout_callbacks ?h) ?t (item_getkey (timeout_callbacks ?h) b) = Some b \<longrightarrow> timer_at h b = timer_at ?h b"
    using m assms(2,3) by auto
  note c = table_cong [OF rep(1,3) this]
  have "\<forall>d. hash_map ?cb ?t (item_getkey ?cb d) = Some d \<longrightarrow>
      item_gethash ?cb (item_getkey ?cb d) 128 = item_gethash ?cb (item_getkey ?cb a) 128 \<longrightarrow> item_getkey ?cb d = item_getkey ?cb a"
  proof (intro allI impI)
    fix d assume d: "hash_map ?cb ?t (item_getkey ?cb d) = Some d" "item_gethash ?cb (item_getkey ?cb d) 128 = item_gethash ?cb (item_getkey ?cb a) 128"
    then have "d \<in> set xs" using m unfolding c(2) by blast
    then have "capwap_timeout_hash_item_getkey h d = capwap_timeout_hash_item_getkey ?h d" using assms(2) key by auto
    with \<open>d \<in> set xs\<close> have "capwap_timeout_hash_item_getkey h d \<in> {1..128}" "ti_index e \<in> {1..128}"
      using rep(4,5) assms(4) by (metis imageI subsetD, metis subsetD)
    then show "item_getkey ?cb d = item_getkey ?cb a"
      using index_mod [of "capwap_timeout_hash_item_getkey h d" "ti_index e"] d(2) key [of a] by simp
  qed
  from timers_flat_add [OF c(1) rep(2,3) this] obtain table where t: "capwap_hash_add ?cb ?t a = Some table" "hash_inv ?cb table"
    "hash_flat table" "hash_hashsize table = 128" "hash_map ?cb table = (hash_map (timeout_callbacks ?h) ?t)(ti_index e \<mapsto> a)"
    unfolding c(2) using key [of a] by auto
  have "hash_map ?cb table k = Some b \<longleftrightarrow> b \<in> insert a (set xs) \<and> capwap_timeout_hash_item_getkey h b = k" for k b
    using m [of k b] assms(2,5) unfolding t(5) key by auto
  then show ?thesis using t(1-4) by (intro exI [of _ table]) simp
qed

lemma create_timer_rep:
  assumes "timeout_rep timeout xs" "timeout_heap timeout a = None" "index \<in> timer_used timeout"
    and "\<forall>b\<in>set xs. capwap_timeout_hash_item_getkey (timeout_heap timeout) b \<noteq> index"
  shows "\<exists>timeout' xs'. create_timer a now index durate callback context param timeout = Some timeout' \<and> timeout_rep timeout' xs' \<and>
    timeoutbitfield timeout' = timeoutbitfield timeout \<and>
    timers (timeout_heap timeout') xs' =
      queue_insert \<lparr>ti_index = index, ti_durate = durate, ti_expire = capwap_timeout_setexpire durate now,
          ti_callback = callback, ti_context = context, ti_param = param\<rparr> (timers (timeout_heap timeout) xs)"
proof -
  let ?h = "timeout_heap timeout"
  let ?e = "\<lparr>ti_index = index, ti_durate = durate, ti_expire = capwap_timeout_setexpire durate now,
          ti_callback = callback, ti_context = context, ti_param = param\<rparr>"
  have all: "\<forall>b\<in>set xs. timer_at ?h b \<noteq> None" using assms(1) by (simp add: timeout_rep_def Let_def)
  then have a: "a \<notin> set xs" using assms(2) by (auto simp: timer_at_def)
  obtain h1 it where h1: "capwap_itemlist_create a ?e 56 ?h = Some h1" "h1 = ?h(a \<mapsto> it)" "li_item it = Some ?e"
    by (auto simp: capwap_itemlist_create_def capwap_itemlist_create_with_item_def)
  then have at1: "timer_at h1 = (timer_at ?h)(a \<mapsto> ?e)" by (auto simp: timer_at_def fun_eq_iff)
  have l1: "list_rep h1 (itemstimeout timeout) xs" using rep_list [OF assms(1)] list_rep_frame [OF a] h1(2) by blast
  obtain table where t: "capwap_hash_add (timeout_callbacks h1) (itemsreference timeout) a = Some table"
    "hash_inv (timeout_callbacks h1) table" "hash_flat table" "hash_hashsize table = 128"
    "\<forall>k b. hash_map (timeout_callbacks h1) table k = Some b \<longleftrightarrow> b \<in> insert a (set xs) \<and> capwap_timeout_hash_item_getkey h1 b = k"
    using table_add [OF assms(1) a at1] assms(3,4) by (auto elim!: exE conjE)
  have "\<forall>b\<in>set xs. timer_at h1 b \<noteq> None" using all at1 by simp
  from additem_rep [OF l1 this _ a, of ?e] obtain h2 l2 xs' where h2: "capwap_timeout_additem a (itemstimeout timeout) h1 = Some (h2, l2)"
    "list_rep h2 l2 xs'" "payload h2 = payload h1" "set xs' = insert a (set xs)" "timers h1 xs' = queue_insert ?e (timers h1 xs)"
    using at1 by (auto elim!: exE conjE)
  have at2: "timer_at h2 = timer_at h1" using timer_at_payload [OF h2(3)] .
  have key: "capwap_timeout_hash_item_getkey h2 = capwap_timeout_hash_item_getkey h1"
    by (simp add: capwap_timeout_hash_item_getkey_def at2 fun_eq_iff)
  let ?t = "timeout\<lparr>itemsreference := table, itemstimeout := l2, timeout_heap := h2\<rparr>"
  have used: "timer_used ?t = timer_used timeout" by (simp add: timer_used_def)
  have "timeout_rep ?t xs'"
  proof (rule timeout_repI)
    show "length (timeoutbitfield ?t) = 128" "timer_used ?t \<subseteq> {1..128}" using assms(1) by (simp_all add: used timeout_rep_def Let_def)
    show "\<forall>a\<in>set xs'. timer_at (timeout_heap ?t) a \<noteq> None" using h2(4) all at1 at2 by auto
    have "capwap_timeout_hash_item_getkey h1 ` set xs = capwap_timeout_hash_item_getkey ?h ` set xs"
      using a by (intro image_cong) (auto simp: capwap_timeout_hash_item_getkey_def at1)
    moreover have "capwap_timeout_hash_item_getkey h1 a = index" by (simp add: capwap_timeout_hash_item_getkey_def at1)
    ultimately show "capwap_timeout_hash_item_getkey (timeout_heap ?t) ` set xs' \<subseteq> timer_used ?t"
      using assms(1,3) by (simp add: used key h2(4) timeout_rep_def Let_def)
  qed (use t h2(2,4) callbacks_cong [OF at2] key in simp_all)
  moreover have "timers h2 xs' = timers h1 xs'" "timers h1 xs = timers ?h xs"
    using at1 at2 a by (auto intro!: timers_cong)
  ultimately show ?thesis
    using h1(1) t(1) h2(1,5) by (intro exI [of _ ?t] exI [of _ xs']) (simp add: create_timer_def)
qed

lemma filter_other_index:
  assumes "timeout_rep timeout xs" "\<forall>b\<in>set xs. capwap_timeout_hash_item_getkey (timeout_heap timeout) b \<noteq> index"
  shows "filter (\<lambda>t. ti_index t \<noteq> index) (timers (timeout_heap timeout) xs) = timers (timeout_heap timeout) xs"
proof -
  have "capwap_timeout_hash_item_getkey (timeout_heap timeout) ` set xs = ti_index ` set (timers (timeout_heap timeout) xs)"
    using assms(1) by (intro getkey_timers) (simp add: timeout_rep_def Let_def)
  then have "index \<notin> ti_index ` set (timers (timeout_heap timeout) xs)" using assms(2) by (metis imageE)
  then show ?thesis by (simp add: filter_id_conv image_iff) metis
qed

lemma createtimer_rep:
  assumes "timeout_rep timeout xs" "timer_used timeout \<noteq> {1..128}"
  obtains index timeout' where "capwap_timeout_createtimer timeout = (index, timeout')" "timeout_rep timeout' xs"
    "index \<notin> timer_used timeout" "index \<in> {1..128}" "timer_used timeout' = insert index (timer_used timeout)"
    "timeout_heap timeout' = timeout_heap timeout" "index \<in> timer_used timeout'"
proof -
  obtain index timeout' where c: "capwap_timeout_createtimer timeout = (index, timeout')" by (cases "capwap_timeout_createtimer timeout")
  have rep: "length (timeoutbitfield timeout) = 128" "timer_used timeout \<subseteq> {1..128}"
    using assms(1) by (simp_all add: timeout_rep_def Let_def)
  note f = createtimer_fresh [OF c rep(1)]
  have "index \<noteq> 0"
  proof
    assume "index = 0"
    then have "timer_used timeout = {1..4096}" using f(3) by presburger
    then have "(4096::nat) \<in> timer_used timeout" by simp
    then show False using rep(2) by auto
  qed
  then have i: "index \<notin> timer_used timeout" "timer_used timeout' = insert index (timer_used timeout)" "{1..<index} \<subseteq> timer_used timeout"
    using f(3) by presburger+
  have "index \<le> 128"
  proof (rule ccontr)
    assume "\<not> index \<le> 128"
    then have "{1..128} \<subseteq> {1..<index}" by auto
    then show False using i(3) rep(2) assms(2) by blast
  qed
  then have r: "index \<in> {1..128}" using \<open>index \<noteq> 0\<close> by simp
  have "timeout_rep (timeout\<lparr>timeoutbitfield := timeoutbitfield timeout'\<rparr>) xs"
    using assms(1) f(2)
  proof (rule bitfield_rep)
    show "timer_used (timeout\<lparr>timeoutbitfield := timeoutbitfield timeout'\<rparr>) \<subseteq> {1..128}"
      using f(1) i(2) r rep(2) by auto
    show "ti_index ` set (timers (timeout_heap timeout) xs) \<subseteq> timer_used (timeout\<lparr>timeoutbitfield := timeoutbitfield timeout'\<rparr>)"
      using f(1) i(2) rep_used [OF assms(1)] by auto
  qed
  then have "timeout_rep timeout' xs" using f(1) by simp
  moreover have "timeout_heap timeout' = timeout_heap timeout" by (subst f(1)) simp
  ultimately show thesis using that c i r by blast
qed

lemma set_rep:
  assumes "timeout_rep timeout xs" "timeout_heap timeout a = None" "0 \<le> durate"
    and "if index = 0 then timer_used timeout \<noteq> {1..128} else index \<in> timer_used timeout"
  shows "\<exists>i timeout' xs'. capwap_timeout_set a now index durate callback context param timeout = Some (i, timeout') \<and>
    timeout_rep timeout' xs' \<and>
    (if index = 0 then i \<in> {1..128} - timer_used timeout \<and> timer_used timeout' = insert i (timer_used timeout)
     else i = index \<and> timer_used timeout' = timer_used timeout) \<and>
    timers (timeout_heap timeout') xs' =
      queue_insert \<lparr>ti_index = i, ti_durate = durate, ti_expire = capwap_timeout_setexpire durate now,
          ti_callback = callback, ti_context = context, ti_param = param\<rparr>
        (filter (\<lambda>t. ti_index t \<noteq> i) (timers (timeout_heap timeout) xs))"
proof (cases "index = 0")
  case True
  then obtain i timeout1 where c: "capwap_timeout_createtimer timeout = (i, timeout1)" "timeout_rep timeout1 xs"
    "i \<notin> timer_used timeout" "i \<in> {1..128}" "timer_used timeout1 = insert i (timer_used timeout)"
    "timeout_heap timeout1 = timeout_heap timeout" "i \<in> timer_used timeout1"
    using createtimer_rep [OF assms(1)] assms(4) by metis
  have none: "\<forall>b\<in>set xs. capwap_timeout_hash_item_getkey (timeout_heap timeout) b \<noteq> i"
    using assms(1) c(3) by (auto simp: timeout_rep_def Let_def)
  obtain timeout' xs' where "create_timer a now i durate callback context param timeout1 = Some timeout'" "timeout_rep timeout' xs'"
    "timeoutbitfield timeout' = timeoutbitfield timeout1"
    "timers (timeout_heap timeout') xs' = queue_insert \<lparr>ti_index = i, ti_durate = durate, ti_expire = capwap_timeout_setexpire durate now,
          ti_callback = callback, ti_context = context, ti_param = param\<rparr> (timers (timeout_heap timeout) xs)"
    using create_timer_rep [OF c(2) _ c(7)] assms(2) none unfolding c(6) by blast
  then show ?thesis
    using True assms(3) c(1,3-5) filter_other_index [OF assms(1) none]
    by (intro exI [of _ i] exI [of _ timeout'] exI [of _ xs'])
      (simp add: capwap_timeout_set_def CAPWAP_TIMEOUT_INDEX_NO_SET_def timer_used_def)
next
  case False
  then have used: "index \<in> timer_used timeout" using assms(4) by simp
  obtain r where r: "capwap_hash_search (timeout_callbacks (timeout_heap timeout)) (itemsreference timeout) index = Some r"
    "case r of Some a \<Rightarrow> a \<in> set xs \<and> capwap_timeout_hash_item_getkey (timeout_heap timeout) a = index
     | None \<Rightarrow> \<forall>a\<in>set xs. capwap_timeout_hash_item_getkey (timeout_heap timeout) a \<noteq> index"
    using rep_search [OF assms(1), of index] by (elim exE conjE)
  have "\<exists>timeout' xs'. (case r of Some b \<Rightarrow> update_timer b now durate callback context param timeout
        | None \<Rightarrow> create_timer a now index durate callback context param timeout) = Some timeout' \<and> timeout_rep timeout' xs' \<and>
      timeoutbitfield timeout' = timeoutbitfield timeout \<and>
      timers (timeout_heap timeout') xs' = queue_insert \<lparr>ti_index = index, ti_durate = durate, ti_expire = capwap_timeout_setexpire durate now,
          ti_callback = callback, ti_context = context, ti_param = param\<rparr> (filter (\<lambda>t. ti_index t \<noteq> index) (timers (timeout_heap timeout) xs))"
  proof (cases r)
    case None
    then show ?thesis
      using create_timer_rep [OF assms(1,2) used] r(2) filter_other_index [OF assms(1)] by simp
  next
    case (Some b)
    then have b: "b \<in> set xs" "capwap_timeout_hash_item_getkey (timeout_heap timeout) b = index" using r(2) by auto
    obtain e where "timer_at (timeout_heap timeout) b = Some e" "ti_index e = index" using rep_key [OF assms(1) b(1)] b(2) by metis
    then show ?thesis using update_timer_rep [OF assms(1) b(1), of e] Some by simp
  qed
  then obtain timeout' xs' where "(case r of Some b \<Rightarrow> update_timer b now durate callback context param timeout
        | None \<Rightarrow> create_timer a now index durate callback context param timeout) = Some timeout'" "timeout_rep timeout' xs'"
      "timeoutbitfield timeout' = timeoutbitfield timeout"
      "timers (timeout_heap timeout') xs' = queue_insert \<lparr>ti_index = index, ti_durate = durate, ti_expire = capwap_timeout_setexpire durate now,
          ti_callback = callback, ti_context = context, ti_param = param\<rparr> (filter (\<lambda>t. ti_index t \<noteq> index) (timers (timeout_heap timeout) xs))"
    by (elim exE conjE)
  then show ?thesis
    using False assms(3) r(1)
    by (intro exI [of _ index] exI [of _ timeout'] exI [of _ xs'])
      (simp add: capwap_timeout_set_def CAPWAP_TIMEOUT_INDEX_NO_SET_def timer_used_def)
qed

lemma unsetall_rep:
  assumes "timeout_rep timeout xs"
  shows "\<exists>timeout'. capwap_timeout_unsetall timeout = Some timeout' \<and> timeout_rep timeout' [] \<and> timeoutbitfield timeout' = timeoutbitfield timeout"
proof -
  let ?h = "timeout_heap timeout"
  have rep: "list_rep ?h (itemstimeout timeout) xs" "\<forall>a\<in>set xs. timer_at ?h a \<noteq> None" "hash_inv (timeout_callbacks ?h) (itemsreference timeout)"
    "hash_hashsize (itemsreference timeout) = 128" "length (timeoutbitfield timeout) = 128" "timer_used timeout \<subseteq> {1..128}"
    using assms by (simp_all add: timeout_rep_def Let_def)
  have "\<forall>a\<in>set xs. \<forall>it. ?h a = Some it \<longrightarrow> li_item it \<noteq> None" using rep(2) by (force simp: timer_at_def)
  from flush_rep [OF rep(1) this] obtain h l where f: "capwap_list_flush (itemstimeout timeout) ?h = Some (h, l)" "list_rep h l []" by (elim exE conjE)
  let ?t = "capwap_hash_deleteall (itemsreference timeout)"
  note d = deleteall_ok [OF rep(3)]
  have empty: "hash_map (timeout_callbacks ?h) ?t k = None" for k using d(5) rep(4) by simp
  have c: "hash_inv (timeout_callbacks h) ?t" "hash_map (timeout_callbacks h) ?t = hash_map (timeout_callbacks ?h) ?t"
    using table_cong [OF d(1), of h] d(3) rep(4) empty by auto
  have "hash_flat ?t" by (auto simp: capwap_hash_deleteall_def hash_flat_def)
  then have "timeout_rep (timeout\<lparr>itemsreference := ?t, itemstimeout := l, timeout_heap := h\<rparr>) []"
    using f(2) c empty d(3) rep by (intro timeout_repI) (simp_all add: timer_used_def)
  then show ?thesis using f(1) by (simp add: capwap_timeout_unsetall_def)
qed

subsection \<open>Expiry\<close>

definition recalculated :: "timeval \<Rightarrow> 'c capwap_timeout_item \<Rightarrow> 'c capwap_timeout_item" where
  "recalculated now t = t\<lparr>ti_expire := capwap_timeout_setexpire (ti_durate t) now\<rparr>"

lemma recalculate_loop_result:
  assumes "segment h p ys None" "distinct ys" "\<forall>a\<in>set ys. timer_at h a \<noteq> None"
  shows "\<exists>h'. recalculate_loop now (first_of ys None) h = Some h' \<and> (\<forall>q zs n. segment h' q zs n = segment h q zs n) \<and>
    timer_at h' = (\<lambda>a. if a \<in> set ys then map_option (recalculated now) (timer_at h a) else timer_at h a)"
  using assms
proof (induction ys arbitrary: h p)
  case Nil
  show ?case by (subst recalculate_loop.simps) simp
next
  case (Cons a ys)
  then obtain it ti where it: "h a = Some it" "li_next it = first_of ys None" "li_item it = Some ti"
    by (auto simp: timer_at_def)
  define h1 where "h1 = h(a \<mapsto> it\<lparr>li_item := Some (recalculated now ti)\<rparr>)"
  have at1: "timer_at h1 = (timer_at h)(a \<mapsto> recalculated now ti)" by (auto simp: h1_def timer_at_def fun_eq_iff)
  have seg: "segment h1 q zs n = segment h q zs n" for q zs n
    unfolding h1_def by (rule segment_item [of h a it, OF it(1)]) simp_all
  have "recalculate_loop now (first_of (a # ys) None) h = recalculate_loop now (first_of ys None) h1"
    using it by (subst recalculate_loop.simps) (simp add: h1_def recalculated_def)
  moreover have "\<exists>h'. recalculate_loop now (first_of ys None) h1 = Some h' \<and> (\<forall>q zs n. segment h' q zs n = segment h1 q zs n) \<and>
      timer_at h' = (\<lambda>a. if a \<in> set ys then map_option (recalculated now) (timer_at h1 a) else timer_at h1 a)"
    using Cons.prems by (intro Cons.IH [of h1 "Some a"]) (auto simp: seg at1)
  moreover have "timer_at h a = Some ti" using it by (simp add: timer_at_def)
  ultimately show ?case
    using Cons.prems(2) seg at1 by (auto simp: fun_eq_iff)
qed

lemma getcoming_empty: "timeout_rep timeout [] \<Longrightarrow> capwap_timeout_getcoming now timeout = Some (-1, timeout)"
  by (simp add: capwap_timeout_getcoming_def timeout_rep_def Let_def list_rep_def CAPWAP_TIMEOUT_INFINITE_def)

lemma rep_Cons:
  assumes "timeout_rep timeout xs" "timers (timeout_heap timeout) xs = e # q"
  obtains a ys where "xs = a # ys" "timer_at (timeout_heap timeout) a = Some e" "timers (timeout_heap timeout) ys = q"
    "list_first (itemstimeout timeout) = Some a"
proof -
  obtain a ys where xs: "xs = a # ys" using assms(2) by (cases xs) (auto simp: timers_def)
  then have "timer_at (timeout_heap timeout) a \<noteq> None" "list_first (itemstimeout timeout) = Some a"
    using assms(1) by (auto simp: timeout_rep_def Let_def list_rep_def)
  then show thesis using that xs assms(2) by (auto simp: timers_def)
qed

lemma getcoming_rep:
  assumes "timeout_rep timeout xs" "timers (timeout_heap timeout) xs = e # q"
    and delta_def: "delta = capwap_timeout_getdelta (ti_expire e) now"
  shows "delta \<le> 0 \<Longrightarrow> capwap_timeout_getcoming now timeout = Some (0, timeout)"
    "0 < delta \<Longrightarrow> delta \<le> ti_durate e \<Longrightarrow> capwap_timeout_getcoming now timeout = Some (delta, timeout)"
    "0 < delta \<Longrightarrow> ti_durate e < delta \<Longrightarrow> \<exists>timeout'. capwap_timeout_getcoming now timeout = Some (ti_durate e, timeout') \<and>
      timeout_rep timeout' xs \<and> timers (timeout_heap timeout') xs = map (recalculated now) (e # q)"
proof -
  from rep_Cons [OF assms(1,2)] obtain a ys where a: "xs = a # ys" "timer_at (timeout_heap timeout) a = Some e"
    "timers (timeout_heap timeout) ys = q" "list_first (itemstimeout timeout) = Some a" .
  show "delta \<le> 0 \<Longrightarrow> capwap_timeout_getcoming now timeout = Some (0, timeout)"
    "0 < delta \<Longrightarrow> delta \<le> ti_durate e \<Longrightarrow> capwap_timeout_getcoming now timeout = Some (delta, timeout)"
    using a by (simp_all add: capwap_timeout_getcoming_def delta_def)
  have rep: "segment (timeout_heap timeout) None xs None" "distinct xs" "\<forall>a\<in>set xs. timer_at (timeout_heap timeout) a \<noteq> None"
    using assms(1) by (simp_all add: timeout_rep_def Let_def list_rep_def)
  obtain h where h: "recalculate_loop now (first_of xs None) (timeout_heap timeout) = Some h"
    "\<forall>q zs n. segment h q zs n = segment (timeout_heap timeout) q zs n"
    "timer_at h = (\<lambda>a. if a \<in> set xs then map_option (recalculated now) (timer_at (timeout_heap timeout) a) else timer_at (timeout_heap timeout) a)"
    using recalculate_loop_result [OF rep, of now] by (elim exE conjE)
  have "timeout_rep (timeout\<lparr>itemstimeout := itemstimeout timeout, timeout_heap := h\<rparr>) xs"
    using assms(1)
  proof (rule requeue_rep)
    show "\<forall>a. capwap_timeout_hash_item_getkey h a = capwap_timeout_hash_item_getkey (timeout_heap timeout) a"
      by (auto simp: capwap_timeout_hash_item_getkey_def h(3) recalculated_def split: option.splits)
    show "list_rep h (itemstimeout timeout) xs" using rep_list [OF assms(1)] h(2) by (simp add: list_rep_def)
  qed (use rep(3) h(3) in auto)
  moreover have "timers h xs = map (recalculated now) (e # q)"
    using rep(3) h(3) assms(2) by (auto simp: timers_def option.map_sel)
  ultimately show "\<exists>timeout'. capwap_timeout_getcoming now timeout = Some (ti_durate e, timeout') \<and>
      timeout_rep timeout' xs \<and> timers (timeout_heap timeout') xs = map (recalculated now) (e # q)" if "0 < delta" "ti_durate e < delta"
    using a h(1) that by (intro exI [of _ "timeout\<lparr>timeout_heap := h\<rparr>"]) (simp add: capwap_timeout_getcoming_def delta_def)
qed

lemma expire_head:
  assumes "timeout_rep timeout xs" "timers (timeout_heap timeout) xs = e # q"
    and "capwap_timeout_getcoming now timeout0 = Some (delta, timeout)" "\<not> (delta > 0 \<or> delta = -1)"
  shows "\<exists>timeout' xs'. timeout_rep timeout' xs' \<and> timers (timeout_heap timeout') xs' = q \<and> timeoutbitfield timeout' = timeoutbitfield timeout \<and>
    capwap_timeout_hasexpired run now timeout0 =
      (case ti_callback e of
         Some callback \<Rightarrow> map_option (Pair (ti_index e)) (run callback (ti_index e) (ti_context e) (ti_param e) timeout')
       | None \<Rightarrow> Some (ti_index e, timeout'))"
proof -
  from rep_Cons [OF assms(1,2)] obtain a ys where a: "xs = a # ys" "timer_at (timeout_heap timeout) a = Some e"
    "timers (timeout_heap timeout) ys = q" "list_first (itemstimeout timeout) = Some a" .
  obtain h l where l: "capwap_itemlist_remove_head (itemstimeout timeout) (timeout_heap timeout) = Some (Some a, h, l)"
    "list_rep h l ys" "payload h = payload (timeout_heap timeout)"
    using remove_head_rep rep_list [OF assms(1)] unfolding a(1) by blast
  obtain table h' fr where d: "capwap_hash_delete (timeout_callbacks h) (itemsreference timeout) (ti_index e) = Some table"
    "capwap_itemlist_free a h = Some (h', fr)"
    "timeout_rep (timeout\<lparr>itemsreference := table, itemstimeout := l, timeout_heap := h'\<rparr>) ys"
    "timers h' ys = filter (\<lambda>t. ti_index t \<noteq> ti_index e) (timers (timeout_heap timeout) xs)"
    using drop_item [of timeout "[]" a ys e h l] assms(1) a(1,2) l(2,3) by auto
  have "timers h' ys = q"
    using d(4) timers_filter(1) [OF assms(1), of "[]" a ys e] a by simp
  moreover have "timer_at h a = Some e" using timer_at_payload [OF l(3)] a(2) by simp
  ultimately show ?thesis
    using assms(3,4) l(1) d
    by (intro exI [of _ "timeout\<lparr>itemsreference := table, itemstimeout := l, timeout_heap := h'\<rparr>"] exI [of _ ys])
      (auto simp: capwap_timeout_hasexpired_def CAPWAP_TIMEOUT_INFINITE_def map_option_bind split: option.splits Option.bind_splits)
qed

lemma hasexpired_head:
  assumes "timeout_rep timeout xs" "timers (timeout_heap timeout) xs = e # q" "capwap_timeout_getdelta (ti_expire e) now \<le> 0"
  shows "\<exists>timeout' xs'. timeout_rep timeout' xs' \<and> timers (timeout_heap timeout') xs' = q \<and> timeoutbitfield timeout' = timeoutbitfield timeout \<and>
    capwap_timeout_hasexpired run now timeout =
      (case ti_callback e of
         Some callback \<Rightarrow> map_option (Pair (ti_index e)) (run callback (ti_index e) (ti_context e) (ti_param e) timeout')
       | None \<Rightarrow> Some (ti_index e, timeout'))"
  by (rule expire_head [OF assms(1,2) getcoming_rep(1) [OF assms(1,2) refl assms(3)]]) simp

lemma hasexpired_later:
  assumes "timeout_rep timeout xs"
    and "case timers (timeout_heap timeout) xs of [] \<Rightarrow> True
      | e # _ \<Rightarrow> 0 < capwap_timeout_getdelta (ti_expire e) now \<and> capwap_timeout_getdelta (ti_expire e) now \<le> ti_durate e"
  shows "capwap_timeout_hasexpired run now timeout = Some (0, timeout)"
proof (cases "timers (timeout_heap timeout) xs")
  case Nil
  then have "xs = []" by (simp add: timers_def)
  then show ?thesis
    using getcoming_empty [of timeout now] assms(1) by (simp add: capwap_timeout_hasexpired_def CAPWAP_TIMEOUT_INFINITE_def)
next
  case (Cons e q)
  then show ?thesis
    using getcoming_rep(2) [OF assms(1) Cons refl, of now] assms(2) by (simp add: capwap_timeout_hasexpired_def)
qed

text \<open>Whatever the time is, and when the callback has no effect on the timers.\<close>

lemma getcoming_keeps:
  assumes "timeout_rep timeout xs"
  shows "\<exists>delta timeout'. capwap_timeout_getcoming now timeout = Some (delta, timeout') \<and> timeout_rep timeout' xs \<and> (xs = [] \<longrightarrow> delta = -1)"
proof (cases "timers (timeout_heap timeout) xs")
  case Nil
  then have "xs = []" by (simp add: timers_def)
  then show ?thesis using getcoming_empty [of timeout now] assms by auto
next
  case (Cons e q)
  then have "xs \<noteq> []" by (auto simp: timers_def)
  moreover note g = getcoming_rep [OF assms Cons refl, of now]
  consider "capwap_timeout_getdelta (ti_expire e) now \<le> 0" | "0 < capwap_timeout_getdelta (ti_expire e) now" "capwap_timeout_getdelta (ti_expire e) now \<le> ti_durate e"
    | "0 < capwap_timeout_getdelta (ti_expire e) now" "ti_durate e < capwap_timeout_getdelta (ti_expire e) now" by linarith
  then show ?thesis
    by cases (use g assms \<open>xs \<noteq> []\<close> in blast)+
qed

lemma hasexpired_keeps:
  assumes "timeout_rep timeout xs"
  shows "\<exists>index timeout' xs'. capwap_timeout_hasexpired (\<lambda>_ _ _ _. Some) now timeout = Some (index, timeout') \<and> timeout_rep timeout' xs'"
proof -
  obtain delta timeout1 where g: "capwap_timeout_getcoming now timeout = Some (delta, timeout1)" "timeout_rep timeout1 xs" "xs = [] \<longrightarrow> delta = -1"
    using getcoming_keeps [OF assms, of now] by (elim exE conjE)
  show ?thesis
  proof (cases "delta > 0 \<or> delta = -1")
    case True
    then have "capwap_timeout_hasexpired (\<lambda>_ _ _ _. Some) now timeout = Some (0, timeout1)"
      using g(1) by (simp add: capwap_timeout_hasexpired_def CAPWAP_TIMEOUT_INFINITE_def)
    then show ?thesis using g(2) by blast
  next
    case False
    then obtain e q where e: "timers (timeout_heap timeout1) xs = e # q" using g(3) by (cases xs) (auto simp: timers_def)
    show ?thesis
      using expire_head [OF g(2) e g(1) False, of "\<lambda>_ _ _ _. Some"] by (cases "ti_callback e") (auto elim!: exE conjE)
  qed
qed

subsection \<open>Sequences of operations\<close>

text \<open>
  The operations of the timers in any order, by callers that use the indexes they were given and that have at
  most 128 of them. The effects of a callback on the timers are further steps.
\<close>

inductive timeout_step :: "'c capwap_timeout \<Rightarrow> 'c capwap_timeout \<Rightarrow> bool" where
  createtimer: "timer_used timeout \<noteq> {1..128} \<Longrightarrow> capwap_timeout_createtimer timeout = (index, timeout') \<Longrightarrow> timeout_step timeout timeout'"
| deletetimer: "index \<in> timer_used timeout \<Longrightarrow> capwap_timeout_deletetimer timeout index = Some timeout' \<Longrightarrow> timeout_step timeout timeout'"
| set: "timeout_heap timeout a = None \<Longrightarrow> 0 \<le> durate \<Longrightarrow>
    (if index = 0 then timer_used timeout \<noteq> {1..128} else index \<in> timer_used timeout) \<Longrightarrow>
    capwap_timeout_set a now index durate callback context param timeout = Some (i, timeout') \<Longrightarrow> timeout_step timeout timeout'"
| unset: "capwap_timeout_unset timeout index = Some timeout' \<Longrightarrow> timeout_step timeout timeout'"
| unsetall: "capwap_timeout_unsetall timeout = Some timeout' \<Longrightarrow> timeout_step timeout timeout'"
| getcoming: "capwap_timeout_getcoming now timeout = Some (delta, timeout') \<Longrightarrow> timeout_step timeout timeout'"
| hasexpired: "capwap_timeout_hasexpired (\<lambda>_ _ _ _. Some) now timeout = Some (index, timeout') \<Longrightarrow> timeout_step timeout timeout'"

inductive_cases timeout_stepE: "timeout_step timeout timeout'"

lemma timeout_step_rep:
  assumes "timeout_step timeout timeout'" "\<exists>xs. timeout_rep timeout xs"
  shows "\<exists>xs. timeout_rep timeout' xs"
proof -
  obtain xs where rep: "timeout_rep timeout xs" using assms(2) by blast
  from assms(1) show ?thesis
  proof cases
    case createtimer
    then show ?thesis using createtimer_rep [OF rep] by (metis prod.inject)
  next
    case deletetimer
    then show ?thesis using deletetimer_rep [OF rep] by fastforce
  next
    case (set a durate index now callback ctxt param i)
    then show ?thesis using set_rep [OF rep set(1-3), of now callback ctxt param] by auto
  next
    case unset
    then show ?thesis using unset_rep [OF rep] by (metis option.inject)
  next
    case unsetall
    then show ?thesis using unsetall_rep [OF rep] by auto
  next
    case getcoming
    then show ?thesis using getcoming_keeps [OF rep] by (metis option.inject prod.inject)
  next
    case hasexpired
    then show ?thesis using hasexpired_keeps [OF rep] by (metis option.inject prod.inject)
  qed
qed

lemma timeout_steps_rep:
  assumes "timeout_step\<^sup>*\<^sup>* timeout timeout'" "\<exists>xs. timeout_rep timeout xs"
  shows "\<exists>xs. timeout_rep timeout' xs"
  using assms by (induction rule: rtranclp_induct) (auto intro: timeout_step_rep)

subsection \<open>Properties\<close>


lemma timers_Nil: "timers h [] = []"
  by (simp add: timers_def)

definition example_timers :: "unit capwap_timeout" where
  "example_timers = the (capwap_timeout_init Map.empty)"

lemma example_timers_init: "capwap_timeout_init Map.empty = Some example_timers" "timeout_rep example_timers []"
  "timer_used example_timers = {}" "timeout_heap example_timers = Map.empty"
  using init_rep [of "Map.empty :: unit capwap_timeout_item list_heap"] by (auto simp: example_timers_def)




text \<open>
  C25. When the timer at the head of the queue is due, it is taken out of the list and the table, its callback is
  called with its index, context and parameter, and the rest of the queue stays as it was.
\<close>

theorem timer_expires_head:
  assumes "timeout_rep timeout xs" "timers (timeout_heap timeout) xs = e # q" "capwap_timeout_getdelta (ti_expire e) now \<le> 0"
  shows "\<exists>timeout' xs'. timeout_rep timeout' xs' \<and> timers (timeout_heap timeout') xs' = q \<and> timeoutbitfield timeout' = timeoutbitfield timeout \<and>
    capwap_timeout_hasexpired run now timeout =
      (case ti_callback e of
         Some callback \<Rightarrow> map_option (Pair (ti_index e)) (run callback (ti_index e) (ti_context e) (ti_param e) timeout')
       | None \<Rightarrow> Some (ti_index e, timeout'))"
  using assms by (rule hasexpired_head)

theorem timer_expires_head_witness:
  "\<exists>i timeout timeout'. capwap_timeout_set 7 \<lparr>tv_sec = 10, tv_usec = 0\<rparr> 0 2500 None None None example_timers = Some (i, timeout) \<and>
     capwap_timeout_hasexpired (\<lambda>_ _ _ _. Some) \<lparr>tv_sec = 13, tv_usec = 0\<rparr> timeout = Some (i, timeout')"
proof -
  let ?now = "\<lparr>tv_sec = 10, tv_usec = 0\<rparr>"
  obtain i timeout xs where s: "capwap_timeout_set 7 ?now 0 2500 None None None example_timers = Some (i, timeout)" "timeout_rep timeout xs"
    "timers (timeout_heap timeout) xs = [\<lparr>ti_index = i, ti_durate = 2500, ti_expire = capwap_timeout_setexpire 2500 ?now,
       ti_callback = None, ti_context = None, ti_param = None\<rparr>]"
    using set_rep [OF example_timers_init(2), of 7 2500 0 ?now None None None]
    by (auto simp: example_timers_init(3,4) timers_Nil queue_insert_def)
  have "capwap_timeout_getdelta (capwap_timeout_setexpire 2500 ?now) \<lparr>tv_sec = 13, tv_usec = 0\<rparr> \<le> 0"
    by (simp add: capwap_timeout_setexpire_def capwap_timeout_getdelta_def signed_divide_int_def signed_modulo_int_def)
  then show ?thesis
    using timer_expires_head [OF s(2,3), of "\<lparr>tv_sec = 13, tv_usec = 0\<rparr>" "\<lambda>_ _ _ _. Some"] s(1) by auto
qed

text \<open>
  C28. The queue is not kept in the order of expiry: a timer that expires after \<open>p\<close> and before \<open>s\<close>, the next one in
  the queue, is put in front of \<open>p\<close>.
\<close>

theorem timer_order_lost:
  assumes "list_rep h l xs" "\<forall>b\<in>set xs. timer_at h b \<noteq> None" "timer_at h a = Some e" "a \<notin> set xs"
    and "timers h xs = q @ p # s # r" "\<forall>t\<in>set (q @ [p]). 0 \<le> capwap_timeout_getdelta (ti_expire e) (ti_expire t)"
    and "capwap_timeout_getdelta (ti_expire e) (ti_expire s) < 0"
  shows "\<exists>h' l' xs'. capwap_timeout_additem a l h = Some (h', l') \<and> list_rep h' l' xs' \<and> timers h' xs' = q @ e # p # s # r"
proof -
  have "takeWhile (\<lambda>t. \<not> capwap_timeout_getdelta (ti_expire e) (ti_expire t) < 0) (q @ p # s # r) = q @ [p]"
    using assms(6,7) by (auto simp: takeWhile_append2 not_less)
  then have ins: "queue_insert e (q @ p # s # r) = q @ e # p # s # r"
    by (simp add: queue_insert_def)
  obtain h' l' xs' where "capwap_timeout_additem a l h = Some (h', l')" "list_rep h' l' xs'" "payload h' = payload h"
    "timers h xs' = queue_insert e (timers h xs)"
    using additem_rep [OF assms(1-4)] by (elim exE conjE)
  then show ?thesis
    using ins assms(5) timers_cong [of xs' h' h] timer_at_payload [of h' h]
    by (intro exI [of _ h'] exI [of _ l'] exI [of _ xs']) simp
qed

definition example_timer :: "nat \<Rightarrow> int \<Rightarrow> addr option \<Rightarrow> addr option \<Rightarrow> unit capwap_timeout_item capwap_list_item" where
  "example_timer index sec n p =
     \<lparr>li_item = Some \<lparr>ti_index = index, ti_durate = 0, ti_expire = \<lparr>tv_sec = sec, tv_usec = 0\<rparr>, ti_callback = None, ti_context = None, ti_param = None\<rparr>,
      li_itemsize = 56, li_autodelete = 1, li_next = n, li_prev = p\<rparr>"

theorem timer_order_lost_witness:
  "\<exists>h' l' xs'. capwap_timeout_additem 3 \<lparr>list_count = 2, list_first = Some 1, list_last = Some 2\<rparr>
      [1 \<mapsto> example_timer 1 10 (Some 2) None, 2 \<mapsto> example_timer 2 30 None (Some 1), 3 \<mapsto> example_timer 3 20 None None] = Some (h', l') \<and>
    list_rep h' l' xs' \<and> map (tv_sec \<circ> ti_expire) (timers h' xs') = [20, 10, 30]"
proof -
  let ?h = "[(1::addr) \<mapsto> example_timer 1 10 (Some 2) None, 2 \<mapsto> example_timer 2 30 None (Some 1), 3 \<mapsto> example_timer 3 20 None None]"
  let ?l = "\<lparr>list_count = 2, list_first = Some 1, list_last = Some 2\<rparr>"
  let ?i = "\<lambda>a. the (li_item (the (?h a)))"
  have "\<exists>h' l' xs'. capwap_timeout_additem 3 ?l ?h = Some (h', l') \<and> list_rep h' l' xs' \<and> timers h' xs' = [] @ ?i 3 # ?i 1 # ?i 2 # []"
    by (rule timer_order_lost [where xs = "[1, 2]"])
      (simp_all add: list_rep_def timer_at_def timers_def example_timer_def capwap_timeout_getdelta_def signed_divide_int_def)
  then show ?thesis by (elim exE conjE) (auto simp: example_timer_def)
qed

text \<open>
  C29. The milliseconds of a duration are counted as microseconds: right after it was set, the time left to a timer is
  the duration cut to whole seconds (and one millisecond more when the microseconds overflow).
\<close>

theorem timer_cut_to_seconds:
  assumes "0 \<le> durate" "0 \<le> tv_usec now" "tv_usec now < 1000000"
  shows "capwap_timeout_getdelta (capwap_timeout_setexpire durate now) now =
    durate div 1000 * 1000 + (if tv_usec now + durate mod 1000 < 1000000 then 0 else 1)"
  using assms by (rule expire_delta)

theorem timer_cut_to_seconds_witness:
  "capwap_timeout_getdelta (capwap_timeout_setexpire 999 \<lparr>tv_sec = 5, tv_usec = 10\<rparr>) \<lparr>tv_sec = 5, tv_usec = 10\<rparr> = 0"
  using timer_cut_to_seconds [of 999 "\<lparr>tv_sec = 5, tv_usec = 10\<rparr>"] by simp

text \<open>
  C27. A new timer index is the smallest one that is not in use, and it is in use afterwards; no index is returned (0)
  exactly when all 4096 are in use.
\<close>

theorem timer_index_fresh:
  assumes "length (timeoutbitfield timeout) = 128" "capwap_timeout_createtimer timeout = (index, timeout')"
  shows "if index = 0 then timer_used timeout = {1..4096} \<and> timeout' = timeout
    else index \<le> 4096 \<and> index \<notin> timer_used timeout \<and> timer_used timeout' = insert index (timer_used timeout) \<and>
      {1..<index} \<subseteq> timer_used timeout"
  by (rule createtimer_fresh(3) [OF assms(2,1)])

theorem timer_index_fresh_witness: "fst (capwap_timeout_createtimer example_timers) = 1"
proof -
  have len: "length (timeoutbitfield example_timers) = 128" using example_timers_init(2) by (simp add: timeout_rep_def Let_def)
  obtain i t where c: "capwap_timeout_createtimer example_timers = (i, t)" by (cases "capwap_timeout_createtimer example_timers")
  have "{1..<i} \<subseteq> {} \<and> i \<noteq> 0"
    using timer_index_fresh [OF len c] example_timers_init(3) by (cases "i = 0") (auto simp del: One_nat_def)
  then show ?thesis using c by auto
qed

subsection \<open>Properties of the hash table\<close>

text \<open>
  C21. Adding to a balanced table always returns: the table stays ordered and balanced and its map is updated at the
  key of the data, whatever the callbacks are, as long as they compare keys by a total order and hash into the table.
\<close>

theorem table_add_refines:
  assumes "hash_client cb hashsize" "hash_inv cb hash" "hash_balanced hash" "hash_hashsize hash = hashsize"
  shows "\<exists>hash'. capwap_hash_add cb hash data = Some hash' \<and> hash_inv cb hash' \<and> hash_balanced hash' \<and>
    hash_hashsize hash' = hashsize \<and> hash_map cb hash' = (hash_map cb hash)(item_getkey cb data \<mapsto> data)"
  using assms by (rule hash_client.hash_add)

text \<open>A table with one bucket that holds timers with the indexes 1 to 4.\<close>

definition example_heap :: "unit capwap_timeout_item list_heap" where
  "example_heap = [1 \<mapsto> example_timer 1 0 None None, 2 \<mapsto> example_timer 2 0 None None, 3 \<mapsto> example_timer 3 0 None None,
     4 \<mapsto> example_timer 4 0 None None, 5 \<mapsto> example_timer 5 0 None None]"

definition example_table :: "addr capwap_hash" where
  "example_table = \<lparr>hash_items = [Item 2 2 (Item 1 0 NULL_item NULL_item) (Item 3 1 NULL_item (Item 4 0 NULL_item NULL_item))],
     hash_hashsize = 1, hash_count = 4, hash_freed = []\<rparr>"

lemma example_client: "hash_client (timeout_callbacks h) 1"
  by unfold_locales (auto simp: capwap_timeout_hash_item_cmp_def split: if_splits)

lemma example_keys: "capwap_timeout_hash_item_getkey example_heap 1 = 1" "capwap_timeout_hash_item_getkey example_heap 2 = 2"
  "capwap_timeout_hash_item_getkey example_heap 3 = 3" "capwap_timeout_hash_item_getkey example_heap 4 = 4"
  "capwap_timeout_hash_item_getkey example_heap 5 = 5"
  by (simp_all add: capwap_timeout_hash_item_getkey_def timer_at_def example_heap_def example_timer_def)

lemma example_table_ok: "hash_inv (timeout_callbacks example_heap) example_table" "hash_balanced example_table" "hash_hashsize example_table = 1"
  by (simp_all add: example_table_def hash_inv_def hash_balanced_def ordered_def before_def capwap_timeout_hash_item_cmp_def example_keys [simplified])

theorem table_add_refines_witness:
  "\<exists>hash. capwap_hash_add (timeout_callbacks example_heap) example_table 5 = Some hash \<and> hash_balanced hash \<and>
     hash_map (timeout_callbacks example_heap) hash 5 = Some 5"
  using table_add_refines [OF example_client example_table_ok, of 5] by (auto simp: example_keys)

text \<open>
  C22. Searching a balanced table returns exactly for the keys that \<open>search_returns\<close> describes, and then what the map
  gives: the search leaves an item for a child of the root, so a key that is stored deeper is never found and
  the loop does not end.
\<close>

theorem table_search_exact:
  assumes "hash_client cb hashsize" "hash_inv cb hash" "hash_balanced hash" "hash_hashsize hash = hashsize"
  shows "capwap_hash_search cb hash k =
    (if search_returns cb k (hash_items hash ! item_gethash cb k hashsize) then Some (hash_map cb hash k) else None)"
  using assms by (rule hash_client.hash_search)

theorem table_search_exact_witness:
  "capwap_hash_search (timeout_callbacks example_heap) example_table 3 = Some (Some 3) \<and>
   hash_map (timeout_callbacks example_heap) example_table 4 = Some 4 \<and>
   capwap_hash_search (timeout_callbacks example_heap) example_table 4 = None"
  using table_search_exact [OF example_client example_table_ok, of 3] table_search_exact [OF example_client example_table_ok, of 4]
  by (simp add: example_table_def hash_map_def data_map_def capwap_timeout_hash_item_cmp_def example_keys [simplified])

text \<open>
  C23. Deleting a key from a balanced table removes it from the map and keeps the table ordered and counted, where the
  search returns; otherwise the deletion does not return.
\<close>

theorem table_delete_refines:
  assumes "hash_client cb hashsize" "hash_inv cb hash" "hash_balanced hash" "hash_hashsize hash = hashsize"
  shows "if search_returns cb k (hash_items hash ! item_gethash cb k hashsize)
    then \<exists>hash'. capwap_hash_delete cb hash k = Some hash' \<and> hash_inv cb hash' \<and> hash_hashsize hash' = hashsize \<and>
      hash_map cb hash' = (hash_map cb hash)(k := None) \<and>
      hash_count hash' + (if hash_map cb hash k = None then 0 else 1) = hash_count hash
    else capwap_hash_delete cb hash k = None"
  using hash_client.hash_delete [OF assms] hash_client.hash_delete_diverges [OF assms] by simp

theorem table_delete_refines_witness:
  "(\<exists>hash. capwap_hash_delete (timeout_callbacks example_heap) example_table 2 = Some hash \<and> hash_count hash = 3) \<and>
   capwap_hash_delete (timeout_callbacks example_heap) example_table 4 = None"
  using table_delete_refines [OF example_client example_table_ok, of 2] table_delete_refines [OF example_client example_table_ok, of 4]
  by (auto simp: example_table_def hash_map_def data_map_def capwap_timeout_hash_item_cmp_def example_keys [simplified])

text \<open>
  C24. Iterating over a table returns for every callback: the data is visited bucket by bucket in the order of the keys
  until the callback stops it, and exactly the data it marked is freed and removed from the map.
\<close>

theorem table_foreach_refines:
  assumes "hash_client cb hashsize" "hash_inv cb hash" "hash_hashsize hash = hashsize"
    and "visit f (concat (map inorder (hash_items hash))) [] s = (stop, marked, s')"
  shows "\<exists>hash'. capwap_hash_foreach cb hash f s = Some (hash', s') \<and> hash_inv cb hash' \<and> hash_hashsize hash' = hashsize \<and>
    hash_map cb hash' = (\<lambda>k. if k \<in> item_getkey cb ` set marked then None else hash_map cb hash k) \<and>
    hash_count hash' + length marked = hash_count hash \<and> hash_freed hash' = hash_freed hash @ marked"
  using assms by (rule hash_client.hash_foreach)

theorem table_foreach_refines_witness:
  "\<exists>hash. capwap_hash_foreach (timeout_callbacks example_heap) example_table
     (\<lambda>d n. (if d = 2 then HASH_DELETE_AND_CONTINUE else if d = 3 then HASH_BREAK else HASH_CONTINUE, n + d)) 0 = Some (hash, 6) \<and>
     hash_count hash = 3 \<and> hash_freed hash = [2]"
  using table_foreach_refines [OF example_client example_table_ok(1,3), of
      "\<lambda>d n. (if d = 2 then HASH_DELETE_AND_CONTINUE else if d = 3 then HASH_BREAK else HASH_CONTINUE, n + d)" 0 True "[2]" 6]
  by (auto simp: example_table_def)


end
