(* ===== verification/Ieee80211.thy ===== *)
theory Ieee80211
  imports Capwap_Prelude
begin

text \<open>
  The IEEE 802.11 frames of \<open>common/binding/ieee80211/ieee80211.c\<close>: writing information elements and management
  frames, finding the information elements of a received frame, association identifiers, addresses. A frame is
  the list of the bytes that are written from the start of the buffer; a pointer into a received frame is the rest of
  the frame from there. The results are of type \<open>'a option option\<close>: the outer \<open>None\<close> is an operation that does not
  return, the inner one the result -1.
\<close>

subsection \<open>Little endian values\<close>

definition le16_bytes :: "u16 \<Rightarrow> u8 list" where
  "le16_bytes v = [ucast v, ucast (drop_bit 8 v)]"

definition le16 :: "u8 \<Rightarrow> u8 \<Rightarrow> u16" where
  "le16 a b = push_bit 8 (ucast b) OR ucast a"

lemma uint_gr_neg2: "- 2 < uint w"
  using uint_ge_0 [of w] by linarith

subsection \<open>Constants\<close>

abbreviation "IEEE80211_IE_SSID \<equiv> 0 :: u8"
abbreviation "IEEE80211_IE_SUPPORTED_RATES \<equiv> 1 :: u8"
abbreviation "IEEE80211_IE_DSSS \<equiv> 3 :: u8"
abbreviation "IEEE80211_IE_COUNTRY \<equiv> 7 :: u8"
abbreviation "IEEE80211_IE_EDCA_PARAMETER_SET \<equiv> 12 :: u8"
abbreviation "IEEE80211_IE_CHALLENGE_TEXT \<equiv> 16 :: u8"
abbreviation "IEEE80211_IE_POWER_CONSTRAINT \<equiv> 32 :: u8"
abbreviation "IEEE80211_IE_ERP \<equiv> 42 :: u8"
abbreviation "IEEE80211_IE_QOS_CAPABILITY \<equiv> 46 :: u8"
abbreviation "IEEE80211_IE_EXTENDED_SUPPORTED_RATES \<equiv> 50 :: u8"
abbreviation "IEEE80211_IE_SSID_LIST \<equiv> 84 :: u8"
abbreviation "IEEE80211_IE_VENDOR_SPECIFIC \<equiv> 221 :: u8"
abbreviation "IEEE80211_SUPPORTEDRATE_MAX_COUNT \<equiv> 16 :: nat"
abbreviation "IEEE80211_RADIO_TYPE_80211G \<equiv> 4 :: u32"
abbreviation "IEEE80211_AID_BITFIELD_SIZE \<equiv> 63 :: nat"
abbreviation "IEEE80211_AID_MAX_VALUE \<equiv> 2007 :: nat"
abbreviation "IEEE80211_FRAMECONTROL_TYPE_MGMT \<equiv> 0 :: u16"
abbreviation "IEEE80211_FRAMECONTROL_TYPE_DATA \<equiv> 2 :: u16"
abbreviation "IEEE80211_FRAME_CONTROL_MASK_TODS \<equiv> 0x0100 :: u16"
abbreviation "IEEE80211_FRAME_CONTROL_MASK_FROMDS \<equiv> 0x0200 :: u16"

subsection \<open>Writing information elements\<close>

definition ieee80211_ie_set_ssid :: "u8 list \<Rightarrow> bool \<Rightarrow> u8 list option" where
  "ieee80211_ie_set_ssid ssid hidessid =
     (if hidessid then Some [IEEE80211_IE_SSID, 0]
      else let len = of_nat (c_strlen ssid) :: u8
           in if len > 32 then None else Some (IEEE80211_IE_SSID # len # take (unat len) ssid))"

definition ieee80211_ie_set_supportedrates :: "u8 list \<Rightarrow> int \<Rightarrow> u8 list option" where
  "ieee80211_ie_set_supportedrates supportedrates supportedratescount = do {
     ASSERT (supportedratescount > 0);
     let count = nat (if supportedratescount > 8 then 8 else supportedratescount);
     ASSERT (count \<le> length supportedrates);
     Some (IEEE80211_IE_SUPPORTED_RATES # of_nat count # take count supportedrates) }"

definition ieee80211_ie_set_extendedsupportedrates :: "u8 list \<Rightarrow> int \<Rightarrow> u8 list option" where
  "ieee80211_ie_set_extendedsupportedrates supportedrates supportedratescount =
     (if supportedratescount \<le> 8 then Some []
      else do {
        ASSERT (nat supportedratescount \<le> length supportedrates);
        Some (IEEE80211_IE_EXTENDED_SUPPORTED_RATES # of_int (supportedratescount - 8) #
          drop 8 (take (nat supportedratescount) supportedrates)) })"

definition ieee80211_ie_set_dsss :: "u8 \<Rightarrow> u8 list" where
  "ieee80211_ie_set_dsss channel = [IEEE80211_IE_DSSS, 1, channel]"

definition ieee80211_ie_set_erp :: "u32 \<Rightarrow> u8 \<Rightarrow> u8 list" where
  "ieee80211_ie_set_erp mode erpinfo =
     (if mode AND IEEE80211_RADIO_TYPE_80211G = 0 then [] else [IEEE80211_IE_ERP, 1, erpinfo])"

subsection \<open>Finding information elements\<close>

record ieee80211_ie_items =
  ie_ssid :: "u8 list option"
  ie_supported_rates :: "u8 list option"
  ie_dsss :: "u8 list option"
  ie_country :: "u8 list option"
  ie_challenge_text :: "u8 list option"
  ie_erp :: "u8 list option"
  ie_extended_supported_rates :: "u8 list option"
  ie_edca_parameter_set :: "u8 list option"
  ie_qos_capability :: "u8 list option"
  ie_power_constraint :: "u8 list option"
  ie_ssid_list :: "u8 list option"
  ie_wmm :: "u8 list option"

definition no_ie_items :: ieee80211_ie_items where
  "no_ie_items = \<lparr>ie_ssid = None, ie_supported_rates = None, ie_dsss = None, ie_country = None, ie_challenge_text = None,
     ie_erp = None, ie_extended_supported_rates = None, ie_edca_parameter_set = None, ie_qos_capability = None,
     ie_power_constraint = None, ie_ssid_list = None, ie_wmm = None\<rparr>"

text \<open>
  The branch for a vendor specific element. Its identifier and types are read whatever the length of the
  element is; the comparison stops at the first difference.
\<close>

definition ie_is_wmm :: "u8 list \<Rightarrow> bool option" where
  "ie_is_wmm data = do {
     ASSERT (length data \<ge> 5);
     if \<not> (data ! 2 = 0x00 \<and> data ! 3 = 0x50 \<and> data ! 4 = 0xF2) then Some False
     else do {
       ASSERT (length data \<ge> 6);
       if data ! 5 \<noteq> 2 then Some False
       else do {
         ASSERT (length data \<ge> 7);
         Some (data ! 6 = 0) } } }"

text \<open>The \<open>switch\<close> on the identifier of the element at \<open>data\<close>.\<close>

definition retrieve_ie :: "u8 \<Rightarrow> u8 \<Rightarrow> u8 list \<Rightarrow> ieee80211_ie_items \<Rightarrow> ieee80211_ie_items option option" where
  "retrieve_ie ieid len data items =
     (if ieid = IEEE80211_IE_SSID then Some (if len > 32 then None else Some (items\<lparr>ie_ssid := Some data\<rparr>))
      else if ieid = IEEE80211_IE_SUPPORTED_RATES then
        Some (if len < 1 \<or> len > 8 then None else Some (items\<lparr>ie_supported_rates := Some data\<rparr>))
      else if ieid = IEEE80211_IE_DSSS then Some (if len \<noteq> 1 then None else Some (items\<lparr>ie_dsss := Some data\<rparr>))
      else if ieid = IEEE80211_IE_COUNTRY then Some (if len < 6 then None else Some (items\<lparr>ie_country := Some data\<rparr>))
      else if ieid = IEEE80211_IE_CHALLENGE_TEXT then
        Some (if len < 3 then None else Some (items\<lparr>ie_challenge_text := Some data\<rparr>))
      else if ieid = IEEE80211_IE_ERP then Some (if len \<noteq> 1 then None else Some (items\<lparr>ie_erp := Some data\<rparr>))
      else if ieid = IEEE80211_IE_EXTENDED_SUPPORTED_RATES then
        Some (if len < 1 then None else Some (items\<lparr>ie_extended_supported_rates := Some data\<rparr>))
      else if ieid = IEEE80211_IE_EDCA_PARAMETER_SET then
        Some (if len \<noteq> 18 then None else Some (items\<lparr>ie_edca_parameter_set := Some data\<rparr>))
      else if ieid = IEEE80211_IE_QOS_CAPABILITY then
        Some (if len \<noteq> 1 then None else Some (items\<lparr>ie_qos_capability := Some data\<rparr>))
      else if ieid = IEEE80211_IE_POWER_CONSTRAINT then
        Some (if len \<noteq> 1 then None else Some (items\<lparr>ie_power_constraint := Some data\<rparr>))
      else if ieid = IEEE80211_IE_SSID_LIST then Some (Some (items\<lparr>ie_ssid_list := Some data\<rparr>))
      else if ieid = IEEE80211_IE_VENDOR_SPECIFIC then do {
        wmm \<leftarrow> ie_is_wmm data;
        Some (Some (if wmm then items\<lparr>ie_wmm := Some data\<rparr> else items)) }
      else Some (Some items))"

function retrieve_loop :: "ieee80211_ie_items \<Rightarrow> u8 list \<Rightarrow> int \<Rightarrow> (int \<times> ieee80211_ie_items) option" where
  "retrieve_loop items data len =
     (if len < 2 then Some (if len = 0 then 0 else -1, items)
      else case data of
          ieid # ielen # _ \<Rightarrow> do {
            r \<leftarrow> retrieve_ie ieid ielen data items;
            (case r of
               None \<Rightarrow> Some (-1, items)
             | Some items \<Rightarrow> retrieve_loop items (drop (2 + unat ielen) data) (len - (2 + int (unat ielen)))) }
        | _ \<Rightarrow> None)"
  by pat_completeness auto
termination
  by (relation "measure (\<lambda>(items, data, len). nat len)") (auto simp: uint_gr_neg2)

declare retrieve_loop.simps [simp del]

definition ieee80211_retrieve_information_elements_position :: "u8 list \<Rightarrow> int \<Rightarrow> (int \<times> ieee80211_ie_items) option" where
  "ieee80211_retrieve_information_elements_position data len = retrieve_loop no_ie_items data len"

subsection \<open>Association identifiers\<close>

text \<open>Only the first word that is not full is looked at.\<close>

fun aid_create_loop :: "nat \<Rightarrow> u32 list \<Rightarrow> (u16 \<times> u32 list) option" where
  "aid_create_loop i [] = None"
| "aid_create_loop i (bitfield # rest) =
     (if bitfield \<noteq> 0xffffffff then
        (case find (\<lambda>j. bitfield AND push_bit j 1 = 0) [0..<32] of
           Some j \<Rightarrow> if i * 32 + j + 1 \<le> IEEE80211_AID_MAX_VALUE
             then Some (of_nat (i * 32 + j + 1), (bitfield OR push_bit j 1) # rest) else None
         | None \<Rightarrow> None)
      else map_option (\<lambda>(aid, rest). (aid, bitfield # rest)) (aid_create_loop (i + 1) rest))"

text \<open>The result, the identifier and the bit field.\<close>

definition ieee80211_aid_create :: "u32 list \<Rightarrow> int \<times> u16 \<times> u32 list" where
  "ieee80211_aid_create aidbitfield =
     (case aid_create_loop 0 aidbitfield of Some (aid, bits) \<Rightarrow> (0, aid, bits) | None \<Rightarrow> (-1, 0, aidbitfield))"

definition ieee80211_aid_free :: "u32 list \<Rightarrow> u16 \<Rightarrow> u32 list option" where
  "ieee80211_aid_free aidbitfield aid = do {
     ASSERT (aid > 0 \<and> unat aid \<le> IEEE80211_AID_MAX_VALUE);
     let i = (unat aid - 1) div 32;
     ASSERT (i < length aidbitfield);
     Some (aidbitfield[i := aidbitfield ! i AND NOT (push_bit ((unat aid - 1) mod 32) 1)]) }"

subsection \<open>Channels and addresses\<close>

definition ieee80211_frequency_to_channel :: "u32 \<Rightarrow> u32" where
  "ieee80211_frequency_to_channel freq =
     (if 2412 \<le> freq \<and> freq \<le> 2472 then (freq - 2407) div 5
      else if freq = 2484 then 14
      else if 4915 \<le> freq \<and> freq \<le> 4980 then (freq - 4000) div 5
      else if 5035 \<le> freq \<and> freq \<le> 5825 then (freq - 5000) div 5
      else 0)"

definition ieee80211_is_broadcast_addr :: "u8 list \<Rightarrow> bool option" where
  "ieee80211_is_broadcast_addr addr = do {
     ASSERT (length addr \<ge> 6);
     Some (addr ! 0 = 0xff \<and> addr ! 1 = 0xff \<and> addr ! 2 = 0xff \<and> addr ! 3 = 0xff \<and> addr ! 4 = 0xff \<and> addr ! 5 = 0xff) }"

text \<open>\<open>struct ieee80211_header\<close> at the start of a frame: frame control, duration, three addresses, sequence control.\<close>

definition header_framecontrol :: "u8 list \<Rightarrow> u16" where
  "header_framecontrol frame = le16 (frame ! 0) (frame ! 1)"

definition header_address :: "nat \<Rightarrow> u8 list \<Rightarrow> u8 list" where
  "header_address n frame = take 6 (drop (4 + 6 * (n - 1)) frame)"

definition IEEE80211_FRAME_CONTROL_GET_TYPE :: "u16 \<Rightarrow> u16" where
  "IEEE80211_FRAME_CONTROL_GET_TYPE framecontrol = drop_bit 2 (framecontrol AND 0x000c)"

definition IEEE80211_FRAME_CONTROL_GET_SUBTYPE :: "u16 \<Rightarrow> u16" where
  "IEEE80211_FRAME_CONTROL_GET_SUBTYPE framecontrol = drop_bit 4 (framecontrol AND 0x00f0)"

text \<open>
  The three functions that select an address have the same shape: the address for a management frame, and for a data
  frame without a distribution system, to it and from it.
\<close>

definition select_addr :: "nat \<Rightarrow> nat \<Rightarrow> nat \<Rightarrow> nat \<Rightarrow> u8 list \<Rightarrow> u8 list option" where
  "select_addr mgmt adhoc tods fromds frame =
     (let framecontrol = header_framecontrol frame;
          framecontrol_type = IEEE80211_FRAME_CONTROL_GET_TYPE framecontrol;
          ds = framecontrol AND (IEEE80211_FRAME_CONTROL_MASK_TODS OR IEEE80211_FRAME_CONTROL_MASK_FROMDS)
      in if framecontrol_type = IEEE80211_FRAMECONTROL_TYPE_MGMT then Some (header_address mgmt frame)
         else if framecontrol_type = IEEE80211_FRAMECONTROL_TYPE_DATA then
           if ds = 0 then Some (header_address adhoc frame)
           else if ds = IEEE80211_FRAME_CONTROL_MASK_TODS then Some (header_address tods frame)
           else if ds = IEEE80211_FRAME_CONTROL_MASK_FROMDS then Some (header_address fromds frame)
           else None
         else None)"

definition ieee80211_get_sa_addr :: "u8 list \<Rightarrow> u8 list option" where
  "ieee80211_get_sa_addr = select_addr 2 2 2 3"

definition ieee80211_get_da_addr :: "u8 list \<Rightarrow> u8 list option" where
  "ieee80211_get_da_addr = select_addr 1 1 3 1"

definition ieee80211_get_bssid_addr :: "u8 list \<Rightarrow> u8 list option" where
  "ieee80211_get_bssid_addr = select_addr 3 3 1 2"

subsection \<open>SSIDs\<close>

datatype ssid_result = IEEE80211_VALID_SSID | IEEE80211_WILDCARD_SSID | IEEE80211_WRONG_SSID

function ssid_list_loop :: "u8 list \<Rightarrow> u8 list \<Rightarrow> int \<Rightarrow> bool option" where
  "ssid_list_loop ssid pos len =
     (if len < 2 then Some False
      else case pos of
          ieid # ielen # body \<Rightarrow>
            if ieid \<noteq> IEEE80211_IE_SSID \<or> ielen = 0 \<or> len - 2 < int (unat ielen) then Some False
            else if c_strlen ssid = unat ielen \<and> take (unat ielen) body = take (unat ielen) ssid then Some True
            else ssid_list_loop ssid (drop (unat ielen) body) (len - 2 - int (unat ielen))
        | _ \<Rightarrow> None)"
  by pat_completeness auto
termination
  by (relation "measure (\<lambda>(ssid, pos, len). nat len)") (auto simp: uint_gr_neg2)

definition ieee80211_is_valid_ssid :: "u8 list \<Rightarrow> u8 list option \<Rightarrow> u8 list option \<Rightarrow> ssid_result option" where
  "ieee80211_is_valid_ssid ssid iessid isssidlist =
     (case iessid of
        None \<Rightarrow> Some IEEE80211_WRONG_SSID
      | Some ie \<Rightarrow>
          if c_strlen ssid = unat (ie ! 1) \<and> take (c_strlen ssid) ssid = take (c_strlen ssid) (drop 2 ie) then Some IEEE80211_VALID_SSID
          else do {
            found \<leftarrow> (case isssidlist of
                None \<Rightarrow> Some False
              | Some l \<Rightarrow> ssid_list_loop ssid (drop 2 l) (int (unat (l ! 1))));
            Some (if found then IEEE80211_VALID_SSID
                  else if ie ! 1 = 0 then IEEE80211_WILDCARD_SSID else IEEE80211_WRONG_SSID) })"

definition ieee80211_get_erpinfo :: "u32 \<Rightarrow> bool \<Rightarrow> nat \<Rightarrow> nat \<Rightarrow> bool \<Rightarrow> u8" where
  "ieee80211_get_erpinfo mode olbc stationnonerpcount stationnoshortpreamblecount shortpreamble =
     (if mode AND IEEE80211_RADIO_TYPE_80211G \<noteq> 0 then
        (if olbc then 0x02 else 0) OR (if stationnonerpcount > 0 then 0x01 OR 0x02 else 0) OR
        (if \<not> shortpreamble \<or> stationnoshortpreamblecount > 0 then 0x04 else 0)
      else 0)"

subsection \<open>Management frames\<close>

definition IEEE80211_FRAME_CONTROL :: "u16 \<Rightarrow> u16 \<Rightarrow> u8 list" where
  "IEEE80211_FRAME_CONTROL type stype = le16_bytes (push_bit 2 type OR push_bit 4 stype)"

text \<open>The header that every function for a management frame starts with.\<close>

definition mgmt_header :: "u16 \<Rightarrow> u8 list \<Rightarrow> u8 list \<Rightarrow> u8 list \<Rightarrow> u8 list" where
  "mgmt_header stype da sa bssid =
     IEEE80211_FRAME_CONTROL IEEE80211_FRAMECONTROL_TYPE_MGMT stype @ le16_bytes 0 @ da @ sa @ bssid @ le16_bytes 0"

record ieee80211_probe_response_params =
  pr_bssid :: "u8 list"
  pr_station :: "u8 list"
  pr_beaconperiod :: u16
  pr_capability :: u16
  pr_ssid :: "u8 list"
  pr_supportedratescount :: int
  pr_supportedrates :: "u8 list"
  pr_channel :: u8
  pr_mode :: u32
  pr_erpinfo :: u8
  pr_response_ies :: "u8 list"

definition ieee80211_create_probe_response :: "ieee80211_probe_response_params \<Rightarrow> u8 list option option" where
  "ieee80211_create_probe_response params =
     (case ieee80211_ie_set_ssid (pr_ssid params) False of
        None \<Rightarrow> Some None
      | Some ssid \<Rightarrow> do {
          rates \<leftarrow> ieee80211_ie_set_supportedrates (pr_supportedrates params) (pr_supportedratescount params);
          let dsss = ieee80211_ie_set_dsss (pr_channel params);
          let erp = ieee80211_ie_set_erp (pr_mode params) (pr_erpinfo params);
          ext \<leftarrow> ieee80211_ie_set_extendedsupportedrates (pr_supportedrates params) (pr_supportedratescount params);
          Some (Some (mgmt_header 5 (pr_station params) (pr_bssid params) (pr_bssid params) @
            replicate 8 0 @ le16_bytes (pr_beaconperiod params) @ le16_bytes (pr_capability params) @
            ssid @ rates @ dsss @ erp @ ext @ pr_response_ies params)) })"

record ieee80211_beacon_params =
  be_offload :: bool
  be_bssid :: "u8 list"
  be_beaconperiod :: u16
  be_capability :: u16
  be_ssid :: "u8 list"
  be_ssid_hidden :: bool
  be_supportedratescount :: int
  be_supportedrates :: "u8 list"
  be_channel :: u8
  be_mode :: u32
  be_erpinfo :: u8
  be_beacon_ies :: "u8 list"
  be_response_ies :: "u8 list"

text \<open>
  The parts of the buffer that the function returns in \<open>headbeacon\<close>, \<open>tailbeacon\<close> and \<open>proberesponseoffload\<close>; they follow
  each other.
\<close>

record ieee80211_beacon =
  headbeacon :: "u8 list"
  tailbeacon :: "u8 list"
  proberesponseoffload :: "u8 list"

definition offload_params :: "ieee80211_beacon_params \<Rightarrow> ieee80211_probe_response_params option" where
  "offload_params params = do {
     ASSERT (0 \<le> be_supportedratescount params \<and> be_supportedratescount params \<le> int IEEE80211_SUPPORTEDRATE_MAX_COUNT);
     ASSERT (nat (be_supportedratescount params) \<le> length (be_supportedrates params));
     Some \<lparr>pr_bssid = be_bssid params, pr_station = replicate 6 0, pr_beaconperiod = be_beaconperiod params,
       pr_capability = be_capability params, pr_ssid = be_ssid params, pr_supportedratescount = be_supportedratescount params,
       pr_supportedrates = take (nat (be_supportedratescount params)) (be_supportedrates params) @
         replicate (IEEE80211_SUPPORTEDRATE_MAX_COUNT - nat (be_supportedratescount params)) 0,
       pr_channel = be_channel params, pr_mode = be_mode params, pr_erpinfo = be_erpinfo params, pr_response_ies = []\<rparr> }"

definition ieee80211_create_beacon :: "ieee80211_beacon_params \<Rightarrow> ieee80211_beacon option option" where
  "ieee80211_create_beacon params =
     (case ieee80211_ie_set_ssid (be_ssid params) (be_ssid_hidden params) of
        None \<Rightarrow> Some None
      | Some ssid \<Rightarrow> do {
          rates \<leftarrow> ieee80211_ie_set_supportedrates (be_supportedrates params) (be_supportedratescount params);
          let dsss = ieee80211_ie_set_dsss (be_channel params);
          let head = mgmt_header 8 (replicate 6 0xff) (be_bssid params) (be_bssid params) @
            replicate 8 0 @ le16_bytes (be_beaconperiod params) @ le16_bytes (be_capability params) @ ssid @ rates @ dsss;
          let erp = ieee80211_ie_set_erp (be_mode params) (be_erpinfo params);
          ext \<leftarrow> ieee80211_ie_set_extendedsupportedrates (be_supportedrates params) (be_supportedratescount params);
          let tail = erp @ ext @ be_beacon_ies params;
          if be_offload params then do {
            p \<leftarrow> offload_params params;
            response \<leftarrow> ieee80211_create_probe_response p;
            Some (map_option (\<lambda>response.
              \<lparr>headbeacon = head, tailbeacon = tail, proberesponseoffload = response @ be_response_ies params\<rparr>) response) }
          else Some (Some \<lparr>headbeacon = head, tailbeacon = tail, proberesponseoffload = []\<rparr>) })"

record ieee80211_authentication_params =
  au_bssid :: "u8 list"
  au_station :: "u8 list"
  au_algorithm :: u16
  au_transactionseqnumber :: u16
  au_statuscode :: u16

definition ieee80211_create_authentication_response :: "ieee80211_authentication_params \<Rightarrow> u8 list" where
  "ieee80211_create_authentication_response params =
     mgmt_header 11 (au_station params) (au_bssid params) (au_bssid params) @
     le16_bytes (au_algorithm params) @ le16_bytes (au_transactionseqnumber params) @ le16_bytes (au_statuscode params)"

record ieee80211_associationresponse_params =
  as_bssid :: "u8 list"
  as_station :: "u8 list"
  as_capability :: u16
  as_statuscode :: u16
  as_aid :: u16
  as_supportedratescount :: int
  as_supportedrates :: "u8 list"
  as_response_ies :: "u8 list"

definition ieee80211_create_associationresponse_response :: "ieee80211_associationresponse_params \<Rightarrow> u8 list option" where
  "ieee80211_create_associationresponse_response params = do {
     rates \<leftarrow> ieee80211_ie_set_supportedrates (as_supportedrates params) (as_supportedratescount params);
     ext \<leftarrow> ieee80211_ie_set_extendedsupportedrates (as_supportedrates params) (as_supportedratescount params);
     Some (mgmt_header 1 (as_station params) (as_bssid params) (as_bssid params) @
       le16_bytes (as_capability params) @ le16_bytes (as_statuscode params) @ le16_bytes (as_aid params) @
       rates @ ext @ as_response_ies params) }"

text \<open>The parameters of a deauthentication and of a disassociation have the same fields.\<close>

record ieee80211_deauthentication_params =
  de_bssid :: "u8 list"
  de_station :: "u8 list"
  de_reasoncode :: u16

definition ieee80211_create_deauthentication :: "ieee80211_deauthentication_params \<Rightarrow> u8 list" where
  "ieee80211_create_deauthentication params =
     mgmt_header 12 (de_station params) (de_bssid params) (de_bssid params) @ le16_bytes (de_reasoncode params)"

definition ieee80211_create_disassociation :: "ieee80211_deauthentication_params \<Rightarrow> u8 list" where
  "ieee80211_create_disassociation params =
     mgmt_header 10 (de_station params) (de_bssid params) (de_bssid params) @ le16_bytes (de_reasoncode params)"

subsection \<open>The elements lie within the frame\<close>

definition ie_pointers :: "ieee80211_ie_items \<Rightarrow> u8 list option set" where
  "ie_pointers items = {ie_ssid items, ie_supported_rates items, ie_dsss items, ie_country items, ie_challenge_text items, ie_erp items,
     ie_extended_supported_rates items, ie_edca_parameter_set items, ie_qos_capability items, ie_power_constraint items,
     ie_ssid_list items, ie_wmm items}"

lemma retrieve_ie_pointers:
  "retrieve_ie ieid ielen data items = Some (Some items') \<Longrightarrow> ie_pointers items' \<subseteq> insert (Some data) (ie_pointers items)"
  unfolding retrieve_ie_def
  by (auto simp: ie_pointers_def split: if_splits Option.bind_splits)

lemma retrieve_loop_nonneg: "retrieve_loop items data len = Some (0, items') \<Longrightarrow> 0 \<le> len"
proof -
  assume "retrieve_loop items data len = Some (0, items')"
  then show ?thesis by (subst (asm) retrieve_loop.simps) (auto split: if_splits)
qed

text \<open>The element at \<open>p\<close>, a rest of \<open>data\<close>, ends within the first \<open>len\<close> bytes of \<open>data\<close>.\<close>

definition ie_within :: "u8 list \<Rightarrow> int \<Rightarrow> u8 list \<Rightarrow> bool" where
  "ie_within data len p \<longleftrightarrow> (\<exists>k. p = drop k data \<and> int k + 2 + int (unat (p ! 1)) \<le> len)"

lemma retrieve_loop_within:
  assumes "retrieve_loop items (drop k data) len = Some (0, items')" "len + int k \<le> n"
    and "\<forall>p. Some p \<in> ie_pointers items \<longrightarrow> ie_within data n p"
  shows "\<forall>p. Some p \<in> ie_pointers items' \<longrightarrow> ie_within data n p"
  using assms
proof (induction "nat len" arbitrary: items k len rule: less_induct)
  case less
  show ?case
  proof (cases "len < 2")
    case True
    then show ?thesis using less.prems by (subst (asm) (1) retrieve_loop.simps) simp
  next
    case False
    obtain ieid ielen body where d: "drop k data = ieid # ielen # body"
      using less.prems(1) False by (subst (asm) (1) retrieve_loop.simps) (auto split: list.splits)
    let ?len = "len - (2 + int (unat ielen))"
    obtain items1 where r: "retrieve_ie ieid ielen (drop k data) items = Some (Some items1)"
      "retrieve_loop items1 (drop (2 + unat ielen) (drop k data)) ?len = Some (0, items')"
      using less.prems(1) False d by (subst (asm) (1) retrieve_loop.simps) (auto split: option.splits Option.bind_splits)
    have len: "0 \<le> ?len" using retrieve_loop_nonneg [OF r(2)] .
    have "ie_within data n (drop k data)"
      unfolding ie_within_def using less.prems(2) len d by (intro exI [of _ k]) simp
    then have "\<forall>p. Some p \<in> ie_pointers items1 \<longrightarrow> ie_within data n p"
      using retrieve_ie_pointers [OF r(1)] less.prems(3) by auto
    moreover have "nat ?len < nat len" "?len + int (2 + unat ielen + k) \<le> n"
      using False less.prems(2) by (simp_all add: uint_gr_neg2)
    moreover have "retrieve_loop items1 (drop (2 + unat ielen + k) data) ?len = Some (0, items')"
      using r(2) by (simp add: add.commute add.left_commute)
    ultimately show ?thesis using less.hyps by blast
  qed
qed

subsection \<open>Writing and finding elements\<close>

definition ie_body :: "u8 list \<Rightarrow> u8 list" where
  "ie_body p = take (unat (p ! 1)) (drop 2 p)"

lemma retrieve_loop_step:
  assumes "length body = unat ielen" "retrieve_ie ieid ielen (ieid # ielen # body @ rest) items = Some (Some items')"
    and "len = int (length (ieid # ielen # body @ rest))"
  shows "retrieve_loop items (ieid # ielen # body @ rest) len = retrieve_loop items' rest (int (length rest))"
proof -
  have "\<not> uint ielen + int (length rest) < 0" "2 + (uint ielen + int (length rest)) \<noteq> 0"
    using uint_nonnegative [of ielen] by linarith+
  then show ?thesis using assms by (subst retrieve_loop.simps) simp
qed

lemma retrieve_loop_end: "retrieve_loop items [] 0 = Some (0, items)"
  by (subst retrieve_loop.simps) simp

lemma retrieve_ssid:
  assumes "ieee80211_ie_set_ssid ssid hide = Some ie" "0 \<notin> set ssid" "length ssid \<le> 32"
  shows "retrieve_loop items (ie @ rest) (int (length (ie @ rest))) = retrieve_loop (items\<lparr>ie_ssid := Some (ie @ rest)\<rparr>) rest (int (length rest)) \<and>
    ie_body (ie @ rest) = (if hide then [] else ssid)"
proof -
  define body where "body = (if hide then [] else ssid)"
  have len: "unat (of_nat (length body) :: u8) = length body" "unat (of_nat (length ssid) :: u8) = length ssid" "length body \<le> 32"
    using assms(3) by (auto simp: unat_of_nat_u8 body_def)
  then have ie: "ie = 0 # of_nat (length body) # body" "\<not> (of_nat (length body) :: u8) > 32"
    using assms by (auto simp: ieee80211_ie_set_ssid_def Let_def word_less_nat_alt body_def split: if_splits)
  then show ?thesis
    using retrieve_loop_step [of body "of_nat (length body)" 0 rest items "items\<lparr>ie_ssid := Some (ie @ rest)\<rparr>"] len
    by (simp add: retrieve_ie_def ie_body_def body_def [symmetric])
qed

lemma retrieve_supportedrates:
  assumes "ieee80211_ie_set_supportedrates rates count = Some ie"
  shows "retrieve_loop items (ie @ rest) (int (length (ie @ rest))) =
      retrieve_loop (items\<lparr>ie_supported_rates := Some (ie @ rest)\<rparr>) rest (int (length rest)) \<and>
    ie_body (ie @ rest) = take (min 8 (nat count)) rates"
proof -
  define n where "n = min 8 (nat count)"
  have n: "0 < n" "n \<le> 8" "n \<le> length rates" "ie = 1 # of_nat n # take n rates"
    using assms by (auto simp: ieee80211_ie_set_supportedrates_def n_def Let_def ASSERT_bind_Some split: if_splits)
  have len: "unat (of_nat n :: u8) = n" using n by (simp add: unat_of_nat_u8)
  have "\<not> (of_nat n :: u8) < 1" "\<not> (of_nat n :: u8) > 8"
    using n len by (auto simp: word_less_nat_alt)
  then show ?thesis
    using retrieve_loop_step [of "take n rates" "of_nat n" 1 rest items "items\<lparr>ie_supported_rates := Some (ie @ rest)\<rparr>"] len n
    by (simp add: retrieve_ie_def ie_body_def n_def [symmetric])
qed

lemma retrieve_extendedsupportedrates:
  assumes "ieee80211_ie_set_extendedsupportedrates rates count = Some ie" "count \<le> 255"
  shows "if count \<le> 8 then ie = [] else
    retrieve_loop items (ie @ rest) (int (length (ie @ rest))) =
      retrieve_loop (items\<lparr>ie_extended_supported_rates := Some (ie @ rest)\<rparr>) rest (int (length rest)) \<and>
    ie_body (ie @ rest) = drop 8 (take (nat count) rates)"
proof (cases "count \<le> 8")
  case True
  then show ?thesis using assms by (simp add: ieee80211_ie_set_extendedsupportedrates_def)
next
  case False
  define n where "n = nat (count - 8)"
  have n: "0 < n" "n < 256" "of_int (count - 8) = (of_nat n :: u8)" using False assms(2) by (auto simp: n_def)
  have ie: "ie = 50 # of_nat n # drop 8 (take (nat count) rates)" "nat count \<le> length rates"
    using assms(1) False n(3) by (auto simp: ieee80211_ie_set_extendedsupportedrates_def ASSERT_bind_Some)
  have len: "unat (of_nat n :: u8) = n" using n by (simp add: unat_of_nat_u8)
  have body: "length (drop 8 (take (nat count) rates)) = n" using ie(2) False by (simp add: n_def nat_diff_distrib)
  have "\<not> (of_nat n :: u8) < 1" using n len by (auto simp: word_less_nat_alt)
  then show ?thesis
    using retrieve_loop_step [of "drop 8 (take (nat count) rates)" "of_nat n" 50 rest items "items\<lparr>ie_extended_supported_rates := Some (ie @ rest)\<rparr>"] len body ie False
    by (simp add: retrieve_ie_def ie_body_def)
qed

lemma retrieve_dsss:
  "retrieve_loop items (ieee80211_ie_set_dsss channel @ rest) (int (length (ieee80211_ie_set_dsss channel @ rest))) =
     retrieve_loop (items\<lparr>ie_dsss := Some (ieee80211_ie_set_dsss channel @ rest)\<rparr>) rest (int (length rest))"
  "ie_body (ieee80211_ie_set_dsss channel @ rest) = [channel]"
  using retrieve_loop_step [of "[channel]" 1 3 rest items] by (simp_all add: ieee80211_ie_set_dsss_def retrieve_ie_def ie_body_def)

lemma retrieve_erp:
  "if mode AND 4 = 0 then ieee80211_ie_set_erp mode erpinfo = [] else
     retrieve_loop items (ieee80211_ie_set_erp mode erpinfo @ rest) (int (length (ieee80211_ie_set_erp mode erpinfo @ rest))) =
       retrieve_loop (items\<lparr>ie_erp := Some (ieee80211_ie_set_erp mode erpinfo @ rest)\<rparr>) rest (int (length rest)) \<and>
     ie_body (ieee80211_ie_set_erp mode erpinfo @ rest) = [erpinfo]"
  using retrieve_loop_step [of "[erpinfo]" 1 42 rest items] by (simp add: ieee80211_ie_set_erp_def retrieve_ie_def ie_body_def)

text \<open>What a station finds in the elements of a beacon or of a probe response, which follow the fixed fields.\<close>

definition frame_carries :: "u8 list \<Rightarrow> u8 list \<Rightarrow> u8 list \<Rightarrow> u8 \<Rightarrow> u8 option \<Rightarrow> bool" where
  "frame_carries ies ssid rates channel erp =
     (case ieee80211_retrieve_information_elements_position ies (int (length ies)) of
        Some (result, items) \<Rightarrow> result = 0 \<and> map_option ie_body (ie_ssid items) = Some ssid \<and>
          map_option ie_body (ie_supported_rates items) = Some (take 8 rates) \<and>
          map_option ie_body (ie_extended_supported_rates items) = (if length rates > 8 then Some (drop 8 rates) else None) \<and>
          map_option ie_body (ie_dsss items) = Some [channel] \<and> map_option ie_body (ie_erp items) = map_option (\<lambda>e. [e]) erp
      | None \<Rightarrow> False)"

lemma ies_carried:
  assumes ie: "ieee80211_ie_set_ssid ssid hide = Some ies" "ieee80211_ie_set_supportedrates rates count = Some ier"
      "ieee80211_ie_set_extendedsupportedrates rates count = Some iex"
    and arg: "0 \<notin> set ssid" "length ssid \<le> 32" "nat count \<le> length rates" "count \<le> 16"
  shows "frame_carries (ies @ ier @ ieee80211_ie_set_dsss channel @ ieee80211_ie_set_erp mode erpinfo @ iex)
    (if hide then [] else ssid) (take (nat count) rates) channel (if mode AND 4 = 0 then None else Some erpinfo)"
proof -
  have x: "if count \<le> 8 then iex = [] else
    retrieve_loop items iex (int (length iex)) = Some (0, items\<lparr>ie_extended_supported_rates := Some iex\<rparr>) \<and> ie_body iex = drop 8 (take (nat count) rates)" for items
    using retrieve_extendedsupportedrates [OF ie(3), of items "[]"] arg
    by (cases "count \<le> 8") (simp_all add: retrieve_loop_end)
  note s = retrieve_ssid [OF ie(1) arg(1,2)] and r = retrieve_supportedrates [OF ie(2)] and d = retrieve_dsss
  show ?thesis
    unfolding frame_carries_def ieee80211_retrieve_information_elements_position_def
    using x retrieve_erp [of mode erpinfo _ iex] arg(3)
    by (cases "count \<le> 8"; cases "mode AND 4 = 0")
      (simp_all add: s r d d [where rest = "[]", unfolded append_Nil2] no_ie_items_def retrieve_loop_end del: length_append)
qed

lemma ssid_Some: "0 \<notin> set ssid \<Longrightarrow> length ssid \<le> 32 \<Longrightarrow> \<exists>ie. ieee80211_ie_set_ssid ssid hide = Some ie"
  by (simp add: ieee80211_ie_set_ssid_def Let_def word_less_nat_alt unat_of_nat_u8)

lemma rates_Some:
  assumes "0 < count" "nat count \<le> length rates"
  shows "\<exists>ier iex. ieee80211_ie_set_supportedrates rates count = Some ier \<and> ieee80211_ie_set_extendedsupportedrates rates count = Some iex"
  using assms by (auto simp: ieee80211_ie_set_supportedrates_def ieee80211_ie_set_extendedsupportedrates_def Let_def)

lemma mgmt_header_drop:
  "length da = 6 \<Longrightarrow> length sa = 6 \<Longrightarrow> length bssid = 6 \<Longrightarrow>
   drop 36 (mgmt_header stype da sa bssid @ replicate 8 0 @ le16_bytes a @ le16_bytes b @ ies) = ies"
  by (simp add: mgmt_header_def IEEE80211_FRAME_CONTROL_def le16_bytes_def)

lemma probe_response_carries:
  assumes "0 \<notin> set (pr_ssid p)" "length (pr_ssid p) \<le> 32" "0 < pr_supportedratescount p" "pr_supportedratescount p \<le> 16"
    and "nat (pr_supportedratescount p) \<le> length (pr_supportedrates p)" "pr_response_ies p = []"
    and "length (pr_station p) = 6" "length (pr_bssid p) = 6"
  shows "\<exists>frame. ieee80211_create_probe_response p = Some (Some frame) \<and>
    frame_carries (drop 36 frame) (pr_ssid p) (take (nat (pr_supportedratescount p)) (pr_supportedrates p)) (pr_channel p)
      (if pr_mode p AND 4 = 0 then None else Some (pr_erpinfo p))"
proof -
  obtain ies where s: "ieee80211_ie_set_ssid (pr_ssid p) False = Some ies" using ssid_Some assms(1,2) by blast
  obtain ier iex where r: "ieee80211_ie_set_supportedrates (pr_supportedrates p) (pr_supportedratescount p) = Some ier"
    "ieee80211_ie_set_extendedsupportedrates (pr_supportedrates p) (pr_supportedratescount p) = Some iex"
    using rates_Some assms(3,5) by blast
  show ?thesis
    using ies_carried [OF s r assms(1,2,5,4), of "pr_channel p" "pr_mode p" "pr_erpinfo p"] assms(6-8)
    by (simp add: ieee80211_create_probe_response_def s r mgmt_header_drop del: drop_append)
qed

lemma offload_params_Some:
  assumes "0 < be_supportedratescount p" "be_supportedratescount p \<le> 16" "length (be_supportedrates p) = 16"
  shows "\<exists>q. offload_params p = Some q \<and> pr_bssid q = be_bssid p \<and> pr_station q = replicate 6 0 \<and> pr_ssid q = be_ssid p \<and>
    pr_supportedratescount q = be_supportedratescount p \<and> 16 = length (pr_supportedrates q) \<and>
    take (nat (be_supportedratescount p)) (pr_supportedrates q) = take (nat (be_supportedratescount p)) (be_supportedrates p) \<and>
    pr_channel q = be_channel p \<and> pr_mode q = be_mode p \<and> pr_erpinfo q = be_erpinfo p \<and> pr_response_ies q = []"
  using assms by (auto simp: offload_params_def nat_le_iff)



text \<open>
  C17. The elements that are retrieved from a frame lie within it: when the function succeeds, each pointer that it stored is
  the start of an element whose identifier, length and body end within the given length.
\<close>
theorem retrieved_elements_within:
  assumes "ieee80211_retrieve_information_elements_position data len = Some (0, items)" "Some p \<in> ie_pointers items"
  shows "\<exists>k. p = drop k data \<and> int k + 2 + int (unat (p ! 1)) \<le> len"
proof -
  have "\<forall>p. Some p \<in> ie_pointers items \<longrightarrow> ie_within data len p"
  proof (rule retrieve_loop_within)
    show "retrieve_loop no_ie_items (drop 0 data) len = Some (0, items)"
      using assms(1) by (simp add: ieee80211_retrieve_information_elements_position_def)
  qed (simp_all add: ie_pointers_def no_ie_items_def)
  then show ?thesis using assms(2) unfolding ie_within_def by blast
qed

theorem retrieved_elements_within_witness:
  "\<exists>k. [3, 1, 6] = drop k [0, 1, 65, 3, 1, 6 :: u8] \<and> int k + 2 + int (unat ([3, 1, 6 :: u8] ! 1)) \<le> 6"
  using retrieved_elements_within [of "[0, 1, 65, 3, 1, 6]" 6 "no_ie_items\<lparr>ie_ssid := Some [0, 1, 65, 3, 1, 6], ie_dsss := Some [3, 1, 6]\<rparr>" "[3, 1, 6]"]
  by (simp add: ieee80211_retrieve_information_elements_position_def ie_pointers_def no_ie_items_def retrieve_loop.simps retrieve_ie_def)


end
