(* ===== verification/Ac_Wlans.thy ===== *)
theory Ac_Wlans
  imports Capwap_Elements_C Capwap_Timeout Ieee80211
begin

text \<open>
  The WLANs and the stations of a session of the access controller, \<open>ac/ac_wlans.c\<close>. A station is in the hash table of its
  session, in the list of its WLAN and, for the session that serves it, in the hash table \<open>g_ac.authstations\<close>; it also owns
  a timer and, with a split MAC, an association identifier of its WLAN. The state has the heap of the stations and of the WLANs
  with the list items that hold them: the address of a station or of a WLAN is the one of its list item (\<open>wlanitem\<close>). What the
  code sends (actions for sessions, frames for the WTP) is collected in the state.
\<close>

subsection \<open>Data\<close>

datatype ac_callback = Ac_Stations_Timeout

record ac_station =
  st_address :: "u8 list"
  st_flags :: "64 word"
  st_wlan :: "addr option"
  st_session :: addr
  st_timeoutaction :: int
  st_idtimeout :: nat
  st_capability :: u16
  st_listeninterval :: u16
  st_aid :: u16
  st_supportedratescount :: int
  st_supportedrates :: "u8 list"
  st_authalgorithm :: u16

record ac_wlan =
  wl_device :: nat
  wl_address :: "u8 list"
  wl_wlanid :: u8
  wl_session :: "addr option"
  wl_aidbitfield :: "u32 list"
  wl_stations :: capwap_list
  wl_capability :: u16
  wl_keyindex :: u8
  wl_keystatus :: u8
  wl_keylength :: u16
  wl_key :: "u8 list option"
  wl_grouptsc :: "u8 list"
  wl_qos :: u8
  wl_authmode :: u8
  wl_macmode :: u8
  wl_tunnelmode :: u8
  wl_suppressssid :: u8
  wl_ssid :: "u8 list"

record ac_device =
  dev_radioid :: u8
  dev_wlans :: "capwap_list option"
  dev_supportedratescount :: nat
  dev_supportedrates :: "u8 list"

text \<open>The actions that these functions send with \<open>ac_session_send_action\<close>.\<close>

record add_station =
  add_radioid :: u8
  add_address :: "u8 list"
  add_wlanid :: u8
  add_associationid :: u16
  add_capabilities :: u16
  add_supportedrates :: "u8 list"

datatype ac_action =
    STATION_ROAMING "u8 list"
  | IEEE80211_ADD_STATION add_station
  | IEEE80211_DELETE_STATION u8 "u8 list"

text \<open>
  A session, with the part of \<open>g_ac\<close> that its functions use: \<open>devices\<close> and \<open>stations\<close> are the fields of \<open>session->wlans\<close>,
  \<open>authstations\<close> is the one of \<open>g_ac\<close>. A device is referred to by its index.
\<close>

record ac_session =
  ses_id :: addr
  ses_timeout :: "ac_callback capwap_timeout"
  devices :: "ac_device list"
  stations :: "addr capwap_hash"
  authstations :: "addr capwap_hash"
  station_heap :: "ac_station list_heap"
  wlan_heap :: "ac_wlan list_heap"
  actions :: "(addr \<times> ac_action) list"
  frames :: "(u8 \<times> u8 list) list"

text \<open>
  What the surroundings give: the addresses of new objects, the time, the result of \<open>ac_kmod_send_data\<close>, and the contents of
  memory that the code does not initialise.
\<close>

record ac_environment =
  env_address :: addr
  env_timer :: addr
  env_now :: timeval
  env_send :: "u8 \<Rightarrow> u8 list \<Rightarrow> int"
  env_junk :: "u8 list"

abbreviation "RADIOID_MAX_COUNT \<equiv> 31 :: nat"
abbreviation "RADIOID_ANY \<equiv> 0 :: u8"
abbreviation "AC_WLANS_STATIONS_HASH_SIZE \<equiv> 256 :: nat"
abbreviation "AC_STATIONS_HASH_SIZE \<equiv> 65536 :: nat"
abbreviation "AC_STATION_TIMEOUT_ACTION_DEAUTHENTICATE \<equiv> 1 :: int"
abbreviation "AC_STATION_TIMEOUT_ASSOCIATION_COMPLETE \<equiv> 30000 :: int"
abbreviation "AC_STATION_FLAGS_ENABLED \<equiv> 1 :: 64 word"
abbreviation "AC_STATION_FLAGS_AUTHENTICATED \<equiv> 2 :: 64 word"
abbreviation "AC_STATION_FLAGS_ASSOCIATE \<equiv> 4 :: 64 word"
abbreviation "AC_STATION_FLAGS_AUTHORIZED \<equiv> 8 :: 64 word"
abbreviation "CAPWAP_ADD_WLAN_MACMODE_LOCAL \<equiv> 0 :: u8"
abbreviation "CAPWAP_ADD_WLAN_MACMODE_SPLIT \<equiv> 1 :: u8"
abbreviation "CAPWAP_ADD_WLAN_AUTHTYPE_OPEN \<equiv> 0 :: u8"
abbreviation "CAPWAP_ADD_WLAN_AUTHTYPE_WEP \<equiv> 1 :: u8"
abbreviation "IEEE80211_REASON_PREV_AUTH_NOT_VALID \<equiv> 2 :: u16"

subsection \<open>Reading and writing objects\<close>

definition station_at :: "ac_session \<Rightarrow> addr \<Rightarrow> ac_station option" where
  "station_at s a = Option.bind (station_heap s a) li_item"

definition wlan_at :: "ac_session \<Rightarrow> addr \<Rightarrow> ac_wlan option" where
  "wlan_at s a = Option.bind (wlan_heap s a) li_item"

definition set_station :: "addr \<Rightarrow> (ac_station \<Rightarrow> ac_station) \<Rightarrow> ac_session \<Rightarrow> ac_session option" where
  "set_station a f s = do {
     _ \<leftarrow> station_at s a;
     h \<leftarrow> set_item a (li_item_update (map_option f)) (station_heap s);
     Some (s\<lparr>station_heap := h\<rparr>) }"

definition set_wlan :: "addr \<Rightarrow> (ac_wlan \<Rightarrow> ac_wlan) \<Rightarrow> ac_session \<Rightarrow> ac_session option" where
  "set_wlan a f s = do {
     _ \<leftarrow> wlan_at s a;
     h \<leftarrow> set_item a (li_item_update (map_option f)) (wlan_heap s);
     Some (s\<lparr>wlan_heap := h\<rparr>) }"

definition wlan_radio :: "ac_session \<Rightarrow> ac_wlan \<Rightarrow> ac_device option" where
  "wlan_radio s wlan = (if wl_device wlan < length (devices s) then Some (devices s ! wl_device wlan) else None)"

definition send_action :: "addr \<Rightarrow> ac_action \<Rightarrow> ac_session \<Rightarrow> ac_session" where
  "send_action session action s = s\<lparr>actions := actions s @ [(session, action)]\<rparr>"

subsection \<open>The tables of stations\<close>

text \<open>\<open>memcmp\<close> on two buffers of the same size.\<close>

fun memcmp :: "u8 list \<Rightarrow> u8 list \<Rightarrow> int" where
  "memcmp [] [] = 0"
| "memcmp [] (y # ys) = -1"
| "memcmp (x # xs) [] = 1"
| "memcmp (x # xs) (y # ys) = (if x < y then -1 else if x > y then 1 else memcmp xs ys)"

definition ac_wlans_item_gethash :: "u8 list \<Rightarrow> nat \<Rightarrow> nat" where
  "ac_wlans_item_gethash key hashsize = unat (key ! 3 XOR key ! 4 XOR key ! 5) mod AC_WLANS_STATIONS_HASH_SIZE"

definition ac_stations_item_gethash :: "u8 list \<Rightarrow> nat \<Rightarrow> nat" where
  "ac_stations_item_gethash key hashsize =
     unat ((push_bit 8 (ucast (key ! 4)) OR ucast (key ! 5)) XOR push_bit 4 (ucast (key ! 3)) :: 64 word) mod AC_STATIONS_HASH_SIZE"

definition ac_wlans_item_getkey :: "ac_station list_heap \<Rightarrow> addr \<Rightarrow> u8 list" where
  "ac_wlans_item_getkey h data = (case Option.bind (h data) li_item of Some station \<Rightarrow> st_address station | None \<Rightarrow> [])"

definition wlans_callbacks :: "ac_station list_heap \<Rightarrow> (u8 list, addr) hash_callbacks" where
  "wlans_callbacks h = \<lparr>item_gethash = ac_wlans_item_gethash, item_getkey = ac_wlans_item_getkey h, item_cmp = memcmp\<rparr>"

definition authstations_callbacks :: "ac_station list_heap \<Rightarrow> (u8 list, addr) hash_callbacks" where
  "authstations_callbacks h = \<lparr>item_gethash = ac_stations_item_gethash, item_getkey = ac_wlans_item_getkey h, item_cmp = memcmp\<rparr>"

definition ac_wlans_init :: "addr \<Rightarrow> ac_callback capwap_timeout \<Rightarrow> addr capwap_hash \<Rightarrow> ac_station list_heap \<Rightarrow> ac_wlan list_heap \<Rightarrow>
    ac_session option" where
  "ac_wlans_init session timeout auth sh wh = do {
     table \<leftarrow> capwap_hash_create AC_WLANS_STATIONS_HASH_SIZE;
     Some \<lparr>ses_id = session, ses_timeout = timeout,
       devices = map (\<lambda>i. \<lparr>dev_radioid = of_nat (i + 1), dev_wlans = None, dev_supportedratescount = 0,
         dev_supportedrates = replicate 16 0\<rparr>) [0..<RADIOID_MAX_COUNT],
       stations = table, authstations = auth, station_heap = sh, wlan_heap = wh, actions = [], frames = []\<rparr> }"

subsection \<open>Stations\<close>

text \<open>
  \<open>ac_stations_reset_station\<close>: \<open>leave_wlan\<close> is the first \<open>if\<close>, which gives the association identifier back and takes the station out of
  the list of its WLAN, \<open>stop_timer\<close> the second, and \<open>join_wlan\<close> the last, which appends the station to the list of the new WLAN.
\<close>

definition release_aid :: "addr \<Rightarrow> addr \<Rightarrow> ac_session \<Rightarrow> ac_session option" where
  "release_aid a w s = do {
     station \<leftarrow> station_at s a;
     wlan \<leftarrow> wlan_at s w;
     if st_aid station \<noteq> 0 then do {
       s \<leftarrow> (if wl_macmode wlan = CAPWAP_ADD_WLAN_MACMODE_SPLIT then do {
           bits \<leftarrow> ieee80211_aid_free (wl_aidbitfield wlan) (st_aid station);
           set_wlan w (wl_aidbitfield_update (\<lambda>_. bits)) s }
         else Some s);
       set_station a (st_aid_update (\<lambda>_. 0)) s }
     else Some s }"

definition leave_wlan :: "addr \<Rightarrow> ac_session \<Rightarrow> ac_session option" where
  "leave_wlan a s = do {
     station \<leftarrow> station_at s a;
     (case st_wlan station of
        None \<Rightarrow> Some s
      | Some w \<Rightarrow> do {
          s \<leftarrow> release_aid a w s;
          wlan \<leftarrow> wlan_at s w;
          (h, l) \<leftarrow> capwap_itemlist_remove a (wl_stations wlan) (station_heap s);
          set_wlan w (wl_stations_update (\<lambda>_. l)) (s\<lparr>station_heap := h\<rparr>) }) }"

definition stop_timer :: "addr \<Rightarrow> ac_session \<Rightarrow> ac_session option" where
  "stop_timer a s = do {
     station \<leftarrow> station_at s a;
     if st_idtimeout station \<noteq> CAPWAP_TIMEOUT_INDEX_NO_SET then do {
       timeout \<leftarrow> capwap_timeout_deletetimer (ses_timeout s) (st_idtimeout station);
       set_station a (st_idtimeout_update (\<lambda>_. CAPWAP_TIMEOUT_INDEX_NO_SET)) (s\<lparr>ses_timeout := timeout\<rparr>) }
     else Some s }"

definition join_wlan :: "addr \<Rightarrow> addr option \<Rightarrow> ac_session \<Rightarrow> ac_session option" where
  "join_wlan a newwlan s =
     (case newwlan of
        None \<Rightarrow> Some s
      | Some w \<Rightarrow> do {
          wlan \<leftarrow> wlan_at s w;
          (h, l) \<leftarrow> capwap_itemlist_insert_after None a (wl_stations wlan) (station_heap s);
          set_wlan w (wl_stations_update (\<lambda>_. l)) (s\<lparr>station_heap := h\<rparr>) })"

definition ac_stations_reset_station :: "addr \<Rightarrow> addr option \<Rightarrow> ac_session \<Rightarrow> ac_session option" where
  "ac_stations_reset_station a newwlan s = do {
     s \<leftarrow> leave_wlan a s;
     s \<leftarrow> stop_timer a s;
     s \<leftarrow> set_station a (\<lambda>st. st\<lparr>st_flags := 0, st_wlan := newwlan\<rparr>) s;
     join_wlan a newwlan s }"

definition ac_stations_destroy_station :: "addr \<Rightarrow> ac_session \<Rightarrow> ac_session option" where
  "ac_stations_destroy_station a s = do {
     station \<leftarrow> station_at s a;
     let cb = authstations_callbacks (station_heap s);
     authoritativestation \<leftarrow> capwap_hash_search cb (authstations s) (st_address station);
     s \<leftarrow> (case authoritativestation of
         None \<Rightarrow> Some s
       | Some b \<Rightarrow> do {
           other \<leftarrow> station_at s b;
           if st_session other = ses_id s then do {
             table \<leftarrow> capwap_hash_delete cb (authstations s) (st_address station);
             Some (s\<lparr>authstations := table\<rparr>) }
           else Some s });
     s \<leftarrow> ac_stations_reset_station a None s;
     table \<leftarrow> capwap_hash_delete (wlans_callbacks (station_heap s)) (stations s) (st_address station);
     (h, _) \<leftarrow> capwap_itemlist_free a (station_heap s);
     Some (s\<lparr>stations := table, station_heap := h\<rparr>) }"

subsection \<open>WLANs\<close>

text \<open>The loops that search a WLAN of a device.\<close>

partial_function (option) find_wlan :: "ac_wlan list_heap \<Rightarrow> (ac_wlan \<Rightarrow> bool) \<Rightarrow> addr option \<Rightarrow> addr option option" where
  "find_wlan h p search =
     (case search of
        None \<Rightarrow> Some None
      | Some a \<Rightarrow> do {
          it \<leftarrow> h a;
          item \<leftarrow> li_item it;
          if p item then Some (Some a) else find_wlan h p (li_next it) })"

definition device_wlans :: "ac_session \<Rightarrow> u8 \<Rightarrow> capwap_list option option" where
  "device_wlans s radioid = do {
     ASSERT (IS_VALID_RADIOID radioid);
     ASSERT (unat radioid - 1 < length (devices s));
     Some (dev_wlans (devices s ! (unat radioid - 1))) }"

definition ac_wlans_get_bssid :: "ac_session \<Rightarrow> u8 \<Rightarrow> u8 list \<Rightarrow> addr option option" where
  "ac_wlans_get_bssid s radioid bssid = do {
     wlans \<leftarrow> device_wlans s radioid;
     (case wlans of
        None \<Rightarrow> Some None
      | Some l \<Rightarrow> find_wlan (wlan_heap s) (\<lambda>wlan. memcmp bssid (wl_address wlan) = 0) (list_first l)) }"

definition ac_wlans_get_bssid_with_wlanid :: "ac_session \<Rightarrow> u8 \<Rightarrow> u8 \<Rightarrow> addr option option" where
  "ac_wlans_get_bssid_with_wlanid s radioid wlanid = do {
     ASSERT (IS_VALID_WLANID wlanid);
     wlans \<leftarrow> device_wlans s radioid;
     (case wlans of
        None \<Rightarrow> Some None
      | Some l \<Rightarrow> find_wlan (wlan_heap s) (\<lambda>wlan. wlanid = wl_wlanid wlan) (list_first l)) }"

definition ac_wlans_create_bssid ::
    "addr \<Rightarrow> nat \<Rightarrow> u8 \<Rightarrow> u8 list \<Rightarrow> capwap_80211_addwlan_element \<Rightarrow> ac_session \<Rightarrow> ac_session option" where
  "ac_wlans_create_bssid a device wlanid bssid addwlan s = do {
     ASSERT (IS_VALID_WLANID wlanid);
     key \<leftarrow> (case addwlan_key addwlan of
         Some k \<Rightarrow> if addwlan_keylength addwlan > 0 then do {
             ASSERT (unat (addwlan_keylength addwlan) \<le> length k);
             Some (Some (take (unat (addwlan_keylength addwlan)) k)) }
           else Some None
       | None \<Rightarrow> Some None);
     ssid \<leftarrow> addwlan_ssid addwlan;
     ASSERT (c_strlen ssid \<le> 32);
     let wlan = \<lparr>wl_device = device, wl_address = take 6 bssid, wl_wlanid = wlanid, wl_session = None,
       wl_aidbitfield = replicate IEEE80211_AID_BITFIELD_SIZE 0, wl_stations = capwap_list_create,
       wl_capability = addwlan_capability addwlan, wl_keyindex = addwlan_keyindex addwlan, wl_keystatus = addwlan_keystatus addwlan,
       wl_keylength = addwlan_keylength addwlan, wl_key = key, wl_grouptsc = addwlan_grouptsc addwlan, wl_qos = addwlan_qos addwlan,
       wl_authmode = addwlan_authmode addwlan, wl_macmode = addwlan_macmode addwlan, wl_tunnelmode = addwlan_tunnelmode addwlan,
       wl_suppressssid = addwlan_suppressssid addwlan,
       wl_ssid = take (c_strlen ssid) ssid @ replicate (33 - c_strlen ssid) 0\<rparr>;
     h \<leftarrow> capwap_itemlist_create a wlan 400 (wlan_heap s);
     Some (s\<lparr>wlan_heap := h\<rparr>) }"

definition ac_wlans_assign_bssid :: "addr \<Rightarrow> ac_session \<Rightarrow> (int \<times> ac_session) option" where
  "ac_wlans_assign_bssid a s = do {
     wlan \<leftarrow> wlan_at s a;
     device \<leftarrow> wlan_radio s wlan;
     ASSERT (IS_VALID_RADIOID (dev_radioid device));
     ASSERT (IS_VALID_WLANID (wl_wlanid wlan));
     found \<leftarrow> ac_wlans_get_bssid s (dev_radioid device) (wl_address wlan);
     if found \<noteq> None then Some (-1, s)
     else do {
       s \<leftarrow> set_wlan a (wl_session_update (\<lambda>_. Some (ses_id s))) s;
       let i = unat (dev_radioid device) - 1;
       wlans \<leftarrow> device_wlans s (dev_radioid device);
       let l = (case wlans of None \<Rightarrow> capwap_list_create | Some l \<Rightarrow> l);
       (h, l) \<leftarrow> capwap_itemlist_insert_after None a l (wlan_heap s);
       Some (0, s\<lparr>wlan_heap := h, devices := (devices s)[i := (devices s ! i)\<lparr>dev_wlans := Some l\<rparr>]\<rparr>) } }"

text \<open>
  The heap of the WLANs keeps what \<open>capwap_list_free\<close> does to the station list: it is flushed, which frees what it still has.
\<close>

definition ac_wlans_free_bssid :: "addr \<Rightarrow> ac_session \<Rightarrow> ac_session option" where
  "ac_wlans_free_bssid a s = do {
     wlan \<leftarrow> wlan_at s a;
     (sh, _) \<leftarrow> capwap_list_flush (wl_stations wlan) (station_heap s);
     (wh, _) \<leftarrow> capwap_itemlist_free a (wlan_heap s);
     Some (s\<lparr>station_heap := sh, wlan_heap := wh\<rparr>) }"

partial_function (option) remove_stations :: "addr \<Rightarrow> ac_session \<Rightarrow> ac_session option" where
  "remove_stations w s = do {
     wlan \<leftarrow> wlan_at s w;
     (case list_first (wl_stations wlan) of
        None \<Rightarrow> Some s
      | Some a \<Rightarrow> do {
          s \<leftarrow> ac_stations_destroy_station a s;
          remove_stations w s }) }"

definition ac_wlans_delete_bssid :: "u8 \<Rightarrow> u8 list \<Rightarrow> ac_session \<Rightarrow> ac_session option" where
  "ac_wlans_delete_bssid radioid bssid s = do {
     search \<leftarrow> ac_wlans_get_bssid s radioid bssid;
     (case search of
        None \<Rightarrow> Some s
      | Some w \<Rightarrow> do {
          s \<leftarrow> remove_stations w s;
          let i = unat radioid - 1;
          l \<leftarrow> dev_wlans (devices s ! i);
          (h, l) \<leftarrow> capwap_itemlist_remove w l (wlan_heap s);
          ac_wlans_free_bssid w (s\<lparr>wlan_heap := h, devices := (devices s)[i := (devices s ! i)\<lparr>dev_wlans := Some l\<rparr>]\<rparr>) }) }"

text \<open>The WLANs of the device \<open>i\<close> are deleted as long as its list has a first one.\<close>

partial_function (option) delete_wlans :: "nat \<Rightarrow> ac_session \<Rightarrow> ac_session option" where
  "delete_wlans i s = do {
     l \<leftarrow> dev_wlans (devices s ! i);
     (case list_first l of
        None \<Rightarrow> Some s
      | Some w \<Rightarrow> do {
          wlan \<leftarrow> wlan_at s w;
          s \<leftarrow> ac_wlans_delete_bssid (of_nat (i + 1)) (wl_address wlan) s;
          delete_wlans i s }) }"

definition ac_wlans_destroy :: "ac_session \<Rightarrow> ac_session option" where
  "ac_wlans_destroy s = do {
     ASSERT (length (devices s) = RADIOID_MAX_COUNT);
     s \<leftarrow> fold (\<lambda>i r. do {
         s \<leftarrow> r;
         if dev_wlans (devices s ! i) = None then Some s else delete_wlans i s }) [0..<RADIOID_MAX_COUNT] (Some s);
     ASSERT (hash_count (stations s) = 0);
     Some (s\<lparr>stations := capwap_hash_deleteall (stations s), devices := []\<rparr>) }"

subsection \<open>The life of a station\<close>

definition ac_stations_get_station :: "ac_session \<Rightarrow> u8 \<Rightarrow> u8 list option \<Rightarrow> u8 list \<Rightarrow> addr option option" where
  "ac_stations_get_station s radioid bssid address = do {
     found \<leftarrow> capwap_hash_search (wlans_callbacks (station_heap s)) (stations s) address;
     (case found of
        None \<Rightarrow> Some None
      | Some a \<Rightarrow> do {
          station \<leftarrow> station_at s a;
          if st_flags station AND AC_STATION_FLAGS_ENABLED = 0 then Some None
          else do {
            radio \<leftarrow> (if radioid = RADIOID_ANY then Some True
              else do {
                w \<leftarrow> st_wlan station;
                wlan \<leftarrow> wlan_at s w;
                device \<leftarrow> wlan_radio s wlan;
                Some (radioid = dev_radioid device) });
            match \<leftarrow> (if \<not> radio then Some False
              else case bssid of
                None \<Rightarrow> Some True
              | Some b \<Rightarrow> do {
                  w \<leftarrow> st_wlan station;
                  wlan \<leftarrow> wlan_at s w;
                  Some (memcmp b (wl_address wlan) = 0) });
            Some (if match then Some a else None) } }) }"

text \<open>The station of an address in the table of the session, created when there is none.\<close>

definition find_or_create_station :: "ac_environment \<Rightarrow> u8 list \<Rightarrow> ac_session \<Rightarrow> (addr \<times> ac_session) option" where
  "find_or_create_station env address s = do {
     found \<leftarrow> capwap_hash_search (wlans_callbacks (station_heap s)) (stations s) address;
     (case found of
        Some a \<Rightarrow> Some (a, s)
      | None \<Rightarrow> do {
          let a = env_address env;
          let station = \<lparr>st_address = take 6 address, st_flags = 0, st_wlan = None, st_session = ses_id s, st_timeoutaction = 0,
            st_idtimeout = CAPWAP_TIMEOUT_INDEX_NO_SET, st_capability = 0, st_listeninterval = 0, st_aid = 0,
            st_supportedratescount = 0, st_supportedrates = replicate 16 0, st_authalgorithm = 0\<rparr>;
          h \<leftarrow> capwap_itemlist_create a station 80 (station_heap s);
          table \<leftarrow> capwap_hash_add (wlans_callbacks h) (stations s) a;
          Some (a, s\<lparr>station_heap := h, stations := table\<rparr>) }) }"

text \<open>The part that makes this session the one that serves the station.\<close>

definition take_authority :: "addr \<Rightarrow> u8 list \<Rightarrow> ac_session \<Rightarrow> ac_session option" where
  "take_authority a address s = do {
     let cb = authstations_callbacks (station_heap s);
     authoritativestation \<leftarrow> capwap_hash_search cb (authstations s) address;
     authoritativesession \<leftarrow> (case authoritativestation of
         None \<Rightarrow> Some None
       | Some b \<Rightarrow> do { other \<leftarrow> station_at s b; Some (Some (st_session other)) });
     if authoritativesession \<noteq> Some (ses_id s) then do {
       table \<leftarrow> capwap_hash_add cb (authstations s) a;
       let s = s\<lparr>authstations := table\<rparr>;
       Some (case authoritativesession of
           Some session \<Rightarrow> send_action session (STATION_ROAMING address) s
         | None \<Rightarrow> s) }
     else Some s }"

definition ac_stations_create_station ::
    "ac_environment \<Rightarrow> u8 \<Rightarrow> u8 list \<Rightarrow> u8 list \<Rightarrow> ac_session \<Rightarrow> (addr option \<times> ac_session) option" where
  "ac_stations_create_station env radioid bssid address s = do {
     wlan \<leftarrow> ac_wlans_get_bssid s radioid bssid;
     (case wlan of
        None \<Rightarrow> Some (None, s)
      | Some w \<Rightarrow> do {
          (a, s) \<leftarrow> find_or_create_station env address s;
          s \<leftarrow> ac_stations_reset_station a (Some w) s;
          s \<leftarrow> set_station a (\<lambda>st. st\<lparr>st_flags := st_flags st OR AC_STATION_FLAGS_ENABLED\<rparr>) s;
          s \<leftarrow> take_authority a address s;
          Some (Some a, s) }) }"

definition ac_stations_authorize_station :: "addr \<Rightarrow> ac_session \<Rightarrow> ac_session option" where
  "ac_stations_authorize_station a s = do {
     station \<leftarrow> station_at s a;
     if st_flags station AND AC_STATION_FLAGS_AUTHENTICATED \<noteq> 0 \<and> st_flags station AND AC_STATION_FLAGS_ASSOCIATE \<noteq> 0 \<and>
        st_flags station AND AC_STATION_FLAGS_AUTHORIZED = 0 then do {
       w \<leftarrow> st_wlan station;
       wlan \<leftarrow> wlan_at s w;
       device \<leftarrow> wlan_radio s wlan;
       ASSERT (0 \<le> st_supportedratescount station \<and> nat (st_supportedratescount station) \<le> length (st_supportedrates station));
       Some (send_action (ses_id s) (IEEE80211_ADD_STATION
         \<lparr>add_radioid = dev_radioid device, add_address = st_address station, add_wlanid = wl_wlanid wlan,
          add_associationid = st_aid station, add_capabilities = st_capability station,
          add_supportedrates = take (nat (st_supportedratescount station)) (st_supportedrates station)\<rparr>) s) }
     else Some s }"

definition ac_stations_deauthorize_station :: "addr \<Rightarrow> ac_session \<Rightarrow> ac_session option" where
  "ac_stations_deauthorize_station a s = do {
     station \<leftarrow> station_at s a;
     if st_flags station AND AC_STATION_FLAGS_AUTHORIZED \<noteq> 0 then do {
       w \<leftarrow> st_wlan station;
       wlan \<leftarrow> wlan_at s w;
       device \<leftarrow> wlan_radio s wlan;
       s \<leftarrow> set_station a (\<lambda>st. st\<lparr>st_flags := st_flags st AND NOT (AC_STATION_FLAGS_AUTHENTICATED OR
              AC_STATION_FLAGS_ASSOCIATE OR AC_STATION_FLAGS_AUTHORIZED)\<rparr>) s;
       Some (send_action (ses_id s) (IEEE80211_DELETE_STATION (dev_radioid device) (st_address station)) s) }
     else if st_flags station AND AC_STATION_FLAGS_AUTHENTICATED \<noteq> 0 then do {
       w \<leftarrow> st_wlan station;
       wlan \<leftarrow> wlan_at s w;
       device \<leftarrow> wlan_radio s wlan;
       let frame = ieee80211_create_deauthentication
         \<lparr>de_bssid = wl_address wlan, de_station = st_address station, de_reasoncode = IEEE80211_REASON_PREV_AUTH_NOT_VALID\<rparr>;
       s \<leftarrow> set_station a (\<lambda>st. st\<lparr>st_flags := st_flags st AND NOT (AC_STATION_FLAGS_AUTHENTICATED OR AC_STATION_FLAGS_ASSOCIATE)\<rparr>) s;
       Some (s\<lparr>frames := frames s @ [(dev_radioid device, frame)]\<rparr>) }
     else Some s }"

definition ac_stations_delete_station :: "addr \<Rightarrow> ac_session \<Rightarrow> ac_session option" where
  "ac_stations_delete_station a s = do {
     s \<leftarrow> ac_stations_deauthorize_station a s;
     ac_stations_destroy_station a s }"

definition ac_stations_timeout :: "nat \<Rightarrow> addr \<Rightarrow> ac_session \<Rightarrow> ac_session option" where
  "ac_stations_timeout index a s = do {
     station \<leftarrow> station_at s a;
     if st_idtimeout station = index \<and> st_timeoutaction station = AC_STATION_TIMEOUT_ACTION_DEAUTHENTICATE
     then ac_stations_delete_station a s else Some s }"

subsection \<open>Assignments\<close>

definition upd_station :: "addr \<Rightarrow> (ac_station \<Rightarrow> ac_station) \<Rightarrow> ac_session \<Rightarrow> ac_session" where
  "upd_station a f s = s\<lparr>station_heap := (station_heap s)(a := map_option (li_item_update (map_option f)) (station_heap s a))\<rparr>"

definition upd_wlan :: "addr \<Rightarrow> (ac_wlan \<Rightarrow> ac_wlan) \<Rightarrow> ac_session \<Rightarrow> ac_session" where
  "upd_wlan a f s = s\<lparr>wlan_heap := (wlan_heap s)(a := map_option (li_item_update (map_option f)) (wlan_heap s a))\<rparr>"

lemma set_station_eq: "set_station a f s = (case station_at s a of None \<Rightarrow> None | Some _ \<Rightarrow> Some (upd_station a f s))"
  by (auto simp: set_station_def station_at_def upd_station_def set_item_def split: option.splits Option.bind_splits)

lemma set_wlan_eq: "set_wlan a f s = (case wlan_at s a of None \<Rightarrow> None | Some _ \<Rightarrow> Some (upd_wlan a f s))"
  by (auto simp: set_wlan_def wlan_at_def upd_wlan_def set_item_def split: option.splits Option.bind_splits)

lemma station_at_upd [simp]: "station_at (upd_station a f s) b = (if b = a then map_option f (station_at s a) else station_at s b)"
  by (cases "station_heap s a") (auto simp: station_at_def upd_station_def)

lemma wlan_at_upd [simp]: "wlan_at (upd_wlan a f s) b = (if b = a then map_option f (wlan_at s a) else wlan_at s b)"
  by (cases "wlan_heap s a") (auto simp: wlan_at_def upd_wlan_def)

lemma upd_station_fields [simp]:
  "wlan_at (upd_station a f s) = wlan_at s" "wlan_radio (upd_station a f s) = wlan_radio s"
  "ses_id (upd_station a f s) = ses_id s" "ses_timeout (upd_station a f s) = ses_timeout s"
  "devices (upd_station a f s) = devices s" "stations (upd_station a f s) = stations s"
  "authstations (upd_station a f s) = authstations s" "wlan_heap (upd_station a f s) = wlan_heap s"
  "actions (upd_station a f s) = actions s" "frames (upd_station a f s) = frames s"
  by (auto simp: upd_station_def wlan_at_def wlan_radio_def fun_eq_iff)

lemma upd_wlan_fields [simp]:
  "station_at (upd_wlan a f s) = station_at s" "wlan_radio (upd_wlan a f s) = wlan_radio s"
  "ses_id (upd_wlan a f s) = ses_id s" "ses_timeout (upd_wlan a f s) = ses_timeout s"
  "devices (upd_wlan a f s) = devices s" "stations (upd_wlan a f s) = stations s"
  "authstations (upd_wlan a f s) = authstations s" "station_heap (upd_wlan a f s) = station_heap s"
  "actions (upd_wlan a f s) = actions s" "frames (upd_wlan a f s) = frames s"
  by (auto simp: upd_wlan_def station_at_def wlan_radio_def fun_eq_iff)

lemma session_updates [simp]:
  "station_at (s\<lparr>ses_timeout := t\<rparr>) = station_at s" "station_at (s\<lparr>actions := x\<rparr>) = station_at s"
  "station_at (s\<lparr>frames := y\<rparr>) = station_at s" "station_at (s\<lparr>authstations := z\<rparr>) = station_at s"
  "station_at (s\<lparr>stations := z\<rparr>) = station_at s" "station_at (s\<lparr>devices := d\<rparr>) = station_at s"
  "station_at (s\<lparr>wlan_heap := wh\<rparr>) = station_at s" "wlan_at (s\<lparr>station_heap := sh\<rparr>) = wlan_at s"
  "wlan_at (s\<lparr>ses_timeout := t\<rparr>) = wlan_at s" "wlan_at (s\<lparr>actions := x\<rparr>) = wlan_at s"
  "wlan_at (s\<lparr>frames := y\<rparr>) = wlan_at s" "wlan_at (s\<lparr>authstations := z\<rparr>) = wlan_at s"
  "wlan_at (s\<lparr>stations := z\<rparr>) = wlan_at s" "wlan_at (s\<lparr>devices := d\<rparr>) = wlan_at s"
  "wlan_radio (s\<lparr>ses_timeout := t\<rparr>) = wlan_radio s" "wlan_radio (s\<lparr>actions := x\<rparr>) = wlan_radio s"
  "wlan_radio (s\<lparr>frames := y\<rparr>) = wlan_radio s" "wlan_radio (s\<lparr>authstations := z\<rparr>) = wlan_radio s"
  "wlan_radio (s\<lparr>stations := z\<rparr>) = wlan_radio s" "wlan_radio (s\<lparr>station_heap := sh\<rparr>) = wlan_radio s"
  "wlan_radio (s\<lparr>wlan_heap := wh\<rparr>) = wlan_radio s"
  by (auto simp: station_at_def wlan_at_def wlan_radio_def fun_eq_iff)

lemma send_action_fields [simp]:
  "station_at (send_action x y s) = station_at s" "wlan_at (send_action x y s) = wlan_at s" "frames (send_action x y s) = frames s"
  "actions (send_action x y s) = actions s @ [(x, y)]" "ses_id (send_action x y s) = ses_id s"
  by (simp_all add: send_action_def)

subsection \<open>The contract of the hash tables\<close>

lemma memcmp_eq [simp]: "memcmp xs ys = 0 \<longleftrightarrow> xs = ys"
  by (induction xs ys rule: memcmp.induct) auto

lemma memcmp_sym: "memcmp xs ys < 0 \<longleftrightarrow> memcmp ys xs > 0"
  by (induction xs ys rule: memcmp.induct) auto

lemma memcmp_Cons_less: "memcmp (x # xs) (y # ys) < 0 \<longleftrightarrow> x < y \<or> x = y \<and> memcmp xs ys < 0"
  by auto

lemma memcmp_Nil_less: "memcmp xs [] < 0 \<longleftrightarrow> False" "memcmp [] ys < 0 \<longleftrightarrow> ys \<noteq> []"
  by (cases xs; simp) (cases ys; simp)

lemma memcmp_trans: "memcmp xs ys < 0 \<Longrightarrow> memcmp ys zs < 0 \<Longrightarrow> memcmp xs zs < 0"
proof (induction xs arbitrary: ys zs)
  case Nil
  then show ?case by (cases ys; cases zs) simp_all
next
  case (Cons x xs)
  then obtain y ys' z zs' where "ys = y # ys'" "zs = z # zs'"
    by (cases ys; cases zs) auto
  then show ?case using Cons by (auto simp: memcmp_Cons_less simp del: memcmp.simps)
qed

lemma callbacks_simps [simp]:
  "item_gethash (wlans_callbacks h) = ac_wlans_item_gethash" "item_getkey (wlans_callbacks h) = ac_wlans_item_getkey h"
  "item_cmp (wlans_callbacks h) = memcmp"
  "item_gethash (authstations_callbacks h) = ac_stations_item_gethash" "item_getkey (authstations_callbacks h) = ac_wlans_item_getkey h"
  "item_cmp (authstations_callbacks h) = memcmp"
  by (simp_all add: wlans_callbacks_def authstations_callbacks_def)

lemma gethash_bounds [simp]: "ac_wlans_item_gethash k n < 256" "ac_stations_item_gethash k n < 65536"
  by (simp_all add: ac_wlans_item_gethash_def ac_stations_item_gethash_def)

interpretation own: hash_client "wlans_callbacks h" AC_WLANS_STATIONS_HASH_SIZE for h
  by unfold_locales (auto simp flip: memcmp_sym intro: memcmp_trans)

interpretation global: hash_client "authstations_callbacks h" AC_STATIONS_HASH_SIZE for h
  by unfold_locales (auto simp flip: memcmp_sym intro: memcmp_trans)

subsection \<open>Association identifiers\<close>

text \<open>The search for a free identifier is the one for a free timer, up to the largest identifier.\<close>

lemma full_word: "(b :: u32) \<noteq> 0xffffffff \<Longrightarrow> \<exists>j<32. \<not> bit b j"
proof (rule ccontr)
  assume b: "b \<noteq> 0xffffffff" "\<not> (\<exists>j<32. \<not> bit b j)"
  have "b = mask 32" using b(2) by (intro bit_word_eqI) (auto simp: bit_mask_iff)
  then show False using b(1) by (simp add: mask_eq_exp_minus_1)
qed

lemma set_bitfield_loop_ge: "set_bitfield_loop i bs = (v, bs') \<Longrightarrow> v = 0 \<or> i * 32 < v"
  using set_bitfield_loop [of i bs v bs'] by auto

lemma aid_create_loop_eq:
  assumes "i * 32 + 32 * length bs \<le> 2016"
  shows "aid_create_loop i bs =
     (let (v, bs') = set_bitfield_loop i bs in if v \<noteq> 0 \<and> v \<le> 2007 then Some (of_nat v, bs') else None)"
  using assms
proof (induction bs arbitrary: i)
  case (Cons b bs)
  show ?case
  proof (cases "b = 0xffffffff")
    case True
    then show ?thesis using Cons.IH [of "i + 1"] Cons.prems
      by (auto simp: set_bitfield_loop_Cons Let_def split: prod.splits)
  next
    case False
    then obtain j where "find (\<lambda>j. \<not> bit b j) [0..<32] = Some j"
      using full_word [OF False] by (cases "find (\<lambda>j. \<not> bit b j) [0..<32]") (auto simp: find_None_iff)
    then show ?thesis using False
      by (simp add: set_bitfield_loop_Cons and_exp_eq_0_iff_not_bit push_bit_of_1)
  qed
qed (simp add: CAPWAP_TIMEOUT_INDEX_NO_SET_def)

text \<open>The identifiers in use.\<close>

definition aid_used :: "u32 list \<Rightarrow> nat set" where
  "aid_used bits = Suc ` used_bits bits"

lemma aid_create_result:
  assumes "length bits = 63" "ieee80211_aid_create bits = (result, aid, bits')"
  shows "if {1..2007} \<subseteq> aid_used bits then result = -1 \<and> aid = 0 \<and> bits' = bits
    else result = 0 \<and> unat aid \<in> {1..2007} - aid_used bits \<and> {1..<unat aid} \<subseteq> aid_used bits \<and>
      aid_used bits' = insert (unat aid) (aid_used bits) \<and> length bits' = 63"
proof -
  obtain v bs where v: "set_bitfield_loop 0 bits = (v, bs)" by fastforce
  have loop: "aid_create_loop 0 bits = (if v \<noteq> 0 \<and> v \<le> 2007 then Some (of_nat v, bs) else None)"
    using aid_create_loop_eq [of 0 bits] assms(1) v by simp
  consider (full) "v = 0" "used_bits bits = {..<2016}"
    | (free) p where "v = p + 1" "p \<notin> used_bits bits" "used_bits bs = insert p (used_bits bits)" "{..<p} \<subseteq> used_bits bits" "length bs = 63"
    using set_bitfield_loop [OF v] assms(1) by auto
  then show ?thesis
  proof cases
    case full
    then have "aid_used bits = {1..2016}" by (simp add: aid_used_def image_Suc_lessThan)
    then show ?thesis using full loop assms(2) by (simp add: ieee80211_aid_create_def)
  next
    case free
    have "Suc ` {..<p} \<subseteq> aid_used bits" unfolding aid_used_def using free(4) by (rule image_mono)
    then have below: "{1..<v} \<subseteq> aid_used bits"
      using free(1) by (simp add: image_Suc_lessThan atLeastLessThanSuc_atLeastAtMost)
    have new: "v \<notin> aid_used bits" "aid_used bs = insert v (aid_used bits)" using free(1-3) by (auto simp: aid_used_def)
    show ?thesis
    proof (cases "v \<le> 2007")
      case True
      then have "v \<in> {1..2007}" using free(1) by simp
      then have "\<not> {1..2007} \<subseteq> aid_used bits" using new(1) by blast
      moreover have "unat (of_nat v :: u16) = v" using True by (simp add: unat_of_nat)
      ultimately show ?thesis using loop assms(2) True free(1,5) new below by (simp add: ieee80211_aid_create_def)
    next
      case False
      then have "{1..2007} \<subseteq> {1..<v}" by auto
      then show ?thesis using loop assms(2) False below by (simp add: ieee80211_aid_create_def)
    qed
  qed
qed

text \<open>
  C18. Association identifiers are not given out twice: the function finds the smallest of 1 to 2007 that is not in use and marks it,
  and fails, without a change, exactly when all of them are in use.
\<close>
theorem aid_fresh:
  assumes "length bits = 63"
  shows "case ieee80211_aid_create bits of (result, aid, bits') \<Rightarrow>
    if {1..2007} \<subseteq> aid_used bits then result = -1 \<and> aid = 0 \<and> bits' = bits
    else result = 0 \<and> unat aid \<in> {1..2007} - aid_used bits \<and> {1..<unat aid} \<subseteq> aid_used bits \<and>
      aid_used bits' = insert (unat aid) (aid_used bits)"
proof -
  obtain result aid bits' where r: "ieee80211_aid_create bits = (result, aid, bits')" by (metis prod_cases3)
  show ?thesis using aid_create_result [OF assms r] unfolding r prod.case by presburger
qed

theorem aid_fresh_witness:
  "case ieee80211_aid_create (replicate 63 0) of (result, aid, bits') \<Rightarrow> result = 0 \<and> unat aid \<in> {1..2007} \<and> aid_used bits' = {unat aid}"
proof -
  have none: "aid_used (replicate 63 0) = {}" by (auto simp: aid_used_def used_bits_def)
  then have "\<not> {1..2007} \<subseteq> aid_used (replicate 63 0)" by auto
  then show ?thesis using aid_fresh [of "replicate 63 0"] none by (auto split: prod.splits)
qed

subsection \<open>What is sent\<close>

text \<open>The requests to add a station, in the order in which they are sent.\<close>

definition additions :: "ac_session \<Rightarrow> (addr \<times> add_station) list" where
  "additions s = List.map_filter (\<lambda>(session, action). case action of IEEE80211_ADD_STATION n \<Rightarrow> Some (session, n) | _ \<Rightarrow> None) (actions s)"

lemma additions_snoc [simp]:
  "additions (send_action x (IEEE80211_ADD_STATION n) s) = additions s @ [(x, n)]"
  "additions (send_action x (IEEE80211_DELETE_STATION r m) s) = additions s"
  "additions (send_action x (STATION_ROAMING m) s) = additions s"
  by (simp_all add: additions_def map_filter_def)

text \<open>The functions that only change the objects send nothing.\<close>

definition silent :: "ac_session \<Rightarrow> ac_session \<Rightarrow> bool" where
  "silent s s' \<longleftrightarrow> actions s' = actions s \<and> frames s' = frames s \<and> ses_id s' = ses_id s"

lemma silent_refl [simp]: "silent s s"
  by (simp add: silent_def)

lemma silent_trans: "silent s s' \<Longrightarrow> silent s' s'' \<Longrightarrow> silent s s''"
  by (simp add: silent_def)

lemma silent_set_station: "set_station a f s = Some s' \<Longrightarrow> silent s s'"
  by (auto simp: set_station_eq silent_def split: option.splits)

lemma silent_set_wlan: "set_wlan a f s = Some s' \<Longrightarrow> silent s s'"
  by (auto simp: set_wlan_eq silent_def split: option.splits)

lemma silent_heap [simp]:
  "silent s (s'\<lparr>station_heap := h\<rparr>) = silent s s'" "silent (s\<lparr>station_heap := h\<rparr>) s' = silent s s'"
  "silent (s\<lparr>ses_timeout := t\<rparr>) s' = silent s s'" "silent (s\<lparr>authstations := x\<rparr>) s' = silent s s'"
  "silent s (s'\<lparr>authstations := x\<rparr>) = silent s s'" "silent s (s'\<lparr>stations := x\<rparr>) = silent s s'"
  "silent s (s'\<lparr>stations := x, station_heap := h\<rparr>) = silent s s'" "silent s (s'\<lparr>station_heap := h, stations := x\<rparr>) = silent s s'"
  by (simp_all add: silent_def)

lemma silent_release_aid: "release_aid a w s = Some s' \<Longrightarrow> silent s s'"
  unfolding release_aid_def
  by (auto simp: bind_eq_Some_conv split: if_splits dest!: silent_set_station silent_set_wlan intro: silent_trans)

lemma silent_leave: "leave_wlan a s = Some s' \<Longrightarrow> silent s s'"
  unfolding leave_wlan_def
  by (auto simp: bind_eq_Some_conv split: option.splits dest!: silent_release_aid silent_set_wlan simp: silent_def)

lemma silent_stop: "stop_timer a s = Some s' \<Longrightarrow> silent s s'"
  unfolding stop_timer_def
  by (auto simp: bind_eq_Some_conv split: if_splits dest!: silent_set_station)

lemma silent_join: "join_wlan a newwlan s = Some s' \<Longrightarrow> silent s s'"
  unfolding join_wlan_def
  by (auto simp: bind_eq_Some_conv split: option.splits dest!: silent_set_wlan)

lemma silent_reset: "ac_stations_reset_station a newwlan s = Some s' \<Longrightarrow> silent s s'"
  unfolding ac_stations_reset_station_def bind_eq_Some_conv
  by (blast dest: silent_leave silent_stop silent_set_station silent_join intro: silent_trans)

lemma silent_destroy: "ac_stations_destroy_station a s = Some s' \<Longrightarrow> silent s s'"
  unfolding ac_stations_destroy_station_def Let_def
  by (auto simp: bind_eq_Some_conv split: option.splits if_splits dest!: silent_reset)

lemma silent_find_or_create: "find_or_create_station env address s = Some (a, s') \<Longrightarrow> silent s s'"
  unfolding find_or_create_station_def Let_def bind_eq_Some_conv
  by (elim exE conjE) (simp add: bind_eq_Some_conv split: option.splits, elim exE conjE, hypsubst, simp)

lemma additions_upd:
  "additions (upd_station a f s) = additions s" "additions (s\<lparr>frames := x\<rparr>) = additions s"
  by (simp_all add: additions_def)

lemma deauthorize_cases:
  assumes "ac_stations_deauthorize_station a s = Some s'" "station_at s a = Some st"
  obtains (authorized) f x where "st_flags st AND AC_STATION_FLAGS_AUTHORIZED \<noteq> 0"
      "s' = send_action (ses_id s) (IEEE80211_DELETE_STATION x (st_address st)) (upd_station a f s)"
    | (authenticated) f x frame where "st_flags st AND AC_STATION_FLAGS_AUTHORIZED = 0" "st_flags st AND AC_STATION_FLAGS_AUTHENTICATED \<noteq> 0"
      "s' = (upd_station a f s)\<lparr>frames := frames s @ [(x, frame)]\<rparr>"
    | (neither) "st_flags st AND AC_STATION_FLAGS_AUTHORIZED = 0" "st_flags st AND AC_STATION_FLAGS_AUTHENTICATED = 0" "s' = s"
proof -
  consider "st_flags st AND AC_STATION_FLAGS_AUTHORIZED \<noteq> 0"
    | "st_flags st AND AC_STATION_FLAGS_AUTHORIZED = 0" "st_flags st AND AC_STATION_FLAGS_AUTHENTICATED \<noteq> 0"
    | "st_flags st AND AC_STATION_FLAGS_AUTHORIZED = 0" "st_flags st AND AC_STATION_FLAGS_AUTHENTICATED = 0" by blast
  then show thesis
  proof cases
    case 1
    then show ?thesis
      using assms authorized unfolding ac_stations_deauthorize_station_def
      by (auto simp: set_station_eq bind_eq_Some_conv)
  next
    case 2
    then show ?thesis
      using assms authenticated unfolding ac_stations_deauthorize_station_def
      by (auto simp: set_station_eq bind_eq_Some_conv Let_def)
  next
    case 3
    then show ?thesis
      using assms neither unfolding ac_stations_deauthorize_station_def by simp
  qed
qed

lemma deauthorize_sent:
  assumes "ac_stations_deauthorize_station a s = Some s'" "station_at s a = Some st"
  shows "additions s' = additions s \<and> (st_flags st AND AC_STATION_FLAGS_AUTHENTICATED = 0 \<longrightarrow> frames s' = frames s)"
  using assms
proof (cases rule: deauthorize_cases)
  case (authorized f x)
  show ?thesis unfolding authorized(2) by (simp add: additions_upd)
next
  case (authenticated f x frame)
  then show ?thesis unfolding authenticated(3) by (simp add: additions_upd)
qed simp

lemma delete_sent:
  assumes "ac_stations_delete_station a s = Some s'" "station_at s a = Some st"
  shows "additions s' = additions s" "st_flags st AND AC_STATION_FLAGS_AUTHENTICATED = 0 \<Longrightarrow> frames s' = frames s"
proof -
  obtain s1 where s1: "ac_stations_deauthorize_station a s = Some s1" "ac_stations_destroy_station a s1 = Some s'"
    using assms(1) by (auto simp: ac_stations_delete_station_def bind_eq_Some_conv)
  show "additions s' = additions s"
    using deauthorize_sent [OF s1(1) assms(2)] silent_destroy [OF s1(2)] by (simp add: silent_def additions_def)
  show "st_flags st AND AC_STATION_FLAGS_AUTHENTICATED = 0 \<Longrightarrow> frames s' = frames s"
    using deauthorize_sent [OF s1(1) assms(2)] silent_destroy [OF s1(2)] by (simp add: silent_def)
qed

lemma delete_station_at: "ac_stations_delete_station a s = Some s' \<Longrightarrow> \<exists>st. station_at s a = Some st"
  by (auto simp: ac_stations_delete_station_def ac_stations_deauthorize_station_def bind_eq_Some_conv)

lemma additions_authstations [simp]: "additions (s\<lparr>authstations := t\<rparr>) = additions s"
  by (simp add: additions_def)

lemma take_authority_sent:
  assumes "take_authority a address s = Some s'"
  shows "additions s' = additions s \<and> frames s' = frames s \<and> ses_id s' = ses_id s"
proof -
  obtain ya where
    "(if ya \<noteq> Some (ses_id s)
      then do {
        table \<leftarrow> capwap_hash_add (authstations_callbacks (station_heap s)) (authstations s) a;
        Some (case ya of Some session \<Rightarrow> send_action session (STATION_ROAMING address) (s\<lparr>authstations := table\<rparr>) | None \<Rightarrow> s\<lparr>authstations := table\<rparr>) }
      else Some s) = Some s'"
    using assms unfolding take_authority_def Let_def bind_eq_Some_conv by blast
  then show ?thesis
    by (cases ya) (auto simp: bind_eq_Some_conv split: if_splits)
qed

lemma create_sent:
  assumes "ac_stations_create_station env radioid bssid address s = Some (r, s')"
  shows "additions s' = additions s \<and> frames s' = frames s \<and> ses_id s' = ses_id s"
proof -
  obtain wlan where w: "ac_wlans_get_bssid s radioid bssid = Some wlan"
    using assms by (auto simp: ac_stations_create_station_def bind_eq_Some_conv)
  show ?thesis
  proof (cases wlan)
    case None
    then show ?thesis using assms w by (simp add: ac_stations_create_station_def)
  next
    case (Some w')
    then obtain a s1 s2 s3 where "find_or_create_station env address s = Some (a, s1)"
      "ac_stations_reset_station a (Some w') s1 = Some s2" 
      "set_station a (\<lambda>st. st\<lparr>st_flags := st_flags st OR AC_STATION_FLAGS_ENABLED\<rparr>) s2 = Some s3" "take_authority a address s3 = Some s'"
      using assms w by (auto simp: ac_stations_create_station_def bind_eq_Some_conv)
    from this(1-3) have "silent s s1" "silent s1 s2" "silent s2 s3"
      by (blast dest: silent_find_or_create silent_reset silent_set_station)+
    then show ?thesis
      using take_authority_sent [OF \<open>take_authority a address s3 = Some s'\<close>] by (simp add: silent_def additions_def)
  qed
qed

lemma authorize_sent:
  assumes "ac_stations_authorize_station a s = Some s'" "station_at s a = Some st"
  shows "if st_flags st AND AC_STATION_FLAGS_AUTHENTICATED \<noteq> 0 \<and> st_flags st AND AC_STATION_FLAGS_ASSOCIATE \<noteq> 0 \<and>
      st_flags st AND AC_STATION_FLAGS_AUTHORIZED = 0
    then \<exists>n. add_address n = st_address st \<and> additions s' = additions s @ [(ses_id s, n)] else s' = s"
  using assms unfolding ac_stations_authorize_station_def
  by (auto simp: bind_eq_Some_conv split: if_splits)

end
