(* ===== verification/Ac_Ieee80211.thy ===== *)
theory Ac_Ieee80211
  imports Ac_Wlans
begin

text \<open>
  What the access controller does with the management frames of stations that a WTP tunnels to it, \<open>ac/ac_ieee80211_data.c\<close>, and
  with the answers of the WTP to its own requests about stations, \<open>ac/ac_dfa_run.c\<close>. The offsets of the fields are those of
  \<open>struct ieee80211_header_mgmt\<close>; the length of a frame is the one of the list of its bytes.
\<close>

subsection \<open>Fields of a frame\<close>

abbreviation mgmt_da :: "u8 list \<Rightarrow> u8 list" where
  "mgmt_da \<equiv> header_address 1"

abbreviation mgmt_sa :: "u8 list \<Rightarrow> u8 list" where
  "mgmt_sa \<equiv> header_address 2"

abbreviation mgmt_bssid :: "u8 list \<Rightarrow> u8 list" where
  "mgmt_bssid \<equiv> header_address 3"

abbreviation mgmt_u16 :: "nat \<Rightarrow> u8 list \<Rightarrow> u16" where
  "mgmt_u16 offset mgmt \<equiv> le16 (mgmt ! offset) (mgmt ! Suc offset)"

text \<open>The elements that follow the fixed fields, when they can be parsed.\<close>

definition mgmt_elements :: "nat \<Rightarrow> u8 list \<Rightarrow> ieee80211_ie_items option option" where
  "mgmt_elements offset mgmt = do {
     (result, items) \<leftarrow> ieee80211_retrieve_information_elements_position (drop offset mgmt) (int (length mgmt) - int offset);
     Some (if result \<noteq> 0 then None else Some items) }"

abbreviation "IEEE80211_STATUS_SUCCESS \<equiv> 0 :: u16"
abbreviation "IEEE80211_STATUS_UNSPECIFIED_FAILURE \<equiv> 1 :: u16"
abbreviation "IEEE80211_STATUS_NOT_SUPPORTED_AUTHENTICATION_ALGORITHM \<equiv> 13 :: u16"
abbreviation "IEEE80211_STATUS_UNKNOWN_AUTHENTICATION_TRANSACTION \<equiv> 14 :: u16"
abbreviation "IEEE80211_STATUS_AP_UNABLE_TO_HANDLE_NEW_STA \<equiv> 17 :: u16"
abbreviation "IEEE80211_AUTHENTICATION_ALGORITHM_OPEN \<equiv> 0 :: u16"
abbreviation "IEEE80211_AID_FIELD \<equiv> 0xC000 :: u16"

subsection \<open>Authentication\<close>

text \<open>The answer of the access controller, for a WLAN with a split MAC.\<close>

definition authentication_split :: "ac_environment \<Rightarrow> addr \<Rightarrow> addr \<Rightarrow> u8 list \<Rightarrow> ac_session \<Rightarrow> ac_session option" where
  "authentication_split env a w mgmt s = do {
     wlan \<leftarrow> wlan_at s w;
     device \<leftarrow> wlan_radio s wlan;
     items \<leftarrow> mgmt_elements 30 mgmt;
     if items = None then Some s
     else do {
       let algorithm = mgmt_u16 24 mgmt;
       let transactionseqnumber = mgmt_u16 26 mgmt;
       let opensystem = algorithm = IEEE80211_AUTHENTICATION_ALGORITHM_OPEN \<and> wl_authmode wlan = CAPWAP_ADD_WLAN_AUTHTYPE_OPEN;
       let responsestatuscode =
         (if opensystem then
            if transactionseqnumber = 1 then IEEE80211_STATUS_SUCCESS else IEEE80211_STATUS_UNKNOWN_AUTHENTICATION_TRANSACTION
          else IEEE80211_STATUS_NOT_SUPPORTED_AUTHENTICATION_ALGORITHM);
       s \<leftarrow> (if opensystem \<and> transactionseqnumber = 1
             then set_station a (st_authalgorithm_update (\<lambda>_. IEEE80211_AUTHENTICATION_ALGORITHM_OPEN)) s else Some s);
       let response = ieee80211_create_authentication_response
         \<lparr>au_bssid = wl_address wlan, au_station = mgmt_sa mgmt, au_algorithm = algorithm,
          au_transactionseqnumber = transactionseqnumber + 1, au_statuscode = responsestatuscode\<rparr>;
       let s = s\<lparr>frames := frames s @ [(dev_radioid device, response)]\<rparr>;
       if env_send env (dev_radioid device) response = 0
       then set_station a (\<lambda>st. st\<lparr>st_flags := st_flags st OR AC_STATION_FLAGS_AUTHENTICATED\<rparr>) s
       else ac_stations_delete_station a s } }"

definition authentication_request :: "ac_environment \<Rightarrow> u8 \<Rightarrow> u8 list \<Rightarrow> ac_session \<Rightarrow> ac_session option" where
  "authentication_request env radioid mgmt s = do {
     (station, s) \<leftarrow> ac_stations_create_station env radioid (mgmt_bssid mgmt) (mgmt_sa mgmt) s;
     (case station of
        None \<Rightarrow> Some s
      | Some a \<Rightarrow> do {
          st \<leftarrow> station_at s a;
          (case st_wlan st of
             None \<Rightarrow> Some s
           | Some w \<Rightarrow> do {
               s \<leftarrow> set_station a (st_timeoutaction_update (\<lambda>_. AC_STATION_TIMEOUT_ACTION_DEAUTHENTICATE)) s;
               (idtimeout, timeout) \<leftarrow> capwap_timeout_set (env_timer env) (env_now env) (st_idtimeout st)
                 AC_STATION_TIMEOUT_ASSOCIATION_COMPLETE (Some Ac_Stations_Timeout) (Some a) (Some (ses_id s)) (ses_timeout s);
               s \<leftarrow> set_station a (st_idtimeout_update (\<lambda>_. idtimeout)) (s\<lparr>ses_timeout := timeout\<rparr>);
               wlan \<leftarrow> wlan_at s w;
               if wl_macmode wlan = CAPWAP_ADD_WLAN_MACMODE_SPLIT then authentication_split env a w mgmt s else Some s }) }) }"

definition authentication_response :: "u8 \<Rightarrow> u8 list \<Rightarrow> ac_session \<Rightarrow> ac_session option" where
  "authentication_response radioid mgmt s = do {
     station \<leftarrow> ac_stations_get_station s radioid (Some (mgmt_bssid mgmt)) (mgmt_da mgmt);
     (case station of
        None \<Rightarrow> Some s
      | Some a \<Rightarrow> do {
          st \<leftarrow> station_at s a;
          (case st_wlan st of
             None \<Rightarrow> Some s
           | Some w \<Rightarrow> do {
               wlan \<leftarrow> wlan_at s w;
               if wl_macmode wlan = CAPWAP_ADD_WLAN_MACMODE_LOCAL \<and> mgmt_u16 28 mgmt = IEEE80211_STATUS_SUCCESS \<and>
                  mgmt_u16 24 mgmt = IEEE80211_AUTHENTICATION_ALGORITHM_OPEN \<and> mgmt_u16 26 mgmt = 2
               then set_station a (\<lambda>st. st\<lparr>st_flags := st_flags st OR AC_STATION_FLAGS_AUTHENTICATED\<rparr>) s
               else Some s }) }) }"

definition ac_ieee80211_mgmt_authentication_packet :: "ac_environment \<Rightarrow> u8 \<Rightarrow> u8 list \<Rightarrow> ac_session \<Rightarrow> ac_session option" where
  "ac_ieee80211_mgmt_authentication_packet env radioid mgmt s = do {
     items \<leftarrow> mgmt_elements 30 mgmt;
     if items = None then Some s
     else if memcmp (mgmt_bssid mgmt) (mgmt_sa mgmt) \<noteq> 0 \<and> memcmp (mgmt_bssid mgmt) (mgmt_da mgmt) = 0
       then authentication_request env radioid mgmt s
     else if memcmp (mgmt_bssid mgmt) (mgmt_sa mgmt) = 0 \<and> memcmp (mgmt_bssid mgmt) (mgmt_da mgmt) \<noteq> 0
       then authentication_response radioid mgmt s
     else Some s }"

subsection \<open>Association\<close>

text \<open>The rates of the two elements, when there are some and they fit into a station; \<open>rates_set\<close> stores them.\<close>

definition element_rates :: "ieee80211_ie_items \<Rightarrow> u8 list option" where
  "element_rates items =
     (case ie_supported_rates items of
        None \<Rightarrow> None
      | Some p \<Rightarrow>
          let rates = ie_body p @ (case ie_extended_supported_rates items of None \<Rightarrow> [] | Some e \<Rightarrow> ie_body e)
          in if length rates \<le> IEEE80211_SUPPORTEDRATE_MAX_COUNT then Some rates else None)"

definition rates_set :: "u8 list \<Rightarrow> ac_station \<Rightarrow> ac_station" where
  "rates_set rates st =
     st\<lparr>st_supportedratescount := int (length rates),
        st_supportedrates := rates @ drop (length rates) (st_supportedrates st)\<rparr>"

text \<open>
  The decision about an association, for a WLAN with a split MAC: the status code, with a new association identifier for the
  station when it is accepted.
\<close>

definition association_status :: "addr \<Rightarrow> addr \<Rightarrow> u8 list \<Rightarrow> ieee80211_ie_items \<Rightarrow> ac_session \<Rightarrow> (u16 \<times> ac_session) option" where
  "association_status a w mgmt items s = do {
     wlan \<leftarrow> wlan_at s w;
     valid \<leftarrow> ieee80211_is_valid_ssid (wl_ssid wlan) (ie_ssid items) None;
     if valid \<noteq> IEEE80211_VALID_SSID then Some (IEEE80211_STATUS_UNSPECIFIED_FAILURE, s)
     else case element_rates items of
       None \<Rightarrow> Some (IEEE80211_STATUS_UNSPECIFIED_FAILURE, s)
     | Some rates \<Rightarrow> do {
         s \<leftarrow> set_station a (\<lambda>st. st\<lparr>st_capability := mgmt_u16 24 mgmt, st_listeninterval := mgmt_u16 26 mgmt\<rparr>) s;
         let (result, aid, bits) = ieee80211_aid_create (wl_aidbitfield wlan);
         s \<leftarrow> set_wlan w (wl_aidbitfield_update (\<lambda>_. bits)) s;
         s \<leftarrow> set_station a (st_aid_update (\<lambda>_. aid)) s;
         if result \<noteq> 0 then Some (IEEE80211_STATUS_AP_UNABLE_TO_HANDLE_NEW_STA, s)
         else do {
           s \<leftarrow> set_station a (rates_set rates) s;
           Some (IEEE80211_STATUS_SUCCESS, s) } } }"

text \<open>
  The structure with the parameters of the response is cleared with the size of another one, so the elements that are appended
  to the response (\<open>response_ies\<close>) are whatever the memory holds.
\<close>

definition association_split :: "ac_environment \<Rightarrow> addr \<Rightarrow> addr \<Rightarrow> u8 list \<Rightarrow> ac_session \<Rightarrow> ac_session option" where
  "association_split env a w mgmt s = do {
     wlan \<leftarrow> wlan_at s w;
     device \<leftarrow> wlan_radio s wlan;
     items \<leftarrow> mgmt_elements 28 mgmt;
     (case items of
        None \<Rightarrow> ac_stations_delete_station a s
      | Some items \<Rightarrow> do {
          (resultstatuscode, s) \<leftarrow> association_status a w mgmt items s;
          st \<leftarrow> station_at s a;
          ASSERT (dev_supportedratescount device \<le> IEEE80211_SUPPORTEDRATE_MAX_COUNT);
          response \<leftarrow> ieee80211_create_associationresponse_response
            \<lparr>as_bssid = wl_address wlan, as_station = mgmt_sa mgmt, as_capability = wl_capability wlan,
             as_statuscode = resultstatuscode, as_aid = IEEE80211_AID_FIELD OR st_aid st,
             as_supportedratescount = int (dev_supportedratescount device), as_supportedrates = dev_supportedrates device,
             as_response_ies = env_junk env\<rparr>;
          let s = s\<lparr>frames := frames s @ [(dev_radioid device, response)]\<rparr>;
          if env_send env (dev_radioid device) response = 0 then do {
            s \<leftarrow> set_station a (\<lambda>st. st\<lparr>st_flags := st_flags st OR AC_STATION_FLAGS_ASSOCIATE\<rparr>) s;
            ac_stations_authorize_station a s }
          else ac_stations_delete_station a s }) }"

definition ac_ieee80211_mgmt_association_request_packet :: "ac_environment \<Rightarrow> u8 \<Rightarrow> u8 list \<Rightarrow> ac_session \<Rightarrow> ac_session option" where
  "ac_ieee80211_mgmt_association_request_packet env radioid mgmt s = do {
     items \<leftarrow> mgmt_elements 28 mgmt;
     (case items of
        None \<Rightarrow> Some s
      | Some items \<Rightarrow>
          if memcmp (mgmt_bssid mgmt) (mgmt_sa mgmt) \<noteq> 0 \<and> memcmp (mgmt_bssid mgmt) (mgmt_da mgmt) = 0 then do {
            station \<leftarrow> ac_stations_get_station s radioid (Some (mgmt_bssid mgmt)) (mgmt_sa mgmt);
            (case station of
               None \<Rightarrow> Some s
             | Some a \<Rightarrow> do {
                 st \<leftarrow> station_at s a;
                 (case st_wlan st of
                    None \<Rightarrow> Some s
                  | Some w \<Rightarrow>
                      if st_flags st AND AC_STATION_FLAGS_AUTHENTICATED = 0 then ac_stations_delete_station a s
                      else do {
                        s \<leftarrow> set_station a (\<lambda>st. st\<lparr>st_capability := mgmt_u16 24 mgmt, st_listeninterval := mgmt_u16 26 mgmt\<rparr>) s;
                        (case element_rates items of
                           None \<Rightarrow> Some s
                         | Some rates \<Rightarrow> do {
                             s \<leftarrow> set_station a (rates_set rates) s;
                             wlan \<leftarrow> wlan_at s w;
                             if wl_macmode wlan = CAPWAP_ADD_WLAN_MACMODE_SPLIT then association_split env a w mgmt s
                             else Some s }) }) }) }
          else Some s) }"

definition ac_ieee80211_mgmt_association_response_packet :: "u8 \<Rightarrow> u8 list \<Rightarrow> ac_session \<Rightarrow> ac_session option" where
  "ac_ieee80211_mgmt_association_response_packet radioid mgmt s = do {
     items \<leftarrow> mgmt_elements 30 mgmt;
     (case items of
        None \<Rightarrow> Some s
      | Some items \<Rightarrow>
          if memcmp (mgmt_bssid mgmt) (mgmt_sa mgmt) = 0 \<and> memcmp (mgmt_bssid mgmt) (mgmt_da mgmt) \<noteq> 0 then do {
            station \<leftarrow> ac_stations_get_station s radioid (Some (mgmt_bssid mgmt)) (mgmt_da mgmt);
            (case station of
               None \<Rightarrow> Some s
             | Some a \<Rightarrow> do {
                 st \<leftarrow> station_at s a;
                 (case st_wlan st of
                    None \<Rightarrow> Some s
                  | Some w \<Rightarrow> do {
                      wlan \<leftarrow> wlan_at s w;
                      if wl_macmode wlan = CAPWAP_ADD_WLAN_MACMODE_LOCAL \<and> mgmt_u16 26 mgmt = IEEE80211_STATUS_SUCCESS then do {
                        s \<leftarrow> set_station a (\<lambda>st. st\<lparr>st_capability := mgmt_u16 24 mgmt, st_aid := mgmt_u16 28 mgmt,
                               st_flags := st_flags st OR AC_STATION_FLAGS_ASSOCIATE\<rparr>) s;
                        (case element_rates items of
                           None \<Rightarrow> Some s
                         | Some rates \<Rightarrow> do {
                             s \<leftarrow> set_station a (rates_set rates) s;
                             ac_stations_authorize_station a s }) }
                      else Some s }) }) }
          else Some s) }"

subsection \<open>Deauthentication and dispatch\<close>

definition ac_ieee80211_mgmt_deauthentication_packet :: "u8 \<Rightarrow> u8 list \<Rightarrow> ac_session \<Rightarrow> ac_session option" where
  "ac_ieee80211_mgmt_deauthentication_packet radioid mgmt s = do {
     items \<leftarrow> mgmt_elements 26 mgmt;
     if items = None then Some s
     else do {
       let stationaddress = (if memcmp (mgmt_bssid mgmt) (mgmt_sa mgmt) \<noteq> 0 then mgmt_sa mgmt else mgmt_da mgmt);
       station \<leftarrow> ac_stations_get_station s radioid None stationaddress;
       (case station of
          None \<Rightarrow> Some s
        | Some a \<Rightarrow> do {
            s \<leftarrow> set_station a (\<lambda>st. st\<lparr>st_flags := st_flags st AND NOT (AC_STATION_FLAGS_AUTHENTICATED OR AC_STATION_FLAGS_ASSOCIATE)\<rparr>) s;
            ac_stations_delete_station a s }) } }"

text \<open>
  The functions for the other frames parse the elements and do nothing else; probe requests that a WTP sent are not
  parsed.
\<close>

definition ignored_packet :: "nat \<Rightarrow> u8 list \<Rightarrow> ac_session \<Rightarrow> ac_session option" where
  "ignored_packet offset mgmt s = do { _ \<leftarrow> mgmt_elements offset mgmt; Some s }"

definition ac_ieee80211_mgmt_packet :: "ac_environment \<Rightarrow> u8 \<Rightarrow> u8 list \<Rightarrow> u16 \<Rightarrow> ac_session \<Rightarrow> ac_session option" where
  "ac_ieee80211_mgmt_packet env radioid mgmt framecontrol_subtype s =
     (let mgmtlength = length mgmt in
      if framecontrol_subtype = 4 then
        (if mgmtlength \<ge> 24 \<and> memcmp (mgmt_bssid mgmt) (mgmt_sa mgmt) \<noteq> 0 then ignored_packet 24 mgmt s else Some s)
      else if framecontrol_subtype = 11 then
        (if mgmtlength \<ge> 30 then ac_ieee80211_mgmt_authentication_packet env radioid mgmt s else Some s)
      else if framecontrol_subtype = 0 then
        (if mgmtlength \<ge> 28 then ac_ieee80211_mgmt_association_request_packet env radioid mgmt s else Some s)
      else if framecontrol_subtype = 1 then
        (if mgmtlength \<ge> 30 then ac_ieee80211_mgmt_association_response_packet radioid mgmt s else Some s)
      else if framecontrol_subtype = 2 then (if mgmtlength \<ge> 34 then ignored_packet 34 mgmt s else Some s)
      else if framecontrol_subtype = 3 then (if mgmtlength \<ge> 30 then ignored_packet 30 mgmt s else Some s)
      else if framecontrol_subtype = 10 then (if mgmtlength \<ge> 26 then ignored_packet 26 mgmt s else Some s)
      else if framecontrol_subtype = 12 then
        (if mgmtlength \<ge> 26 then ac_ieee80211_mgmt_deauthentication_packet radioid mgmt s else Some s)
      else Some s)"

definition ac_ieee80211_packet :: "ac_environment \<Rightarrow> u8 \<Rightarrow> u8 list \<Rightarrow> ac_session \<Rightarrow> ac_session option" where
  "ac_ieee80211_packet env radioid header s = do {
     ASSERT (IS_VALID_RADIOID radioid);
     ASSERT (length header \<ge> 24);
     let framecontrol = header_framecontrol header;
     if IEEE80211_FRAME_CONTROL_GET_TYPE framecontrol = IEEE80211_FRAMECONTROL_TYPE_MGMT
     then ac_ieee80211_mgmt_packet env radioid header (IEEE80211_FRAME_CONTROL_GET_SUBTYPE framecontrol) s
     else Some s }"

subsection \<open>Answers of the WTP\<close>

text \<open>
  The answer to the request that adds a station, given the station element of the request, the address it was about and
  whether the result code is one of success, and to the request that deletes one; and the action that a session receives when a
  station has moved to another session.
\<close>

definition execute_ieee80211_station_configuration_response_addstation ::
    "bool \<Rightarrow> u8 \<Rightarrow> u8 \<Rightarrow> u8 list \<Rightarrow> ac_session \<Rightarrow> ac_session option" where
  "execute_ieee80211_station_configuration_response_addstation ok radioid wlanid address s = do {
     wlan \<leftarrow> ac_wlans_get_bssid_with_wlanid s radioid wlanid;
     (case wlan of
        None \<Rightarrow> Some s
      | Some w \<Rightarrow> do {
          wl \<leftarrow> wlan_at s w;
          station \<leftarrow> ac_stations_get_station s radioid (Some (wl_address wl)) address;
          (case station of
             None \<Rightarrow> Some s
           | Some a \<Rightarrow>
               if ok then do {
                 s \<leftarrow> set_station a (\<lambda>st. st\<lparr>st_flags := st_flags st OR AC_STATION_FLAGS_AUTHORIZED\<rparr>) s;
                 st \<leftarrow> station_at s a;
                 timeout \<leftarrow> capwap_timeout_deletetimer (ses_timeout s) (st_idtimeout st);
                 set_station a (st_idtimeout_update (\<lambda>_. CAPWAP_TIMEOUT_INDEX_NO_SET)) (s\<lparr>ses_timeout := timeout\<rparr>) }
               else ac_stations_delete_station a s) }) }"

definition execute_ieee80211_station_configuration_response_deletestation ::
    "u8 \<Rightarrow> u8 list \<Rightarrow> ac_session \<Rightarrow> ac_session option" where
  "execute_ieee80211_station_configuration_response_deletestation radioid address s = do {
     station \<leftarrow> ac_stations_get_station s radioid None address;
     (case station of None \<Rightarrow> Some s | Some a \<Rightarrow> ac_stations_delete_station a s) }"

definition station_roaming :: "u8 list \<Rightarrow> ac_session \<Rightarrow> ac_session option" where
  "station_roaming address s = do {
     station \<leftarrow> ac_stations_get_station s RADIOID_ANY None address;
     (case station of None \<Rightarrow> Some s | Some a \<Rightarrow> ac_stations_delete_station a s) }"

subsection \<open>Who is admitted\<close>

lemma additions_simps [simp]:
  "additions (upd_station a f s) = additions s" "additions (upd_wlan a g s) = additions s" "additions (s\<lparr>frames := x\<rparr>) = additions s"
  "additions (s\<lparr>ses_timeout := t\<rparr>) = additions s"
  by (simp_all add: additions_def)

lemma case_option_eq_Some:
  "(case x of None \<Rightarrow> n | Some y \<Rightarrow> f y) = Some z \<longleftrightarrow> x = None \<and> n = Some z \<or> (\<exists>y. x = Some y \<and> f y = Some z)"
  by (cases x) auto

lemma if_eq_Some: "(if b then x else y) = Some z \<longleftrightarrow> b \<and> x = Some z \<or> \<not> b \<and> y = Some z"
  by auto

lemmas result_simps = bind_eq_Some_conv case_option_eq_Some if_eq_Some

lemma additions_set_station: "set_station a f s = Some s' \<Longrightarrow> additions s' = additions s"
  by (auto simp: set_station_eq split: option.splits)

lemma delete_additions: "ac_stations_delete_station a s = Some s' \<Longrightarrow> additions s' = additions s"
  using delete_sent(1) delete_station_at by blast

lemma authentication_split_sent: "authentication_split env a w mgmt s = Some s' \<Longrightarrow> additions s' = additions s"
  unfolding authentication_split_def Let_def bind_eq_Some_conv
  by (elim exE conjE) (auto simp: bind_eq_Some_conv dest!: delete_additions additions_set_station split: if_splits)

lemma authentication_request_sent: "authentication_request env radioid mgmt s = Some s' \<Longrightarrow> additions s' = additions s"
  unfolding authentication_request_def bind_eq_Some_conv
  by (elim exE conjE)
    (auto simp: bind_eq_Some_conv dest!: create_sent authentication_split_sent additions_set_station split: if_splits option.splits)

lemma authentication_packet_sent:
  "ac_ieee80211_mgmt_authentication_packet env radioid mgmt s = Some s' \<Longrightarrow> additions s' = additions s"
  unfolding ac_ieee80211_mgmt_authentication_packet_def authentication_response_def
  by (auto simp: bind_eq_Some_conv dest: authentication_request_sent additions_set_station split: if_splits option.splits)

lemma deauthentication_sent:
  assumes "ac_ieee80211_mgmt_deauthentication_packet radioid mgmt s = Some s'"
  shows "additions s' = additions s \<and> frames s' = frames s"
proof -
  consider "s' = s" | a s1 where "set_station a (\<lambda>st. st\<lparr>st_flags := st_flags st AND NOT (AC_STATION_FLAGS_AUTHENTICATED OR AC_STATION_FLAGS_ASSOCIATE)\<rparr>) s = Some s1"
    "ac_stations_delete_station a s1 = Some s'"
    using assms unfolding ac_ieee80211_mgmt_deauthentication_packet_def Let_def
    by (auto simp: bind_eq_Some_conv split: if_splits option.splits)
  then show ?thesis
  proof cases
    case (2 a s1)
    obtain st where st: "station_at s a = Some st" "s1 = upd_station a (\<lambda>st. st\<lparr>st_flags := st_flags st AND NOT (AC_STATION_FLAGS_AUTHENTICATED OR AC_STATION_FLAGS_ASSOCIATE)\<rparr>) s"
      using 2(1) by (auto simp: set_station_eq split: option.splits)
    let ?st = "st\<lparr>st_flags := st_flags st AND NOT (AC_STATION_FLAGS_AUTHENTICATED OR AC_STATION_FLAGS_ASSOCIATE)\<rparr>"
    have "station_at s1 a = Some ?st" "st_flags ?st AND AC_STATION_FLAGS_AUTHENTICATED = 0"
      using st by (auto intro!: bit_word_eqI simp: bit_simps)
    then show ?thesis using delete_sent [OF 2(2)] st(2) by simp
  qed simp
qed

lemma get_station_enabled:
  assumes "ac_stations_get_station s radioid bssid address = Some (Some a)" "station_at s a = Some st"
  shows "st_flags st AND AC_STATION_FLAGS_ENABLED \<noteq> 0"
  using assms unfolding ac_stations_get_station_def by (auto simp: bind_eq_Some_conv split: if_splits option.splits)

text \<open>
  The station that a session asks a WTP to add: one that was enabled, authenticated and not yet authorised in \<open>s\<close>.
\<close>

definition admissible :: "ac_session \<Rightarrow> addr \<times> add_station \<Rightarrow> bool" where
  "admissible s x \<longleftrightarrow> (\<exists>a st. station_at s a = Some st \<and> add_address (snd x) = st_address st \<and> fst x = ses_id s \<and>
     st_flags st AND AC_STATION_FLAGS_ENABLED \<noteq> 0 \<and> st_flags st AND AC_STATION_FLAGS_AUTHENTICATED \<noteq> 0 \<and>
     st_flags st AND AC_STATION_FLAGS_AUTHORIZED = 0)"

lemma flags_or_associate:
  "(f OR AC_STATION_FLAGS_ASSOCIATE) AND AC_STATION_FLAGS_AUTHENTICATED = f AND AC_STATION_FLAGS_AUTHENTICATED"
  "(f OR AC_STATION_FLAGS_ASSOCIATE) AND AC_STATION_FLAGS_AUTHORIZED = f AND AC_STATION_FLAGS_AUTHORIZED"
  "(f OR AC_STATION_FLAGS_ASSOCIATE) AND AC_STATION_FLAGS_ASSOCIATE \<noteq> 0"
  by (simp_all add: bit.conj_disj_distrib2)

lemma rates_set_fields [simp]:
  "st_flags (rates_set rates st) = st_flags st" "st_address (rates_set rates st) = st_address st" "st_wlan (rates_set rates st) = st_wlan st"
  by (simp_all add: rates_set_def)

lemma association_status_keeps:
  assumes "association_status a w mgmt items s = Some (code, s')" "station_at s a = Some st"
  shows "\<exists>st'. station_at s' a = Some st' \<and> st_flags st' = st_flags st \<and> st_address st' = st_address st"
    and "additions s' = additions s \<and> ses_id s' = ses_id s \<and> frames s' = frames s"
  using assms unfolding association_status_def bind_eq_Some_conv
  by (auto simp: bind_eq_Some_conv set_station_eq set_wlan_eq split: if_splits option.splits prod.splits)

lemma authorize_associated:
  assumes "ac_stations_authorize_station a (upd_station a (\<lambda>st. st\<lparr>st_flags := st_flags st OR AC_STATION_FLAGS_ASSOCIATE\<rparr>) s) = Some s'"
    and "station_at s a = Some st"
  shows "additions s' = additions s \<or> (\<exists>n. add_address n = st_address st \<and> additions s' = additions s @ [(ses_id s, n)] \<and>
    st_flags st AND AC_STATION_FLAGS_AUTHENTICATED \<noteq> 0 \<and> st_flags st AND AC_STATION_FLAGS_AUTHORIZED = 0)"
  using authorize_sent [OF assms(1), of "st\<lparr>st_flags := st_flags st OR AC_STATION_FLAGS_ASSOCIATE\<rparr>"] assms(2)
  by (auto simp: flags_or_associate split: if_splits)

lemma association_split_sent:
  assumes "association_split env a w mgmt s = Some s'" "station_at s a = Some st"
  shows "additions s' = additions s \<or> (\<exists>n. add_address n = st_address st \<and> additions s' = additions s @ [(ses_id s, n)] \<and>
    st_flags st AND AC_STATION_FLAGS_AUTHENTICATED \<noteq> 0 \<and> st_flags st AND AC_STATION_FLAGS_AUTHORIZED = 0)"
proof -
  obtain items where items: "mgmt_elements 28 mgmt = Some items"
    using assms(1) by (auto simp: association_split_def bind_eq_Some_conv)
  show ?thesis
  proof (cases items)
    case None
    then show ?thesis using assms(1) items by (auto simp: association_split_def bind_eq_Some_conv dest: delete_additions)
  next
    case (Some it)
    then obtain code s1 x where s1: "association_status a w mgmt it s = Some (code, s1)"
      and s': "ac_stations_authorize_station a (upd_station a (\<lambda>st. st\<lparr>st_flags := st_flags st OR AC_STATION_FLAGS_ASSOCIATE\<rparr>) (s1\<lparr>frames := x\<rparr>)) = Some s' \<or>
         ac_stations_delete_station a (s1\<lparr>frames := x\<rparr>) = Some s'"
      using assms(1) items unfolding association_split_def Let_def
      by (auto simp: bind_eq_Some_conv set_station_eq split: if_splits option.splits)
    obtain st' where st': "station_at (s1\<lparr>frames := x\<rparr>) a = Some st'" "st_flags st' = st_flags st" "st_address st' = st_address st"
      using association_status_keeps(1) [OF s1 assms(2)] by auto
    show ?thesis
      using s'
    proof
      assume "ac_stations_delete_station a (s1\<lparr>frames := x\<rparr>) = Some s'"
      then show ?thesis using delete_additions association_status_keeps(2) [OF s1 assms(2)] by force
    qed (use authorize_associated [OF _ st'(1), of s'] st'(2,3) association_status_keeps(2) [OF s1 assms(2)] in auto)
  qed
qed

lemma admissibleI:
  assumes "station_at s a = Some st" "st_flags st AND AC_STATION_FLAGS_ENABLED \<noteq> 0"
    and "additions s' = additions s \<or> (\<exists>n. add_address n = st_address st \<and> additions s' = additions s @ [(ses_id s, n)] \<and>
      st_flags st AND AC_STATION_FLAGS_AUTHENTICATED \<noteq> 0 \<and> st_flags st AND AC_STATION_FLAGS_AUTHORIZED = 0)"
  shows "additions s' = additions s \<or> (\<exists>x. additions s' = additions s @ [x] \<and> admissible s x)"
  using assms unfolding admissible_def by force

lemma association_request_sent:
  assumes "ac_ieee80211_mgmt_association_request_packet env radioid mgmt s = Some s'"
  shows "additions s' = additions s \<or> (\<exists>x. additions s' = additions s @ [x] \<and> admissible s x)"
proof -
  consider "additions s' = additions s" | a st w rates where
    "ac_stations_get_station s radioid (Some (mgmt_bssid mgmt)) (mgmt_sa mgmt) = Some (Some a)" "station_at s a = Some st"
    "association_split env a w mgmt (upd_station a (rates_set rates) (upd_station a (\<lambda>st. st\<lparr>st_capability := mgmt_u16 24 mgmt, st_listeninterval := mgmt_u16 26 mgmt\<rparr>) s)) = Some s'"
    using assms unfolding ac_ieee80211_mgmt_association_request_packet_def bind_eq_Some_conv
    by (elim exE conjE) (auto simp: result_simps set_station_eq dest!: delete_additions)
  then show ?thesis
  proof cases
    case (2 a st w rates)
    have "additions s' = additions s \<or> (\<exists>n. add_address n = st_address st \<and> additions s' = additions s @ [(ses_id s, n)] \<and>
      st_flags st AND AC_STATION_FLAGS_AUTHENTICATED \<noteq> 0 \<and> st_flags st AND AC_STATION_FLAGS_AUTHORIZED = 0)"
      using association_split_sent [OF 2(3)] 2(2) by simp
    then show ?thesis by (rule admissibleI [OF 2(2) get_station_enabled [OF 2(1,2)]])
  qed simp
qed

lemma association_response_sent:
  assumes "ac_ieee80211_mgmt_association_response_packet radioid mgmt s = Some s'"
  shows "additions s' = additions s \<or> (\<exists>x. additions s' = additions s @ [x] \<and> admissible s x)"
proof -
  let ?f = "\<lambda>st. st\<lparr>st_capability := mgmt_u16 24 mgmt, st_aid := mgmt_u16 28 mgmt, st_flags := st_flags st OR AC_STATION_FLAGS_ASSOCIATE\<rparr>"
  consider "additions s' = additions s" | a st rates where
    "ac_stations_get_station s radioid (Some (mgmt_bssid mgmt)) (mgmt_da mgmt) = Some (Some a)" "station_at s a = Some st"
    "ac_stations_authorize_station a (upd_station a (rates_set rates) (upd_station a ?f s)) = Some s'"
    using assms unfolding ac_ieee80211_mgmt_association_response_packet_def bind_eq_Some_conv
    by (elim exE conjE) (auto simp: result_simps set_station_eq)
  then show ?thesis
  proof cases
    case (2 a st rates)
    have "additions s' = additions s \<or> (\<exists>n. add_address n = st_address st \<and> additions s' = additions s @ [(ses_id s, n)] \<and>
      st_flags st AND AC_STATION_FLAGS_AUTHENTICATED \<noteq> 0 \<and> st_flags st AND AC_STATION_FLAGS_AUTHORIZED = 0)"
      using authorize_sent [OF 2(3)] 2(2) by (auto simp: flags_or_associate split: if_splits)
    then show ?thesis by (rule admissibleI [OF 2(2) get_station_enabled [OF 2(1,2)]])
  qed simp
qed

lemma ignored_packet_id: "ignored_packet offset mgmt s = Some s' \<Longrightarrow> s' = s"
  by (auto simp: ignored_packet_def bind_eq_Some_conv)

text \<open>
  C11. A session asks its WTP to let a station through only after an authentication: whatever frame arrives, the requests that it
  sends to add a station are at most one more, and that one is for a station of the session that was enabled and authenticated and
  not yet authorised before the frame.
\<close>
theorem only_authenticated_added:
  assumes "ac_ieee80211_packet env radioid frame s = Some s'"
  shows "additions s' = additions s \<or> (\<exists>x. additions s' = additions s @ [x] \<and> admissible s x)"
  using assms unfolding ac_ieee80211_packet_def ac_ieee80211_mgmt_packet_def Let_def
  by (auto simp: bind_eq_Some_conv split: if_splits
      dest: association_request_sent association_response_sent authentication_packet_sent deauthentication_sent ignored_packet_id)

subsection \<open>Frames of the access controller, read back\<close>

lemma le16_ucast [simp]: "le16 (ucast x) (ucast (drop_bit 8 x)) = x"
  unfolding le16_def by (rule bit_word_eqI) (auto simp: bit_simps)

lemma mgmt_header_u16:
  assumes "length da = 6" "length sa = 6" "length bssid = 6"
  shows "mgmt_u16 24 (mgmt_header stype da sa bssid @ le16_bytes x @ r) = x"
    "mgmt_u16 26 (mgmt_header stype da sa bssid @ le16_bytes y @ le16_bytes x @ r) = x"
    "mgmt_u16 28 (mgmt_header stype da sa bssid @ le16_bytes y @ le16_bytes z @ le16_bytes x @ r) = x"
  using assms by (simp_all add: mgmt_header_def IEEE80211_FRAME_CONTROL_def nth_append le16_bytes_def)

lemma mgmt_header_addresses:
  assumes "length da = 6" "length sa = 6" "length bssid = 6"
  shows "mgmt_da (mgmt_header stype da sa bssid @ r) = da" "mgmt_sa (mgmt_header stype da sa bssid @ r) = sa"
    "mgmt_bssid (mgmt_header stype da sa bssid @ r) = bssid"
  using assms by (simp_all add: mgmt_header_def IEEE80211_FRAME_CONTROL_def header_address_def le16_bytes_def)

subsection \<open>Stations that are refused\<close>

text \<open>
  C13. A refused authentication counts as one: on a WLAN with a split MAC, a station that asks for an algorithm that is not
  supported is answered with the status code of a failure, and is marked as authenticated all the same.
\<close>
theorem refused_authentication_counts:
  assumes "wlan_at s w = Some wlan" "wlan_radio s wlan = Some device" "station_at s a = Some st"
    and "mgmt_elements 30 mgmt = Some (Some items)" "length mgmt \<ge> 24" "length (wl_address wlan) = 6"
    and "mgmt_u16 24 mgmt \<noteq> IEEE80211_AUTHENTICATION_ALGORITHM_OPEN" "\<forall>response. env_send env (dev_radioid device) response = 0"
  shows "\<exists>s' response. authentication_split env a w mgmt s = Some s' \<and> frames s' = frames s @ [(dev_radioid device, response)] \<and>
    mgmt_da response = mgmt_sa mgmt \<and> mgmt_u16 28 response = IEEE80211_STATUS_NOT_SUPPORTED_AUTHENTICATION_ALGORITHM \<and>
    station_at s' a = Some (st\<lparr>st_flags := st_flags st OR AC_STATION_FLAGS_AUTHENTICATED\<rparr>)"
proof -
  have sa: "length (mgmt_sa mgmt) = 6" using assms(5) by (simp add: header_address_def)
  define response where "response = ieee80211_create_authentication_response
     \<lparr>au_bssid = wl_address wlan, au_station = mgmt_sa mgmt, au_algorithm = mgmt_u16 24 mgmt,
      au_transactionseqnumber = mgmt_u16 26 mgmt + 1, au_statuscode = 13\<rparr>"
  have "mgmt_da response = mgmt_sa mgmt" "mgmt_u16 28 response = 13"
    using mgmt_header_u16(3) [OF sa assms(6,6), of _ _ _ _ "[]"] mgmt_header_addresses(1) [OF sa assms(6,6)]
    unfolding response_def ieee80211_create_authentication_response_def by simp_all
  moreover have "authentication_split env a w mgmt s = Some (upd_station a (\<lambda>st. st\<lparr>st_flags := st_flags st OR AC_STATION_FLAGS_AUTHENTICATED\<rparr>)
      (s\<lparr>frames := frames s @ [(dev_radioid device, response)]\<rparr>))"
    using assms by (simp add: authentication_split_def set_station_eq response_def)
  ultimately show ?thesis using assms(3) by simp
qed

lemma association_request_split:
  assumes "mgmt_elements 28 mgmt = Some (Some items)" "element_rates items = Some rates"
    and "mgmt_bssid mgmt = mgmt_da mgmt" "mgmt_bssid mgmt \<noteq> mgmt_sa mgmt"
    and "ac_stations_get_station s radioid (Some (mgmt_bssid mgmt)) (mgmt_sa mgmt) = Some (Some a)"
    and "station_at s a = Some st" "st_flags st AND AC_STATION_FLAGS_AUTHENTICATED \<noteq> 0"
    and "st_wlan st = Some w" "wlan_at s w = Some wlan" "wl_macmode wlan = CAPWAP_ADD_WLAN_MACMODE_SPLIT"
  shows "ac_ieee80211_mgmt_association_request_packet env radioid mgmt s = association_split env a w mgmt
    (upd_station a (rates_set rates) (upd_station a (\<lambda>st. st\<lparr>st_capability := mgmt_u16 24 mgmt, st_listeninterval := mgmt_u16 26 mgmt\<rparr>) s))"
  using assms by (simp add: ac_ieee80211_mgmt_association_request_packet_def set_station_eq)

lemma associationresponse_created:
  assumes "0 < as_supportedratescount p" "as_supportedratescount p \<le> int (length (as_supportedrates p))"
    and "length (as_station p) = 6" "length (as_bssid p) = 6"
  shows "\<exists>response. ieee80211_create_associationresponse_response p = Some response \<and> mgmt_da response = as_station p \<and>
    mgmt_u16 26 response = as_statuscode p \<and> mgmt_u16 28 response = as_aid p"
proof -
  obtain ier iex where "ieee80211_ie_set_supportedrates (as_supportedrates p) (as_supportedratescount p) = Some ier"
    "ieee80211_ie_set_extendedsupportedrates (as_supportedrates p) (as_supportedratescount p) = Some iex"
    using rates_Some [of "as_supportedratescount p" "as_supportedrates p"] assms(1,2) by (auto simp: nat_le_iff)
  then show ?thesis
    using mgmt_header_u16(2,3) [OF assms(3,4,4)] mgmt_header_addresses(1) [OF assms(3,4,4)]
    by (simp add: ieee80211_create_associationresponse_response_def)
qed

text \<open>What \<open>association_split\<close> does after the decision, when the response is sent.\<close>

lemma association_split_accepted:
  assumes "wlan_at s w = Some wlan" "wlan_radio s wlan = Some device" "mgmt_elements 28 mgmt = Some (Some items)"
    and "0 < dev_supportedratescount device" "dev_supportedratescount device \<le> 16" "length (dev_supportedrates device) = 16"
    and "length mgmt \<ge> 24" "length (wl_address wlan) = 6" "\<forall>response. env_send env (dev_radioid device) response = 0"
    and "association_status a w mgmt items s = Some (code, s1)" "station_at s1 a = Some st"
  shows "\<exists>response. mgmt_da response = mgmt_sa mgmt \<and> mgmt_u16 26 response = code \<and>
    association_split env a w mgmt s = ac_stations_authorize_station a
      (upd_station a (\<lambda>st. st\<lparr>st_flags := st_flags st OR AC_STATION_FLAGS_ASSOCIATE\<rparr>)
        (s1\<lparr>frames := frames s1 @ [(dev_radioid device, response)]\<rparr>))"
proof -
  have sa: "length (mgmt_sa mgmt) = 6" using assms(7) by (simp add: header_address_def)
  let ?p = "\<lparr>as_bssid = wl_address wlan, as_station = mgmt_sa mgmt, as_capability = wl_capability wlan,
             as_statuscode = code, as_aid = IEEE80211_AID_FIELD OR st_aid st,
             as_supportedratescount = int (dev_supportedratescount device), as_supportedrates = dev_supportedrates device,
             as_response_ies = env_junk env\<rparr>"
  obtain response where "ieee80211_create_associationresponse_response ?p = Some response" "mgmt_da response = mgmt_sa mgmt"
    "mgmt_u16 26 response = code"
    using associationresponse_created [of ?p] assms(4-6,8) sa by auto
  then show ?thesis using assms by (intro exI [of _ response]) (simp add: association_split_def set_station_eq)
qed

text \<open>
  C12. A refused association opens the network: on a WLAN with a split MAC, an authenticated station that asks for another SSID is
  answered with the status code of a failure, and the WTP is asked to add it all the same.
\<close>
theorem refused_station_added:
  assumes "mgmt_elements 28 mgmt = Some (Some items)" "element_rates items = Some rates" "length mgmt \<ge> 24"
    and "mgmt_bssid mgmt = mgmt_da mgmt" "mgmt_bssid mgmt \<noteq> mgmt_sa mgmt"
    and "ac_stations_get_station s radioid (Some (mgmt_bssid mgmt)) (mgmt_sa mgmt) = Some (Some a)"
    and "station_at s a = Some st" "st_flags st AND AC_STATION_FLAGS_AUTHENTICATED \<noteq> 0" "st_flags st AND AC_STATION_FLAGS_AUTHORIZED = 0"
    and "st_wlan st = Some w" "wlan_at s w = Some wlan" "wl_macmode wlan = CAPWAP_ADD_WLAN_MACMODE_SPLIT" "length (wl_address wlan) = 6"
    and "wlan_radio s wlan = Some device" "0 < dev_supportedratescount device" "dev_supportedratescount device \<le> 16"
    and "length (dev_supportedrates device) = 16" "\<forall>response. env_send env (dev_radioid device) response = 0"
    and "ieee80211_is_valid_ssid (wl_ssid wlan) (ie_ssid items) None = Some IEEE80211_WRONG_SSID"
  shows "\<exists>s' response n. ac_ieee80211_mgmt_association_request_packet env radioid mgmt s = Some s' \<and>
    frames s' = frames s @ [(dev_radioid device, response)] \<and> mgmt_da response = mgmt_sa mgmt \<and>
    mgmt_u16 26 response = IEEE80211_STATUS_UNSPECIFIED_FAILURE \<and>
    additions s' = additions s @ [(ses_id s, n)] \<and> add_address n = st_address st \<and> add_supportedrates n = rates"
proof -
  let ?s = "upd_station a (rates_set rates) (upd_station a (\<lambda>st. st\<lparr>st_capability := mgmt_u16 24 mgmt, st_listeninterval := mgmt_u16 26 mgmt\<rparr>) s)"
  have status: "association_status a w mgmt items ?s = Some (IEEE80211_STATUS_UNSPECIFIED_FAILURE, ?s)"
    using assms by (simp add: association_status_def)
  obtain response where r: "mgmt_da response = mgmt_sa mgmt" "mgmt_u16 26 response = 1"
    "association_split env a w mgmt ?s = ac_stations_authorize_station a
      (upd_station a (\<lambda>st. st\<lparr>st_flags := st_flags st OR AC_STATION_FLAGS_ASSOCIATE\<rparr>)
        (?s\<lparr>frames := frames ?s @ [(dev_radioid device, response)]\<rparr>))"
    using association_split_accepted [OF _ _ assms(1,15-17,3,13,18) status] assms(7,11,14) by auto
  show ?thesis
    unfolding association_request_split [OF assms(1,2,4-8,10-12)] r(3)
    using assms(7-11,14) r(1,2)
    by (auto simp: ac_stations_authorize_station_def flags_or_associate rates_set_def)
qed

text \<open>
  C15. Association identifiers leak: when a station that has an identifier associates once more, it is given another one, and the
  one it had stays in use although no station has it.
\<close>
theorem association_leaks_aid:
  assumes "mgmt_elements 28 mgmt = Some (Some items)" "element_rates items = Some rates" "length mgmt \<ge> 24"
    and "mgmt_bssid mgmt = mgmt_da mgmt" "mgmt_bssid mgmt \<noteq> mgmt_sa mgmt"
    and "ac_stations_get_station s radioid (Some (mgmt_bssid mgmt)) (mgmt_sa mgmt) = Some (Some a)"
    and "station_at s a = Some st" "st_flags st AND AC_STATION_FLAGS_AUTHENTICATED \<noteq> 0" "st_flags st AND AC_STATION_FLAGS_AUTHORIZED \<noteq> 0"
    and "st_wlan st = Some w" "wlan_at s w = Some wlan" "wl_macmode wlan = CAPWAP_ADD_WLAN_MACMODE_SPLIT" "length (wl_address wlan) = 6"
    and "wlan_radio s wlan = Some device" "0 < dev_supportedratescount device" "dev_supportedratescount device \<le> 16"
    and "length (dev_supportedrates device) = 16" "\<forall>response. env_send env (dev_radioid device) response = 0"
    and "ieee80211_is_valid_ssid (wl_ssid wlan) (ie_ssid items) None = Some IEEE80211_VALID_SSID"
    and "length (wl_aidbitfield wlan) = 63" "unat (st_aid st) \<in> aid_used (wl_aidbitfield wlan)" "\<not> {1..2007} \<subseteq> aid_used (wl_aidbitfield wlan)"
  shows "\<exists>s' st' wlan'. ac_ieee80211_mgmt_association_request_packet env radioid mgmt s = Some s' \<and>
    station_at s' a = Some st' \<and> wlan_at s' w = Some wlan' \<and> st_aid st' \<noteq> st_aid st \<and>
    aid_used (wl_aidbitfield wlan') = insert (unat (st_aid st')) (aid_used (wl_aidbitfield wlan))"
proof -
  let ?f = "\<lambda>st. st\<lparr>st_capability := mgmt_u16 24 mgmt, st_listeninterval := mgmt_u16 26 mgmt\<rparr>"
  let ?s = "upd_station a (rates_set rates) (upd_station a ?f s)"
  obtain result aid bits where c: "ieee80211_aid_create (wl_aidbitfield wlan) = (result, aid, bits)" by (metis prod_cases3)
  have aid: "result = 0" "unat aid \<notin> aid_used (wl_aidbitfield wlan)" "aid_used bits = insert (unat aid) (aid_used (wl_aidbitfield wlan))"
    using aid_create_result [OF assms(20) c] assms(22) by auto
  define s1 where "s1 = upd_station a (rates_set rates) (upd_station a (st_aid_update (\<lambda>_. aid))
    (upd_wlan w (wl_aidbitfield_update (\<lambda>_. bits)) (upd_station a ?f ?s)))"
  define st1 where "st1 = rates_set rates (st_aid_update (\<lambda>_. aid) (?f (rates_set rates (?f st))))"
  have s1: "association_status a w mgmt items ?s = Some (IEEE80211_STATUS_SUCCESS, s1)" "station_at s1 a = Some st1"
    using assms(7,11,19,2) c aid(1) by (simp_all add: association_status_def set_station_eq set_wlan_eq s1_def st1_def)
  obtain response where r: "association_split env a w mgmt ?s = ac_stations_authorize_station a
      (upd_station a (\<lambda>st. st\<lparr>st_flags := st_flags st OR AC_STATION_FLAGS_ASSOCIATE\<rparr>)
        (s1\<lparr>frames := frames s1 @ [(dev_radioid device, response)]\<rparr>))" (is "_ = ac_stations_authorize_station a ?s2")
    using association_split_accepted [OF _ _ assms(1,15-17,3,13,18) s1] assms(7,11,14) by auto
  have "st_flags st1 = st_flags st" "st_aid st1 = aid" by (simp_all add: st1_def rates_set_def)
  moreover from this have s': "ac_stations_authorize_station a ?s2 = Some ?s2"
    using s1(2) assms(9) by (simp add: ac_stations_authorize_station_def flags_or_associate)
  moreover have "aid \<noteq> st_aid st" using aid(2) assms(21) by auto
  moreover have "wlan_at ?s2 w = Some (wlan\<lparr>wl_aidbitfield := bits\<rparr>)" using assms(11) by (simp add: s1_def)
  ultimately show ?thesis
    unfolding association_request_split [OF assms(1,2,4-8,10-12)] r s'
    using s1(2) aid(3) by simp
qed

subsection \<open>A session with one WLAN\<close>

text \<open>
  The session of the examples: one WLAN with a split MAC, the SSID \<open>A\<close> and the BSSID \<open>02:00:00:00:00:01\<close> on radio 1; its stations have
  addresses that end in \<open>00:00:09\<close>, so that they are all in bucket 9.
\<close>

definition example_wlan :: ac_wlan where
  "example_wlan = \<lparr>wl_device = 0, wl_address = [2, 0, 0, 0, 0, 1], wl_wlanid = 1, wl_session = Some 1, wl_aidbitfield = 1 # replicate 62 0,
     wl_stations = capwap_list_create, wl_capability = 1, wl_keyindex = 0, wl_keystatus = 0, wl_keylength = 0, wl_key = None,
     wl_grouptsc = replicate 6 0, wl_qos = 0, wl_authmode = 0, wl_macmode = 1, wl_tunnelmode = 0, wl_suppressssid = 0,
     wl_ssid = 65 # replicate 32 0\<rparr>"

definition example_station :: "u8 \<Rightarrow> 64 word \<Rightarrow> ac_station" where
  "example_station x flags = \<lparr>st_address = [x, 0, 0, 0, 0, 9], st_flags = flags, st_wlan = Some 7, st_session = 1, st_timeoutaction = 0,
     st_idtimeout = 0, st_capability = 0, st_listeninterval = 0, st_aid = 1, st_supportedratescount = 0,
     st_supportedrates = replicate 16 0, st_authalgorithm = 0\<rparr>"

definition example_item :: "'a \<Rightarrow> 'a capwap_list_item" where
  "example_item x = \<lparr>li_item = Some x, li_itemsize = 1, li_autodelete = 1, li_next = None, li_prev = None\<rparr>"

definition example_device :: ac_device where
  "example_device = \<lparr>dev_radioid = 1, dev_wlans = None, dev_supportedratescount = 2, dev_supportedrates = 2 # 4 # replicate 14 0\<rparr>"

definition example_session :: "ac_station list_heap \<Rightarrow> addr capwap_hash_item \<Rightarrow> ac_session" where
  "example_session h t = \<lparr>ses_id = 1,
     ses_timeout = \<lparr>timeoutbitfield = [], itemsreference = \<lparr>hash_items = [], hash_hashsize = 0, hash_count = 0, hash_freed = []\<rparr>,
       itemstimeout = capwap_list_create, timeout_heap = Map.empty\<rparr>,
     devices = [example_device],
     stations = \<lparr>hash_items = (replicate 256 NULL_item)[9 := t], hash_hashsize = 256, hash_count = 1, hash_freed = []\<rparr>,
     authstations = \<lparr>hash_items = [], hash_hashsize = 0, hash_count = 0, hash_freed = []\<rparr>,
     station_heap = h, wlan_heap = [7 \<mapsto> example_item example_wlan], actions = [], frames = []\<rparr>"

definition example_environment :: ac_environment where
  "example_environment = \<lparr>env_address = 5, env_timer = 5, env_now = \<lparr>tv_sec = 0, tv_usec = 0\<rparr>, env_send = (\<lambda>_ _. 0), env_junk = []\<rparr>"

definition one_station :: "64 word \<Rightarrow> ac_session" where
  "one_station flags = example_session [2 \<mapsto> example_item (example_station 2 flags)] (Item 2 0 NULL_item NULL_item)"

lemma one_station_simps [simp]:
  "station_at (one_station flags) 2 = Some (example_station 2 flags)" "wlan_at (one_station flags) 7 = Some example_wlan"
  "ses_id (one_station flags) = 1" "frames (one_station flags) = []" "actions (one_station flags) = []"
  "wlan_radio (one_station flags) example_wlan =
     Some example_device"
  by (simp_all add: one_station_def example_session_def station_at_def wlan_at_def example_item_def wlan_radio_def example_wlan_def)

lemma one_station_search: "capwap_hash_search (wlans_callbacks (station_heap (one_station flags))) (stations (one_station flags)) [2, 0, 0, 0, 0, 9] = Some (Some 2)"
proof -
  have key: "ac_wlans_item_getkey (station_heap (one_station flags)) 2 = [2, 0, 0, 0, 0, 9]"
    by (simp add: one_station_def example_session_def ac_wlans_item_getkey_def example_item_def example_station_def)
  have "hash_items (stations (one_station flags)) ! 9 = Item 2 0 NULL_item NULL_item" "length (hash_items (stations (one_station flags))) = 256"
    by (simp_all add: one_station_def example_session_def)
  moreover have "ac_wlans_item_gethash [2, 0, 0, 0, 0, 9] n = 9" for n by (simp add: ac_wlans_item_gethash_def)
  moreover have "search_items_loop (wlans_callbacks (station_heap (one_station flags))) (Item 2 0 NULL_item NULL_item) [2, 0, 0, 0, 0, 9] [] = Some (Some [])"
    using key by (subst search_items_loop.simps) simp
  ultimately show ?thesis by (simp add: capwap_hash_search_def capwap_hash_search_items_def Let_def)
qed

lemma example_get_station:
  "flags AND 1 \<noteq> 0 \<Longrightarrow> ac_stations_get_station (one_station flags) 1 (Some [2, 0, 0, 0, 0, 1]) [2, 0, 0, 0, 0, 9] = Some (Some 2)"
  using one_station_simps(2,6) [of flags]
  by (simp add: ac_stations_get_station_def one_station_search) (simp add: example_station_def example_device_def example_wlan_def [THEN arg_cong [where f = wl_address]])

text \<open>An authentication with an unknown algorithm, and an association with the SSID of one letter.\<close>

definition example_authentication :: "u8 list" where
  "example_authentication = ieee80211_create_authentication_response \<lparr>au_bssid = [2, 0, 0, 0, 0, 9], au_station = [2, 0, 0, 0, 0, 1],
     au_algorithm = 7, au_transactionseqnumber = 1, au_statuscode = 0\<rparr>"

definition example_association :: "u8 \<Rightarrow> u8 list" where
  "example_association ssid = [0, 0, 0, 0, 2, 0, 0, 0, 0, 1, 2, 0, 0, 0, 0, 9, 2, 0, 0, 0, 0, 1, 0, 0,
     1, 0, 10, 0, 0, 1, ssid, 1, 1, 2]"

definition example_items :: "u8 \<Rightarrow> ieee80211_ie_items" where
  "example_items ssid = no_ie_items\<lparr>ie_ssid := Some [0, 1, ssid, 1, 1, 2], ie_supported_rates := Some [1, 1, 2]\<rparr>"

lemma example_association_simps [simp]:
  "mgmt_elements 28 (example_association ssid) = Some (Some (example_items ssid))"
  "mgmt_bssid (example_association ssid) = [2, 0, 0, 0, 0, 1]" "header_address (Suc 0) (example_association ssid) = [2, 0, 0, 0, 0, 1]"
  "mgmt_sa (example_association ssid) = [2, 0, 0, 0, 0, 9]" "length (example_association ssid) = 34"
  "element_rates (example_items ssid) = Some [2]"
  by (simp_all add: mgmt_elements_def example_association_def example_items_def ieee80211_retrieve_information_elements_position_def
      retrieve_loop.simps retrieve_ie_def header_address_def element_rates_def ie_body_def no_ie_items_def)

lemma example_ssid:
  "ieee80211_is_valid_ssid (wl_ssid example_wlan) (ie_ssid (example_items 66)) None = Some IEEE80211_WRONG_SSID"
  "ieee80211_is_valid_ssid (wl_ssid example_wlan) (ie_ssid (example_items 65)) None = Some IEEE80211_VALID_SSID"
  by (simp_all add: ieee80211_is_valid_ssid_def example_wlan_def example_items_def no_ie_items_def c_strlen_def c_str_def)

theorem refused_authentication_counts_witness:
  "\<exists>s' response. authentication_split example_environment 2 7 example_authentication (one_station 1) = Some s' \<and>
    frames s' = [(1, response)] \<and> mgmt_u16 28 response = 13 \<and> station_at s' 2 = Some (example_station 2 3)"
proof -
  have f: "mgmt_elements 30 example_authentication = Some (Some no_ie_items)" "length example_authentication = 30" "mgmt_u16 24 example_authentication = 7"
    by (simp_all add: example_authentication_def ieee80211_create_authentication_response_def mgmt_header_def IEEE80211_FRAME_CONTROL_def
        le16_bytes_def mgmt_elements_def ieee80211_retrieve_information_elements_position_def retrieve_loop.simps le16_def)
  show ?thesis
    using refused_authentication_counts [of "one_station 1" 7 example_wlan example_device 2 "example_station 2 1" example_authentication no_ie_items example_environment]
      f by (simp add: example_environment_def example_wlan_def [THEN arg_cong [where f = wl_address]] example_device_def) (auto simp: example_station_def)
qed

theorem refused_station_added_witness:
  "\<exists>s' response n. ac_ieee80211_mgmt_association_request_packet example_environment 1 (example_association 66) (one_station 3) = Some s' \<and>
    frames s' = [(1, response)] \<and> mgmt_u16 26 response = 1 \<and> additions s' = [(1, n)] \<and> add_address n = [2, 0, 0, 0, 0, 9]"
proof -
  have "wl_macmode example_wlan = 1" "length (wl_address example_wlan) = 6" by (simp_all add: example_wlan_def)
  moreover have "additions (one_station 3) = []" by (simp add: additions_def map_filter_def)
  ultimately show ?thesis
    using refused_station_added [of "example_association 66" "example_items 66" "[2]" "one_station 3" 1 2 "example_station 2 3" 7 example_wlan example_device example_environment]
      example_get_station [of 3] example_ssid(1)
    by (simp add: example_environment_def example_station_def example_device_def) blast
qed

lemma example_added:
  "\<exists>s' n. ac_ieee80211_mgmt_association_request_packet example_environment 1 (example_association 66) (one_station 3) = Some s' \<and>
    additions s' = [(1, n)]"
proof -
  let ?s = "upd_station 2 (rates_set [2]) (upd_station 2 (\<lambda>st. st\<lparr>st_capability := mgmt_u16 24 (example_association 66),
    st_listeninterval := mgmt_u16 26 (example_association 66)\<rparr>) (one_station 3))"
  have w: "wl_macmode example_wlan = 1" "length (wl_address example_wlan) = 6" by (simp_all add: example_wlan_def)
  have "association_status 2 7 (example_association 66) (example_items 66) ?s = Some (1, ?s)"
    using example_ssid(1) by (simp add: association_status_def)
  then obtain response where r: "association_split example_environment 2 7 (example_association 66) ?s = ac_stations_authorize_station 2
      (upd_station 2 (\<lambda>st. st\<lparr>st_flags := st_flags st OR AC_STATION_FLAGS_ASSOCIATE\<rparr>) (?s\<lparr>frames := frames ?s @ [(1, response)]\<rparr>))"
    using association_split_accepted [of ?s 7 example_wlan example_device "example_association 66" "example_items 66" example_environment 2 1 ?s] w
    by (auto simp: example_device_def example_environment_def)
  have "additions (one_station 3) = []" by (simp add: additions_def map_filter_def)
  then show ?thesis
    using association_request_split [of "example_association 66" "example_items 66" "[2]" "one_station 3" 1 2 "example_station 2 3" 7 example_wlan example_environment]
      example_get_station [of 3] r w(1)
    by (simp add: ac_stations_authorize_station_def rates_set_def example_station_def)
qed

lemma example_aids: "aid_used (wl_aidbitfield example_wlan) = {1}"
proof -
  have "used_bits (replicate n 0) = {}" for n by (auto simp: used_bits_def)
  then have "used_bits (wl_aidbitfield example_wlan) = {0}"
    by (auto simp: example_wlan_def used_bits_Cons bit_1_iff)
  then show ?thesis by (simp add: aid_used_def)
qed

theorem association_leaks_aid_witness:
  "\<exists>s' st' wlan'. ac_ieee80211_mgmt_association_request_packet example_environment 1 (example_association 65) (one_station 15) = Some s' \<and>
    station_at s' 2 = Some st' \<and> wlan_at s' 7 = Some wlan' \<and> st_aid st' \<noteq> 1 \<and> aid_used (wl_aidbitfield wlan') = {unat (st_aid st'), 1}"
proof -
  have "wl_macmode example_wlan = 1" "length (wl_address example_wlan) = 6" "length (wl_aidbitfield example_wlan) = 63"
    by (simp_all add: example_wlan_def)
  moreover have "\<not> {1..2007} \<subseteq> {1 :: nat}" by (simp add: subset_singleton_iff)
  ultimately show ?thesis
    using association_leaks_aid [of "example_association 65" "example_items 65" "[2]" "one_station 15" 1 2 "example_station 2 15" 7 example_wlan example_device example_environment]
      example_get_station [of 15] example_ssid(2) example_aids
    by (simp add: example_environment_def example_station_def example_device_def)
qed

theorem only_authenticated_added_witness:
  "\<exists>s'. ac_ieee80211_packet example_environment 1 (example_association 66) (one_station 3) = Some s' \<and>
    (\<exists>n. additions s' = [(1, n)] \<and> admissible (one_station 3) (1, n))"
proof -
  have framecontrol: "header_framecontrol (example_association 66) = 0"
    by (simp add: example_association_def header_framecontrol_def le16_def)
  have packet: "ac_ieee80211_packet example_environment 1 (example_association 66) (one_station 3) =
      ac_ieee80211_mgmt_association_request_packet example_environment 1 (example_association 66) (one_station 3)"
    using framecontrol
    by (simp add: ac_ieee80211_packet_def ac_ieee80211_mgmt_packet_def IS_VALID_RADIOID_def IEEE80211_FRAME_CONTROL_GET_TYPE_def
      IEEE80211_FRAME_CONTROL_GET_SUBTYPE_def)
  obtain s' n where s': "ac_ieee80211_packet example_environment 1 (example_association 66) (one_station 3) = Some s'" "additions s' = [(1, n)]"
    using example_added unfolding packet by blast
  moreover have "additions (one_station 3) = []" by (simp add: additions_def map_filter_def)
  ultimately show ?thesis using only_authenticated_added [OF s'(1)] by auto
qed

subsection \<open>Stations that share a bucket\<close>

lemma left_chain_endless:
  assumes "item_cmp cb k (item_getkey cb b) < 0" "item_cmp cb k (item_getkey cb c) < 0"
  shows "search_items_loop cb (Item b h (Item c hc cl cr) r) k [] = None"
proof (rule search_loop_diverges [where P = "{[], [LeftSide]}"])
  fix q assume "q \<in> {[], [LeftSide]}"
  then show "\<exists>d h' l r'. item_at q (Item b h (Item c hc cl cr) r) = Item d h' l r' \<and>
      (item_cmp cb k (item_getkey cb d) < 0 \<and> [LeftSide] \<in> {[], [LeftSide]} \<or>
       item_cmp cb k (item_getkey cb d) > 0 \<and> [RightSide] \<in> {[], [LeftSide]})"
    using assms by auto
qed simp


definition two_stations :: ac_session where
  "two_stations = example_session [2 \<mapsto> example_item (example_station 6 3), 3 \<mapsto> example_item (example_station 4 3)]
     (Item 2 1 (Item 3 0 NULL_item NULL_item) NULL_item)"


end
