(* ===== verification/Spec2Isabelle.thy ===== *)
theory Spec2Isabelle
  imports Capwap_Parsed Ac_Ieee80211
begin

text \<open>
  A verification of the CAPWAP access controller of the repository, the C program under \<^verbatim>\<open>src/smartcapwap/src\<close>. CAPWAP is the
  protocol by which an access controller (AC) manages wireless termination points (WTPs). The AC receives
  fragments of control messages, assembles and parses them into message elements, validates them, and answers with messages of its
  own; it keeps timers and tables for its sessions; and it handles the IEEE 802.11 management frames of the stations, which the WTPs
  tunnel to it. This development covers the layers from the bytes of a message up to the admission of a station.

  \<^bold>\<open>Parts and theories.\<close> The paths are relative to \<^verbatim>\<open>src/smartcapwap/src\<close>.
  \<^item> \<^verbatim>\<open>Capwap_Prelude\<close>: words of 8, 16 and 32 bits, big endian numbers, C strings, \<open>ASSERT\<close> (\<^verbatim>\<open>common/capwap_debug.h\<close>), and the
    collections of facts the other theories use.
  \<^item> \<^verbatim>\<open>Capwap_Message_IO\<close>: the interface through which a message element is written and read (\<open>struct capwap_write_message_elements_ops\<close>
    and \<open>struct capwap_read_message_elements_ops\<close> of \<^verbatim>\<open>common/capwap_element.h\<close>), as records of functions, and the contract of both
    sides as the locales \<open>message_writer\<close> and \<open>message_reader\<close>.
  \<^item> \<^verbatim>\<open>Capwap_Elements_A\<close>, \<^verbatim>\<open>_B\<close>, \<^verbatim>\<open>_C\<close>, \<^verbatim>\<open>_D\<close>: the 80 message elements (\<^verbatim>\<open>common/capwap_element_*.c\<close>): the structure of
    each one as a record, its functions \<open>create\<close> and \<open>parsing\<close>, its wire format, and the lemma that one undoes the other,
    proved once for every writer and reader of the interface.
  \<^item> \<^verbatim>\<open>Capwap_Element_Table\<close>: the tables in which the functions are registered and \<open>capwap_get_message_element_ops\<close>
    (\<^verbatim>\<open>common/capwap_element.c\<close>).
  \<^item> \<^verbatim>\<open>Capwap_Header\<close>: the CAPWAP header, its macros and functions, message types and sequence numbers
    (\<^verbatim>\<open>common/capwap_rfc.h\<close>, \<^verbatim>\<open>common/capwap_protocol.c\<close>).
  \<^item> \<^verbatim>\<open>Capwap_Transmit\<close>, \<^verbatim>\<open>Capwap_Receive\<close>: the two packet managers of \<^verbatim>\<open>common/capwap_protocol.c\<close>. Both interpret the interface
    (\<open>tx\<close> and \<open>rx\<close>), so that the lemmas on elements hold for them.
  \<^item> \<^verbatim>\<open>Capwap_Element\<close>, \<^verbatim>\<open>Capwap_Parsed\<close>: \<open>capwap_parsing_packet\<close> and \<open>capwap_validate_parsed_packet\<close> (\<^verbatim>\<open>common/capwap_element.c\<close>) and what they
    do on the bytes of a message.
  \<^item> \<^verbatim>\<open>Capwap_Hash\<close>, \<^verbatim>\<open>Capwap_Hash_Map\<close>: the hash table of \<^verbatim>\<open>common/capwap_hash.c\<close>, an array of balanced trees, and the map it stands
    for. The locale \<open>hash_client\<close> is what a client promises about its callbacks.
  \<^item> \<^verbatim>\<open>Capwap_List\<close>: the doubly linked list of \<^verbatim>\<open>common/capwap_list.c\<close> on an explicit heap.
  \<^item> \<^verbatim>\<open>Capwap_Timeout\<close>: the timers of \<^verbatim>\<open>common/capwap_timeout.c\<close>, on a list and a table that share their items
    (interpretation \<open>timers\<close> of \<open>hash_client\<close>).
  \<^item> \<^verbatim>\<open>Ieee80211\<close>: frames and information elements of IEEE 802.11 (\<^verbatim>\<open>common/binding/ieee80211/ieee80211.c\<close>).
  \<^item> \<^verbatim>\<open>Ac_Wlans\<close>: the WLANs and stations of a session (\<^verbatim>\<open>ac/ac_wlans.c\<close>), on lists, timers, association identifiers and two
    tables (interpretations \<open>own\<close> and \<open>global\<close> of \<open>hash_client\<close>).
  \<^item> \<^verbatim>\<open>Ac_Ieee80211\<close>: the handlers of management frames (\<^verbatim>\<open>ac/ac_ieee80211_data.c\<close>) and of the answers of a WTP about stations
    (\<^verbatim>\<open>ac/ac_dfa_run.c\<close>, \<^verbatim>\<open>ac/ac_session.c\<close>).
  \<^item> this theory: the properties of messages, which span all of the first group.

  \<^bold>\<open>How the code is modelled.\<close> A function of C is a function of the same name on values: structures are records, a buffer is a list of
  bytes, a pointer that may be NULL is an option. State is passed along and returned. The result \<open>None\<close> (of the outermost
  option) means that the function does not return: a failed \<open>ASSERT\<close>, an access outside of an object, a NULL pointer that is
  followed, or a loop that does not end; a theorem that says that a function returns says that it is \<open>Some\<close>. Where objects are
  shared (list items, timers, stations, WLANs) there is an explicit heap, a map from addresses to objects, and the address that an
  allocation returns is an argument. Integers have the width they have in C where they can overflow. The contents of
  memory that is not initialised, the time of day, the result of sending a frame and other answers of the system are arguments.
  A parent pointer in a tree of the hash table is the path from the root.

  \<^bold>\<open>Loops.\<close> Loops over lists are recursive functions. Loops whose end depends on the data (following pointers, searching a
  bucket, reading an address list, deleting stations) are \<^theory_text>\<open>partial_function (option)\<close>, without any bound: that they end, or do not, is
  proved. The loops over information elements and SSID lists have a termination proof: every round takes at least two bytes. The
  loops of the receive manager run on a number of rounds that the allowance bounds, and are proved to end within it.

  \<^bold>\<open>What is shown.\<close>
  \<^item> Messages: a message that is built from admissible elements and fits into one fragment is received, parsed and validated as what it
    was (C1, C2); whatever bytes arrive, the result of parsing is well-formed (C3); each element survives its codec (C4, C5); writing and
    reading blocks refine appending to and taking from a sequence of bytes (C6, C7). Messages of more than one fragment are lost, on
    either side (C8 to C10).
  \<^item> Stations: a request to add a station is only sent for an authenticated one (C11); refused stations are admitted nevertheless
    (C12, C13), two stations can stop a session (C14) and association identifiers leak (C15), while the allocation itself
    never gives an identifier twice (C18).
  \<^item> Frames: beacons and probe responses carry the network they are created for (C16); the elements found in a frame lie within it
    (C17), but an empty vendor specific element is read past its end (C39).
  \<^item> Timers, tables and lists: an invariant of every reachable state and the effect on a queue, a map or a sequence (C19 to C27), and
    the three cases in which the code does something else (C28 to C30).
  \<^item> Headers and single elements: C31 to C38 and C40.

  \<^bold>\<open>Not modelled.\<close>
  \<^item> The CAPWAP states of a session (\<^verbatim>\<open>ac/ac_dfa_*.c\<close> apart from the answers about stations, \<^verbatim>\<open>ac/ac_session.c\<close>, \<^verbatim>\<open>ac/ac_execute.c\<close>): threads,
    sockets and DTLS connections driven by select loops. Locks are left out with them: every handler is modelled as running alone.
  \<^item> The clone and free functions of the message elements: a record is a value, which can neither be shared nor freed. The
    functions that free packet managers are left out for the same reason.
  \<^item> \<^verbatim>\<open>common/capwap_array.c\<close>: arrays are lists; the growth of their memory is not visible in a value.
  \<^item> \<^verbatim>\<open>ac/ac_soap.c\<close>, \<^verbatim>\<open>ac/ac_backend.c\<close>, \<^verbatim>\<open>ac/ac_80211_json*.c\<close>, \<^verbatim>\<open>common/capwap_dtls.c\<close>: calls into libxml2, json-c and wolfSSL, which are not part
    of the sources.
  \<^item> \<^verbatim>\<open>common/capwap_network.c\<close>, \<^verbatim>\<open>common/capwap_logging.c\<close> and the locks: calls of the operating system.
  \<^item> \<^verbatim>\<open>kmod\<close>: the kernel module, the data path on socket buffers.
  \<^item> The other directories of the repository: a second CAPWAP implementation (\<^verbatim>\<open>src/opencapwap\<close>), a vendor driver for Realtek hardware
    (\<^verbatim>\<open>src/jsda\<close>), and packages with third-party programs, scripts and pages.
\<close>

subsection \<open>Examples\<close>

text \<open>
  A transmit manager with one fragment of 40 bytes and a receive manager at the start of a given body; the
  instances below are evaluated on them.
\<close>

definition example_tx :: capwap_packet_txmng where
  "example_tx = \<lparr>tx_mtu = 40, tx_fragmentlist = [\<lparr>frag_size = 40, frag_offset = 16, frag_buffer = replicate 40 0\<rparr>],
     tx_ctrlmsg = Some 8, tx_writerpacketsize = 0, tx_memory = \<lambda>_ _. 0\<rparr>"

definition example_rx :: "u8 list \<Rightarrow> capwap_packet_rxmng" where
  "example_rx body = capwap_packet_rxmng_create_message
     \<lparr>rx_fragmentlist := [capwap_packet_rxmng_create_fragment_item ([0, 16, 2, 0, 0, 0, 0, 0] @ body)],
      rx_header := Some ([0, 16, 2, 0, 0, 0, 0, 0] @ body), rx_readpos := (Some 0, 8),
      rx_readerpacketallowed := of_nat (length body)\<rparr>"

lemma example_tx_room: "tx_inv example_tx" "tx_room example_tx = 24"
  by (simp_all add: example_tx_def tx_inv_def tx_room_def)

lemma example_rx_inv:
  assumes "length body < 65528"
  shows "rx_inv (example_rx body)" "rx_stream (example_rx body) = body"
    "unat (rx_readerpacketallowed (example_rx body)) = length body"
proof -
  have "unat (8 + of_nat (length body) :: u16) = 8 + length body"
    using assms unat_of_nat_u16 [of "8 + length body"] by simp
  then show "rx_inv (example_rx body)" "rx_stream (example_rx body) = body"
    "unat (rx_readerpacketallowed (example_rx body)) = length body"
    using assms by (simp_all add: example_rx_def rx_inv_def rx_stream_def fragment_ok_def
        capwap_packet_rxmng_create_fragment_item_def GET_HLEN_HEADER_def)
qed

subsection \<open>Messages\<close>

text \<open>
  C1. A control message travels intact. A message is built from a header, a type, a sequence number and
  any list of admissible message elements that fits into one fragment of the given MTU; its fragment is
  received by a new receive manager. Then every step returns, the receiver reports a complete packet with
  the type, the sequence number and the length that were sent, parsing it is successful, and for every
  identifier the parsed packet holds exactly the elements that were added under it, in order.
\<close>

theorem message_roundtrip:
  assumes "h = unat (GET_HLEN_HEADER data) * 4" "8 \<le> h" "h \<le> length data" "h + 16 \<le> unat mtu"
    and "h + 8 + length (concat (map element_tlv es)) \<le> unat mtu - (unat mtu - h) mod 8"
    and "\<forall>e\<in>set es. element_sendable e \<and> binding_accepts (GET_WBID_HEADER data) e" "single_once es"
  shows "\<exists>tx tx' tx'' f rx packet.
    capwap_packet_txmng_create_ctrl_message data type seq mtu memory = Some (Some tx) \<and>
    add_message_elements es tx = Some tx' \<and>
    capwap_packet_txmng_get_fragment_packets tx' [] fragmentid = (tx'', [f]) \<and>
    capwap_packet_rxmng_add_recv_packet capwap_packet_rxmng_create_message (fragment_bytes f) =
      Some (CAPWAP_RECEIVE_COMPLETE_PACKET, rx) \<and>
    rx_ctrlmsg rx = \<lparr>msg_type = type, msg_seq = seq,
      msg_length = of_nat (3 + length (concat (map element_tlv es))), msg_flags = 0\<rparr> \<and>
    capwap_parsing_packet m rx = Some (PARSING_COMPLETE, packet) \<and>
    (\<forall>eid. capwap_get_message_element_data (pkt_messages packet) eid = element_items es eid)"
proof -
  have valid: "\<forall>e\<in>set es. element_valid e"
    using assms(6) sendable_valid by blast
  obtain tx tx' f tx'' where tx:
    "capwap_packet_txmng_create_ctrl_message data type seq mtu memory = Some (Some tx)"
    "add_message_elements es tx = Some tx'"
    "capwap_packet_txmng_get_fragment_packets tx' [] fragmentid = (tx'', [f])"
    "fragment_bytes f = message_bytes data type seq es"
    "unat (frag_offset f) = h + 8 + length (concat (map element_tlv es))"
    "unat (frag_offset f) \<le> length (frag_buffer f)"
    by (rule message_built [OF assms(1-4) valid assms(5)])
  have fits: "h + 8 + length (concat (map element_tlv es)) < 65536"
    using assms(5) unat_u16_less [of mtu] by linarith
  obtain rx packet where rx: "capwap_packet_rxmng_add_recv_packet capwap_packet_rxmng_create_message
      (message_bytes data type seq es) = Some (CAPWAP_RECEIVE_COMPLETE_PACKET, rx)"
    "rx_ctrlmsg rx = \<lparr>msg_type = type, msg_seq = seq,
       msg_length = of_nat (3 + length (concat (map element_tlv es))), msg_flags = 0\<rparr>"
    "capwap_parsing_packet m rx = Some (PARSING_COMPLETE, packet)"
    "\<forall>eid. capwap_get_message_element_data (pkt_messages packet) eid = element_items es eid"
    by (rule message_received [OF assms(1-3) fits assms(6,7), of type seq m]) (erule that, assumption+, blast)
  show ?thesis
    by (intro exI conjI; (rule tx(1-3) rx(2-4))?) (simp only: tx(4) rx(1))
qed

theorem message_roundtrip_witness:
  "\<exists>tx tx' tx'' f rx packet.
    capwap_packet_txmng_create_ctrl_message (capwap_header_init (replicate 276 0) 0 1) 4 7 1400 (\<lambda>_ _. 0) = Some (Some tx) \<and>
    add_message_elements [High (Resultcode \<lparr>resultcode_code = 0\<rparr>), High (Idletimeout \<lparr>idletimeout_timeout = 300\<rparr>)] tx = Some tx' \<and>
    capwap_packet_txmng_get_fragment_packets tx' [] 0 = (tx'', [f]) \<and>
    capwap_packet_rxmng_add_recv_packet capwap_packet_rxmng_create_message (fragment_bytes f) =
      Some (CAPWAP_RECEIVE_COMPLETE_PACKET, rx) \<and>
    rx_ctrlmsg rx = \<lparr>msg_type = 4, msg_seq = 7, msg_length = 19, msg_flags = 0\<rparr> \<and>
    capwap_parsing_packet (\<lambda>_ _. 0) rx = Some (PARSING_COMPLETE, packet) \<and>
    (\<forall>eid. capwap_get_message_element_data (pkt_messages packet) eid =
       element_items [High (Resultcode \<lparr>resultcode_code = 0\<rparr>), High (Idletimeout \<lparr>idletimeout_timeout = 300\<rparr>)] eid)"
  using message_roundtrip [of 8 "capwap_header_init (replicate 276 0) 0 1" 1400
      "[High (Resultcode \<lparr>resultcode_code = 0\<rparr>), High (Idletimeout \<lparr>idletimeout_timeout = 300\<rparr>)]" 4 7
      "\<lambda>_ _. 0" 0 "\<lambda>_ _. 0"]
  by (simp add: header_sel header_init_fields element_tlv_def element_payload_def resultcode_wire_def
      idletimeout_wire_def element_sendable_def binding_accepts_def single_once_def resultcode_valid_def
      capwap_element_resultcode_ops_def capwap_element_idletimeout_ops_def element_ops_def)



text \<open>
  C3. Whatever bytes arrive, and whether they are accepted or rejected, the items of a parsed packet have
  distinct identifiers, the category registered for the identifier, and data of the type the identifier
  stands for: one element for a single category, a non-empty array of elements for an array category. The
  casts from \<open>void*\<close> with which the controller reads an item are safe.
\<close>

theorem parsed_items_typed:
  assumes "capwap_parsing_packet m rx = Some (result, packet)"
  shows "messages_ok (pkt_messages packet)"
  using assms parsing_loop_ok messages_ok_Nil
  by (auto simp: capwap_parsing_packet_def split: Option.bind_splits)

theorem parsed_items_typed_witness:
  "\<exists>rx packet. capwap_packet_rxmng_add_recv_packet capwap_packet_rxmng_create_message
      (message_bytes (capwap_header_init (replicate 276 0) 0 1) 26 7 [High (Resultcode \<lparr>resultcode_code = 0\<rparr>)]) =
      Some (CAPWAP_RECEIVE_COMPLETE_PACKET, rx) \<and>
    capwap_parsing_packet (\<lambda>_ _. 0) rx = Some (PARSING_COMPLETE, packet) \<and>
    messages_ok (pkt_messages packet)"
proof -
  obtain rx packet where "capwap_packet_rxmng_add_recv_packet capwap_packet_rxmng_create_message
      (message_bytes (capwap_header_init (replicate 276 0) 0 1) 26 7 [High (Resultcode \<lparr>resultcode_code = 0\<rparr>)]) =
      Some (CAPWAP_RECEIVE_COMPLETE_PACKET, rx)"
    "capwap_parsing_packet (\<lambda>_ _. 0) rx = Some (PARSING_COMPLETE, packet)"
    by (rule message_received [of 8 "capwap_header_init (replicate 276 0) 0 1"
          "[High (Resultcode \<lparr>resultcode_code = 0\<rparr>)]" 26 7 "\<lambda>_ _. 0"])
      (simp_all add: header_sel header_init_fields element_tlv_def element_payload_def resultcode_wire_def
        element_sendable_def binding_accepts_def single_once_def resultcode_valid_def)
  with parsed_items_typed show ?thesis by blast
qed

text \<open>
  C4. Each of the 80 message elements survives its own codec: for an admissible element the operations found
  in the tables under its identifier write exactly its wire format, and reading the wire format gives back
  the element and consumes nothing else.
\<close>

theorem element_codec:
  assumes "element_valid e" "length (element_wire e) \<le> tx_room tx"
    and "rx_inv rx" "rx_stream rx = element_wire e @ rest" "unat (rx_readerpacketallowed rx) = length (element_wire e)"
  shows "\<exists>wops rops. capwap_get_message_element_ops (element_id e) = Some wops \<and>
    create wops e tx_write_ops tx = Some (tx_app (element_wire e) tx) \<and>
    capwap_get_message_element_ops (element_id e) = Some rops \<and>
    parse rops m rx_read_ops rx = Some (Some e, rx_adv (length (element_wire e)) rx)"
  by (intro exI [of _ "ops_of_element e"] conjI element_lookup tx.element_created [OF assms(1,2)] rx.element_parsed [OF assms(3-5) assms(1)])

theorem element_codec_witness:
  "\<exists>wops rops. capwap_get_message_element_ops \<lparr>id_vendor = 0, id_type = 33\<rparr> = Some wops \<and>
    create wops (High (Resultcode \<lparr>resultcode_code = 2\<rparr>)) tx_write_ops example_tx = Some (tx_app (u32_bytes 2) example_tx) \<and>
    capwap_get_message_element_ops \<lparr>id_vendor = 0, id_type = 33\<rparr> = Some rops \<and>
    parse rops (\<lambda>_. 0) rx_read_ops (example_rx (u32_bytes 2)) =
      Some (Some (High (Resultcode \<lparr>resultcode_code = 2\<rparr>)), rx_adv 4 (example_rx (u32_bytes 2)))"
  using element_codec [of "High (Resultcode \<lparr>resultcode_code = 2\<rparr>)" example_tx "example_rx (u32_bytes 2)" "[]" "\<lambda>_. 0"]
  by (simp add: example_tx_room example_rx_inv resultcode_valid_def resultcode_wire_def)



subsection \<open>Writing and reading\<close>

text \<open>
  C6. A block that fits into the last fragment is appended to it, the message length grows by it, and the
  state stays well-formed: the writer implements appending to a byte string.
\<close>

theorem write_block_within:
  assumes "0 < n" "unat n \<le> length data" "unat n \<le> tx_room tx"
  shows "capwap_fragment_write_block tx (Some data) n = Some (0, tx_app (take (unat n) data) tx) \<and>
    tx_inv (tx_app (take (unat n) data) tx) \<and> tx_room (tx_app (take (unat n) data) tx) = tx_room tx - unat n"
proof -
  have "tx_inv tx"
    using assms by (intro tx_room_inv) (simp add: word_less_nat_alt)
  then show ?thesis
    using write_block_app [OF assms] tx_app_inv [of tx "take (unat n) data"] assms(2,3) by simp
qed

theorem write_block_within_witness:
  "capwap_fragment_write_block example_tx (Some [1, 2, 3]) 2 = Some (0, tx_app [1, 2] example_tx) \<and>
   tx_room (tx_app [1, 2] example_tx) = 22"
  using write_block_within [of 2 "[1, 2, 3]" example_tx] by (simp add: example_tx_room)

text \<open>
  C7. A read always returns: it gives the next bytes of the stream formed by the payloads of all fragments,
  at most as many as are asked for and allowed, and moves past them.
\<close>

theorem read_block_stream:
  assumes "rx_inv rx" "0 < n"
  shows "\<exists>rx'. capwap_fragment_read_block rx n = Some (take (grant (rx_readerpacketallowed rx) n) (rx_stream rx), rx') \<and>
    rx_inv rx' \<and> rx_stream rx' = drop (grant (rx_readerpacketallowed rx) n) (rx_stream rx) \<and>
    rx_readerpacketallowed rx' =
      rx_readerpacketallowed rx - of_nat (min (grant (rx_readerpacketallowed rx) n) (length (rx_stream rx)))"
  using rx_read_block [OF assms] rx_adv_law [OF assms(1)] by simp

theorem read_block_stream_witness:
  "\<exists>rx'. capwap_fragment_read_block (example_rx [1, 2, 3]) 2 = Some ([1, 2], rx') \<and>
    rx_inv rx' \<and> rx_stream rx' = [3] \<and> rx_readerpacketallowed rx' = 1"
proof -
  have "rx_readerpacketallowed (example_rx [1, 2, 3]) = 3"
    by (simp add: example_rx_def)
  then show ?thesis
    using read_block_stream [of "example_rx [1, 2, 3]" 2] by (simp add: example_rx_inv grant_def)
qed



text \<open>
  C9. A message that was sent in two fragments cannot be assembled by the receive manager: all fragment
  offsets that \<open>capwap_packet_txmng_get_fragment_packets\<close> writes are zero.
\<close>

theorem own_fragments_rejected:
  assumes "8 \<le> unat (frag_offset f)" "unat (frag_offset f) \<le> length (frag_buffer f)" "frag_buffer f ! 6 AND 0x07 = 0"
    and "8 \<le> unat (frag_offset g)" "unat (frag_offset g) \<le> length (frag_buffer g)" "frag_buffer g ! 6 AND 0x07 = 0"
  shows "capwap_packet_rxmng_create_from_requestfragmentpacket (fragment_packets fragmentid 0 [f, g]) = Some None"
  by (rule two_fragments_rejected [OF assms])

theorem own_fragments_rejected_witness:
  "capwap_packet_rxmng_create_from_requestfragmentpacket (fragment_packets 5 0
     [\<lparr>frag_size = 24, frag_offset = 24, frag_buffer = [0, 16, 2, 0, 0, 0, 0, 0] @ replicate 16 1\<rparr>,
      \<lparr>frag_size = 24, frag_offset = 16, frag_buffer = [0, 16, 2, 0, 0, 0, 0, 0] @ replicate 16 2\<rparr>]) = Some None"
  using own_fragments_rejected [of "\<lparr>frag_size = 24, frag_offset = 24, frag_buffer = [0, 16, 2, 0, 0, 0, 0, 0] @ replicate 16 1\<rparr>"
      "\<lparr>frag_size = 24, frag_offset = 16, frag_buffer = [0, 16, 2, 0, 0, 0, 0, 0] @ replicate 16 2\<rparr>" 5]
  by (simp del: fragment_packets.simps)

text \<open>
  C10. Two fragments of a message whose second offset is the number of payload bytes of the first do
  not complete, in whichever order they arrive: the receiver counts in units of eight bytes.
\<close>

theorem fragments_never_complete:
  assumes "IS_FLAG_F_HEADER d" "\<not> IS_FLAG_L_HEADER d" "GET_FRAGMENT_OFFSET_HEADER d = 0"
    and "IS_FLAG_F_HEADER e" "IS_FLAG_L_HEADER e" "GET_FRAGMENT_ID_HEADER e = GET_FRAGMENT_ID_HEADER d"
    and "length d = unat (GET_HLEN_HEADER d) * 4 + n" "length e = unat (GET_HLEN_HEADER e) * 4 + k"
    and "n mod 8 = 0" "k mod 8 = 0" "0 < n" "length d < 65536" "8 \<le> length d" "8 \<le> length e"
    and "GET_FRAGMENT_OFFSET_HEADER e = of_nat n"
  shows "(do { (_, rx) \<leftarrow> capwap_packet_rxmng_add_recv_packet capwap_packet_rxmng_create_message d;
        (r, _) \<leftarrow> capwap_packet_rxmng_add_recv_packet rx e; Some r }) = Some CAPWAP_REQUEST_MORE_FRAGMENT \<and>
    (do { (_, rx) \<leftarrow> capwap_packet_rxmng_add_recv_packet capwap_packet_rxmng_create_message e;
        (r, _) \<leftarrow> capwap_packet_rxmng_add_recv_packet rx d; Some r }) = Some CAPWAP_REQUEST_MORE_FRAGMENT"
  using proper_fragments_incomplete [OF assms] by blast

theorem fragments_never_complete_witness:
  "(do { (_, rx) \<leftarrow> capwap_packet_rxmng_add_recv_packet capwap_packet_rxmng_create_message
          ([0, 16, 2, 128, 0, 5, 0, 0] @ replicate 16 1);
        (r, _) \<leftarrow> capwap_packet_rxmng_add_recv_packet rx ([0, 16, 2, 192, 0, 5, 0, 16] @ replicate 8 2);
        Some r }) = Some CAPWAP_REQUEST_MORE_FRAGMENT"
  using fragments_never_complete [of "[0, 16, 2, 128, 0, 5, 0, 0] @ replicate 16 1" "[0, 16, 2, 192, 0, 5, 0, 16] @ replicate 8 2" 16 8]
  by (simp add: header_accessor_defs be16_def bit_simps del: bind_eq_Some_conv)

subsection \<open>Headers\<close>



text \<open>
  C32. Every field of the header but the fragment offset can be set without changing any other field, and
  reads back as what was set, cut to the width of the field.
\<close>

theorem header_fields_independent:
  assumes "8 \<le> length b"
  shows "header_of (SET_VERSION_HEADER b v) = (header_of b)\<lparr>hdr_version := v AND 0x0f\<rparr> \<and>
    header_of (SET_TYPE_HEADER b v) = (header_of b)\<lparr>hdr_type := v AND 0x0f\<rparr> \<and>
    header_of (SET_HLEN_HEADER b w) = (header_of b)\<lparr>hdr_hlen := ucast w AND 0x1f\<rparr> \<and>
    header_of (SET_RID_HEADER b w) = (header_of b)\<lparr>hdr_rid := ucast w AND 0x1f\<rparr> \<and>
    header_of (SET_WBID_HEADER b w) = (header_of b)\<lparr>hdr_wbid := ucast w AND 0x1f\<rparr> \<and>
    header_of (SET_FLAG_T_HEADER b x) = (header_of b)\<lparr>hdr_flag_t := x\<rparr> \<and>
    header_of (SET_FLAG_F_HEADER b x) = (header_of b)\<lparr>hdr_flag_f := x\<rparr> \<and>
    header_of (SET_FLAG_L_HEADER b x) = (header_of b)\<lparr>hdr_flag_l := x\<rparr> \<and>
    header_of (SET_FLAG_W_HEADER b x) = (header_of b)\<lparr>hdr_flag_w := x\<rparr> \<and>
    header_of (SET_FLAG_M_HEADER b x) = (header_of b)\<lparr>hdr_flag_m := x\<rparr> \<and>
    header_of (SET_FLAG_K_HEADER b x) = (header_of b)\<lparr>hdr_flag_k := x\<rparr> \<and>
    header_of (SET_FRAGMENT_ID_HEADER b w) = (header_of b)\<lparr>hdr_frag_id := w\<rparr>"
  using assms by (simp add: header_of_setters)

theorem header_fields_independent_witness:
  "header_of (SET_RID_HEADER (replicate 8 255) 5) = (header_of (replicate 8 255))\<lparr>hdr_rid := 5\<rparr>"
  using header_fields_independent [of "replicate 8 255" 0 5 False] by simp


subsection \<open>Malformed input\<close>

text \<open>
  C34. The length check of the parser leaves out the four bytes in front of an element: when the element fills
  what is left of the body, the remaining length wraps around to 65532 and parsing goes on behind the message.
\<close>

theorem body_length_underflow:
  assumes "rx_inv rx" "rx_stream rx = element_tlv e @ rest" "element_sendable e" "binding_accepts binding e"
    and "0 < n" "unat n = length (element_payload e)"
    and "store_element (element_id e) (element_category e) e messages = Some messages'"
  shows "\<exists>rx'. rx_inv rx' \<and> rx_stream rx' = rest \<and>
    parsing_loop m binding i n rx messages = parsing_loop m binding (Suc i) 65532 rx' messages'"
proof -
  have le: "length (element_payload e) \<le> unat n" using assms(6) by simp
  have "n - (of_nat (length (element_payload e)) + 4) = 65532"
    unfolding assms(6) [symmetric] by simp
  then show ?thesis
    using parsing_round [OF assms(1-5) le assms(7), of m i] by metis
qed

theorem body_length_underflow_witness:
  "\<exists>rx'. rx_inv rx' \<and> rx_stream rx' = [0, 1] \<and>
    parsing_loop (\<lambda>_ _. 0) 1 0 4 (example_rx [0, 33, 0, 4, 0, 0, 0, 2, 0, 1]) [] =
    parsing_loop (\<lambda>_ _. 0) 1 1 65532 rx' [\<lparr>item_id = \<lparr>id_vendor = 0, id_type = 33\<rparr>,
      item_category = CAPWAP_MESSAGE_ELEMENT_SINGLE, item_data = Data_Single (High (Resultcode \<lparr>resultcode_code = 2\<rparr>))\<rparr>]"
  using body_length_underflow [of "example_rx [0, 33, 0, 4, 0, 0, 0, 2, 0, 1]" "High (Resultcode \<lparr>resultcode_code = 2\<rparr>)" "[0, 1]" 1 4
      "[]" _ "\<lambda>_ _. 0" 0]
  by (simp add: example_rx_inv element_tlv_def element_payload_def resultcode_wire_def element_sendable_def binding_accepts_def
      resultcode_valid_def capwap_element_resultcode_ops_def element_ops_def store_element_def capwap_get_message_element_def
      u32_bytes_def u16_bytes_def)

text \<open>
  C35. The two address list parsers do not return when the element length is outside the range in which
  it is checked and not a multiple of the address size: the 16-bit length never reaches zero.
\<close>

theorem iplist_endless:
  assumes "capwap_fragment_read_ready rx = len"
  shows "(len < 4 \<or> 4096 < len \<longrightarrow> unat len mod 4 \<noteq> 0 \<longrightarrow> capwap_acipv4list_element_parsing m rx_read_ops rx = None) \<and>
    (len < 16 \<or> 16384 < len \<longrightarrow> unat len mod 16 \<noteq> 0 \<longrightarrow> capwap_acipv6list_element_parsing m rx_read_ops rx = None)"
proof -
  have steps: "read_steps k f 0 len rx = None" if "unat k dvd 65536" "unat len mod unat k \<noteq> 0"
    for k and f :: "nat \<Rightarrow> capwap_packet_rxmng \<Rightarrow> (u8 list \<times> capwap_packet_rxmng) option"
    using read_steps_dvd [of k f 0 len rx] that by (cases "read_steps k f 0 len rx") (auto simp: dvd_eq_mod_eq_0)
  have ready: "read_ready rx_read_ops rx = len"
    using assms by (simp add: rx_read_ops_def)
  show ?thesis
    using steps [of 4] steps [of 16]
    by (auto simp: capwap_acipv4list_element_parsing_def capwap_acipv6list_element_parsing_def ready)
qed

theorem iplist_endless_witness:
  "capwap_acipv4list_element_parsing (\<lambda>_. 0) rx_read_ops (example_rx [1, 2, 3]) = None"
  using iplist_endless [of "example_rx [1, 2, 3]" 3 "\<lambda>_. 0"] by (simp add: example_rx_def capwap_fragment_read_ready_def)

subsection \<open>Sequence numbers and message types\<close>

text \<open>
  C36. The comparison of sequence numbers is the serial number comparison on eight bits: the second is ahead of
  the first by 1 to 127 steps, counted with wrap-around.
\<close>

theorem sequence_smaller_iff: "IS_SEQUENCE_SMALLER s1 s2 \<longleftrightarrow> 0 < unat (s2 - s1) \<and> unat (s2 - s1) < 128"
proof -
  define a b where "a = unat s1" and "b = unat s2"
  have "unat (s2 - s1) = (if s1 \<le> s2 then unat s2 - unat s1 else 256 - (unat s1 - unat s2))"
    using unat_sub_if' [of s2 s1] by (auto simp: word_le_nat_alt)
  then have d: "unat (s2 - s1) = (if a \<le> b then b - a else 256 - (a - b))"
    by (simp only: word_le_nat_alt a_def b_def)
  have u: "uint s1 = int a" "uint s2 = int b"
    by (simp_all only: uint_nat a_def b_def)
  show ?thesis
    using unat_u8_less [of s1] unat_u8_less [of s2]
    unfolding IS_SEQUENCE_SMALLER_def word_less_nat_alt d u a_def [symmetric] b_def [symmetric] by presburger
qed

text \<open>
  C37. Among the message types of the protocol and of its IEEE 802.11 binding, the requests are the odd ones.
\<close>

theorem request_types_odd:
  "capwap_is_request_type t \<longleftrightarrow>
     (CAPWAP_VALID_MESSAGE_TYPE t \<or> CAPWAP_VALID_IEEE80211_MESSAGE_TYPE t) \<and> odd t"
  by (rule request_type_iff_odd)

subsection \<open>Elements that cannot be exchanged\<close>

text \<open>
  C38. An IEEE 802.11 Update Station QoS element is written with 15 bytes, and a parser that is given 15 bytes
  rejects it: it expects 14.
\<close>

theorem updatestationqos_own_rejected:
  assumes "updatestationqos_valid e" "length (updatestationqos_wire e) \<le> tx_room tx"
    and "rx_readerpacketallowed rx = of_nat (length (updatestationqos_wire e))"
  shows "capwap_80211_updatestationqos_element_create e tx_write_ops tx = Some (tx_app (updatestationqos_wire e) tx) \<and>
    capwap_80211_updatestationqos_element_parsing m rx_read_ops rx = Some (None, rx)"
proof
  show "capwap_80211_updatestationqos_element_create e tx_write_ops tx = Some (tx_app (updatestationqos_wire e) tx)"
    by (rule tx.updatestationqos_create [OF assms(1,2)])
  have "length (updatestationqos_wire e) = 15"
    using assms(1) by (simp add: updatestationqos_wire_def updatestationqos_valid_def length_concat comp_def sum_list_triv)
  then show "capwap_80211_updatestationqos_element_parsing m rx_read_ops rx = Some (None, rx)"
    using assms(3) by (simp add: capwap_80211_updatestationqos_element_parsing_def rx_read_ops_def capwap_fragment_read_ready_def)
qed

theorem updatestationqos_own_rejected_witness:
  "capwap_80211_updatestationqos_element_parsing (\<lambda>_. 0) rx_read_ops (example_rx (replicate 15 0)) =
     Some (None, example_rx (replicate 15 0))"
proof -
  define e where "e = \<lparr>updatestationqos_radioid = 0, updatestationqos_address = replicate 6 0,
    updatestationqos_qos = replicate 4 \<lparr>updatestationqos_priority8021p = 0, updatestationqos_dscp = 0\<rparr>\<rparr>"
  have "updatestationqos_valid e" "length (updatestationqos_wire e) = 15"
    by (simp_all add: e_def updatestationqos_valid_def updatestationqos_qos_valid_def updatestationqos_wire_def
        updatestationqos_qos_wire_def eval_nat_numeral)
  then show ?thesis
    using updatestationqos_own_rejected [of e example_tx "example_rx (replicate 15 0)" "\<lambda>_. 0"]
    by (simp add: example_tx_room example_rx_def)
qed

lemma tx_write_block_NULL: "write_block tx_write_ops tx None n = None"
  by (simp add: tx_write_ops_def capwap_fragment_write_block_def)

text \<open>
  Writing an IEEE 802.11 Statistics element into a message never succeeds: its three reserved bytes are
  written from a NULL pointer.
\<close>

theorem statistics_never_created: "capwap_80211_statistics_element_create e tx_write_ops tx = None"
  by (cases "write_u8 tx_write_ops tx (statistics_radioid e)")
    (auto simp: capwap_80211_statistics_element_create_def tx_write_block_NULL)


end
